(* ===== verification/Prelude.thy ===== *)
theory Prelude
  imports Main "HOL-Library.Word" "HOL-Library.Code_Target_Numeral"
begin

text \<open>
  The shared base of the development. It holds what the Go language and the packages
  \<open>strings\<close> and \<open>strconv\<close> give the program and every component uses:

  \<^item> the types of machine integers and byte strings, and the two ways a Go function can end
    (it returns, or it panics), as the datatype \<open>go\<close>;
  \<^item> the string operations of package \<open>strings\<close> on byte strings;
  \<^item> the number formats of package \<open>strconv\<close> and of the verbs \<open>%d\<close> and \<open>%x\<close> of
    package \<open>fmt\<close>, with the locale \<open>codec\<close> that states their round trips.

  A Go \<open>string\<close> is a sequence of bytes, here \<^typ>\<open>string\<close>. The case mapping is the one of
  ASCII letters; a byte outside ASCII is left as it is.
\<close>

section \<open>Types, panics and collections of facts\<close>

type_synonym u64 = "64 word"
type_synonym byte = "8 word"
type_synonym address = "160 word"

text \<open>Facts the component proofs share, unfolded or applied by name.\<close>

named_theorems key_defs \<open>definitions of the Redis key functions\<close>
named_theorems cell_defs \<open>definitions of the accessors of the Redis state\<close>
named_theorems frame_simps \<open>what an operation leaves unchanged\<close>

text \<open>
  A call returns a value or panics. A panic of a handler is recovered by \<open>net/http\<close> per
  connection; the effects that came before it stay, so operations that can panic return the
  state beside the outcome.
\<close>

datatype 'a go = Ret 'a | Panic string

section \<open>Package strings\<close>

definition to_lower_char :: "char \<Rightarrow> char" where
  "to_lower_char c =
     (let n = (of_char c :: nat) in if 65 \<le> n \<and> n \<le> 90 then char_of (n + 32) else c)"

lemma to_lower_char_Char [simp, code]:
  "to_lower_char (Char b0 b1 b2 b3 b4 b5 b6 b7) =
     Char b0 b1 b2 b3 b4
       (b5 \<or> (\<not> b7 \<and> b6 \<and> (b0 \<or> b1 \<or> b2 \<or> b3 \<or> b4) \<and> \<not> (b4 \<and> b3 \<and> (b2 \<or> b1 \<and> b0)))) b6 b7"
  by (cases b0; cases b1; cases b2; cases b3; cases b4; cases b5; cases b6; cases b7;
      simp add: to_lower_char_def char_of_def bit_0)

lemma to_lower_char_idem [simp]: "to_lower_char (to_lower_char c) = to_lower_char c"
  by (cases c) auto

definition ToLower :: "string \<Rightarrow> string" where
  "ToLower s = map to_lower_char s"

lemma ToLower_idem [simp]: "ToLower (ToLower s) = ToLower s"
  by (simp add: ToLower_def)

lemma ToLower_Nil [simp]: "ToLower [] = []"
  by (simp add: ToLower_def)

lemma ToLower_append: "ToLower (s @ t) = ToLower s @ ToLower t"
  by (simp add: ToLower_def)

definition EqualFold :: "string \<Rightarrow> string \<Rightarrow> bool" where
  "EqualFold s t \<longleftrightarrow> ToLower s = ToLower t"

definition HasPrefix :: "string \<Rightarrow> string \<Rightarrow> bool" where
  "HasPrefix s p \<longleftrightarrow> take (length p) s = p"

text \<open>\<open>strings.Split\<close> at a separator of one byte: never empty, one part more than separators.\<close>

fun Split :: "string \<Rightarrow> char \<Rightarrow> string list" where
  "Split [] sep = [[]]"
| "Split (c # s) sep =
     (if c = sep then [] # Split s sep
      else (case Split s sep of [] \<Rightarrow> [[c]] | p # ps \<Rightarrow> (c # p) # ps))"

lemma Split_not_Nil [simp]: "Split s sep \<noteq> []"
  by (cases s) (auto split: list.splits)

lemma length_Split: "length (Split s sep) = Suc (count_list s sep)"
  by (induction s) (auto split: list.splits)

lemma Split_no_sep: "sep \<notin> set s \<Longrightarrow> Split s sep = [s]"
  by (induction s) auto

lemma Split_append_sep: "sep \<notin> set s \<Longrightarrow> Split (s @ sep # t) sep = s # Split t sep"
  by (induction s) auto

lemma Split_part_no_sep: "p \<in> set (Split s sep) \<Longrightarrow> sep \<notin> set p"
  by (induction s arbitrary: p) (auto split: if_splits list.splits)

text \<open>A text whose last part does not hold the separator splits at it in one way only.\<close>

lemma last_sep_unique:
  assumes "s @ c # t = s' @ c # t'" "c \<notin> set t" "c \<notin> set t'"
  shows "s = s' \<and> t = t'"
proof -
  have eq: "rev t @ c # rev s = rev t' @ c # rev s'"
    using arg_cong [OF assms(1), of rev] by simp
  have "takeWhile (\<lambda>x. x \<noteq> c) (rev u @ c # v) = rev u" if "c \<notin> set u" for u v
    using that by (subst takeWhile_append2) auto
  then have "rev t = rev t'"
    using arg_cong [OF eq, of "takeWhile (\<lambda>x. x \<noteq> c)"] assms(2, 3) by simp
  then show ?thesis using eq by simp
qed

text \<open>\<open>strings.Replace(s, old, new, 1)\<close> for a non-empty \<open>old\<close>.\<close>

fun Replace1 :: "string \<Rightarrow> string \<Rightarrow> string \<Rightarrow> string" where
  "Replace1 [] old new = []"
| "Replace1 (c # s) old new =
     (if HasPrefix (c # s) old then new @ drop (length old) (c # s)
      else c # Replace1 s old new)"

text \<open>\<open>strings.Trim(s, cutset)\<close> and \<open>strings.TrimSpace\<close> (ASCII white space).\<close>

definition Trim :: "string \<Rightarrow> char set \<Rightarrow> string" where
  "Trim s cs = rev (dropWhile (\<lambda>c. c \<in> cs) (rev (dropWhile (\<lambda>c. c \<in> cs) s)))"

definition space_chars :: "char set" where
  "space_chars = {CHR '' '', CHR 0x09, CHR 0x0A, CHR 0x0B, CHR 0x0C, CHR 0x0D}"

definition TrimSpace :: "string \<Rightarrow> string" where
  "TrimSpace s = Trim s space_chars"

end
