(* ===== verification/Strconv.thy ===== *)
theory Strconv
  imports Prelude
begin

text \<open>
  Numbers as text: \<open>strconv.ParseUint\<close>, \<open>Atoi\<close>, \<open>Itoa\<close>, \<open>ParseBool\<close>, the verbs
  \<open>%d\<close> and \<open>%x\<close>, \<open>hex.DecodeString\<close> and \<open>(*big.Int).SetString\<close>. The program stores
  every nonce and time stamp in Redis as text and reads it back, and answers nonces as
  hexadecimal text, so its correctness rests on these round trips. They are stated once, as
  the locale \<open>codec\<close>, and interpreted on each pair of functions.
\<close>

section \<open>The contract of a text format\<close>

text \<open>
  A writer \<open>enc\<close>, a reader \<open>dec\<close> that may fail, and the values \<open>valid\<close> the reader
  gets back. Such a writer is injective, which is what makes keys built from it distinct.
\<close>

locale codec =
  fixes valid :: "'a \<Rightarrow> bool"
    and enc :: "'a \<Rightarrow> string"
    and dec :: "string \<Rightarrow> 'e + 'a"
  assumes dec_enc: "valid x \<Longrightarrow> dec (enc x) = Inr x"
begin

lemma enc_inject: "valid x \<Longrightarrow> valid y \<Longrightarrow> enc x = enc y \<longleftrightarrow> x = y"
  by (metis dec_enc sum.inject(2))

lemma enc_inj_on: "inj_on enc (Collect valid)"
  by (rule inj_onI) (simp add: enc_inject)

end

section \<open>Digits\<close>

definition digit_char :: "nat \<Rightarrow> char" where
  "digit_char n = ''0123456789abcdef'' ! n"

definition digit_val :: "char \<Rightarrow> nat option" where
  "digit_val = map_of (zip ''0123456789abcdefABCDEF''
     [0, 1, 2, 3, 4, 5, 6, 7, 8, 9, 10, 11, 12, 13, 14, 15, 10, 11, 12, 13, 14, 15])"

lemma digit_val_digit_char:
  assumes "n < 16"
  shows "digit_val (digit_char n) = Some n"
proof -
  have "list_all (\<lambda>n. digit_val (digit_char n) = Some n) [0..<16]"
    by code_simp
  with assms show ?thesis by (simp add: list_all_iff)
qed

lemma digit_char_neq_sign:
  assumes "n < 16"
  shows "digit_char n \<noteq> CHR ''-'' \<and> digit_char n \<noteq> CHR ''+'' \<and> digit_char n \<noteq> CHR ''_''"
proof -
  have "list_all (\<lambda>n. digit_char n \<noteq> CHR ''-'' \<and> digit_char n \<noteq> CHR ''+'' \<and> digit_char n \<noteq> CHR ''_'')
          [0..<16]"
    by code_simp
  with assms show ?thesis by (simp add: list_all_iff)
qed

lemma digit_char_lower:
  assumes "n < 16"
  shows "to_lower_char (digit_char n) = digit_char n"
proof -
  have "list_all (\<lambda>n. to_lower_char (digit_char n) = digit_char n) [0..<16]"
    by code_simp
  with assms show ?thesis by (simp add: list_all_iff)
qed

section \<open>Writing and scanning in a base\<close>

text \<open>\<open>fmt_base b n\<close> writes \<open>n\<close> in base \<open>b\<close> with no leading zero.\<close>

fun fmt_base :: "nat \<Rightarrow> nat \<Rightarrow> string" where
  "fmt_base b n =
     (if n < b \<or> b < 2 then [digit_char n]
      else fmt_base b (n div b) @ [digit_char (n mod b)])"

declare fmt_base.simps [simp del]

datatype num_error = ErrSyntax | ErrRange

text \<open>
  The loop of \<open>strconv.ParseUint\<close>: a character that is no digit of the base is a syntax
  error, a value past the bound a range error, whichever comes first.
\<close>

fun scan_uint :: "nat \<Rightarrow> nat \<Rightarrow> nat \<Rightarrow> string \<Rightarrow> num_error + nat" where
  "scan_uint b bound n [] = Inr n"
| "scan_uint b bound n (c # s) =
     (case digit_val c of
        None \<Rightarrow> Inl ErrSyntax
      | Some d \<Rightarrow>
          if b \<le> d then Inl ErrSyntax
          else if bound \<le> n * b + d then Inl ErrRange
          else scan_uint b bound (n * b + d) s)"

lemma scan_uint_append:
  "scan_uint b bound n (s @ t) =
     (case scan_uint b bound n s of Inl e \<Rightarrow> Inl e | Inr m \<Rightarrow> scan_uint b bound m t)"
  by (induction b bound n s rule: scan_uint.induct) (auto split: option.splits)

lemma scan_uint_less: "n < bound \<Longrightarrow> scan_uint b bound n s = Inr m \<Longrightarrow> m < bound"
  by (induction b bound n s rule: scan_uint.induct) (auto split: option.splits if_splits)

lemma scan_fmt_base:
  assumes "2 \<le> b" "b \<le> 16" "n < bound"
  shows "scan_uint b bound 0 (fmt_base b n) = Inr n"
  using assms
proof (induction b n rule: fmt_base.induct)
  case (1 b n)
  show ?case
  proof (cases "n < b")
    case True
    with 1 show ?thesis
      by (simp add: fmt_base.simps [of b n] digit_val_digit_char)
  next
    case False
    have lt: "n div b < bound"
      using "1.prems" by (meson div_le_dividend le_less_trans)
    have d: "n mod b < b" using "1.prems" by simp
    then have dv: "digit_val (digit_char (n mod b)) = Some (n mod b)"
      using "1.prems" by (intro digit_val_digit_char) linarith
    have "scan_uint b bound 0 (fmt_base b (n div b)) = Inr (n div b)"
      using "1.IH" "1.prems" False lt by simp
    moreover have "\<not> b \<le> n mod b" using d by simp
    ultimately show ?thesis
      using False "1.prems" dv
      by (simp add: fmt_base.simps [of b n] scan_uint_append div_mult_mod_eq del: not_le)
  qed
qed

lemma fmt_base_not_Nil [simp]: "fmt_base b n \<noteq> []"
  by (subst fmt_base.simps) simp

text \<open>Every character written is a digit: no sign, no underscore, no upper case letter.\<close>

lemma fmt_base_chars:
  assumes "2 \<le> b" "b \<le> 16" "c \<in> set (fmt_base b n)"
  shows "\<exists>d < 16. c = digit_char d"
  using assms
proof (induction b n rule: fmt_base.induct)
  case (1 b n)
  have md: "n mod b < 16"
    using "1.prems" mod_less_divisor [of b n] by linarith
  show ?case
  proof (cases "n < b")
    case True
    with "1.prems" have "c = digit_char n"
      by (simp add: fmt_base.simps [of b n])
    with True "1.prems" show ?thesis
      by (intro exI [of _ n]) simp
  next
    case False
    then have "c \<in> set (fmt_base b (n div b)) \<or> c = digit_char (n mod b)"
      using "1.prems" by (auto simp: fmt_base.simps [of b n])
    then show ?thesis
      using "1.IH" "1.prems" False md by auto
  qed
qed

lemma fmt_base_no_sign:
  assumes "2 \<le> b" "b \<le> 16"
  shows "CHR ''-'' \<notin> set (fmt_base b n)" "CHR ''+'' \<notin> set (fmt_base b n)"
    "CHR ''_'' \<notin> set (fmt_base b n)"
  using fmt_base_chars [OF assms] digit_char_neq_sign by metis+

lemma ToLower_fmt_base:
  assumes "2 \<le> b" "b \<le> 16"
  shows "ToLower (fmt_base b n) = fmt_base b n"
  unfolding ToLower_def
proof (rule map_idI)
  fix c
  assume "c \<in> set (fmt_base b n)"
  then obtain d where "d < 16" "c = digit_char d"
    using fmt_base_chars [OF assms] by blast
  then show "to_lower_char c = c" by (simp add: digit_char_lower)
qed

section \<open>uint64 in decimal and in hexadecimal\<close>

definition FormatUint :: "u64 \<Rightarrow> string" where
  "FormatUint n = fmt_base 10 (unat n)"

text \<open>\<open>strconv.ParseUint(s, 10, 64)\<close>.\<close>

definition ParseUint :: "string \<Rightarrow> num_error + u64" where
  "ParseUint s =
     (if s = [] then Inl ErrSyntax
      else case scan_uint 10 (2 ^ 64) 0 s of Inl e \<Rightarrow> Inl e | Inr n \<Rightarrow> Inr (of_nat n))"

lemma ParseUint_Nil [simp]: "ParseUint [] = Inl ErrSyntax"
  by (simp add: ParseUint_def)

text \<open>\<open>fmt.Sprintf("0x%x", n)\<close>.\<close>

definition Sprintf_0x :: "u64 \<Rightarrow> string" where
  "Sprintf_0x n = ''0x'' @ fmt_base 16 (unat n)"

lemma unat_less_2p64: "unat (n :: u64) < 2 ^ 64"
  using unsigned_less [of n, where ?'a = nat] by simp

lemma ParseUint_FormatUint: "ParseUint (FormatUint n) = Inr n"
  using scan_fmt_base [of 10 "unat n" "2 ^ 64"] unat_less_2p64 [of n]
  by (simp add: ParseUint_def FormatUint_def)

text \<open>Reading back what \<open>%x\<close> wrote, as any reader of hexadecimal quantities does.\<close>

definition parse_0x :: "string \<Rightarrow> num_error + u64" where
  "parse_0x s =
     (if \<not> HasPrefix s ''0x'' \<or> length s = 2 then Inl ErrSyntax
      else case scan_uint 16 (2 ^ 64) 0 (drop 2 s) of Inl e \<Rightarrow> Inl e | Inr n \<Rightarrow> Inr (of_nat n))"

lemma parse_0x_Sprintf_0x: "parse_0x (Sprintf_0x n) = Inr n"
  using scan_fmt_base [of 16 "unat n" "2 ^ 64"] unat_less_2p64 [of n]
  by (simp add: parse_0x_def Sprintf_0x_def HasPrefix_def)

section \<open>int in decimal\<close>

text \<open>Go's \<open>int\<close> has 64 bits on every platform the program is built for.\<close>

definition int64_range :: "int \<Rightarrow> bool" where
  "int64_range i \<longleftrightarrow> - (2 ^ 63) \<le> i \<and> i < 2 ^ 63"

definition Itoa :: "int \<Rightarrow> string" where
  "Itoa i = (if i < 0 then ''-'' @ fmt_base 10 (nat (- i)) else fmt_base 10 (nat i))"

text \<open>\<open>strconv.Atoi\<close>: an optional sign and at least one digit; out of range is an error.\<close>

definition Atoi :: "string \<Rightarrow> num_error + int" where
  "Atoi s =
     (let neg = (s \<noteq> [] \<and> hd s = CHR ''-'');
          t = (if s \<noteq> [] \<and> (hd s = CHR ''-'' \<or> hd s = CHR ''+'') then tl s else s)
      in if t = [] then Inl ErrSyntax
         else case scan_uint 10 (2 ^ 64) 0 t of
           Inl e \<Rightarrow> Inl e
         | Inr n \<Rightarrow>
             if \<not> neg \<and> n \<ge> 2 ^ 63 then Inl ErrRange
             else if neg \<and> n > 2 ^ 63 then Inl ErrRange
             else Inr (if neg then - int n else int n))"

lemma Atoi_range: "Atoi s = Inr i \<Longrightarrow> int64_range i"
  by (auto simp: Atoi_def int64_range_def Let_def split: sum.splits if_splits)

lemma hd_fmt_base:
  assumes "2 \<le> b" "b \<le> 16"
  shows "hd (fmt_base b n) \<noteq> CHR ''-''" "hd (fmt_base b n) \<noteq> CHR ''+''"
  using fmt_base_no_sign [OF assms, of n] hd_in_set [OF fmt_base_not_Nil] by metis+

lemma Atoi_Itoa:
  assumes "int64_range i"
  shows "Atoi (Itoa i) = Inr i"
proof (cases "i < 0")
  case True
  with assms have "nat (- i) < 2 ^ 64" "nat (- i) \<le> 2 ^ 63"
    by (auto simp: int64_range_def)
  with True show ?thesis
    using scan_fmt_base [of 10 "nat (- i)" "2 ^ 64"]
    by (simp add: Atoi_def Itoa_def)
next
  case False
  with assms have "nat i < 2 ^ 64" "nat i < 2 ^ 63"
    by (auto simp: int64_range_def)
  with False show ?thesis
    using scan_fmt_base [of 10 "nat i" "2 ^ 64"]
    by (simp add: Atoi_def Itoa_def hd_fmt_base)
qed

interpretation uint_codec: codec "\<lambda>_. True" FormatUint ParseUint
  by unfold_locales (rule ParseUint_FormatUint)

interpretation hex_codec: codec "\<lambda>_. True" Sprintf_0x parse_0x
  by unfold_locales (rule parse_0x_Sprintf_0x)

interpretation int_codec: codec int64_range Itoa Atoi
  by unfold_locales (rule Atoi_Itoa)

section \<open>Booleans, bytes in hexadecimal, big integers\<close>

definition ParseBool :: "string \<Rightarrow> bool option" where
  "ParseBool s =
     (if s \<in> {''1'', ''t'', ''T'', ''true'', ''TRUE'', ''True''} then Some True
      else if s \<in> {''0'', ''f'', ''F'', ''false'', ''FALSE'', ''False''} then Some False
      else None)"

text \<open>\<open>hex.DecodeString\<close>: an even number of hexadecimal digits.\<close>

fun hex_DecodeString :: "string \<Rightarrow> byte list option" where
  "hex_DecodeString [] = Some []"
| "hex_DecodeString [c] = None"
| "hex_DecodeString (c # d # s) =
     (case (digit_val c, digit_val d) of
        (Some x, Some y) \<Rightarrow> map_option ((#) (of_nat (16 * x + y))) (hex_DecodeString s)
      | _ \<Rightarrow> None)"

lemma hex_DecodeString_length:
  "hex_DecodeString s = Some bs \<Longrightarrow> length s = 2 * length bs"
  by (induction s arbitrary: bs rule: hex_DecodeString.induct) (auto split: option.splits)

text \<open>
  \<open>(*big.Int).SetString(s, 16)\<close>: an optional sign and at least one digit of the base. When it
  fails the receiver is left undefined, so the reader is partial here.
\<close>

fun scan_nat :: "nat \<Rightarrow> nat \<Rightarrow> string \<Rightarrow> nat option" where
  "scan_nat b n [] = Some n"
| "scan_nat b n (c # s) =
     (case digit_val c of
        None \<Rightarrow> None
      | Some d \<Rightarrow> if b \<le> d then None else scan_nat b (n * b + d) s)"

definition big_SetString16 :: "string \<Rightarrow> int option" where
  "big_SetString16 s =
     (let neg = (s \<noteq> [] \<and> hd s = CHR ''-'');
          t = (if s \<noteq> [] \<and> (hd s = CHR ''-'' \<or> hd s = CHR ''+'') then tl s else s)
      in if t = [] then None
         else map_option (\<lambda>n. if neg then - int n else int n) (scan_nat 16 0 t))"

lemma scan_nat_scan_uint: "scan_uint b bound n s = Inr m \<Longrightarrow> scan_nat b n s = Some m"
  by (induction b bound n s rule: scan_uint.induct) (auto split: option.splits if_splits)

lemma big_SetString16_fmt: "big_SetString16 (fmt_base 16 n) = Some (int n)"
  using scan_fmt_base [of 16 n "Suc n", THEN scan_nat_scan_uint]
  by (simp add: big_SetString16_def hd_fmt_base)

end
