(* ===== verification/Redis_State.thy ===== *)
theory Redis_State
  imports Strconv
begin

text \<open>
  The state the program keeps in Redis (\<open>src/server/redisstate.go\<close>): the keys of its eight
  kinds of entries and the operations that write and read them.

  The Redis server and its client library are not part of the program. The client is the
  record \<open>redis_client\<close>, an argument of every operation, over a server state of any type
  \<open>'r\<close>; what the program relies on is the locale \<open>redis_service\<close>: the documented effect
  of the seven commands used, any of which may fail, and the expiry of keys. Each command is
  taken to happen at one instant; \<open>elapse\<close> is the passing of time on the server. The last
  section gives an in-memory server that meets the contract.
\<close>

section \<open>The client\<close>

datatype redis_err = RedisNil | RedisErr string

text \<open>The dynamic types of the values passed to \<open>Set\<close>; the client sends numbers in decimal.\<close>

datatype redis_arg = ArgStr string | ArgUint u64 | ArgInt int

text \<open>Durations are in nanoseconds, as \<open>time.Duration\<close> is. \<open>None\<close> is the error \<open>nil\<close>.\<close>

record 'r redis_client =
  redis_Get :: "'r \<Rightarrow> string \<Rightarrow> redis_err + string"
  redis_Set :: "'r \<Rightarrow> string \<Rightarrow> redis_arg \<Rightarrow> int \<Rightarrow> string option \<times> 'r"
  redis_Del :: "'r \<Rightarrow> string \<Rightarrow> string option \<times> 'r"
  redis_LPush :: "'r \<Rightarrow> string \<Rightarrow> string \<Rightarrow> string option \<times> 'r"
  redis_Expire :: "'r \<Rightarrow> string \<Rightarrow> int \<Rightarrow> string option \<times> 'r"
  redis_LTrim :: "'r \<Rightarrow> string \<Rightarrow> int \<Rightarrow> int \<Rightarrow> string option \<times> 'r"
  redis_LRange :: "'r \<Rightarrow> string \<Rightarrow> int \<Rightarrow> int \<Rightarrow> string + string list"

section \<open>Keys\<close>

definition time_Second :: int where "time_Second = 1000000000"
definition time_Minute :: int where "time_Minute = 60 * time_Second"

definition RedisPrefix :: string where
  "RedisPrefix = ''rpc-endpoint:''"
definition RedisPrefixTxSentToRelay :: string where
  "RedisPrefixTxSentToRelay = RedisPrefix @ ''tx-sent-to-relay:''"
definition RedisExpiryTxSentToRelay :: int where
  "RedisExpiryTxSentToRelay = 10 * time_Minute"
definition RedisPrefixTxHashForSenderAndNonce :: string where
  "RedisPrefixTxHashForSenderAndNonce = RedisPrefix @ ''txsender-and-nonce-to-txhash:''"
definition RedisExpiryTxHashForSenderAndNonce :: int where
  "RedisExpiryTxHashForSenderAndNonce = 10 * time_Minute"
definition RedisPrefixNonceFixForAccount :: string where
  "RedisPrefixNonceFixForAccount = RedisPrefix @ ''txsender-with-nonce-fix:''"
definition RedisExpiryNonceFixForAccount :: int where
  "RedisExpiryNonceFixForAccount = 10 * time_Minute"
definition RedisPrefixSenderOfTxHash :: string where
  "RedisPrefixSenderOfTxHash = RedisPrefix @ ''txsender-of-txhash:''"
definition RedisExpirySenderOfTxHash :: int where
  "RedisExpirySenderOfTxHash = 10 * time_Minute"
definition RedisPrefixNonceOfTxHash :: string where
  "RedisPrefixNonceOfTxHash = RedisPrefix @ ''txnonce-of-txhash:''"
definition RedisExpiryNonceOfTxHash :: int where
  "RedisExpiryNonceOfTxHash = 10 * time_Minute"
definition RedisPrefixSenderMaxNonce :: string where
  "RedisPrefixSenderMaxNonce = RedisPrefix @ ''txsender-pending-max-nonce:''"
definition RedisExpirySenderMaxNonce :: int where
  "RedisExpirySenderMaxNonce = 280 * time_Second"
definition RedisPrefixWhitehatBundleTransactions :: string where
  "RedisPrefixWhitehatBundleTransactions = RedisPrefix @ ''tx-for-whitehat-bundle:''"
definition RedisExpiryWhitehatBundleTransactions :: int where
  "RedisExpiryWhitehatBundleTransactions = 10 * time_Minute"
definition RedisPrefixBlockedTxHash :: string where
  "RedisPrefixBlockedTxHash = RedisPrefix @ ''blocked-tx-hash:''"
definition RedisExpiryBlockedTxHash :: int where
  "RedisExpiryBlockedTxHash = 10 * time_Minute"

definition RedisKeyTxSentToRelay :: "string \<Rightarrow> string" where
  "RedisKeyTxSentToRelay txHash = RedisPrefixTxSentToRelay @ ToLower txHash"
definition RedisKeyTxHashForSenderAndNonce :: "string \<Rightarrow> u64 \<Rightarrow> string" where
  "RedisKeyTxHashForSenderAndNonce txFrom nonce =
     RedisPrefixTxHashForSenderAndNonce @ ToLower txFrom @ ''_'' @ FormatUint nonce"
definition RedisKeyNonceFixForAccount :: "string \<Rightarrow> string" where
  "RedisKeyNonceFixForAccount txFrom = RedisPrefixNonceFixForAccount @ ToLower txFrom"
definition RedisKeySenderOfTxHash :: "string \<Rightarrow> string" where
  "RedisKeySenderOfTxHash txHash = RedisPrefixSenderOfTxHash @ ToLower txHash"
definition RedisKeyNonceOfTxHash :: "string \<Rightarrow> string" where
  "RedisKeyNonceOfTxHash txHash = RedisPrefixNonceOfTxHash @ ToLower txHash"
definition RedisKeySenderMaxNonce :: "string \<Rightarrow> string" where
  "RedisKeySenderMaxNonce txFrom = RedisPrefixSenderMaxNonce @ ToLower txFrom"
definition RedisKeyWhitehatBundleTransactions :: "string \<Rightarrow> string" where
  "RedisKeyWhitehatBundleTransactions bundleId =
     RedisPrefixWhitehatBundleTransactions @ ToLower bundleId"
definition RedisKeyBlockedTxHash :: "string \<Rightarrow> string" where
  "RedisKeyBlockedTxHash txHash = RedisPrefixBlockedTxHash @ ToLower txHash"

lemmas prefix_defs =
  RedisPrefix_def RedisPrefixTxSentToRelay_def RedisPrefixTxHashForSenderAndNonce_def
  RedisPrefixNonceFixForAccount_def RedisPrefixSenderOfTxHash_def RedisPrefixNonceOfTxHash_def
  RedisPrefixSenderMaxNonce_def RedisPrefixWhitehatBundleTransactions_def
  RedisPrefixBlockedTxHash_def

lemmas expiry_defs =
  time_Second_def time_Minute_def RedisExpiryTxSentToRelay_def
  RedisExpiryTxHashForSenderAndNonce_def RedisExpiryNonceFixForAccount_def
  RedisExpirySenderOfTxHash_def RedisExpiryNonceOfTxHash_def RedisExpirySenderMaxNonce_def
  RedisExpiryWhitehatBundleTransactions_def RedisExpiryBlockedTxHash_def

lemmas redis_key_defs [key_defs] =
  RedisKeyTxSentToRelay_def RedisKeyTxHashForSenderAndNonce_def RedisKeyNonceFixForAccount_def
  RedisKeySenderOfTxHash_def RedisKeyNonceOfTxHash_def RedisKeySenderMaxNonce_def
  RedisKeyWhitehatBundleTransactions_def RedisKeyBlockedTxHash_def

section \<open>Operations\<close>

text \<open>
  An accessor returns Go's triple: the value, whether an entry was found, the error
  (\<open>None\<close> for \<open>nil\<close>). Times are nanoseconds since the Unix epoch; \<open>time_zero\<close> is Go's
  zero \<open>time.Time\<close>.
\<close>

datatype rs_err = RsRedis string | RsNum num_error

definition time_zero :: int where
  "time_zero = -62135596800 * time_Second"

definition NewRedisState :: "'r redis_client \<Rightarrow> 'r \<Rightarrow> string option" where
  "NewRedisState R s =
     (case redis_Get R s ''somekey'' of
        Inl (RedisErr e) \<Rightarrow> Some (''redis init error: '' @ e)
      | _ \<Rightarrow> None)"

definition SetTxSentToRelay :: "'r redis_client \<Rightarrow> int \<Rightarrow> 'r \<Rightarrow> string \<Rightarrow> string option \<times> 'r" where
  "SetTxSentToRelay R now s txHash =
     redis_Set R s (RedisKeyTxSentToRelay txHash) (ArgInt (now div time_Second))
       RedisExpiryTxSentToRelay"

definition GetTxSentToRelay ::
    "'r redis_client \<Rightarrow> 'r \<Rightarrow> string \<Rightarrow> int \<times> bool \<times> rs_err option" where
  "GetTxSentToRelay R s txHash =
     (case redis_Get R s (RedisKeyTxSentToRelay txHash) of
        Inl RedisNil \<Rightarrow> (time_zero, False, None)
      | Inl (RedisErr e) \<Rightarrow> (time_zero, False, Some (RsRedis e))
      | Inr val \<Rightarrow>
          (case Atoi val of
             Inl e \<Rightarrow> (time_zero, True, Some (RsNum e))
           | Inr timestampInt \<Rightarrow> (timestampInt * time_Second, True, None)))"

definition SetTxHashForSenderAndNonce ::
    "'r redis_client \<Rightarrow> 'r \<Rightarrow> string \<Rightarrow> u64 \<Rightarrow> string \<Rightarrow> string option \<times> 'r" where
  "SetTxHashForSenderAndNonce R s txFrom nonce txHash =
     redis_Set R s (RedisKeyTxHashForSenderAndNonce txFrom nonce) (ArgStr (ToLower txHash))
       RedisExpiryTxHashForSenderAndNonce"

definition GetTxHashForSenderAndNonce ::
    "'r redis_client \<Rightarrow> 'r \<Rightarrow> string \<Rightarrow> u64 \<Rightarrow> string \<times> bool \<times> rs_err option" where
  "GetTxHashForSenderAndNonce R s txFrom nonce =
     (case redis_Get R s (RedisKeyTxHashForSenderAndNonce txFrom nonce) of
        Inl RedisNil \<Rightarrow> ('''', False, None)
      | Inl (RedisErr e) \<Rightarrow> ('''', False, Some (RsRedis e))
      | Inr txHash \<Rightarrow> (txHash, True, None))"

definition SetNonceFixForAccount ::
    "'r redis_client \<Rightarrow> 'r \<Rightarrow> string \<Rightarrow> u64 \<Rightarrow> string option \<times> 'r" where
  "SetNonceFixForAccount R s txFrom numTimesSent =
     redis_Set R s (RedisKeyNonceFixForAccount txFrom) (ArgUint numTimesSent)
       RedisExpiryNonceFixForAccount"

definition DelNonceFixForAccount :: "'r redis_client \<Rightarrow> 'r \<Rightarrow> string \<Rightarrow> string option \<times> 'r" where
  "DelNonceFixForAccount R s txFrom = redis_Del R s (RedisKeyNonceFixForAccount txFrom)"

text \<open>Three accessors read a \<open>uint64\<close> the same way; the fourth skips the second error test.\<close>

definition get_uint_cell ::
    "'r redis_client \<Rightarrow> 'r \<Rightarrow> string \<Rightarrow> u64 \<times> bool \<times> rs_err option" where
  "get_uint_cell R s key =
     (case redis_Get R s key of
        Inl RedisNil \<Rightarrow> (0, False, None)
      | Inl (RedisErr e) \<Rightarrow> (0, False, Some (RsRedis e))
      | Inr val \<Rightarrow>
          (case ParseUint val of
             Inl e \<Rightarrow> (0, True, Some (RsNum e))
           | Inr n \<Rightarrow> (n, True, None)))"

definition GetNonceFixForAccount ::
    "'r redis_client \<Rightarrow> 'r \<Rightarrow> string \<Rightarrow> u64 \<times> bool \<times> rs_err option" where
  "GetNonceFixForAccount R s txFrom = get_uint_cell R s (RedisKeyNonceFixForAccount txFrom)"

definition SetSenderAndNonceOfTxHash ::
    "'r redis_client \<Rightarrow> 'r \<Rightarrow> string \<Rightarrow> string \<Rightarrow> u64 \<Rightarrow> string option \<times> 'r" where
  "SetSenderAndNonceOfTxHash R s txHash txFrom txNonce =
     (case redis_Set R s (RedisKeySenderOfTxHash txHash) (ArgStr (ToLower txFrom))
             RedisExpirySenderOfTxHash of
        (Some e, s1) \<Rightarrow> (Some e, s1)
      | (None, s1) \<Rightarrow>
          redis_Set R s1 (RedisKeyNonceOfTxHash txHash) (ArgUint txNonce) RedisExpiryNonceOfTxHash)"

definition GetSenderOfTxHash ::
    "'r redis_client \<Rightarrow> 'r \<Rightarrow> string \<Rightarrow> string \<times> bool \<times> rs_err option" where
  "GetSenderOfTxHash R s txHash =
     (case redis_Get R s (RedisKeySenderOfTxHash txHash) of
        Inl RedisNil \<Rightarrow> ('''', False, None)
      | Inl (RedisErr e) \<Rightarrow> ('''', False, Some (RsRedis e))
      | Inr txSender \<Rightarrow> (ToLower txSender, True, None))"

text \<open>
  \<open>GetNonceOfTxHash\<close> tests for \<open>redis.Nil\<close> only: after another error the value is the
  empty string, which does not parse, so the entry counts as found with an error.
\<close>

definition GetNonceOfTxHash ::
    "'r redis_client \<Rightarrow> 'r \<Rightarrow> string \<Rightarrow> u64 \<times> bool \<times> rs_err option" where
  "GetNonceOfTxHash R s txHash =
     (case redis_Get R s (RedisKeyNonceOfTxHash txHash) of
        Inl RedisNil \<Rightarrow> (0, False, None)
      | other \<Rightarrow>
          (let val = (case other of Inr v \<Rightarrow> v | Inl _ \<Rightarrow> '''') in
           case ParseUint val of
             Inl e \<Rightarrow> (0, True, Some (RsNum e))
           | Inr n \<Rightarrow> (n, True, None)))"

definition GetWhitehatBundleTx :: "'r redis_client \<Rightarrow> 'r \<Rightarrow> string \<Rightarrow> string + string list" where
  "GetWhitehatBundleTx R s bundleId =
     redis_LRange R s (RedisKeyWhitehatBundleTransactions bundleId) 0 (-1)"

definition AddTxToWhitehatBundle ::
    "'r redis_client \<Rightarrow> 'r \<Rightarrow> string \<Rightarrow> string \<Rightarrow> string option \<times> 'r" where
  "AddTxToWhitehatBundle R s bundleId signedTx =
     (let key = RedisKeyWhitehatBundleTransactions bundleId;
          present = (case GetWhitehatBundleTx R s bundleId of
                       Inl _ \<Rightarrow> False | Inr txs \<Rightarrow> signedTx \<in> set txs)
      in if present then (None, s)
         else (case redis_LPush R s key signedTx of
           (Some e, s1) \<Rightarrow> (Some e, s1)
         | (None, s1) \<Rightarrow>
             (case redis_Expire R s1 key RedisExpiryWhitehatBundleTransactions of
                (Some e, s2) \<Rightarrow> (Some e, s2)
              | (None, s2) \<Rightarrow> redis_LTrim R s2 key 0 15)))"

definition DelWhitehatBundleTx :: "'r redis_client \<Rightarrow> 'r \<Rightarrow> string \<Rightarrow> string option \<times> 'r" where
  "DelWhitehatBundleTx R s bundleId = redis_Del R s (RedisKeyWhitehatBundleTransactions bundleId)"

definition GetSenderMaxNonce ::
    "'r redis_client \<Rightarrow> 'r \<Rightarrow> string \<Rightarrow> u64 \<times> bool \<times> rs_err option" where
  "GetSenderMaxNonce R s txFrom = get_uint_cell R s (RedisKeySenderMaxNonce txFrom)"

text \<open>
  \<open>12 * time.Duration(blockRange) * time.Second\<close> is a product of \<open>int64\<close> values, so it
  wraps around modulo \<open>2^64\<close>.
\<close>

definition block_range_expiry :: "int \<Rightarrow> int" where
  "block_range_expiry blockRange = sint ((12 :: u64) * of_int blockRange * of_int time_Second)"

definition max_nonce_expiry :: "int \<Rightarrow> int" where
  "max_nonce_expiry blockRange =
     (if blockRange > 0 then block_range_expiry blockRange else RedisExpirySenderMaxNonce)"

definition SetSenderMaxNonce ::
    "'r redis_client \<Rightarrow> 'r \<Rightarrow> string \<Rightarrow> u64 \<Rightarrow> int \<Rightarrow> rs_err option \<times> 'r" where
  "SetSenderMaxNonce R s txFrom nonce blockRange =
     (case GetSenderMaxNonce R s txFrom of
        (_, _, Some e) \<Rightarrow> (Some e, s)
      | (prevMaxNonce, found, None) \<Rightarrow>
          if found \<and> prevMaxNonce \<ge> nonce then (None, s)
          else (case redis_Set R s (RedisKeySenderMaxNonce txFrom) (ArgUint nonce)
                       (max_nonce_expiry blockRange) of
                  (e, s1) \<Rightarrow> (map_option RsRedis e, s1)))"

definition DelSenderMaxNonce :: "'r redis_client \<Rightarrow> 'r \<Rightarrow> string \<Rightarrow> string option \<times> 'r" where
  "DelSenderMaxNonce R s txFrom = redis_Del R s (RedisKeySenderMaxNonce txFrom)"

definition SetBlockedTxHash ::
    "'r redis_client \<Rightarrow> 'r \<Rightarrow> string \<Rightarrow> string \<Rightarrow> string option \<times> 'r" where
  "SetBlockedTxHash R s txHash returnValue =
     redis_Set R s (RedisKeyBlockedTxHash txHash) (ArgStr returnValue) RedisExpiryBlockedTxHash"

definition GetBlockedTxHash ::
    "'r redis_client \<Rightarrow> 'r \<Rightarrow> string \<Rightarrow> string \<times> bool \<times> rs_err option" where
  "GetBlockedTxHash R s txHash =
     (case redis_Get R s (RedisKeyBlockedTxHash txHash) of
        Inl RedisNil \<Rightarrow> ('''', False, None)
      | Inl (RedisErr e) \<Rightarrow> ('''', False, Some (RsRedis e))
      | Inr returnValue \<Rightarrow> (returnValue, True, None))"

end
