(* ===== verification/Redis_Contract.thy ===== *)
theory Redis_Contract
  imports Redis_State
begin

text \<open>
  The contract between the program and Redis, and what the accessors of
  \<open>src/server/redisstate.go\<close> guarantee on top of it.

  \<^item> \<open>redis_service\<close> is the contract of the server: the documented effect of each command on
    the live keys (\<open>view\<close>), an outcome with an error for any of them, and expiry.
  \<^item> \<open>redis_cell\<close> is the contract of one kind of entry: a writer and a reader that agree on
    key and text format. Its lemmas give what a read returns after a write, that other keys
    are untouched, and how long an entry stays; each kind of entry of the program is an
    instance (the \<open>sublocale\<close> declarations).
  \<^item> \<open>mem_redis\<close> is an in-memory server that meets the contract.
\<close>

section \<open>The contract of the server\<close>

datatype redis_val = RStr string | RList "string list"

text \<open>The live keys, each with its value and the nanoseconds it still has to live, if bounded.\<close>

type_synonym redis_db = "string \<rightharpoonup> redis_val \<times> int option"

fun arg_text :: "redis_arg \<Rightarrow> string" where
  "arg_text (ArgStr s) = s"
| "arg_text (ArgUint n) = FormatUint n"
| "arg_text (ArgInt i) = Itoa i"

text \<open>The time to live of a successful \<open>Set\<close>, where the client documents it.\<close>

definition set_ttl :: "int \<Rightarrow> int option \<Rightarrow> bool" where
  "set_ttl expiry t \<longleftrightarrow>
     (0 < expiry \<and> 1000000 dvd expiry \<longrightarrow> t = Some expiry) \<and> (expiry = 0 \<longrightarrow> t = None)"

definition eff_set :: "string \<Rightarrow> string \<Rightarrow> int \<Rightarrow> redis_db \<Rightarrow> redis_db \<Rightarrow> bool" where
  "eff_set k v expiry m m' \<longleftrightarrow> (\<exists>t. set_ttl expiry t \<and> m' = m(k \<mapsto> (RStr v, t)))"

definition eff_del :: "string \<Rightarrow> redis_db \<Rightarrow> redis_db \<Rightarrow> bool" where
  "eff_del k m m' \<longleftrightarrow> m' = m(k := None)"

definition eff_lpush :: "string \<Rightarrow> string \<Rightarrow> redis_db \<Rightarrow> redis_db \<Rightarrow> bool" where
  "eff_lpush k v m m' \<longleftrightarrow>
     (case m k of
        None \<Rightarrow> m' = m(k \<mapsto> (RList [v], None))
      | Some (RList l, t) \<Rightarrow> m' = m(k \<mapsto> (RList (v # l), t))
      | Some (RStr _, _) \<Rightarrow> False)"

definition eff_expire :: "string \<Rightarrow> int \<Rightarrow> redis_db \<Rightarrow> redis_db \<Rightarrow> bool" where
  "eff_expire k expiry m m' \<longleftrightarrow>
     (0 < expiry \<and> 1000000000 dvd expiry \<longrightarrow>
       m' = (case m k of None \<Rightarrow> m | Some (x, _) \<Rightarrow> m(k \<mapsto> (x, Some expiry))))"

definition eff_ltrim :: "string \<Rightarrow> int \<Rightarrow> int \<Rightarrow> redis_db \<Rightarrow> redis_db \<Rightarrow> bool" where
  "eff_ltrim k start stop m m' \<longleftrightarrow>
     (0 \<le> start \<and> start \<le> stop \<longrightarrow>
       (case m k of
          None \<Rightarrow> m' = m
        | Some (RList l, t) \<Rightarrow>
            (let l' = take (nat (stop - start + 1)) (drop (nat start) l)
             in m' = (if l' = [] then m(k := None) else m(k \<mapsto> (RList l', t))))
        | Some (RStr _, _) \<Rightarrow> False))"

text \<open>
  The outcome of a command against its effect: with no error the effect happened; with an
  error (the reply may have been lost) it happened or nothing did.
\<close>

definition applied ::
    "(redis_db \<Rightarrow> redis_db \<Rightarrow> bool) \<Rightarrow> ('r \<Rightarrow> redis_db) \<Rightarrow> 'r \<Rightarrow> string option \<times> 'r \<Rightarrow> bool" where
  "applied eff view s out \<longleftrightarrow>
     (case out of
        (None, s') \<Rightarrow> eff (view s) (view s')
      | (Some e, s') \<Rightarrow> view s' = view s \<or> eff (view s) (view s'))"

definition db_elapse :: "int \<Rightarrow> redis_db \<Rightarrow> redis_db" where
  "db_elapse d m = (\<lambda>k. case m k of
     None \<Rightarrow> None
   | Some (x, None) \<Rightarrow> Some (x, None)
   | Some (x, Some t) \<Rightarrow> if t \<le> d then None else Some (x, Some (t - d)))"

locale redis_service =
  fixes R :: "'r redis_client"
    and view :: "'r \<Rightarrow> redis_db"
    and elapse :: "int \<Rightarrow> 'r \<Rightarrow> 'r"
  assumes Get_Inr: "redis_Get R s k = Inr v \<Longrightarrow> \<exists>t. view s k = Some (RStr v, t)"
    and Get_Nil: "redis_Get R s k = Inl RedisNil \<Longrightarrow> view s k = None"
    and Set_applied: "applied (eff_set k (arg_text a) expiry) view s (redis_Set R s k a expiry)"
    and Del_applied: "applied (eff_del k) view s (redis_Del R s k)"
    and LPush_applied: "applied (eff_lpush k v) view s (redis_LPush R s k v)"
    and Expire_applied: "applied (eff_expire k expiry) view s (redis_Expire R s k expiry)"
    and LTrim_applied: "applied (eff_ltrim k start stop) view s (redis_LTrim R s k start stop)"
    and LRange_Inr: "redis_LRange R s k 0 (-1) = Inr l \<Longrightarrow>
      view s k = None \<and> l = [] \<or> (\<exists>t. view s k = Some (RList l, t))"
    and view_elapse: "view (elapse d s) = db_elapse d (view s)"

text \<open>No command touches a key it does not name.\<close>

lemma effect_frame:
  "eff_set k v x m m' \<Longrightarrow> q \<noteq> k \<Longrightarrow> m' q = m q"
  "eff_del k m m' \<Longrightarrow> q \<noteq> k \<Longrightarrow> m' q = m q"
  "eff_lpush k v m m' \<Longrightarrow> q \<noteq> k \<Longrightarrow> m' q = m q"
  "eff_expire k x m m' \<Longrightarrow> q \<noteq> k \<Longrightarrow> 0 < x \<Longrightarrow> 1000000000 dvd x \<Longrightarrow> m' q = m q"
  "eff_ltrim k i j m m' \<Longrightarrow> q \<noteq> k \<Longrightarrow> 0 \<le> i \<Longrightarrow> i \<le> j \<Longrightarrow> m' q = m q"
  by (cases "m k"; cases "the (m k)"; cases "fst (the (m k))";
      auto simp: eff_set_def eff_del_def eff_lpush_def eff_expire_def eff_ltrim_def Let_def split: if_splits)+

lemma applied_frame:
  assumes "applied eff view s out" "\<And>m'. eff (view s) m' \<Longrightarrow> m' q = view s q"
  shows "view (snd out) q = view s q"
  using assms by (cases out; cases "fst out") (auto simp: applied_def)

text \<open>
  A server that works: while it is up, a write succeeds, a read fails only on a list, and it stays
  up.
\<close>

locale redis_working = redis_service +
  fixes up :: "'r \<Rightarrow> bool"
  assumes up_Get: "up s \<Longrightarrow> redis_Get R s k = Inl (RedisErr e) \<Longrightarrow> \<exists>l t. view s k = Some (RList l, t)"
    and up_Set: "up s \<Longrightarrow> fst (redis_Set R s k a expiry) = None"
    and up_after_Set: "up s \<Longrightarrow> up (snd (redis_Set R s k a expiry))"
    and up_after_Del: "up s \<Longrightarrow> up (snd (redis_Del R s k))"
    and up_after_LPush: "up s \<Longrightarrow> up (snd (redis_LPush R s k v))"
    and up_after_Expire: "up s \<Longrightarrow> up (snd (redis_Expire R s k expiry))"
    and up_after_LTrim: "up s \<Longrightarrow> up (snd (redis_LTrim R s k i j))"
    and up_elapse: "up s \<Longrightarrow> up (elapse d s)"
begin

lemmas up_after = up_after_Set up_after_Del up_after_LPush up_after_Expire up_after_LTrim

lemma Get_live:
  assumes "up s" "view s k = Some (RStr v, t)"
  shows "redis_Get R s k = Inr v"
proof (cases "redis_Get R s k")
  case (Inl e)
  then show ?thesis using assms Get_Nil [of s k] up_Get [of s k] by (cases e) auto
next
  case (Inr x)
  then show ?thesis using assms Get_Inr [of s k x] by auto
qed

end

section \<open>The contract of one kind of entry\<close>

text \<open>
  A reader returns Go's triple. It is faithful when, with no error, it says what the live
  entry holds.
\<close>

definition reads :: "('v \<Rightarrow> string \<Rightarrow> bool) \<Rightarrow> redis_db \<Rightarrow> string \<Rightarrow> 'v \<times> bool \<times> rs_err option \<Rightarrow> bool" where
  "reads repr m k out \<longleftrightarrow>
     (case out of
        (_, _, Some e) \<Rightarrow> True
      | (x, True, None) \<Rightarrow> (\<exists>txt t. m k = Some (RStr txt, t) \<and> repr x txt)
      | (x, False, None) \<Rightarrow> m k = None)"

locale redis_cell =
  fixes view :: "'r \<Rightarrow> redis_db"
    and elapse :: "int \<Rightarrow> 'r \<Rightarrow> 'r"
    and key :: "'k \<Rightarrow> string"
    and enc :: "'v \<Rightarrow> string"
    and repr :: "'w \<Rightarrow> string \<Rightarrow> bool"
    and dec :: "'v \<Rightarrow> 'w"
    and valid :: "'v \<Rightarrow> bool"
    and expiry :: int
    and put :: "'r \<Rightarrow> 'k \<Rightarrow> 'v \<Rightarrow> string option \<times> 'r"
    and get :: "'r \<Rightarrow> 'k \<Rightarrow> 'w \<times> bool \<times> rs_err option"
  assumes put_applied: "applied (eff_set (key k) (enc v) expiry) view s (put s k v)"
    and get_reads: "reads repr (view s) (key k) (get s k)"
    and repr_enc: "valid v \<Longrightarrow> repr x (enc v) \<Longrightarrow> x = dec v"
    and expiry_pos: "0 < expiry" "1000000 dvd expiry"
    and cell_elapse: "view (elapse d s) = db_elapse d (view s)"
begin

lemma view_put:
  assumes "put s k v = (None, s')"
  shows "view s' = (view s)(key k \<mapsto> (RStr (enc v), Some expiry))"
  using put_applied [of k v s] assms expiry_pos
  by (auto simp: applied_def eff_set_def set_ttl_def)

text \<open>After a write that reported no error, a read that reports none returns the value written.\<close>

lemma get_put:
  assumes "valid v" "put s k v = (None, s')" "key k' = key k" "get s' k' = (x, found, None)"
  shows "found \<and> x = dec v"
  using get_reads [of s' k'] view_put [OF assms(2)] repr_enc [OF assms(1)] assms(3,4)
  by (cases found) (auto simp: reads_def)

text \<open>It is still there while less than the expiry has passed, and gone from then on.\<close>

lemma get_put_elapse:
  assumes "valid v" "put s k v = (None, s')" "key k' = key k"
    and "get (elapse d s') k' = (x, found, None)"
  shows "(found \<longleftrightarrow> d < expiry) \<and> (d < expiry \<longrightarrow> x = dec v)"
  using get_reads [of "elapse d s'" k'] view_put [OF assms(2)] repr_enc [OF assms(1)] assms(3,4)
  by (cases found) (auto simp: reads_def cell_elapse db_elapse_def split: if_splits)

text \<open>No write of this kind touches another key, whether or not it reported an error.\<close>

lemma put_frame:
  assumes "put s k v = (e, s')" "q \<noteq> key k"
  shows "view s' q = view s q"
  using put_applied [of k v s] assms
  by (cases e) (auto simp: applied_def eff_set_def)

text \<open>With no live entry, a read that reports no error finds none.\<close>

lemma get_none:
  assumes "view s (key k) = None" "get s k = (x, found, None)"
  shows "\<not> found"
  using get_reads [of s k] assms by (cases found) (auto simp: reads_def)

end

section \<open>The kinds of entries\<close>

lemma expiry_10min [simp]: "0 < 10 * time_Minute" "1000000 dvd 10 * time_Minute"
  by (simp_all add: expiry_defs)

text \<open>Readers of the three text formats the entries use.\<close>

definition repr_id :: "string \<Rightarrow> string \<Rightarrow> bool" where
  "repr_id x txt \<longleftrightarrow> x = txt"

definition repr_lower :: "string \<Rightarrow> string \<Rightarrow> bool" where
  "repr_lower x txt \<longleftrightarrow> x = ToLower txt"

definition repr_uint :: "u64 \<Rightarrow> string \<Rightarrow> bool" where
  "repr_uint x txt \<longleftrightarrow> ParseUint txt = Inr x"

definition repr_time :: "int \<Rightarrow> string \<Rightarrow> bool" where
  "repr_time x txt \<longleftrightarrow> (\<exists>i. Atoi txt = Inr i \<and> x = i * time_Second)"

lemmas repr_defs = repr_id_def repr_lower_def repr_uint_def repr_time_def

lemma repr_uint_enc: "repr_uint x (FormatUint n) \<Longrightarrow> x = n"
  by (simp add: repr_uint_def ParseUint_FormatUint)

lemma repr_time_enc: "int64_range i \<Longrightarrow> repr_time x (Itoa i) \<Longrightarrow> x = i * time_Second"
  by (auto simp: repr_time_def Atoi_Itoa)

context redis_service
begin

lemma reads_get_uint_cell: "reads repr_uint (view s) k (get_uint_cell R s k)"
  using Get_Inr [of s k] Get_Nil [of s k]
  by (auto simp: get_uint_cell_def reads_def repr_uint_def split: sum.splits redis_err.splits)

lemma reads_GetTxSentToRelay:
  "reads repr_time (view s) (RedisKeyTxSentToRelay h) (GetTxSentToRelay R s h)"
  using Get_Inr [of s "RedisKeyTxSentToRelay h"] Get_Nil [of s "RedisKeyTxSentToRelay h"]
  by (auto simp: GetTxSentToRelay_def reads_def repr_time_def split: sum.splits redis_err.splits)

lemma reads_GetTxHashForSenderAndNonce:
  "reads repr_id (view s) (RedisKeyTxHashForSenderAndNonce f n) (GetTxHashForSenderAndNonce R s f n)"
  using Get_Inr [of s "RedisKeyTxHashForSenderAndNonce f n"]
    Get_Nil [of s "RedisKeyTxHashForSenderAndNonce f n"]
  by (auto simp: GetTxHashForSenderAndNonce_def reads_def repr_id_def
      split: sum.splits redis_err.splits)

lemma reads_GetSenderOfTxHash:
  "reads repr_lower (view s) (RedisKeySenderOfTxHash h) (GetSenderOfTxHash R s h)"
  using Get_Inr [of s "RedisKeySenderOfTxHash h"] Get_Nil [of s "RedisKeySenderOfTxHash h"]
  by (auto simp: GetSenderOfTxHash_def reads_def repr_lower_def
      split: sum.splits redis_err.splits)

lemma reads_GetBlockedTxHash:
  "reads repr_id (view s) (RedisKeyBlockedTxHash h) (GetBlockedTxHash R s h)"
  using Get_Inr [of s "RedisKeyBlockedTxHash h"] Get_Nil [of s "RedisKeyBlockedTxHash h"]
  by (auto simp: GetBlockedTxHash_def reads_def repr_id_def split: sum.splits redis_err.splits)

lemma reads_GetNonceOfTxHash:
  "reads repr_uint (view s) (RedisKeyNonceOfTxHash h) (GetNonceOfTxHash R s h)"
  using Get_Inr [of s "RedisKeyNonceOfTxHash h"] Get_Nil [of s "RedisKeyNonceOfTxHash h"]
  by (auto simp: GetNonceOfTxHash_def reads_def repr_uint_def Let_def
      split: sum.splits redis_err.splits)

end

text \<open>
  The entry of a transaction sent to the relay holds a Unix time in seconds; the writer is
  given the clock in nanoseconds.
\<close>

sublocale redis_service \<subseteq> tx_sent: redis_cell view elapse RedisKeyTxSentToRelay
    "\<lambda>now. Itoa (now div time_Second)" repr_time "\<lambda>now. now div time_Second * time_Second"
    "\<lambda>now. int64_range (now div time_Second)" RedisExpiryTxSentToRelay
    "\<lambda>s h now. SetTxSentToRelay R now s h" "GetTxSentToRelay R"
proof unfold_locales
  show "applied (eff_set (RedisKeyTxSentToRelay k) (Itoa (v div time_Second)) RedisExpiryTxSentToRelay)
      view s (SetTxSentToRelay R v s k)" for k v s
    using Set_applied [of _ "ArgInt (v div time_Second)"] by (simp add: SetTxSentToRelay_def)
qed (auto simp: reads_GetTxSentToRelay view_elapse RedisExpiryTxSentToRelay_def repr_time_enc)

sublocale redis_service \<subseteq> tx_hash_of_sender: redis_cell view elapse
    "\<lambda>(f, n). RedisKeyTxHashForSenderAndNonce f n" ToLower repr_id ToLower "\<lambda>_. True"
    RedisExpiryTxHashForSenderAndNonce
    "\<lambda>s (f, n) h. SetTxHashForSenderAndNonce R s f n h"
    "\<lambda>s (f, n). GetTxHashForSenderAndNonce R s f n"
proof unfold_locales
  show "applied (eff_set (case k of (f, n) \<Rightarrow> RedisKeyTxHashForSenderAndNonce f n) (ToLower v)
      RedisExpiryTxHashForSenderAndNonce) view s
      ((\<lambda>(f, n) h. SetTxHashForSenderAndNonce R s f n h) k v)" for k v s
    using Set_applied [of _ "ArgStr (ToLower v)"]
    by (cases k) (simp add: SetTxHashForSenderAndNonce_def)
qed (auto simp: reads_GetTxHashForSenderAndNonce view_elapse RedisExpiryTxHashForSenderAndNonce_def
      repr_id_def)

sublocale redis_service \<subseteq> nonce_fix: redis_cell view elapse RedisKeyNonceFixForAccount
    FormatUint repr_uint "\<lambda>n. n" "\<lambda>_. True" RedisExpiryNonceFixForAccount
    "SetNonceFixForAccount R" "GetNonceFixForAccount R"
proof unfold_locales
  show "applied (eff_set (RedisKeyNonceFixForAccount k) (FormatUint v) RedisExpiryNonceFixForAccount)
      view s (SetNonceFixForAccount R s k v)" for k v s
    using Set_applied [of _ "ArgUint v"] by (simp add: SetNonceFixForAccount_def)
qed (auto simp: GetNonceFixForAccount_def reads_get_uint_cell view_elapse
      RedisExpiryNonceFixForAccount_def repr_uint_enc)

sublocale redis_service \<subseteq> blocked_tx: redis_cell view elapse RedisKeyBlockedTxHash
    "\<lambda>v. v" repr_id "\<lambda>v. v" "\<lambda>_. True" RedisExpiryBlockedTxHash
    "SetBlockedTxHash R" "GetBlockedTxHash R"
proof unfold_locales
  show "applied (eff_set (RedisKeyBlockedTxHash k) v RedisExpiryBlockedTxHash)
      view s (SetBlockedTxHash R s k v)" for k v s
    using Set_applied [of _ "ArgStr v"] by (simp add: SetBlockedTxHash_def)
qed (auto simp: reads_GetBlockedTxHash view_elapse RedisExpiryBlockedTxHash_def repr_id_def)

section \<open>Keys of different entries are different\<close>

text \<open>The eight kinds of entries and their keys, and what identifies an entry.\<close>

datatype redis_key =
    KTxSent string | KTxHash string u64 | KNonceFix string | KSenderOf string
  | KNonceOf string | KMaxNonce string | KBundle string | KBlocked string

fun key_text :: "redis_key \<Rightarrow> string" where
  "key_text (KTxSent h) = RedisKeyTxSentToRelay h"
| "key_text (KTxHash f n) = RedisKeyTxHashForSenderAndNonce f n"
| "key_text (KNonceFix f) = RedisKeyNonceFixForAccount f"
| "key_text (KSenderOf h) = RedisKeySenderOfTxHash h"
| "key_text (KNonceOf h) = RedisKeyNonceOfTxHash h"
| "key_text (KMaxNonce f) = RedisKeySenderMaxNonce f"
| "key_text (KBundle b) = RedisKeyWhitehatBundleTransactions b"
| "key_text (KBlocked h) = RedisKeyBlockedTxHash h"

fun key_fold :: "redis_key \<Rightarrow> redis_key" where
  "key_fold (KTxSent h) = KTxSent (ToLower h)"
| "key_fold (KTxHash f n) = KTxHash (ToLower f) n"
| "key_fold (KNonceFix f) = KNonceFix (ToLower f)"
| "key_fold (KSenderOf h) = KSenderOf (ToLower h)"
| "key_fold (KNonceOf h) = KNonceOf (ToLower h)"
| "key_fold (KMaxNonce f) = KMaxNonce (ToLower f)"
| "key_fold (KBundle b) = KBundle (ToLower b)"
| "key_fold (KBlocked h) = KBlocked (ToLower h)"

lemma FormatUint_no_underscore: "CHR ''_'' \<notin> set (FormatUint n)"
  using fmt_base_no_sign(3) [of 10] by (simp add: FormatUint_def)

lemma sender_nonce_key_inject:
  "RedisKeyTxHashForSenderAndNonce f n = RedisKeyTxHashForSenderAndNonce f' n' \<longleftrightarrow>
     ToLower f = ToLower f' \<and> n = n'"
  using last_sep_unique [of "ToLower f" "CHR ''_''" "FormatUint n" "ToLower f'" "FormatUint n'"]
    FormatUint_no_underscore uint_codec.enc_inject [of n n']
  by (auto simp: RedisKeyTxHashForSenderAndNonce_def)

lemma key_text_eq_iff: "key_text a = key_text b \<longleftrightarrow> key_fold a = key_fold b"
  by (cases a; cases b) (auto simp: sender_nonce_key_inject, auto simp: redis_key_defs prefix_defs)

text \<open>
  C29: two entries have the same Redis key only if they are the same entry: of the same kind,
  for the same transaction hash, account, bundle, or account and nonce, up to letter case.
  Two kinds never collide, and neither do account and nonce pairs, whose key glues the two
  together.
\<close>

theorem redis_keys_distinct: "key_text a = key_text b \<longleftrightarrow> key_fold a = key_fold b"
  by (rule key_text_eq_iff)

section \<open>An in-memory server\<close>

text \<open>
  A server that keeps the live keys in memory and is reachable or not: the instance of the
  contract used to evaluate the program on concrete inputs, as the in-memory server of the
  option \<open>-redis dev\<close> is.
\<close>

type_synonym mem_state = "redis_db \<times> bool"

definition mem_reply :: "redis_db \<Rightarrow> mem_state \<Rightarrow> string option \<times> mem_state" where
  "mem_reply m' s = (if snd s then (None, (m', True)) else (Some ''connection refused'', s))"

definition mem_Get :: "mem_state \<Rightarrow> string \<Rightarrow> redis_err + string" where
  "mem_Get s k =
     (if \<not> snd s then Inl (RedisErr ''connection refused'')
      else case fst s k of
        None \<Rightarrow> Inl RedisNil
      | Some (RStr v, _) \<Rightarrow> Inr v
      | Some (RList _, _) \<Rightarrow> Inl (RedisErr ''WRONGTYPE''))"

definition mem_LPush :: "mem_state \<Rightarrow> string \<Rightarrow> string \<Rightarrow> string option \<times> mem_state" where
  "mem_LPush s k v =
     (case fst s k of
        None \<Rightarrow> mem_reply ((fst s)(k \<mapsto> (RList [v], None))) s
      | Some (RList l, t) \<Rightarrow> mem_reply ((fst s)(k \<mapsto> (RList (v # l), t))) s
      | Some (RStr _, _) \<Rightarrow> (Some ''WRONGTYPE'', s))"

definition mem_LTrim :: "mem_state \<Rightarrow> string \<Rightarrow> int \<Rightarrow> int \<Rightarrow> string option \<times> mem_state" where
  "mem_LTrim s k start stop =
     (case fst s k of
        None \<Rightarrow> mem_reply (fst s) s
      | Some (RList l, t) \<Rightarrow>
          (let l' = take (nat (stop - start + 1)) (drop (nat start) l)
           in mem_reply (if l' = [] then (fst s)(k := None) else (fst s)(k \<mapsto> (RList l', t))) s)
      | Some (RStr _, _) \<Rightarrow> (Some ''WRONGTYPE'', s))"

definition mem_LRange :: "mem_state \<Rightarrow> string \<Rightarrow> int \<Rightarrow> int \<Rightarrow> string + string list" where
  "mem_LRange s k start stop =
     (if \<not> snd s then Inl ''connection refused''
      else case fst s k of
        None \<Rightarrow> Inr []
      | Some (RList l, _) \<Rightarrow> Inr l
      | Some (RStr _, _) \<Rightarrow> Inl ''WRONGTYPE'')"

definition mem_redis :: "mem_state redis_client" where
  "mem_redis = \<lparr>
     redis_Get = mem_Get,
     redis_Set = (\<lambda>s k a expiry. mem_reply ((fst s)(k \<mapsto>
        (RStr (arg_text a), if 0 < expiry then Some expiry else None))) s),
     redis_Del = (\<lambda>s k. mem_reply ((fst s)(k := None)) s),
     redis_LPush = mem_LPush,
     redis_Expire = (\<lambda>s k expiry. mem_reply
        (case fst s k of None \<Rightarrow> fst s | Some (x, _) \<Rightarrow> (fst s)(k \<mapsto> (x, Some expiry))) s),
     redis_LTrim = mem_LTrim,
     redis_LRange = mem_LRange \<rparr>"

definition mem_elapse :: "int \<Rightarrow> mem_state \<Rightarrow> mem_state" where
  "mem_elapse d s = (db_elapse d (fst s), snd s)"

lemmas mem_simps =
  mem_redis_def mem_reply_def mem_Get_def mem_LPush_def mem_LTrim_def mem_LRange_def

interpretation mem: redis_service mem_redis fst mem_elapse
proof unfold_locales
  show "applied (eff_set k (arg_text a) expiry) fst s (redis_Set mem_redis s k a expiry)"
    for k a expiry s
    by (auto simp: applied_def eff_set_def set_ttl_def mem_simps)
  show "applied (eff_ltrim k start stop) fst s (redis_LTrim mem_redis s k start stop)"
    for k start stop s
    by (auto simp: applied_def eff_ltrim_def mem_simps Let_def split: option.splits redis_val.splits)
qed (auto simp: applied_def eff_del_def eff_lpush_def eff_expire_def mem_elapse_def mem_simps
      split: option.splits redis_val.splits if_splits)

interpretation mem: redis_working mem_redis fst mem_elapse snd
  by unfold_locales (auto simp: mem_elapse_def mem_simps Let_def
      split: option.splits redis_val.splits if_splits)

definition mem_empty :: mem_state where
  "mem_empty = (Map.empty, True)"

end
