(* ===== verification/Redis_Props.thy ===== *)
theory Redis_Props
  imports Redis_Contract
begin

text \<open>
  What the accessors of the Redis state guarantee, over any server that meets the contract:
  how long a transaction counts as sent to the relay, that the highest pending nonce of an
  account only grows, how its expiry is computed, and what a white-hat bundle holds.
\<close>

section \<open>The mark of a transaction sent to the relay\<close>

context redis_service
begin

lemma GetTxSentToRelay_after_Set:
  assumes "int64_range (now div time_Second)"
    and "SetTxSentToRelay R now s txHash = (None, s')"
    and "ToLower txHash' = ToLower txHash"
    and "GetTxSentToRelay R (elapse d s') txHash' = (t, found, None)"
  shows "(found \<longleftrightarrow> d < 10 * time_Minute) \<and>
    (d < 10 * time_Minute \<longrightarrow> t = now div time_Second * time_Second)"
  using tx_sent.get_put_elapse [OF assms(1,2) _ assms(4)] assms(3)
  by (simp add: RedisKeyTxSentToRelay_def RedisExpiryTxSentToRelay_def)

end

text \<open>
  After \<open>SetTxSentToRelay\<close> succeeded at time \<open>now\<close>, a lookup of the same hash in any
  letter case, \<open>d\<close> nanoseconds later and not failing, finds the mark exactly while less than
  ten minutes have passed, and then returns the time of sending, in whole seconds.
\<close>

theorem sent_to_relay_retention:
  assumes "redis_service R view elapse"
    and "int64_range (now div time_Second)"
    and "SetTxSentToRelay R now s txHash = (None, s')"
    and "ToLower txHash' = ToLower txHash"
    and "GetTxSentToRelay R (elapse d s') txHash' = (t, found, None)"
  shows "(found \<longleftrightarrow> d < 10 * time_Minute) \<and>
    (d < 10 * time_Minute \<longrightarrow> t = now div time_Second * time_Second)"
  using assms by (rule redis_service.GetTxSentToRelay_after_Set)

definition sent_example :: mem_state where
  "sent_example = snd (SetTxSentToRelay mem_redis 1700000000000000000 mem_empty ''0xAB'')"

theorem sent_to_relay_retention_witness:
  "GetTxSentToRelay mem_redis (mem_elapse (5 * time_Minute) sent_example) ''0xab'' =
     (1700000000000000000, True, None)
   \<and> 5 * time_Minute < 10 * time_Minute"
proof -
  have at: "Atoi (Itoa 1700000000) = Inr 1700000000"
    by (rule Atoi_Itoa) (simp add: int64_range_def)
  have set: "SetTxSentToRelay mem_redis 1700000000000000000 mem_empty ''0xAB'' = (None, sent_example)"
    by (simp add: sent_example_def SetTxSentToRelay_def mem_simps mem_empty_def)
  have g: "GetTxSentToRelay mem_redis (mem_elapse (5 * time_Minute) sent_example) ''0xab''
      = (1700000000000000000, True, None)"
    by (simp add: sent_example_def SetTxSentToRelay_def GetTxSentToRelay_def mem_simps mem_empty_def
        mem_elapse_def db_elapse_def expiry_defs RedisKeyTxSentToRelay_def ToLower_def at)
  have "(True \<longleftrightarrow> 5 * time_Minute < 10 * time_Minute) \<and> (5 * time_Minute < 10 * time_Minute \<longrightarrow>
      1700000000000000000 = 1700000000000000000 div time_Second * time_Second)"
    by (rule sent_to_relay_retention [OF mem.redis_service_axioms _ set _ g])
      (simp_all add: expiry_defs int64_range_def ToLower_def)
  with g show ?thesis by (simp add: expiry_defs)
qed

section \<open>The highest pending nonce of an account\<close>

context redis_service
begin

lemma reads_GetSenderMaxNonce:
  "reads repr_uint (view s) (RedisKeySenderMaxNonce f) (GetSenderMaxNonce R s f)"
  by (simp add: GetSenderMaxNonce_def reads_get_uint_cell)

lemma GetSenderMaxNonce_fold:
  "ToLower f = ToLower f' \<Longrightarrow> GetSenderMaxNonce R s f = GetSenderMaxNonce R s f'"
  by (simp add: GetSenderMaxNonce_def RedisKeySenderMaxNonce_def)

lemma view_Set_ok:
  assumes "redis_Set R s k a expiry = (None, s')"
  shows "\<exists>t. view s' = (view s)(k \<mapsto> (RStr (arg_text a), t))"
  using Set_applied [of k a expiry s] assms by (auto simp: applied_def eff_set_def)

lemma SetSenderMaxNonce_max:
  assumes get: "GetSenderMaxNonce R s f = (p, found, None)"
    and set: "SetSenderMaxNonce R s f n blockRange = (None, s')"
    and get': "GetSenderMaxNonce R s' f = (q, found', None)"
  shows "found' \<and> q = (if found then max p n else n)"
proof (cases "found \<and> p \<ge> n")
  case True
  with get set have "s' = s" by (simp add: SetSenderMaxNonce_def)
  with get get' True show ?thesis by (auto simp: max_def)
next
  case False
  with get set obtain e where
    "redis_Set R s (RedisKeySenderMaxNonce f) (ArgUint n) (max_nonce_expiry blockRange) = (e, s')"
    "e = None"
    by (auto simp: SetSenderMaxNonce_def split: prod.splits if_splits)
  then obtain t where "view s' = (view s)(RedisKeySenderMaxNonce f \<mapsto> (RStr (FormatUint n), t))"
    using view_Set_ok by (metis arg_text.simps(2))
  with get' reads_GetSenderMaxNonce [of s' f] False show ?thesis
    by (cases found') (auto simp: reads_def max_def dest: repr_uint_enc)
qed

end


definition nonce_example :: mem_state where
  "nonce_example = snd (SetSenderMaxNonce mem_redis mem_empty ''0xAB'' 7 10)"


text \<open>
  C31: the time to live of the pending nonce of a request with a block range is twelve seconds
  per block up to 768614336 blocks. Past that the \<open>int64\<close> product wraps around: the next block
  range gives a negative duration, and \<open>2^53\<close> gives zero, which makes the key permanent.
\<close>

theorem block_range_expiry_wraps:
  "(\<forall>blockRange. 0 < blockRange \<and> blockRange \<le> 768614336 \<longrightarrow>
      max_nonce_expiry blockRange = 12 * blockRange * time_Second)
   \<and> max_nonce_expiry 768614337 < 0
   \<and> max_nonce_expiry (2 ^ 53) = 0"
proof (intro conjI allI impI)
  fix br :: int
  assume br: "0 < br \<and> br \<le> 768614336"
  have "(12 :: u64) * of_int br * of_int time_Second = word_of_int (12 * br * time_Second)"
    by simp
  moreover have "signed_take_bit 63 (12 * br * time_Second) = 12 * br * time_Second"
    using br by (intro signed_take_bit_int_eq_self) (auto simp: time_Second_def)
  ultimately show "max_nonce_expiry br = 12 * br * time_Second"
    using br by (simp only: max_nonce_expiry_def block_range_expiry_def sint_sbintrunc') simp
next
  show "max_nonce_expiry 768614337 < 0"
    by (simp add: max_nonce_expiry_def block_range_expiry_def time_Second_def)
next
  show "max_nonce_expiry (2 ^ 53) = 0"
    by (simp add: max_nonce_expiry_def block_range_expiry_def time_Second_def)
qed

theorem block_range_expiry_wraps_witness:
  "max_nonce_expiry 25 = 300 * time_Second"
  using block_range_expiry_wraps by (auto dest: spec [where x = 25])

section \<open>White-hat bundles\<close>

context redis_service
begin

lemma LPush_view:
  assumes "redis_LPush R s k tx = (None, s')" "redis_LRange R s k 0 (-1) = Inr txs"
  shows "\<exists>t. view s' = (view s)(k \<mapsto> (RList (tx # txs), t))"
  using LPush_applied [of k tx s] LRange_Inr [OF assms(2)] assms(1)
  by (auto simp: applied_def eff_lpush_def)

lemma Expire_view:
  assumes "redis_Expire R s k RedisExpiryWhitehatBundleTransactions = (None, s')"
    and "view s k = Some (x, t)"
  shows "view s' = (view s)(k \<mapsto> (x, Some RedisExpiryWhitehatBundleTransactions))"
  using Expire_applied [of k RedisExpiryWhitehatBundleTransactions s] assms
  by (auto simp: applied_def eff_expire_def expiry_defs)

lemma LTrim_view:
  assumes "redis_LTrim R s k 0 15 = (None, s')" "view s k = Some (RList (tx # txs), t)"
  shows "view s' = (view s)(k \<mapsto> (RList (take 16 (tx # txs)), t))"
  using LTrim_applied [of k 0 15 s] assms
  by (auto simp: applied_def eff_ltrim_def Let_def)

lemma AddTx_view:
  assumes get: "GetWhitehatBundleTx R s b = Inr txs"
    and add: "AddTxToWhitehatBundle R s b tx = (None, s')"
    and new: "tx \<notin> set txs"
  shows "view s' = (view s)(RedisKeyWhitehatBundleTransactions b \<mapsto>
    (RList (take 16 (tx # txs)), Some RedisExpiryWhitehatBundleTransactions))"
proof -
  let ?k = "RedisKeyWhitehatBundleTransactions b"
  from add get new obtain s1 s2 where
    push: "redis_LPush R s ?k tx = (None, s1)" and
    expire: "redis_Expire R s1 ?k RedisExpiryWhitehatBundleTransactions = (None, s2)" and
    trim: "redis_LTrim R s2 ?k 0 15 = (None, s')"
    by (auto simp: AddTxToWhitehatBundle_def Let_def split: prod.splits option.splits)
  from push get obtain t where v1: "view s1 = (view s)(?k \<mapsto> (RList (tx # txs), t))"
    using LPush_view [OF push] by (auto simp: GetWhitehatBundleTx_def)
  then have v2: "view s2 = (view s1)(?k \<mapsto> (RList (tx # txs), Some RedisExpiryWhitehatBundleTransactions))"
    using Expire_view [OF expire] by simp
  with LTrim_view [OF trim] have "view s' = (view s2)(?k \<mapsto>
      (RList (take 16 (tx # txs)), Some RedisExpiryWhitehatBundleTransactions))"
    by simp
  with v1 v2 show ?thesis by simp
qed

lemma AddTx_list:
  assumes "GetWhitehatBundleTx R s b = Inr txs"
    and "AddTxToWhitehatBundle R s b tx = (None, s')"
    and "ToLower b' = ToLower b" "GetWhitehatBundleTx R s' b' = Inr txs'"
  shows "txs' = (if tx \<in> set txs then txs else take 16 (tx # txs))"
proof (cases "tx \<in> set txs")
  case True
  with assms(1,2) have "s' = s" by (simp add: AddTxToWhitehatBundle_def Let_def)
  with assms(1,3,4) True show ?thesis
    by (simp add: GetWhitehatBundleTx_def RedisKeyWhitehatBundleTransactions_def)
next
  case False
  have "view s' (RedisKeyWhitehatBundleTransactions b') =
      Some (RList (take 16 (tx # txs)), Some RedisExpiryWhitehatBundleTransactions)"
    using AddTx_view [OF assms(1,2) False] assms(3)
    by (simp add: RedisKeyWhitehatBundleTransactions_def)
  with LRange_Inr [of s' "RedisKeyWhitehatBundleTransactions b'" txs'] assms(4) False
  show ?thesis by (simp add: GetWhitehatBundleTx_def)
qed

end

text \<open>
  Adding a transaction to a white-hat bundle, with no command failing, leaves the bundle as
  it was if the transaction is in it, and else puts it in front and keeps the newest sixteen
  (the source says fifteen). So a bundle never holds a transaction twice nor more than sixteen.
\<close>

theorem bundle_add:
  assumes "redis_service R view elapse"
    and "GetWhitehatBundleTx R s b = Inr txs"
    and "AddTxToWhitehatBundle R s b tx = (None, s')"
    and "ToLower b' = ToLower b"
    and "GetWhitehatBundleTx R s' b' = Inr txs'"
  shows "txs' = (if tx \<in> set txs then txs else take 16 (tx # txs)) \<and> tx \<in> set txs' \<and>
    (distinct txs \<longrightarrow> distinct txs') \<and> (length txs \<le> 16 \<longrightarrow> length txs' \<le> 16)"
proof -
  have eq: "txs' = (if tx \<in> set txs then txs else take 16 (tx # txs))"
    using assms by (rule redis_service.AddTx_list)
  moreover have "tx \<notin> set (take 15 txs)" if "tx \<notin> set txs"
    using that by (meson in_set_takeD)
  ultimately show ?thesis by auto
qed

definition bundle_example :: mem_state where
  "bundle_example = (Map.empty(RedisKeyWhitehatBundleTransactions ''7'' \<mapsto>
     (RList [''0x0f'', ''0x0e'', ''0x0d'', ''0x0c'', ''0x0b'', ''0x0a'', ''0x09'', ''0x08'',
        ''0x07'', ''0x06'', ''0x05'', ''0x04'', ''0x03'', ''0x02'', ''0x01''], None)), True)"

theorem bundle_add_witness:
  "GetWhitehatBundleTx mem_redis
     (snd (AddTxToWhitehatBundle mem_redis bundle_example ''7'' ''0x10'')) ''7'' =
   Inr [''0x10'', ''0x0f'', ''0x0e'', ''0x0d'', ''0x0c'', ''0x0b'', ''0x0a'', ''0x09'', ''0x08'',
        ''0x07'', ''0x06'', ''0x05'', ''0x04'', ''0x03'', ''0x02'', ''0x01'']"
proof -
  let ?txs = "[''0x0f'', ''0x0e'', ''0x0d'', ''0x0c'', ''0x0b'', ''0x0a'', ''0x09'', ''0x08'',
        ''0x07'', ''0x06'', ''0x05'', ''0x04'', ''0x03'', ''0x02'', ''0x01'']"
  let ?s' = "snd (AddTxToWhitehatBundle mem_redis bundle_example ''7'' ''0x10'')"
  note ev = AddTxToWhitehatBundle_def GetWhitehatBundleTx_def mem_simps bundle_example_def
  have g: "GetWhitehatBundleTx mem_redis bundle_example ''7'' = Inr ?txs"
    by (simp add: ev)
  have a: "AddTxToWhitehatBundle mem_redis bundle_example ''7'' ''0x10'' = (None, ?s')"
    by (simp add: ev)
  have g': "GetWhitehatBundleTx mem_redis ?s' ''7'' = Inr (''0x10'' # ?txs)"
    by (simp add: ev)
  have "''0x10'' # ?txs = (if ''0x10'' \<in> set ?txs then ?txs else take 16 (''0x10'' # ?txs)) \<and>
      ''0x10'' \<in> set (''0x10'' # ?txs) \<and> (distinct ?txs \<longrightarrow> distinct (''0x10'' # ?txs)) \<and>
      (length ?txs \<le> 16 \<longrightarrow> length (''0x10'' # ?txs) \<le> 16)"
    by (rule bundle_add [OF mem.redis_service_axioms g a refl g'])
  with g' show ?thesis by simp
qed

end
