(* ===== verification/Rpc_Types.thy ===== *)
theory Rpc_Types
  imports Strconv
begin

text \<open>
  The data of the program: the JSON-RPC messages and relay requests of
  \<open>src/types/types.go\<close> and the analytics entries of \<open>src/database/types.go\<close>.

  JSON texts are represented by their trees: a number keeps its literal, an object its members
  in order (a Go map takes the last of two members with one name). The reader and writer of
  the text itself, in \<open>encoding/json\<close>, are parameters of the model (see \<open>Ext_Lib\<close>); how
  a tree is stored into a Go struct by its field tags, and written back, is defined here. A nil
  and an empty slice are told apart only where the program can write the difference out. A
  number in a field of type \<open>interface{}\<close> (an id, a parameter) is held by Go as a \<open>float64\<close>; the
  model keeps the literal, which is the same number for integers up to \<open>2^53\<close>.
\<close>

section \<open>JSON trees and Go structs\<close>

datatype json =
    JNull | JBool bool | JNum string | JStr string
  | JArr "json list" | JObj "(string \<times> json) list"

text \<open>Indexing a \<open>map[string]interface{}\<close>: a missing key reads as \<open>nil\<close>.\<close>

definition obj_get :: "(string \<times> json) list \<Rightarrow> string \<Rightarrow> json" where
  "obj_get kvs k = (case map_of (rev kvs) k of None \<Rightarrow> JNull | Some v \<Rightarrow> v)"

definition obj_set :: "(string \<times> json) list \<Rightarrow> string \<Rightarrow> json \<Rightarrow> (string \<times> json) list" where
  "obj_set kvs k v = filter (\<lambda>kv. fst kv \<noteq> k) kvs @ [(k, v)]"

lemma obj_get_set: "obj_get (obj_set kvs k v) k' = (if k' = k then v else obj_get kvs k')"
proof -
  have "map_of (filter (\<lambda>kv. fst kv \<noteq> k) l) k' = map_of l k'" if "k' \<noteq> k" for l :: "(string \<times> json) list"
    using that by (induction l) auto
  then show ?thesis
    by (simp add: obj_get_def obj_set_def rev_filter)
qed

text \<open>
  \<open>json.Unmarshal\<close> into a struct: each member is stored into the field whose tag equals its
  name up to case, unknown members are skipped, \<open>null\<close> leaves scalar fields alone, and a member
  of the wrong type is an error (\<open>None\<close>).
\<close>

type_synonym 's setter = "json \<Rightarrow> 's \<Rightarrow> 's option"

fun unmarshal_fields :: "(string \<times> 's setter) list \<Rightarrow> (string \<times> json) list \<Rightarrow> 's \<Rightarrow> 's option" where
  "unmarshal_fields fs [] x = Some x"
| "unmarshal_fields fs ((k, v) # kvs) x =
     (case find (\<lambda>(n, _). EqualFold n k) fs of
        None \<Rightarrow> unmarshal_fields fs kvs x
      | Some (_, f) \<Rightarrow>
          (case f v x of None \<Rightarrow> None | Some x' \<Rightarrow> unmarshal_fields fs kvs x'))"

definition unmarshal_struct :: "(string \<times> 's setter) list \<Rightarrow> json \<Rightarrow> 's \<Rightarrow> 's option" where
  "unmarshal_struct fs j x =
     (case j of JNull \<Rightarrow> Some x | JObj kvs \<Rightarrow> unmarshal_fields fs kvs x | _ \<Rightarrow> None)"

definition set_string :: "(string \<Rightarrow> 's \<Rightarrow> 's) \<Rightarrow> 's setter" where
  "set_string upd v x = (case v of JNull \<Rightarrow> Some x | JStr t \<Rightarrow> Some (upd t x) | _ \<Rightarrow> None)"

definition set_int :: "(int \<Rightarrow> 's \<Rightarrow> 's) \<Rightarrow> 's setter" where
  "set_int upd v x =
     (case v of
        JNull \<Rightarrow> Some x
      | JNum t \<Rightarrow> (case Atoi t of Inl _ \<Rightarrow> None | Inr i \<Rightarrow> Some (upd i x))
      | _ \<Rightarrow> None)"

section \<open>types.go: JSON-RPC messages\<close>

definition JsonRpcParseError :: int where "JsonRpcParseError = -32700"
definition JsonRpcInvalidRequest :: int where "JsonRpcInvalidRequest = -32600"
definition JsonRpcMethodNotFound :: int where "JsonRpcMethodNotFound = -32601"
definition JsonRpcInvalidParams :: int where "JsonRpcInvalidParams = -32602"
definition JsonRpcInternalError :: int where "JsonRpcInternalError = -32603"

lemmas rpc_code_defs = JsonRpcParseError_def JsonRpcInvalidRequest_def JsonRpcMethodNotFound_def
  JsonRpcInvalidParams_def JsonRpcInternalError_def

text \<open>\<open>req_Params\<close> is \<open>None\<close> for the nil slice, which is written as \<open>null\<close>.\<close>

record JsonRpcRequest =
  req_Id :: json
  req_Method :: string
  req_Params :: "json list option"
  req_Version :: string

definition NewJsonRpcRequest :: "json \<Rightarrow> string \<Rightarrow> json list \<Rightarrow> JsonRpcRequest" where
  "NewJsonRpcRequest i meth ps =
     \<lparr>req_Id = i, req_Method = meth, req_Params = Some ps, req_Version = ''2.0''\<rparr>"

definition NewJsonRpcRequest1 :: "json \<Rightarrow> string \<Rightarrow> json \<Rightarrow> JsonRpcRequest" where
  "NewJsonRpcRequest1 i meth p = NewJsonRpcRequest i meth [p]"

record JsonRpcError =
  err_Code :: int
  err_Message :: string

definition JsonRpcError_Error :: "JsonRpcError \<Rightarrow> string" where
  "JsonRpcError_Error e =
     ''Error '' @ Itoa (err_Code e) @ '' ('' @ err_Message e @ '')''"

text \<open>\<open>res_Result\<close> is a \<open>json.RawMessage\<close>: \<open>None\<close> when nil, and \<open>Some JNull\<close> for \<open>null\<close>.\<close>

record JsonRpcResponse =
  res_Id :: json
  res_Result :: "json option"
  res_Error :: "JsonRpcError option"
  res_Version :: string

definition zero_JsonRpcResponse :: JsonRpcResponse where
  "zero_JsonRpcResponse = \<lparr>res_Id = JNull, res_Result = None, res_Error = None, res_Version = ''''\<rparr>"

definition NewJsonRpcResponse :: "json \<Rightarrow> json option \<Rightarrow> JsonRpcResponse" where
  "NewJsonRpcResponse i result =
     \<lparr>res_Id = i, res_Result = result, res_Error = None, res_Version = ''2.0''\<rparr>"

definition request_fields :: "(string \<times> JsonRpcRequest setter) list" where
  "request_fields =
     [(''id'', \<lambda>v r. Some (r\<lparr>req_Id := v\<rparr>)),
      (''method'', set_string (\<lambda>t r. r\<lparr>req_Method := t\<rparr>)),
      (''params'', \<lambda>v r. case v of
          JNull \<Rightarrow> Some (r\<lparr>req_Params := None\<rparr>)
        | JArr l \<Rightarrow> Some (r\<lparr>req_Params := Some l\<rparr>)
        | _ \<Rightarrow> None),
      (''jsonrpc'', set_string (\<lambda>t r. r\<lparr>req_Version := t\<rparr>))]"

definition error_fields :: "(string \<times> JsonRpcError setter) list" where
  "error_fields =
     [(''code'', set_int (\<lambda>i e. e\<lparr>err_Code := i\<rparr>)),
      (''message'', set_string (\<lambda>t e. e\<lparr>err_Message := t\<rparr>))]"

definition set_error :: "JsonRpcResponse setter" where
  "set_error v r =
     (if v = JNull then Some (r\<lparr>res_Error := None\<rparr>)
      else map_option (\<lambda>e. r\<lparr>res_Error := Some e\<rparr>)
        (unmarshal_struct error_fields v
          (case res_Error r of None \<Rightarrow> \<lparr>err_Code = 0, err_Message = ''''\<rparr> | Some e \<Rightarrow> e)))"

definition response_fields :: "(string \<times> JsonRpcResponse setter) list" where
  "response_fields =
     [(''id'', \<lambda>v r. Some (r\<lparr>res_Id := v\<rparr>)),
      (''result'', \<lambda>v r. Some (r\<lparr>res_Result := Some v\<rparr>)),
      (''error'', set_error),
      (''jsonrpc'', set_string (\<lambda>t r. r\<lparr>res_Version := t\<rparr>))]"

text \<open>
  Into a pointer variable that is nil: \<open>null\<close> leaves it nil (\<open>Some None\<close>), any other text
  allocates the struct.
\<close>

definition unmarshal_request_ptr :: "json \<Rightarrow> JsonRpcRequest option option" where
  "unmarshal_request_ptr j =
     (if j = JNull then Some None
      else map_option Some (unmarshal_struct request_fields j
        \<lparr>req_Id = JNull, req_Method = '''', req_Params = None, req_Version = ''''\<rparr>))"

definition unmarshal_response :: "json \<Rightarrow> JsonRpcResponse option" where
  "unmarshal_response j = unmarshal_struct response_fields j zero_JsonRpcResponse"

definition marshal_request :: "JsonRpcRequest \<Rightarrow> json" where
  "marshal_request r = JObj
     ([(''id'', req_Id r), (''method'', JStr (req_Method r)),
       (''params'', case req_Params r of None \<Rightarrow> JNull | Some l \<Rightarrow> JArr l)]
      @ (if req_Version r = '''' then [] else [(''jsonrpc'', JStr (req_Version r))]))"

definition marshal_error :: "JsonRpcError \<Rightarrow> json" where
  "marshal_error e =
     JObj [(''code'', JNum (Itoa (err_Code e))), (''message'', JStr (err_Message e))]"

definition marshal_response :: "JsonRpcResponse \<Rightarrow> json" where
  "marshal_response r = JObj
     ([(''id'', res_Id r)]
      @ (case res_Result r of None \<Rightarrow> [] | Some v \<Rightarrow> [(''result'', v)])
      @ (case res_Error r of None \<Rightarrow> [] | Some e \<Rightarrow> [(''error'', marshal_error e)])
      @ [(''jsonrpc'', JStr (res_Version r))])"

section \<open>types.go: the private transaction API and the relay\<close>

definition TxStatusUnknown :: string where "TxStatusUnknown = ''UNKNOWN''"
definition TxStatusPending :: string where "TxStatusPending = ''PENDING''"
definition TxStatusIncluded :: string where "TxStatusIncluded = ''INCLUDED''"
definition TxStatusFailed :: string where "TxStatusFailed = ''FAILED''"

lemmas status_defs = TxStatusUnknown_def TxStatusPending_def TxStatusIncluded_def TxStatusFailed_def

record PrivateTxApiResponse =
  api_Status :: string
  api_Hash :: string
  api_MaxBlockNumber :: int

definition api_fields :: "(string \<times> PrivateTxApiResponse setter) list" where
  "api_fields =
     [(''status'', set_string (\<lambda>t a. a\<lparr>api_Status := t\<rparr>)),
      (''hash'', set_string (\<lambda>t a. a\<lparr>api_Hash := t\<rparr>)),
      (''maxBlockNumber'', set_int (\<lambda>i a. a\<lparr>api_MaxBlockNumber := i\<rparr>))]"

definition unmarshal_api :: "json \<Rightarrow> PrivateTxApiResponse option" where
  "unmarshal_api j = unmarshal_struct api_fields j
     \<lparr>api_Status = '''', api_Hash = '''', api_MaxBlockNumber = 0\<rparr>"

text \<open>\<open>RelayErrorResponse\<close> has one field, the text of the member \<open>error\<close>.\<close>

definition unmarshal_relay_error :: "json \<Rightarrow> string option" where
  "unmarshal_relay_error j = unmarshal_struct [(''error'', set_string (\<lambda>t _. t))] j ''''"

record TxPrivacyPreferences =
  Hints :: "string list"
  Builders :: "string list"
  UseMempool :: bool
  ProtectRefund :: bool
  AllowTEE :: bool
  MempoolRPC :: string
  AuctionTimeout :: u64

record RefundConfig =
  refund_Address :: address
  refund_Percent :: int

record TxValidityPreferences =
  Refund :: "RefundConfig list"

record PrivateTxPreferences =
  Privacy :: TxPrivacyPreferences
  Validity :: TxValidityPreferences
  Fast :: bool
  CanRevert :: bool

definition zero_PrivateTxPreferences :: PrivateTxPreferences where
  "zero_PrivateTxPreferences = \<lparr>
     Privacy = \<lparr>Hints = [], Builders = [], UseMempool = False, ProtectRefund = False,
       AllowTEE = False, MempoolRPC = '''', AuctionTimeout = 0\<rparr>,
     Validity = \<lparr>Refund = []\<rparr>, Fast = False, CanRevert = False\<rparr>"

record SendPrivateTxRequestWithPreferences =
  priv_Tx :: string
  priv_Preferences :: PrivateTxPreferences
  priv_MaxBlockNumber :: u64

record BundleResponse =
  bundle_Id :: string
  bundle_RawTxs :: "string list"

record HealthResponse =
  health_Now :: int
  health_StartTime :: int
  health_Version :: string

section \<open>database/types.go: analytics entries\<close>

record RequestEntry =
  re_Id :: string
  re_ReceivedAt :: int
  re_InsertedAt :: int
  re_RequestDurationMs :: int
  re_IsBatchRequest :: bool
  re_NumRequestInBatch :: int
  re_HttpMethod :: string
  re_HttpUrl :: string
  re_HttpQueryParam :: string
  re_HttpResponseStatus :: int
  re_Origin :: string
  re_Host :: string
  re_Error :: string

record EthSendRawTxEntry =
  tx_Id :: string
  tx_RequestId :: string
  tx_InsertedAt :: int
  IsOnOafcList :: bool
  IsWhiteHatBundleCollection :: bool
  WhiteHatBundleId :: string
  IsCancelTx :: bool
  NeedsFrontRunningProtection :: bool
  WasSentToRelay :: bool
  WasSentToMempool :: bool
  IsBlocked :: bool
  entry_Error :: string
  entry_ErrorCode :: int
  TxRaw :: string
  entry_TxHash :: string
  TxFrom :: string
  TxTo :: string
  TxNonce :: int
  TxData :: string
  TxSmartContractMethod :: string
  entry_Fast :: bool

section \<open>What is written is read back\<close>

lemma EqualFold_refl [simp]: "EqualFold s s"
  by (simp add: EqualFold_def)

lemma unmarshal_error_marshal:
  "int64_range (err_Code e) \<Longrightarrow> unmarshal_struct error_fields (marshal_error e) e0 = Some e"
  by (simp add: unmarshal_struct_def marshal_error_def error_fields_def EqualFold_def ToLower_def
      set_int_def set_string_def Atoi_Itoa)

lemma unmarshal_request_marshal: "unmarshal_request_ptr (marshal_request r) = Some (Some r)"
  by (cases r)
    (simp add: unmarshal_request_ptr_def unmarshal_struct_def marshal_request_def
      request_fields_def EqualFold_def ToLower_def set_string_def split: option.splits)

lemma marshal_error_not_null [simp]: "marshal_error e \<noteq> JNull"
  by (simp add: marshal_error_def)

lemma set_error_marshal:
  "int64_range (err_Code e) \<Longrightarrow> set_error (marshal_error e) r = Some (r\<lparr>res_Error := Some e\<rparr>)"
  by (simp add: set_error_def unmarshal_error_marshal)

lemma unmarshal_response_marshal:
  assumes "\<forall>e. res_Error r = Some e \<longrightarrow> int64_range (err_Code e)"
  shows "unmarshal_response (marshal_response r) = Some r"
  using assms
  by (cases r)
    (simp add: unmarshal_response_def unmarshal_struct_def marshal_response_def
      response_fields_def EqualFold_def ToLower_def set_string_def set_error_marshal
      zero_JsonRpcResponse_def split: option.splits)



end
