(* ===== verification/Ext_Lib.thy ===== *)
theory Ext_Lib
  imports Rpc_Types
begin

text \<open>
  What the program uses of libraries that are not under \<open>src/\<close>, as one record \<open>lib\<close> of
  functions that every definition using them takes as an argument: go-ethereum (addresses,
  transactions, signatures, \<open>hexutil\<close>), \<open>xxhash\<close>, and the reader and writer of two text
  formats of the standard library, JSON texts and URLs. Nothing is assumed of them here; a
  theorem that needs a documented law of one names it as a hypothesis.
\<close>

text \<open>
  A parsed URL: the parts the program reads or assigns, and the rest as the library keeps it.
\<close>

record goURL =
  url_Scheme :: string
  url_Path :: string
  url_RawQuery :: string
  url_Rest :: string

text \<open>
  A transaction, by what go-ethereum's accessors return for it: \<open>Hash().Hex()\<close>, \<open>To()\<close> (nil for
  a contract creation), \<open>Nonce()\<close>, \<open>Data()\<close>, \<open>Type()\<close>, \<open>Size()\<close>, \<open>GasTipCap()\<close>.
\<close>

record eth_tx =
  eth_HashHex :: string
  eth_To :: "address option"
  eth_Nonce :: u64
  eth_Data :: "byte list"
  eth_Type :: nat
  eth_Size :: u64
  eth_GasTipCap :: int

record lib =
  json_Encode :: "json \<Rightarrow> string"
  json_Decode :: "string \<Rightarrow> json option"
  url_Parse :: "string \<Rightarrow> string + goURL"
  url_String :: "goURL \<Rightarrow> string"
  geth_UnmarshalBinary :: "byte list \<Rightarrow> eth_tx option"
  geth_Sender :: "eth_tx \<Rightarrow> string + address"
  geth_Hex :: "address \<Rightarrow> string"
  geth_HexToAddress :: "string \<Rightarrow> address"
  geth_IsHexAddress :: "string \<Rightarrow> bool"
  hexutil_Encode :: "byte list \<Rightarrow> string"
  hexutil_Decode :: "string \<Rightarrow> string + byte list"
  hexutil_DecodeUint64 :: "string \<Rightarrow> string + u64"
  hexutil_Uint64_UnmarshalJSON :: "json \<Rightarrow> string + u64"
  crypto_Keccak256Hex :: "string \<Rightarrow> string"
  crypto_TextHash :: "string \<Rightarrow> byte list"
  crypto_Ecrecover :: "byte list \<Rightarrow> byte list \<Rightarrow> string + byte list"
  crypto_UnmarshalPubkeyAddress :: "byte list \<Rightarrow> string + address"
  crypto_VerifySignature :: "byte list \<Rightarrow> byte list \<Rightarrow> byte list \<Rightarrow> bool"
  xxhash_Sum64String :: "string \<Rightarrow> u64"

end
