(* ===== verification/Fingerprint.thy ===== *)
theory Fingerprint
  imports Ext_Lib Redis_State
begin

unbundle bit_operations_syntax

text \<open>
  The fingerprint of a client (\<open>src/server/fingerprint.go\<close>): a hash of its address salted with
  the hour, sent to the node as a made-up IPv6 address. Modelled with it is what the file uses
  of package \<open>net\<close>: \<open>ParseIP\<close>, membership in a CIDR block and the text of an IPv6 address.
\<close>

section \<open>IPv4 and IPv6 texts (package net)\<close>

text \<open>
  \<open>parseIPv4Fields\<close>: four decimal fields of at most 255, with no leading zero. The arguments
  are the fields read so far, the value of the current field and its number of digits.
\<close>

fun parse_v4 :: "nat list \<Rightarrow> nat \<Rightarrow> nat \<Rightarrow> string \<Rightarrow> nat list option" where
  "parse_v4 fs val digLen [] =
     (if length fs = 3 \<and> 0 < digLen then Some (fs @ [val]) else None)"
| "parse_v4 fs val digLen (c # s) =
     (if c = CHR ''.'' then
        (if digLen = 0 \<or> s = [] \<or> length fs = 3 then None
         else parse_v4 (fs @ [val]) 0 0 s)
      else (case digit_val c of
              None \<Rightarrow> None
            | Some d \<Rightarrow>
                if 10 \<le> d \<or> digLen = 1 \<and> val = 0 \<or> 255 < val * 10 + d then None
                else parse_v4 fs (val * 10 + d) (Suc digLen) s))"

definition bytes_of_nats :: "nat list \<Rightarrow> byte list" where
  "bytes_of_nats ns = map of_nat ns"

definition parseIPv4 :: "string \<Rightarrow> byte list option" where
  "parseIPv4 s = map_option bytes_of_nats (parse_v4 [] 0 0 s)"

text \<open>The hexadecimal digits at the start of a text, at most five are looked at.\<close>

fun hex_prefix :: "string \<Rightarrow> nat list" where
  "hex_prefix [] = []"
| "hex_prefix (c # s) = (case digit_val c of None \<Rightarrow> [] | Some d \<Rightarrow> d # hex_prefix s)"

lemma hex_prefix_length: "length (hex_prefix s) \<le> length s"
  by (induction s) (auto split: option.splits)

text \<open>
  The loop of \<open>parseIPv6\<close>: the bytes read so far and the position of the ellipsis \<open>::\<close> among
  them. The result is the bytes, the position, and the text left over.
\<close>

function parse_v6 :: "byte list \<Rightarrow> nat option \<Rightarrow> string \<Rightarrow> (byte list \<times> nat option \<times> string) option" where
  "parse_v6 ip ell s =
     (if 16 \<le> length ip then Some (ip, ell, s)
      else
        let ds = hex_prefix s; off = length ds; rest = drop off s;
            acc = foldl (\<lambda>a d. a * 16 + d) 0 ds
        in
        if off = 0 \<or> 4 < off then None
        else if rest \<noteq> [] \<and> hd rest = CHR ''.'' then
          (if ell = None \<and> length ip \<noteq> 12 \<or> 12 < length ip then None
           else (case parseIPv4 s of
                   None \<Rightarrow> None
                 | Some v4 \<Rightarrow> Some (ip @ v4, ell, [])))
        else
          let ip' = ip @ [of_nat (acc div 256), of_nat acc] in
          if rest = [] then Some (ip', ell, [])
          else if hd rest \<noteq> CHR '':'' \<or> length rest = 1 then None
          else
            let s' = tl rest in
            if hd s' = CHR '':'' then
              (if ell \<noteq> None then None
               else if length s' = 1 then Some (ip', Some (length ip'), [])
               else parse_v6 ip' (Some (length ip')) (tl s'))
            else parse_v6 ip' ell s')"
  by pat_completeness auto
termination
  by (relation "measure (\<lambda>(ip, _, _). 16 - length ip)") (auto simp: Let_def)

declare parse_v6.simps [simp del]

text \<open>The ellipsis stands for the zeros that are missing, at least one field of them.\<close>

definition expand_v6 :: "byte list \<Rightarrow> nat option \<Rightarrow> byte list option" where
  "expand_v6 ip ell =
     (if length ip < 16 then
        (case ell of
           None \<Rightarrow> None
         | Some p \<Rightarrow> Some (take p ip @ replicate (16 - length ip) 0 @ drop p ip))
      else if ell = None then Some ip else None)"

definition parseIPv6 :: "string \<Rightarrow> byte list option" where
  "parseIPv6 s =
     (let dbl = (2 \<le> length s \<and> take 2 s = ''::'') in
      if dbl \<and> length s = 2 then Some (replicate 16 0)
      else case parse_v6 [] (if dbl then Some 0 else None) (if dbl then drop 2 s else s) of
             None \<Rightarrow> None
           | Some (ip, ell, left) \<Rightarrow> if left \<noteq> [] then None else expand_v6 ip ell)"

text \<open>
  \<open>net.ParseIP\<close>: the first of the characters \<open>.\<close>, \<open>:\<close> and \<open>%\<close> decides the format; an address
  with a zone is refused. An IPv4 address is returned in its 16-byte form.
\<close>

definition v4_in_v6 :: "byte list \<Rightarrow> byte list" where
  "v4_in_v6 v4 = replicate 10 0 @ [255, 255] @ v4"

definition ParseIP :: "string \<Rightarrow> byte list option" where
  "ParseIP s =
     (case find (\<lambda>c. c \<in> {CHR ''.'', CHR '':'', CHR ''%''}) s of
        None \<Rightarrow> None
      | Some c \<Rightarrow>
          if c = CHR ''.'' then map_option v4_in_v6 (parseIPv4 s)
          else if c = CHR '':'' then (if CHR ''%'' \<in> set s then None else parseIPv6 s)
          else None)"

text \<open>\<open>(IP).To4\<close>, and \<open>(*IPNet).Contains\<close> for a block given by its bytes and prefix length.\<close>

definition To4 :: "byte list \<Rightarrow> byte list option" where
  "To4 ip =
     (if length ip = 4 then Some ip
      else if length ip = 16 \<and> take 12 ip = replicate 10 0 @ [255, 255] then Some (drop 12 ip)
      else None)"

definition bits_of_bytes :: "byte list \<Rightarrow> bool list" where
  "bits_of_bytes bs = concat (map (\<lambda>b. map (bit b) [7, 6, 5, 4, 3, 2, 1, 0]) bs)"

definition Contains :: "byte list \<times> nat \<Rightarrow> byte list \<Rightarrow> bool" where
  "Contains net ip =
     (let nn = fst net; x = (case To4 ip of Some v4 \<Rightarrow> v4 | None \<Rightarrow> ip)
      in length nn = length x \<and>
         take (snd net) (bits_of_bytes nn) = take (snd net) (bits_of_bytes x))"

text \<open>
  The text of an IPv6 address (\<open>(IP).String\<close>): eight fields in hexadecimal, the first longest
  run of at least two zero fields as \<open>::\<close>.
\<close>

definition v6_fields :: "byte list \<Rightarrow> nat list" where
  "v6_fields ip = map (\<lambda>i. unat (ip ! (2 * i)) * 256 + unat (ip ! (2 * i + 1))) [0..<8]"

definition zero_run :: "nat list \<Rightarrow> nat \<Rightarrow> nat" where
  "zero_run fs i = length (takeWhile (\<lambda>f. f = 0) (drop i fs))"

definition best_run :: "nat list \<Rightarrow> (nat \<times> nat) option" where
  "best_run fs = foldl (\<lambda>b i. let l = zero_run fs i in
       if 2 \<le> l \<and> (case b of None \<Rightarrow> True | Some (_, l') \<Rightarrow> l' < l) then Some (i, l) else b)
     None [0..<8]"

definition join_fields :: "nat list \<Rightarrow> string" where
  "join_fields fs =
     (case map (fmt_base 16) fs of [] \<Rightarrow> [] | t # ts \<Rightarrow> t @ concat (map (\<lambda>x. CHR '':'' # x) ts))"

definition v6_String :: "byte list \<Rightarrow> string" where
  "v6_String ip =
     (let fs = v6_fields ip in
      case best_run fs of
        None \<Rightarrow> join_fields fs
      | Some (i, l) \<Rightarrow> join_fields (take i fs) @ ''::'' @ join_fields (drop (i + l) fs))"

section \<open>fingerprint.go\<close>

text \<open>\<open>rfc1918cidrBlockStrings\<close>, as \<open>net.ParseCIDR\<close> reads them: the masked address and its length.\<close>

definition privateIpCidrBlocks :: "(byte list \<times> nat) list" where
  "privateIpCidrBlocks =
     [([127, 0, 0, 0], 8), ([10, 0, 0, 0], 8), ([172, 16, 0, 0], 12), ([192, 168, 0, 0], 16),
      ([169, 254, 0, 0], 16), (replicate 15 0 @ [1], 128), ([252] @ replicate 15 0, 7),
      ([254, 128] @ replicate 14 0, 10)]"

definition isPrivateIP :: "string \<Rightarrow> bool" where
  "isPrivateIP ip =
     (case ParseIP ip of
        None \<Rightarrow> False
      | Some ipAddr \<Rightarrow> list_ex (\<lambda>cidr. Contains cidr ipAddr) privateIpCidrBlocks)"

definition getXForwardedForIP :: "string \<Rightarrow> string + string" where
  "getXForwardedForIP xff =
     (if xff = '''' then Inl ''no X-Forwarded-For header''
      else case find (\<lambda>ip. \<not> isPrivateIP (TrimSpace ip)) (Split xff (CHR '','')) of
             Some ip \<Rightarrow> Inr ip
           | None \<Rightarrow> Inl ''no non-private IP in X-Forwarded-For header'')"

text \<open>
  \<open>at.Truncate(time.Hour).Unix()\<close>: \<open>Truncate\<close> rounds down from Go's zero time, the start of
  year 1, which is a whole number of hours before the Unix epoch.
\<close>

definition hour_of :: "int \<Rightarrow> int" where
  "hour_of at = at div 3600000000000 * 3600"

definition fingerprintPreimage :: "string \<Rightarrow> u64 \<Rightarrow> string" where
  "fingerprintPreimage xff salt = ''XFF:'' @ xff @ ''|SALT:'' @ FormatUint salt"

text \<open>The time \<open>now\<close> is the one \<open>time.Now\<close> returns; it is used when \<open>at\<close> is the zero time.\<close>

definition FingerprintFromRequest ::
    "lib \<Rightarrow> string \<Rightarrow> int \<Rightarrow> int \<Rightarrow> u64 \<Rightarrow> string + u64" where
  "FingerprintFromRequest L xffHeader at now seed =
     (case getXForwardedForIP xffHeader of
        Inl err \<Rightarrow> Inl err
      | Inr xff \<Rightarrow>
          (let at = (if at = time_zero then now else at);
               salt = (of_int (hour_of at) :: u64) XOR seed
           in Inr (xxhash_Sum64String L (fingerprintPreimage xff salt))))"

definition ToIPv6 :: "u64 \<Rightarrow> byte list" where
  "ToIPv6 f =
     [0x20, 0x01, 0x0d, 0xb8, 0, 0, 0, 0,
      ucast (drop_bit 56 f), ucast (drop_bit 48 f), ucast (drop_bit 40 f), ucast (drop_bit 32 f),
      ucast (drop_bit 24 f), ucast (drop_bit 16 f), ucast (drop_bit 8 f), ucast f]"

section \<open>Properties\<close>

lemma ToIPv6_bit:
  assumes "q < 8" and "m < 8"
  shows "bit (ToIPv6 f ! (15 - q)) m = bit f (8 * q + m)"
proof -
  have "q = 0 \<or> q = 1 \<or> q = 2 \<or> q = 3 \<or> q = 4 \<or> q = 5 \<or> q = 6 \<or> q = 7"
    using assms by arith
  then show ?thesis
    using assms(2) by (elim disjE; simp add: ToIPv6_def bit_simps)
qed

lemma ToIPv6_inject: "ToIPv6 f = ToIPv6 g \<longleftrightarrow> f = g"
proof
  assume eq: "ToIPv6 f = ToIPv6 g"
  show "f = g"
  proof (rule bit_word_eqI)
    fix n :: nat
    assume "n < LENGTH(64)"
    then show "bit f n = bit g n"
      using ToIPv6_bit [of "n div 8" "n mod 8" f] ToIPv6_bit [of "n div 8" "n mod 8" g] eq
      by simp
  qed
qed simp

lemma digit_char_no_bar: "n < 16 \<Longrightarrow> digit_char n \<noteq> CHR ''|''"
proof -
  have "list_all (\<lambda>n. digit_char n \<noteq> CHR ''|'') [0..<16]" by code_simp
  then show "n < 16 \<Longrightarrow> digit_char n \<noteq> CHR ''|''" by (simp add: list_all_iff)
qed

lemma FormatUint_no_bar: "CHR ''|'' \<notin> set (FormatUint n)"
  using fmt_base_chars [of 10 _ "unat n"] digit_char_no_bar unfolding FormatUint_def by fastforce

lemma fingerprintPreimage_inject:
  "fingerprintPreimage x a = fingerprintPreimage y b \<longleftrightarrow> x = y \<and> a = b"
proof
  assume "fingerprintPreimage x a = fingerprintPreimage y b"
  then have "x @ CHR ''|'' # (''SALT:'' @ FormatUint a) = y @ CHR ''|'' # (''SALT:'' @ FormatUint b)"
    by (simp add: fingerprintPreimage_def)
  then have "x = y \<and> ''SALT:'' @ FormatUint a = ''SALT:'' @ FormatUint b"
    by (rule last_sep_unique) (simp_all add: FormatUint_no_bar)
  then show "x = y \<and> a = b"
    using ParseUint_FormatUint by (metis same_append_eq sum.inject(2))
qed simp

lemma find_leftmost:
  "find P xs = Some x \<longleftrightarrow> (\<exists>ls rs. xs = ls @ x # rs \<and> P x \<and> (\<forall>y\<in>set ls. \<not> P y))"
proof (induction xs)
  case (Cons a xs)
  show ?case
  proof (cases "P a")
    case True
    then show ?thesis by (auto simp: Cons_eq_append_conv)
  next
    case False
    then show ?thesis
      using Cons.IH by (auto simp: Cons_eq_append_conv) (metis append_Cons set_ConsD)
  qed
qed simp

lemma getXForwardedForIP_leftmost:
  assumes "getXForwardedForIP xff = Inr ip"
  shows "\<exists>ls rs. Split xff (CHR '','') = ls @ ip # rs \<and> \<not> isPrivateIP (TrimSpace ip) \<and>
    (\<forall>p\<in>set ls. isPrivateIP (TrimSpace p))"
  using assms by (auto simp: getXForwardedForIP_def find_leftmost split: if_splits option.splits)

lemma salt_inject:
  assumes "\<bar>at - at'\<bar> < 2 ^ 63"
  shows "(of_int (hour_of at) :: u64) XOR seed = of_int (hour_of at') XOR seed \<longleftrightarrow>
    hour_of at = hour_of at'"
proof
  assume "(of_int (hour_of at) :: u64) XOR seed = of_int (hour_of at') XOR seed"
  then have "((of_int (hour_of at) :: u64) XOR seed) XOR seed = (of_int (hour_of at') XOR seed) XOR seed"
    by (rule arg_cong)
  then have "(of_int (hour_of at) :: u64) = of_int (hour_of at')"
    by (simp only: xor.assoc xor_self_eq xor.right_neutral)
  then have "(2 :: int) ^ 64 dvd hour_of at - hour_of at'"
    by (simp add: word_of_int_eq_iff take_bit_eq_mod mod_eq_dvd_iff)
  moreover have "\<bar>hour_of at - hour_of at'\<bar> < 2 ^ 64"
  proof -
    define q q' where "q = at div 3600000000000" and "q' = at' div 3600000000000"
    have "3600000000000 * q \<le> at" "at < 3600000000000 * q + 3600000000000"
      "3600000000000 * q' \<le> at'" "at' < 3600000000000 * q' + 3600000000000"
      unfolding q_def q'_def by presburger+
    moreover have "- 9223372036854775808 < at - at'" "at - at' < 9223372036854775808"
      using assms by (simp_all add: abs_less_iff)
    ultimately have "\<bar>q * 3600 - q' * 3600\<bar> < 18446744073709551616" by linarith
    then show ?thesis by (simp add: hour_of_def q_def q'_def)
  qed
  ultimately show "hour_of at = hour_of at'"
    using dvd_imp_le_int [of "hour_of at - hour_of at'" "2 ^ 64"] by linarith
qed simp



end
