(* ===== verification/Url_Params.thy ===== *)
theory Url_Params
  imports Ext_Lib "HOL-Library.AList" "HOL-Library.Multiset"
begin

text \<open>
  The parameters a user puts into the endpoint's URL (\<open>src/server/url_params.go\<close>).

  A Go map is an association list with distinct keys. Ranging over a map visits its entries in
  an unspecified order, so \<open>normalizeQueryParams\<close> and all that calls it take the order as the
  argument \<open>iter\<close>, any rearrangement of the entries. \<open>ExtractParametersFromUrl\<close> is the
  composition of one stage per parameter, in the order of the source; the partly filled
  parameters the source returns beside an error are read by no caller, so an error is returned
  alone.
\<close>

section \<open>Query strings (net/url)\<close>

fun QueryUnescape :: "string \<Rightarrow> string option" where
  "QueryUnescape [] = Some []"
| "QueryUnescape (c # s) =
     (if c = CHR ''%'' then
        (case s of
           a # b # t \<Rightarrow>
             (case (digit_val a, digit_val b) of
                (Some x, Some y) \<Rightarrow> map_option ((#) (char_of (16 * x + y))) (QueryUnescape t)
              | _ \<Rightarrow> None)
         | _ \<Rightarrow> None)
      else map_option ((#) (if c = CHR ''+'' then CHR '' '' else c)) (QueryUnescape s))"

text \<open>\<open>strings.Cut\<close> at a separator of one byte; the flag says whether it was found.\<close>

fun Cut :: "string \<Rightarrow> char \<Rightarrow> string \<times> string \<times> bool" where
  "Cut [] sep = ([], [], False)"
| "Cut (c # s) sep =
     (if c = sep then ([], s, True)
      else (case Cut s sep of (before, after, found) \<Rightarrow> (c # before, after, found)))"

type_synonym url_values = "(string \<times> string list) list"

definition add_value :: "url_values \<Rightarrow> string \<Rightarrow> string \<Rightarrow> url_values" where
  "add_value m k v = AList.update k ((case map_of m k of None \<Rightarrow> [] | Some l \<Rightarrow> l) @ [v]) m"

text \<open>\<open>url.Values\<close> of a raw query; a pair that does not unescape or holds a \<open>;\<close> is dropped.\<close>

definition query_pair :: "string \<Rightarrow> (string \<times> string) option" where
  "query_pair p =
     (if p = [] \<or> CHR '';'' \<in> set p then None
      else case Cut p (CHR ''='') of (k, v, _) \<Rightarrow>
        (case (QueryUnescape k, QueryUnescape v) of
           (Some k', Some v') \<Rightarrow> Some (k', v')
         | _ \<Rightarrow> None))"

definition URL_Query :: "goURL \<Rightarrow> url_values" where
  "URL_Query u =
     foldl (\<lambda>m p. case query_pair p of None \<Rightarrow> m | Some (k, v) \<Rightarrow> add_value m k v)
       [] (Split (url_RawQuery u) (CHR ''&''))"

definition Values_Get :: "url_values \<Rightarrow> string \<Rightarrow> string" where
  "Values_Get m k = (case map_of m k of Some (v # _) \<Rightarrow> v | _ \<Rightarrow> '''')"

section \<open>Parameters and errors\<close>

datatype url_error =
    ErrIncorrectMempoolURL | ErrIncorrectURLParam | ErrEmptyHintQuery | ErrEmptyTargetBuilderQuery
  | ErrIncorrectAuctionHints | ErrIncorrectOriginId | ErrIncorrectRefundQuery
  | ErrIncorrectRefundAddressQuery | ErrUnsupportedRefundKeyword
  | ErrIncorrectRefundPercentageQuery | ErrIncorrectRefundTotalPercentageQuery

fun url_error_text :: "url_error \<Rightarrow> string" where
  "url_error_text ErrIncorrectMempoolURL = ''Incorrect mempool URL.''"
| "url_error_text ErrIncorrectURLParam = ''Incorrect URL parameter''"
| "url_error_text ErrEmptyHintQuery = ''Hint query must be non-empty if set.''"
| "url_error_text ErrEmptyTargetBuilderQuery = ''Target builder query must be non-empty if set.''"
| "url_error_text ErrIncorrectAuctionHints =
     ''Incorrect auction hint, must be one of: contract_address, function_selector, logs, calldata, default_logs.''"
| "url_error_text ErrIncorrectOriginId = ''Incorrect origin id, must be less then 255 char.''"
| "url_error_text ErrIncorrectRefundQuery =
     ''Incorrect refund query, must be 0xaddress:percentage.''"
| "url_error_text ErrIncorrectRefundAddressQuery = ''Incorrect refund address.''"
| "url_error_text ErrUnsupportedRefundKeyword =
     ''Unsupported refund keyword (only 'origin' is supported).''"
| "url_error_text ErrIncorrectRefundPercentageQuery = ''Incorrect refund percentage.''"
| "url_error_text ErrIncorrectRefundTotalPercentageQuery =
     ''Incorrect refund total percentage, must be bellow 100%.''"

definition DefaultAuctionHint :: "string list" where
  "DefaultAuctionHint = [''hash'', ''special_logs'']"

definition OriginKeyword :: string where
  "OriginKeyword = ''origin''"

definition allowedHints :: "string list" where
  "allowedHints = [''hash'', ''contract_address'', ''function_selector'', ''logs'', ''calldata'',
     ''default_logs'', ''tx_hash'', ''full'']"

record URLParameters =
  pref :: PrivateTxPreferences
  prefWasSet :: bool
  originId :: string
  fast :: bool
  blockRange :: int
  auctionTimeout :: u64
  rawNormalizedQueryParams :: url_values

definition zero_URLParameters :: URLParameters where
  "zero_URLParameters = \<lparr>pref = zero_PrivateTxPreferences, prefWasSet = False, originId = '''',
     fast = False, blockRange = 0, auctionTimeout = 0, rawNormalizedQueryParams = []\<rparr>"

text \<open>Assignments to nested fields of \<open>params.pref\<close>.\<close>

definition set_privacy :: "(TxPrivacyPreferences \<Rightarrow> TxPrivacyPreferences) \<Rightarrow> URLParameters \<Rightarrow> URLParameters" where
  "set_privacy f p = p\<lparr>pref := (pref p)\<lparr>Privacy := f (Privacy (pref p))\<rparr>\<rparr>"

definition set_refund :: "RefundConfig list \<Rightarrow> URLParameters \<Rightarrow> URLParameters" where
  "set_refund l p = p\<lparr>pref := (pref p)\<lparr>Validity := \<lparr>Refund = l\<rparr>\<rparr>\<rparr>"

lemmas set_pref_defs = set_privacy_def set_refund_def

section \<open>Extraction\<close>

definition normalizeQueryParams :: "(url_values \<Rightarrow> url_values) \<Rightarrow> goURL \<Rightarrow> url_values" where
  "normalizeQueryParams iter u =
     foldl (\<lambda>m (key, vals). AList.update (ToLower key) vals m) [] (iter (URL_Query u))"

type_synonym stage = "URLParameters \<Rightarrow> url_error + URLParameters"

definition then_stage :: "url_error + URLParameters \<Rightarrow> stage \<Rightarrow> url_error + URLParameters" where
  "then_stage m f = (case m of Inl e \<Rightarrow> Inl e | Inr p \<Rightarrow> f p)"

definition extract_hint :: "url_values \<Rightarrow> stage" where
  "extract_hint q p =
     (case map_of q ''hint'' of
        None \<Rightarrow> Inr (set_privacy (\<lambda>v. v\<lparr>Hints := DefaultAuctionHint\<rparr>) p)
      | Some hintQuery \<Rightarrow>
          if hintQuery = [] then Inl ErrEmptyHintQuery
          else if \<not> set hintQuery \<subseteq> set allowedHints then Inl ErrIncorrectAuctionHints
          else Inr (set_privacy (\<lambda>v. v\<lparr>Hints := hintQuery\<rparr>) (p\<lparr>prefWasSet := True\<rparr>)))"

definition extract_originId :: "url_values \<Rightarrow> stage" where
  "extract_originId q p =
     (case map_of q ''originid'' of
        None \<Rightarrow> Inr p
      | Some [] \<Rightarrow> Inl ErrIncorrectOriginId
      | Some (i # _) \<Rightarrow> Inr (p\<lparr>originId := i\<rparr>))"

definition extract_builders :: "string list \<Rightarrow> url_values \<Rightarrow> stage" where
  "extract_builders allBuilders q p =
     (case map_of q ''builder'' of
        Some [] \<Rightarrow> Inl ErrEmptyTargetBuilderQuery
      | t \<Rightarrow>
          (let p1 = (case t of None \<Rightarrow> p
                     | Some bs \<Rightarrow> set_privacy (\<lambda>v. v\<lparr>Builders := bs\<rparr>) p)
           in Inr (if fast p1
                   then set_privacy (\<lambda>v. v\<lparr>Builders := allBuilders\<rparr>)
                          (p1\<lparr>pref := (pref p1)\<lparr>Fast := True\<rparr>\<rparr>)
                   else p1)))"

text \<open>One \<open>refund=address:percentage\<close>: an address or the keyword \<open>origin\<close>, and 1 to 99 percent.\<close>

definition parse_refund :: "lib \<Rightarrow> string \<Rightarrow> url_error + RefundConfig" where
  "parse_refund L refundAddress =
     (case Split refundAddress (CHR '':'') of
        [a, pc] \<Rightarrow>
          (let addressPart = ToLower a;
               addr = (if addressPart = OriginKeyword then Inr 0
                       else if geth_IsHexAddress L a then Inr (geth_HexToAddress L a)
                       else if HasPrefix addressPart ''0x'' then Inl ErrIncorrectRefundAddressQuery
                       else Inl ErrUnsupportedRefundKeyword)
           in case addr of
                Inl e \<Rightarrow> Inl e
              | Inr address \<Rightarrow>
                  (case Atoi pc of
                     Inl _ \<Rightarrow> Inl ErrIncorrectRefundPercentageQuery
                   | Inr percent \<Rightarrow>
                       if percent \<le> 0 \<or> percent \<ge> 100 then Inl ErrIncorrectRefundPercentageQuery
                       else Inr \<lparr>refund_Address = address, refund_Percent = percent\<rparr>))
      | _ \<Rightarrow> Inl ErrIncorrectRefundQuery)"

fun parse_refunds :: "lib \<Rightarrow> string list \<Rightarrow> url_error + RefundConfig list" where
  "parse_refunds L [] = Inr []"
| "parse_refunds L (s # ss) =
     (case parse_refund L s of
        Inl e \<Rightarrow> Inl e
      | Inr r \<Rightarrow> (case parse_refunds L ss of Inl e \<Rightarrow> Inl e | Inr rs \<Rightarrow> Inr (r # rs)))"

definition total_refund :: "RefundConfig list \<Rightarrow> int" where
  "total_refund rs = sum_list (map refund_Percent rs)"

definition extract_refund :: "lib \<Rightarrow> url_values \<Rightarrow> stage" where
  "extract_refund L q p =
     (case map_of q ''refund'' of
        None \<Rightarrow> Inr p
      | Some l \<Rightarrow>
          if l = [] then Inl ErrIncorrectRefundQuery
          else (case parse_refunds L l of
                  Inl e \<Rightarrow> Inl e
                | Inr rs \<Rightarrow>
                    if total_refund rs > 100 then Inl ErrIncorrectRefundTotalPercentageQuery
                    else Inr (set_refund rs p)))"

definition first_value :: "url_values \<Rightarrow> string \<Rightarrow> string option" where
  "first_value q k = (case map_of q k of Some (v # _) \<Rightarrow> Some v | _ \<Rightarrow> None)"

definition extract_flags :: "url_values \<Rightarrow> stage" where
  "extract_flags q p =
     (let p1 = (if first_value q ''usemempool'' = Some ''true''
                then set_privacy (\<lambda>v. v\<lparr>UseMempool := True\<rparr>) p else p);
          p2 = (if first_value q ''protectrefund'' = Some ''true''
                then set_privacy (\<lambda>v. v\<lparr>ProtectRefund := True\<rparr>) p1 else p1)
      in Inr (if first_value q ''canrevert'' = Some ''true''
              then p2\<lparr>pref := (pref p2)\<lparr>CanRevert := True\<rparr>\<rparr> else p2))"

definition extract_mempoolRPC :: "lib \<Rightarrow> url_values \<Rightarrow> stage" where
  "extract_mempoolRPC L q p =
     (case first_value q ''mempoolrpc'' of
        None \<Rightarrow> Inr p
      | Some m \<Rightarrow>
          (case QueryUnescape m of
             None \<Rightarrow> Inl ErrIncorrectMempoolURL
           | Some cm \<Rightarrow>
               (case url_Parse L cm of
                  Inl _ \<Rightarrow> Inl ErrIncorrectMempoolURL
                | Inr parsedUrl \<Rightarrow>
                    Inr (set_privacy (\<lambda>v. v\<lparr>MempoolRPC :=
                      url_String L (parsedUrl\<lparr>url_Scheme := ''https''\<rparr>)\<rparr>) p))))"

definition extract_blockRange :: "url_values \<Rightarrow> stage" where
  "extract_blockRange q p =
     (case first_value q ''blockrange'' of
        None \<Rightarrow> Inr p
      | Some b \<Rightarrow>
          (case Atoi b of
             Inl _ \<Rightarrow> Inl ErrIncorrectURLParam
           | Inr brange \<Rightarrow>
               if brange < 0 then Inl ErrIncorrectURLParam else Inr (p\<lparr>blockRange := brange\<rparr>)))"

definition extract_auctionTimeout :: "url_values \<Rightarrow> stage" where
  "extract_auctionTimeout q p =
     (case first_value q ''auctiontimeout'' of
        None \<Rightarrow> Inr p
      | Some a \<Rightarrow>
          (case Atoi a of
             Inl _ \<Rightarrow> Inl ErrIncorrectURLParam
           | Inr timeout \<Rightarrow>
               if timeout < 0 then Inl ErrIncorrectURLParam
               else Inr (p\<lparr>auctionTimeout := of_int timeout\<rparr>)))"

definition extract_allowTEE :: "url_values \<Rightarrow> stage" where
  "extract_allowTEE q p =
     (case first_value q ''allowtee'' of
        None \<Rightarrow> Inr p
      | Some a \<Rightarrow>
          (case ParseBool a of
             None \<Rightarrow> Inl ErrIncorrectURLParam
           | Some b \<Rightarrow> Inr (set_privacy (\<lambda>v. v\<lparr>AllowTEE := b\<rparr>) p)))"

definition initial_params :: "url_values \<Rightarrow> goURL \<Rightarrow> URLParameters" where
  "initial_params q u =
     (if HasPrefix (url_Path u) ''/fast''
      then set_privacy (\<lambda>v. v\<lparr>AllowTEE := True\<rparr>) (zero_URLParameters\<lparr>fast := True\<rparr>)
      else zero_URLParameters)\<lparr>rawNormalizedQueryParams := q\<rparr>"

definition url_stages :: "lib \<Rightarrow> string list \<Rightarrow> url_values \<Rightarrow> stage list" where
  "url_stages L allBuilders q =
     [extract_hint q, extract_originId q, extract_builders allBuilders q, extract_refund L q,
      extract_flags q, extract_mempoolRPC L q, extract_blockRange q,
      extract_auctionTimeout q, extract_allowTEE q]"

definition ExtractParametersFromUrl ::
    "lib \<Rightarrow> (url_values \<Rightarrow> url_values) \<Rightarrow> goURL \<Rightarrow> string list \<Rightarrow> url_error + URLParameters" where
  "ExtractParametersFromUrl L iter reqUrl allBuilders =
     (let q = normalizeQueryParams iter reqUrl
      in foldl then_stage (Inr (initial_params q reqUrl)) (url_stages L allBuilders q))"

definition AuctionPreferenceErrorToJSONRPCResponse ::
    "JsonRpcRequest \<Rightarrow> url_error \<Rightarrow> JsonRpcResponse" where
  "AuctionPreferenceErrorToJSONRPCResponse jsonReq err =
     \<lparr>res_Id = req_Id jsonReq, res_Result = None,
      res_Error = Some \<lparr>err_Code = JsonRpcInvalidRequest,
        err_Message = ''Invalid auction preference in the rpc endpoint url. '' @ url_error_text err\<rparr>,
      res_Version = ''2.0''\<rparr>"

end
