(* ===== verification/Application.thy ===== *)
theory Application
  imports Ext_Lib
begin

text \<open>
  The two services of \<open>src/application\<close> and the fetcher of \<open>src/adapters/webfile\<close>: the cache of
  static RPC answers with a time to live, and the list of block builders that is fetched again
  at intervals. The mutex of the cache makes each operation atomic, so an execution is a
  sequence of operations.
\<close>

section \<open>rpc_cache.go\<close>

text \<open>Time is \<open>time.Now().Unix()\<close>, in seconds.\<close>

record cache_value =
  cv_data :: JsonRpcResponse
  cv_timestamp :: int

record RpcCache =
  cache :: "string \<rightharpoonup> cache_value"
  ttl :: int

definition NewRpcCache :: "int \<Rightarrow> RpcCache" where
  "NewRpcCache t = \<lparr>cache = Map.empty, ttl = t\<rparr>"

definition RpcCache_Get :: "int \<Rightarrow> RpcCache \<Rightarrow> string \<Rightarrow> JsonRpcResponse option \<times> RpcCache" where
  "RpcCache_Get now rc key =
     (case cache rc key of
        None \<Rightarrow> (None, rc)
      | Some v \<Rightarrow>
          if now - cv_timestamp v > ttl rc then (None, rc\<lparr>cache := (cache rc)(key := None)\<rparr>)
          else (Some (cv_data v), rc))"

definition RpcCache_Set :: "int \<Rightarrow> RpcCache \<Rightarrow> string \<Rightarrow> JsonRpcResponse \<Rightarrow> RpcCache" where
  "RpcCache_Set now rc key data =
     rc\<lparr>cache := (cache rc)(key \<mapsto> \<lparr>cv_data = data, cv_timestamp = now\<rparr>)\<rparr>"

text \<open>
  Specification: the cache answers a lookup with the last value stored under the key, unless
  it is older than the time to live. The operations are those of an execution, with their
  times; a lookup may delete an entry, which must not show.
\<close>

datatype cache_op = CGet int string | CSet int string JsonRpcResponse

fun op_time :: "cache_op \<Rightarrow> int" where
  "op_time (CGet t _) = t"
| "op_time (CSet t _ _) = t"

fun cache_step :: "RpcCache \<Rightarrow> cache_op \<Rightarrow> RpcCache" where
  "cache_step rc (CGet t k) = snd (RpcCache_Get t rc k)"
| "cache_step rc (CSet t k v) = RpcCache_Set t rc k v"

fun last_set :: "string \<Rightarrow> cache_op list \<Rightarrow> (JsonRpcResponse \<times> int) option" where
  "last_set k [] = None"
| "last_set k (CGet t k' # ops) = last_set k ops"
| "last_set k (CSet t k' v # ops) =
     (case last_set k ops of Some x \<Rightarrow> Some x | None \<Rightarrow> if k' = k then Some (v, t) else None)"

definition cache_spec :: "int \<Rightarrow> int \<Rightarrow> string \<Rightarrow> cache_op list \<Rightarrow> JsonRpcResponse option" where
  "cache_spec life now k ops =
     (case last_set k ops of
        None \<Rightarrow> None
      | Some (v, t) \<Rightarrow> if now - t > life then None else Some v)"

lemma last_set_snoc:
  "last_set k (ops @ [op]) =
     (case op of CGet _ _ \<Rightarrow> last_set k ops
      | CSet t k' v \<Rightarrow> if k' = k then Some (v, t) else last_set k ops)"
  by (induction k ops rule: last_set.induct) (auto split: cache_op.splits option.splits)

lemma ttl_step [simp]: "ttl (cache_step rc op) = ttl rc"
  by (cases op) (simp_all add: RpcCache_Get_def RpcCache_Set_def split: option.splits)

lemma ttl_run [simp]: "ttl (foldl cache_step rc ops) = ttl rc"
  by (induction ops arbitrary: rc) simp_all

text \<open>
  The simulation: a key is in the cache with the value last stored, or absent although a value
  was stored, and then that value has expired by any later time.
\<close>

fun key_sim :: "int \<Rightarrow> int \<Rightarrow> cache_value option \<Rightarrow> (JsonRpcResponse \<times> int) option \<Rightarrow> bool" where
  "key_sim life now (Some e) l \<longleftrightarrow> l = Some (cv_data e, cv_timestamp e)"
| "key_sim life now None None \<longleftrightarrow> True"
| "key_sim life now None (Some (v, t)) \<longleftrightarrow> now - t > life"

definition cache_sim :: "int \<Rightarrow> cache_op list \<Rightarrow> RpcCache \<Rightarrow> bool" where
  "cache_sim now ops rc \<longleftrightarrow> (\<forall>k. key_sim (ttl rc) now (cache rc k) (last_set k ops))"

lemma key_sim_later: "key_sim life now e l \<Longrightarrow> now \<le> now' \<Longrightarrow> key_sim life now' e l"
  by (induction life now e l rule: key_sim.induct) auto

lemma cache_sim_later: "cache_sim now ops rc \<Longrightarrow> now \<le> now' \<Longrightarrow> cache_sim now' ops rc"
  by (auto simp: cache_sim_def intro: key_sim_later)

lemma cache_sim_step:
  assumes sim: "cache_sim (op_time op) ops rc"
  shows "cache_sim (op_time op) (ops @ [op]) (cache_step rc op)"
proof (cases op)
  case (CGet t k)
  have k: "key_sim (ttl rc) t (cache rc k) (last_set k ops)"
    and other: "\<And>k'. key_sim (ttl rc) t (cache rc k') (last_set k' ops)"
    using sim by (simp_all add: cache_sim_def CGet)
  show ?thesis
  proof (cases "cache rc k")
    case None
    with other show ?thesis by (simp add: cache_sim_def CGet last_set_snoc RpcCache_Get_def)
  next
    case (Some e)
    with k other show ?thesis
      by (simp add: cache_sim_def CGet last_set_snoc RpcCache_Get_def)
  qed
next
  case (CSet t k v)
  with sim show ?thesis by (auto simp: cache_sim_def last_set_snoc RpcCache_Set_def)
qed

lemma cache_sim_run:
  "sorted (map op_time ops @ [now]) \<Longrightarrow> cache_sim now ops (foldl cache_step (NewRpcCache life) ops)"
proof (induction ops arbitrary: now rule: rev_induct)
  case Nil
  then show ?case by (simp add: cache_sim_def NewRpcCache_def)
next
  case (snoc op ops)
  then have le: "op_time op \<le> now" and "sorted (map op_time ops @ [op_time op])"
    by (auto simp: sorted_append)
  then have "cache_sim (op_time op) ops (foldl cache_step (NewRpcCache life) ops)"
    using snoc.IH by blast
  from cache_sim_later [OF cache_sim_step [OF this] le] show ?case by simp
qed

lemma RpcCache_Get_sim:
  assumes "cache_sim now ops rc"
  shows "fst (RpcCache_Get now rc k) = cache_spec (ttl rc) now k ops"
proof -
  have "key_sim (ttl rc) now (cache rc k) (last_set k ops)"
    using assms by (simp add: cache_sim_def)
  then show ?thesis
    by (cases "cache rc k"; cases "last_set k ops") (auto simp: RpcCache_Get_def cache_spec_def)
qed

text \<open>
  C28: over any execution in which the clock does not go back, a lookup in \<open>RpcCache\<close> returns
  the value last stored under the key if it is not older than the time to live, and else
  nothing; the deletions lookups make never show.
\<close>

theorem rpc_cache_refines_spec:
  assumes "sorted (map op_time ops @ [now])"
  shows "fst (RpcCache_Get now (foldl cache_step (NewRpcCache life) ops) key) =
    cache_spec life now key ops"
  using RpcCache_Get_sim [OF cache_sim_run [OF assms]] by (simp add: NewRpcCache_def)

theorem rpc_cache_refines_spec_witness:
  "fst (RpcCache_Get 310 (foldl cache_step (NewRpcCache 300)
     [CSet 0 ''k'' zero_JsonRpcResponse, CGet 301 ''k'',
      CSet 305 ''k'' (NewJsonRpcResponse JNull None)]) ''k'') = Some (NewJsonRpcResponse JNull None)"
  by (subst rpc_cache_refines_spec) (simp_all add: cache_spec_def)

section \<open>webfile/fetcher.go\<close>

text \<open>
  \<open>Fetch\<close>, given what the transport did: an error, or a status code and a body that may fail to
  be read.
\<close>

definition Fetch :: "string + (int \<times> (string + string)) \<Rightarrow> string + string" where
  "Fetch transport =
     (case transport of
        Inl err \<Rightarrow> Inl err
      | Inr (_, Inl err) \<Rightarrow> Inl err
      | Inr (status, Inr bts) \<Rightarrow>
          if status \<ge> 400
          then Inl (''err: request failed status code '' @ Itoa status)
          else Inr bts)"

section \<open>builder_info.go\<close>

record BuilderInfo =
  bi_Name :: string
  bi_RPC :: string
  bi_SupportedApis :: "string list"

definition zero_BuilderInfo :: BuilderInfo where
  "zero_BuilderInfo = \<lparr>bi_Name = '''', bi_RPC = '''', bi_SupportedApis = []\<rparr>"

fun string_elems :: "json list \<Rightarrow> string list option" where
  "string_elems [] = Some []"
| "string_elems (JStr s # l) = map_option ((#) s) (string_elems l)"
| "string_elems (JNull # l) = map_option ((#) '''') (string_elems l)"
| "string_elems (_ # l) = None"

definition builder_fields :: "(string \<times> BuilderInfo setter) list" where
  "builder_fields =
     [(''name'', set_string (\<lambda>t b. b\<lparr>bi_Name := t\<rparr>)),
      (''rpc'', set_string (\<lambda>t b. b\<lparr>bi_RPC := t\<rparr>)),
      (''supported-apis'', \<lambda>v b. case v of
          JNull \<Rightarrow> Some (b\<lparr>bi_SupportedApis := []\<rparr>)
        | JArr l \<Rightarrow> map_option (\<lambda>ss. b\<lparr>bi_SupportedApis := ss\<rparr>) (string_elems l)
        | _ \<Rightarrow> None)]"

definition unmarshal_builders :: "json \<Rightarrow> BuilderInfo list option" where
  "unmarshal_builders j =
     (case j of
        JNull \<Rightarrow> Some []
      | JArr l \<Rightarrow> those (map (\<lambda>v. unmarshal_struct builder_fields v zero_BuilderInfo) l)
      | _ \<Rightarrow> None)"

type_synonym BuilderInfoService = "BuilderInfo list"

text \<open>A failed fetch leaves the list as it is; its error is returned.\<close>

definition fetchBuilderInfo ::
    "lib \<Rightarrow> string + string \<Rightarrow> BuilderInfoService \<Rightarrow> string option \<times> BuilderInfoService" where
  "fetchBuilderInfo L fetched bis =
     (case fetched of
        Inl err \<Rightarrow> (Some err, bis)
      | Inr bts \<Rightarrow>
          (case Option.bind (json_Decode L bts) unmarshal_builders of
             None \<Rightarrow> (Some ''json'', bis)
           | Some builderInfos \<Rightarrow> (None, builderInfos)))"

text \<open>\<open>None\<close> for the fetcher means that no source is configured.\<close>

definition StartBuilderInfoService ::
    "lib \<Rightarrow> (string + string) option \<Rightarrow> string + BuilderInfoService" where
  "StartBuilderInfoService L fetcher =
     (case fetcher of
        None \<Rightarrow> Inr []
      | Some fetched \<Rightarrow>
          (case fetchBuilderInfo L fetched [] of
             (Some err, _) \<Rightarrow> Inl err
           | (None, bis) \<Rightarrow> Inr bis))"

text \<open>The loop over the ticks, given what each tick fetches; errors are logged and dropped.\<close>

fun syncLoop :: "lib \<Rightarrow> (string + string) list \<Rightarrow> BuilderInfoService \<Rightarrow> BuilderInfoService" where
  "syncLoop L [] bis = bis"
| "syncLoop L (fetched # ticks) bis = syncLoop L ticks (snd (fetchBuilderInfo L fetched bis))"

definition Builders :: "BuilderInfoService \<Rightarrow> BuilderInfo list" where
  "Builders bis = bis"

definition BuilderNames :: "BuilderInfoService \<Rightarrow> string list" where
  "BuilderNames bis = map (ToLower \<circ> bi_Name) bis"

lemma syncLoop_append: "syncLoop L (xs @ ys) bis = syncLoop L ys (syncLoop L xs bis)"
  by (induction xs arbitrary: bis) simp_all

lemma syncLoop_failures:
  "list_all (\<lambda>f. \<forall>bis. fst (fetchBuilderInfo L f bis) \<noteq> None) ticks \<Longrightarrow> syncLoop L ticks bis = bis"
proof (induction ticks arbitrary: bis)
  case Nil
  then show ?case by simp
next
  case (Cons f ticks)
  then have "fst (fetchBuilderInfo L f bis) \<noteq> None" by simp
  then have "snd (fetchBuilderInfo L f bis) = bis"
    by (auto simp: fetchBuilderInfo_def split: sum.splits option.splits)
  with Cons show ?case by simp
qed

text \<open>
  C34: the endpoint keeps working with the last good list of builders. After any number of
  ticks, a tick whose answer parses, and then only failing ticks (transport errors, status 400
  and above, texts that are no builder list), the service holds the list of the good tick.
\<close>

theorem builder_list_last_good:
  assumes "list_all (\<lambda>f. \<forall>bis. fst (fetchBuilderInfo L f bis) \<noteq> None) failing"
    and "json_Decode L bts = Some j" "unmarshal_builders j = Some builders"
  shows "syncLoop L (earlier @ Inr bts # failing) bis = builders"
  using assms by (simp add: syncLoop_append syncLoop_failures fetchBuilderInfo_def)

definition builder_lib_text :: string where
  "builder_lib_text = ''[{name: Flashbots}]''"

text \<open>The hypotheses hold of a library that decodes one text to a list with one builder.\<close>

theorem builder_list_last_good_witness:
  "\<forall>L. syncLoop (L\<lparr>json_Decode := (\<lambda>t. if t = builder_lib_text
        then Some (JArr [JObj [(''name'', JStr ''Flashbots'')]]) else None)\<rparr>)
      ([Inl ''timeout''] @ Inr builder_lib_text # [Inl ''timeout'', Inr ''garbage''])
      [] = [\<lparr>bi_Name = ''Flashbots'', bi_RPC = '''', bi_SupportedApis = []\<rparr>]"
  by (intro allI builder_list_last_good
        [where j = "JArr [JObj [(''name'', JStr ''Flashbots'')]]"])
    (simp_all add: fetchBuilderInfo_def builder_lib_text_def unmarshal_builders_def
      unmarshal_struct_def builder_fields_def EqualFold_def ToLower_def set_string_def
      zero_BuilderInfo_def)

end
