(* ===== verification/Environment.thy ===== *)
theory Environment
  imports Fingerprint Url_Params Application
begin

text \<open>
  The surroundings of a request handler and the helpers all handlers use: the calls to other
  parties, the counters of \<open>src/metrics\<close>, the client of \<open>src/server/http_client.go\<close>, and
  \<open>src/server/util.go\<close>, \<open>whitelist.go\<close> and \<open>ofacblacklist.go\<close>.

  The other parties (the node, the relay, the transaction-status API) are not part of the
  program. What they answer is a function in \<open>Env\<close> of the call and of all calls made before
  it, so a party may answer a repeated question differently. What else happens while a call is
  under way is \<open>e_during\<close>: the clock moves on, and other handlers and the Redis server may change
  the shared state in any way. Between two calls a handler runs undisturbed.
\<close>

section \<open>Calls to other parties\<close>

record http_request =
  hq_Method :: string
  hq_URL :: string
  hq_Header :: "(string \<times> string) list"
  hq_Body :: string

text \<open>The body of a response is read by \<open>io.ReadAll\<close>, which may fail (\<open>Inl\<close>).\<close>

record http_response =
  hr_StatusCode :: int
  hr_Body :: "string + string"

datatype relay_request =
    RelaySendPrivateTx SendPrivateTxRequestWithPreferences "(string \<times> string) list"
  | RelayCancelPrivateTx string

text \<open>\<open>errors.Is(err, flashbotsrpc.ErrRelayErrorResponse)\<close> tells the two kinds of errors apart.\<close>

datatype relay_err = RelayErrorResponse string | RelayOther string

fun relay_err_text :: "relay_err \<Rightarrow> string" where
  "relay_err_text (RelayErrorResponse m) = m"
| "relay_err_text (RelayOther m) = m"

text \<open>
  An outgoing call. The arguments of a relay call are the URL, the signing key and the request;
  an \<open>ethclient.Client\<close> is given by the URL it was dialled with.
\<close>

datatype ext_call =
    CallHttp http_request
  | CallRelay string string relay_request
  | CallBlockNumber string
  | CallSendTx string eth_tx
  | CallDial string

section \<open>The counters of src/metrics\<close>

datatype metric =
    StatusOKInc | StatusBadRequestInc | StatusNotFoundInc | StatusInternalServerErrorInc
  | UrlParamUsageInc
  | IncMetamaskInterceptorWrongNonce | IncUniswapInterceptorNonceDiffTooHigh
  | ReportCustomerConfigWasUpdated string
  | IncStatusEndpointErr
  | IncDatabaseErr | IncRedisErr | IncEthNodeClusterErr
  | IncRPCNodeProxyClientErr | IncRPCNodeProxyServerErr | IncRelayServerErr | IncRelayClientErr
  | IncPrivateTx

text \<open>The name under which a counter is exported.\<close>

definition customerConfigKey :: "string \<Rightarrow> string" where
  "customerConfigKey customer =
     ''customer_configuration_was_updated_total{customer='' @ [CHR 0x22] @ customer @ [CHR 0x22]
       @ ''}''"

definition status_key :: "string \<Rightarrow> string" where
  "status_key code =
     ''http_requests_total{status='' @ [CHR 0x22] @ code @ [CHR 0x22] @ ''}''"

fun metric_key :: "metric \<Rightarrow> string" where
  "metric_key StatusOKInc = status_key ''200''"
| "metric_key StatusBadRequestInc = status_key ''400''"
| "metric_key StatusNotFoundInc = status_key ''404''"
| "metric_key StatusInternalServerErrorInc = status_key ''500''"
| "metric_key UrlParamUsageInc =
     ''http_requests_params{name='' @ [CHR 0x22] @ ''url'' @ [CHR 0x22] @ ''}''"
| "metric_key IncMetamaskInterceptorWrongNonce = ''metamask_interceptor_wrong_nonce_total''"
| "metric_key IncUniswapInterceptorNonceDiffTooHigh =
     ''uniswap_interceptor_nonce_diff_too_high_total''"
| "metric_key (ReportCustomerConfigWasUpdated c) = customerConfigKey c"
| "metric_key IncStatusEndpointErr = ''status_endpoint_error_total''"
| "metric_key IncDatabaseErr = ''postgres_error_total''"
| "metric_key IncRedisErr = ''redis_error_total''"
| "metric_key IncEthNodeClusterErr = ''eth_node_cluster_error_total''"
| "metric_key IncRPCNodeProxyClientErr = ''rpc_node_proxy_client_error_total''"
| "metric_key IncRPCNodeProxyServerErr = ''rpc_node_proxy_server_error_total''"
| "metric_key IncRelayServerErr = ''relay_server_error_total''"
| "metric_key IncRelayClientErr = ''relay_client_error_total''"
| "metric_key IncPrivateTx = ''private_tx_total''"

section \<open>Environment and world\<close>

text \<open>
  A goroutine that a handler starts with \<open>go\<close>, to run at any later time: the write of the
  sender's highest nonce.
\<close>

datatype goroutine = GoSetSenderMaxNonce string u64 int

text \<open>
  The state a handler acts on: Redis, the clock (nanoseconds), the outgoing calls and the counter
  increments so far (latest first), the goroutines started, and the cache of RPC answers.
\<close>

record 'r World =
  w_redis :: 'r
  w_now :: int
  w_calls :: "ext_call list"
  w_metrics :: "metric list"
  w_go :: "goroutine list"
  w_cache :: RpcCache

text \<open>
  \<open>e_bigint_undef\<close> is the value of a \<open>big.Int\<close> after a failed \<open>SetString\<close>, which \<open>math/big\<close>
  leaves undefined.
\<close>

record 'r Env =
  e_redis :: "'r redis_client"
  e_lib :: lib
  e_Http :: "ext_call list \<Rightarrow> http_request \<Rightarrow> string + http_response"
  e_Relay :: "ext_call list \<Rightarrow> string \<Rightarrow> string \<Rightarrow> relay_request \<Rightarrow> relay_err option"
  e_BlockNumber :: "ext_call list \<Rightarrow> string \<Rightarrow> string + u64"
  e_SendTx :: "ext_call list \<Rightarrow> string \<Rightarrow> eth_tx \<Rightarrow> string option"
  e_Dial :: "ext_call list \<Rightarrow> string \<Rightarrow> string option"
  e_during :: "ext_call list \<Rightarrow> int \<times> 'r \<Rightarrow> int \<times> 'r"
  e_bigint_undef :: "string \<Rightarrow> int"
  DebugDontSendTx :: bool
  ofacBlacklist :: "string set"
  ProtectTxApiHost :: string

definition make_call :: "'r Env \<Rightarrow> ext_call \<Rightarrow> 'r World \<Rightarrow> 'r World" where
  "make_call E c w =
     (case e_during E (c # w_calls w) (w_now w, w_redis w) of
        (t, s) \<Rightarrow> w\<lparr>w_calls := c # w_calls w, w_now := t, w_redis := s\<rparr>)"

definition inc :: "metric \<Rightarrow> 'r World \<Rightarrow> 'r World" where
  "inc m w = w\<lparr>w_metrics := m # w_metrics w\<rparr>"

definition start_go :: "goroutine \<Rightarrow> 'r World \<Rightarrow> 'r World" where
  "start_go g w = w\<lparr>w_go := g # w_go w\<rparr>"

text \<open>
  A Redis operation that writes. \<open>redis_count\<close> is the recurring pattern of counting an error
  and going on with it in hand.
\<close>

definition redis_do :: "('r \<Rightarrow> 'e option \<times> 'r) \<Rightarrow> 'r World \<Rightarrow> 'e option \<times> 'r World" where
  "redis_do f w = (case f (w_redis w) of (e, s) \<Rightarrow> (e, w\<lparr>w_redis := s\<rparr>))"

definition redis_count :: "('r \<Rightarrow> 'e option \<times> 'r) \<Rightarrow> 'r World \<Rightarrow> 'e option \<times> 'r World" where
  "redis_count f w =
     (case redis_do f w of (e, w1) \<Rightarrow> (e, if e = None then w1 else inc IncRedisErr w1))"

text \<open>What a goroutine does when it runs; its error is dropped.\<close>

definition run_go :: "'r redis_client \<Rightarrow> goroutine \<Rightarrow> 'r \<Rightarrow> 'r" where
  "run_go R g s =
     (case g of GoSetSenderMaxNonce f n br \<Rightarrow> snd (SetSenderMaxNonce R s f n br))"

section \<open>http\_client.go\<close>

record rpcProxyClient =
  proxyURL :: string
  timeoutSeconds :: int
  fingerprint :: u64

definition NewRPCProxyClient :: "string \<Rightarrow> int \<Rightarrow> u64 \<Rightarrow> rpcProxyClient" where
  "NewRPCProxyClient url t fp = \<lparr>proxyURL = url, timeoutSeconds = t, fingerprint = fp\<rparr>"

text \<open>\<open>http.NewRequest\<close> parses the URL; a request that cannot be built is not sent.\<close>

definition http_Do :: "'r Env \<Rightarrow> http_request \<Rightarrow> 'r World \<Rightarrow> (string + http_response) \<times> 'r World" where
  "http_Do E q w =
     (case url_Parse (e_lib E) (hq_URL q) of
        Inl e \<Rightarrow> (Inl e, w)
      | Inr _ \<Rightarrow> (e_Http E (w_calls w) q, make_call E (CallHttp q) w))"

definition proxy_headers :: "rpcProxyClient \<Rightarrow> string \<Rightarrow> (string \<times> string) list" where
  "proxy_headers n body =
     (if fingerprint n \<noteq> 0
      then [(''X-Forwarded-For'', v6_String (ToIPv6 (fingerprint n)))] else [])
     @ [(''Accept'', ''application/json''), (''Content-Type'', ''application/json''),
        (''Content-Length'', Itoa (int (length body)))]"

definition ProxyRequest ::
    "'r Env \<Rightarrow> rpcProxyClient \<Rightarrow> string \<Rightarrow> 'r World \<Rightarrow> (string + http_response) \<times> 'r World" where
  "ProxyRequest E n body w =
     http_Do E \<lparr>hq_Method = ''POST'', hq_URL = proxyURL n, hq_Header = proxy_headers n body,
       hq_Body = body\<rparr> w"

section \<open>util.go\<close>

definition Min :: "u64 \<Rightarrow> u64 \<Rightarrow> u64" where
  "Min a b = (if a < b then a else b)"

definition Max :: "u64 \<Rightarrow> u64 \<Rightarrow> u64" where
  "Max a b = (if a > b then a else b)"

definition GetTx :: "lib \<Rightarrow> string \<Rightarrow> string + eth_tx" where
  "GetTx L rawTxHex =
     (if length rawTxHex < 2 then Inl ''invalid raw transaction''
      else case hex_DecodeString (drop 2 rawTxHex) of
             None \<Rightarrow> Inl ''invalid raw transaction''
           | Some rawTxBytes \<Rightarrow>
               (case geth_UnmarshalBinary L rawTxBytes of
                  None \<Rightarrow> Inl ''error unmarshalling''
                | Some t \<Rightarrow> Inr t))"

definition GetSenderAddressFromTx :: "lib \<Rightarrow> eth_tx \<Rightarrow> string + address" where
  "GetSenderAddressFromTx L t = geth_Sender L t"

definition GetSenderFromTx :: "lib \<Rightarrow> eth_tx \<Rightarrow> string + string" where
  "GetSenderFromTx L t =
     (case geth_Sender L t of Inl e \<Rightarrow> Inl e | Inr sender \<Rightarrow> Inr (geth_Hex L sender))"

definition GetSenderFromRawTx :: "lib \<Rightarrow> eth_tx \<Rightarrow> string + string" where
  "GetSenderFromRawTx L t =
     (case GetSenderFromTx L t of Inl _ \<Rightarrow> Inl ''error getting from'' | Inr from \<Rightarrow> Inr from)"

text \<open>\<open>json.Unmarshal\<close> of a text, through a reader of the tree.\<close>

definition json_Unmarshal :: "lib \<Rightarrow> (json \<Rightarrow> 'a option) \<Rightarrow> string \<Rightarrow> 'a option" where
  "json_Unmarshal L f s = (case json_Decode L s of None \<Rightarrow> None | Some j \<Rightarrow> f j)"

definition GetTxStatus ::
    "'r Env \<Rightarrow> string \<Rightarrow> 'r World \<Rightarrow> (string + PrivateTxApiResponse) \<times> 'r World" where
  "GetTxStatus E txHash w =
     (let privTxApiUrl = ProtectTxApiHost E @ ''/tx/'' @ txHash in
      case http_Do E \<lparr>hq_Method = ''GET'', hq_URL = privTxApiUrl, hq_Header = [], hq_Body = ''''\<rparr> w of
        (Inl e, w1) \<Rightarrow> (Inl (''privTxApi call failed for '' @ txHash @ '': '' @ e), w1)
      | (Inr resp, w1) \<Rightarrow>
          (case hr_Body resp of
             Inl e \<Rightarrow> (Inl (''privTxApi body-read failed for '' @ txHash @ '': '' @ e), w1)
           | Inr bodyBytes \<Rightarrow>
               (case json_Unmarshal (e_lib E) unmarshal_api bodyBytes of
                  None \<Rightarrow>
                    (Inl (''privTxApi jsonUnmarshal failed for '' @ txHash @ '' - status: ''
                       @ Itoa (hr_StatusCode resp) @ '' / body: '' @ bodyBytes), w1)
                | Some respObj \<Rightarrow> (Inr respObj, w1))))"

text \<open>
  An incoming HTTP request: \<open>in_Header\<close> is \<open>Header.Get\<close>, the empty text for an absent header.
\<close>

record in_request =
  in_Method :: string
  in_URL :: goURL
  in_RequestURI :: string
  in_Header :: "string \<Rightarrow> string"
  in_RemoteAddr :: string
  in_Body :: "string + string"

definition GetIP :: "in_request \<Rightarrow> string" where
  "GetIP q =
     (let forwarded = in_Header q ''X-Forwarded-For'' in
      if forwarded \<noteq> '''' then
        (if CHR '','' \<in> set forwarded then hd (Split forwarded (CHR '','')) else forwarded)
      else in_RemoteAddr q)"

text \<open>\<open>md5.Sum\<close> is a parameter; \<open>hex.EncodeToString\<close> writes two digits for each byte.\<close>

definition hex_EncodeToString :: "byte list \<Rightarrow> string" where
  "hex_EncodeToString bs = concat (map (\<lambda>b. [digit_char (unat b div 16), digit_char (unat b mod 16)]) bs)"

definition GetIPHash :: "(string \<Rightarrow> byte list) \<Rightarrow> in_request \<Rightarrow> string" where
  "GetIPHash md5_Sum q = hex_EncodeToString (md5_Sum (GetIP q))"


definition IsMetamask :: "in_request \<Rightarrow> bool" where
  "IsMetamask q \<longleftrightarrow>
     in_Header q ''Origin'' = ''chrome-extension://nkbihfbeogaeaoehlefnkodbefgpgknn''"

definition IsMetamaskMoz :: "in_request \<Rightarrow> bool" where
  "IsMetamaskMoz q \<longleftrightarrow>
     in_Header q ''Origin'' = ''moz-extension://57f9aaf6-270a-154f-9a8a-632d0db4128c''"

definition respBytesToJsonRPCResponse :: "lib \<Rightarrow> string \<Rightarrow> JsonRpcResponse option" where
  "respBytesToJsonRPCResponse L respBytes =
     (case json_Unmarshal L unmarshal_relay_error respBytes of
        Some (c # msg) \<Rightarrow>
          Some (zero_JsonRpcResponse\<lparr>res_Error := Some \<lparr>err_Code = 0, err_Message = c # msg\<rparr>\<rparr>)
      | _ \<Rightarrow> json_Unmarshal L unmarshal_response respBytes)"

definition AddressPtrToStr :: "lib \<Rightarrow> address option \<Rightarrow> string" where
  "AddressPtrToStr L a = (case a of None \<Rightarrow> '''' | Some x \<Rightarrow> geth_Hex L x)"

definition BigIntPtrToStr :: "int option \<Rightarrow> string" where
  "BigIntPtrToStr i = (case i of None \<Rightarrow> '''' | Some n \<Rightarrow> Itoa n)"

definition GetEnv :: "(string \<rightharpoonup> string) \<Rightarrow> string \<Rightarrow> string \<Rightarrow> string" where
  "GetEnv environ key defaultValue =
     (case environ key of Some val \<Rightarrow> val | None \<Rightarrow> defaultValue)"

section \<open>whitelist.go and ofacblacklist.go\<close>

definition allowedLargeTxTargets_source :: "string list" where
  "allowedLargeTxTargets_source =
     [''0xff1f2b4adb9df6fc8eafecdcbf96a2b351680455'', ''0x47312450B3Ac8b5b8e247a6bB6d523e7605bDb60'',
      ''0x8f97970aC5a9aa8D130d35146F5b59c4aef57963'', ''0x07ec0D28e50322Eb0C159B9090ecF3aeA8346DFe'']"

text \<open>After \<open>init\<close> the keys are there as written and in lower case.\<close>

definition allowedLargeTxTargets :: "string list" where
  "allowedLargeTxTargets =
     allowedLargeTxTargets_source @ map ToLower allowedLargeTxTargets_source"

definition isOnOFACList :: "'r Env \<Rightarrow> string \<Rightarrow> bool" where
  "isOnOFACList E address \<longleftrightarrow> ToLower address \<in> ofacBlacklist E"

end
