(* ===== verification/Request_Processor.thy ===== *)
theory Request_Processor
  imports Environment
begin

text \<open>
  One JSON-RPC request (\<open>src/server/request_processor.go\<close>): the record \<open>RpcRequest\<close>, the answers
  it writes, the proxy call, and what stands between a transaction and the relay: the check for
  resending, the nonce range, the limits on large transactions, the preferences sent along, and
  the cancellation of an earlier transaction.

  A method of \<open>*RpcRequest\<close> takes the request and the world and returns both. The pointers
  \<open>r.tx\<close> and \<open>r.ethSendRawTxEntry\<close> are options; \<open>ProcessRequest\<close> panics on a nil entry before any
  method writes to it, and the methods that read \<open>r.tx\<close> are called after it was set, so they take
  the transaction as an argument. A method with early returns is a sequence of stages, each
  either \<open>Return\<close>ing or \<open>Continue\<close>ing with the state.
\<close>

section \<open>The request\<close>

record RpcRequest =
  r_client :: rpcProxyClient
  r_defaultEthClient :: string
  r_jsonReq :: JsonRpcRequest
  r_jsonRes :: "JsonRpcResponse option"
  r_rawTxHex :: string
  r_tx :: "eth_tx option"
  r_txFrom :: string
  r_relaySigningKey :: string
  r_relayUrl :: string
  r_origin :: string
  r_referer :: string
  r_isWhitehatBundleCollection :: bool
  r_whitehatBundleId :: string
  r_ethSendRawTxEntry :: "EthSendRawTxEntry option"
  r_urlParams :: URLParameters
  r_chainID :: "json option"
  r_flashbotsSigningAddress :: string
  r_maxBlockNumberOverride :: u64

definition NewRpcRequest ::
    "rpcProxyClient \<Rightarrow> JsonRpcRequest \<Rightarrow> string \<Rightarrow> string \<Rightarrow> string \<Rightarrow> string \<Rightarrow> bool \<Rightarrow> string \<Rightarrow>
     EthSendRawTxEntry option \<Rightarrow> URLParameters \<Rightarrow> json option \<Rightarrow> string \<Rightarrow> RpcRequest" where
  "NewRpcRequest client jsonReq relaySigningKey relayUrl origin referer
     isWhitehatBundleCollection whitehatBundleId ethSendRawTxEntry urlParams chainID
     defaultEthClient =
     \<lparr>r_client = client, r_defaultEthClient = defaultEthClient, r_jsonReq = jsonReq,
      r_jsonRes = None, r_rawTxHex = '''', r_tx = None, r_txFrom = '''',
      r_relaySigningKey = relaySigningKey, r_relayUrl = relayUrl, r_origin = origin,
      r_referer = referer, r_isWhitehatBundleCollection = isWhitehatBundleCollection,
      r_whitehatBundleId = whitehatBundleId, r_ethSendRawTxEntry = ethSendRawTxEntry,
      r_urlParams = urlParams, r_chainID = chainID, r_flashbotsSigningAddress = '''',
      r_maxBlockNumberOverride = 0\<rparr>"

definition r_params :: "RpcRequest \<Rightarrow> json list" where
  "r_params r = (case req_Params (r_jsonReq r) of None \<Rightarrow> [] | Some l \<Rightarrow> l)"

definition upd_entry :: "(EthSendRawTxEntry \<Rightarrow> EthSendRawTxEntry) \<Rightarrow> RpcRequest \<Rightarrow> RpcRequest" where
  "upd_entry f r = r\<lparr>r_ethSendRawTxEntry := map_option f (r_ethSendRawTxEntry r)\<rparr>"

definition writeRpcError :: "string \<Rightarrow> int \<Rightarrow> RpcRequest \<Rightarrow> RpcRequest" where
  "writeRpcError msg errCode r =
     (let r1 = (if req_Method (r_jsonReq r) = ''eth_sendRawTransaction''
                then upd_entry (\<lambda>e. e\<lparr>entry_Error := msg, entry_ErrorCode := errCode\<rparr>) r else r)
      in r1\<lparr>r_jsonRes := Some \<lparr>res_Id = req_Id (r_jsonReq r), res_Result = None,
             res_Error = Some \<lparr>err_Code = errCode, err_Message = msg\<rparr>, res_Version = ''2.0''\<rparr>\<rparr>)"

text \<open>
  \<open>json.Marshal\<close> of a string does not fail; of a \<open>json.RawMessage\<close> holding a JSON value neither
  (a nil one is written as \<open>null\<close>), so the error branch of \<open>writeRpcResult\<close> is not taken.
\<close>

definition writeRpcResult :: "json \<Rightarrow> RpcRequest \<Rightarrow> RpcRequest" where
  "writeRpcResult result r =
     r\<lparr>r_jsonRes := Some \<lparr>res_Id = req_Id (r_jsonReq r), res_Result = Some result,
        res_Error = None, res_Version = ''2.0''\<rparr>\<rparr>"

datatype 's flow = Return 's | Continue 's

fun and_then :: "'s flow \<Rightarrow> ('s \<Rightarrow> 's flow) \<Rightarrow> 's flow" where
  "and_then (Return s) f = Return s"
| "and_then (Continue s) f = f s"

fun final :: "'s flow \<Rightarrow> 's" where
  "final (Return s) = s"
| "final (Continue s) = s"

type_synonym 'r rw = "RpcRequest \<times> 'r World"

section \<open>Proxying\<close>

text \<open>
  \<open>json.Marshal(r.jsonReq)\<close> does not fail: the request was itself read from JSON. The flag says
  whether a JSON-RPC response was read, which is then \<open>r.jsonRes\<close>.
\<close>

definition proxyRequestRead :: "'r Env \<Rightarrow> RpcRequest \<Rightarrow> 'r World \<Rightarrow> bool \<times> RpcRequest \<times> 'r World" where
  "proxyRequestRead E r w =
     (case ProxyRequest E (r_client r)
             (json_Encode (e_lib E) (marshal_request (r_jsonReq r))) w of
        (Inl _, w1) \<Rightarrow> (False, r, inc IncRPCNodeProxyServerErr w1)
      | (Inr proxyResp, w1) \<Rightarrow>
          (case hr_Body proxyResp of
             Inl _ \<Rightarrow> (False, r, inc IncRPCNodeProxyClientErr w1)
           | Inr proxyRespBody \<Rightarrow>
               (case json_Unmarshal (e_lib E) unmarshal_response proxyRespBody of
                  None \<Rightarrow> (False, r, inc IncRPCNodeProxyClientErr w1)
                | Some jsonRpcResp \<Rightarrow> (True, r\<lparr>r_jsonRes := Some jsonRpcResp\<rparr>, w1))))"

section \<open>Resending, nonces and preferences\<close>

definition blockResendingTxToRelay :: "'r Env \<Rightarrow> string \<Rightarrow> 'r World \<Rightarrow> bool \<times> 'r World" where
  "blockResendingTxToRelay E txHash w =
     (case GetTxSentToRelay (e_redis E) (w_redis w) txHash of
        (_, _, Some err) \<Rightarrow> (False, inc IncRedisErr w)
      | (timeSent, txWasSentToRelay, None) \<Rightarrow>
          if \<not> txWasSentToRelay then (False, w)
          else (case GetTxStatus E txHash w of
                  (Inl _, w1) \<Rightarrow> (False, w1)
                | (Inr api, w1) \<Rightarrow>
                    (if api_Status api = TxStatusFailed then False
                     else if api_Status api = TxStatusUnknown \<and> w_now w1 - timeSent \<ge> 5 * time_Minute
                       then False
                     else True, w1)))"

definition replaceZeroRefund :: "RefundConfig list \<Rightarrow> address \<Rightarrow> RefundConfig list" where
  "replaceZeroRefund refunds sender =
     map (\<lambda>refund. if refund_Address refund = 0
                   then \<lparr>refund_Address = sender, refund_Percent = refund_Percent refund\<rparr>
                   else refund) refunds"

text \<open>
  \<open>json.Unmarshal(_res.Result, &_userNonceStr)\<close>: a missing result is empty text, an error; \<open>null\<close>
  leaves the string empty. \<open>(*big.Int).Uint64\<close> returns the low 64 bits of the magnitude.
\<close>

definition unmarshal_string :: "json option \<Rightarrow> string option" where
  "unmarshal_string v =
     (case v of Some (JStr s) \<Rightarrow> Some s | Some JNull \<Rightarrow> Some '''' | _ \<Rightarrow> None)"

definition nonce_of_hex :: "'r Env \<Rightarrow> string \<Rightarrow> u64" where
  "nonce_of_hex E s =
     (let t = Replace1 s ''0x'' '''';
          n = (case big_SetString16 t of Some i \<Rightarrow> i | None \<Rightarrow> e_bigint_undef E t)
      in of_int \<bar>n\<bar>)"

text \<open>The result is \<open>None\<close> when the source returns an error, else the range.\<close>

definition GetAddressNonceRange ::
    "'r Env \<Rightarrow> RpcRequest \<Rightarrow> 'r World \<Rightarrow> (u64 \<times> u64) option \<times> RpcRequest \<times> 'r World" where
  "GetAddressNonceRange E r w =
     (let req = NewJsonRpcRequest (JNum ''1'') ''eth_getTransactionCount''
                  [JStr (r_txFrom r), JStr ''latest''] in
      case ProxyRequest E (r_client r) (json_Encode (e_lib E) (marshal_request req)) w of
        (Inl _, w1) \<Rightarrow> (None, r, w1)
      | (Inr httpRes, w1) \<Rightarrow>
          (case hr_Body httpRes of
             Inl _ \<Rightarrow> (None, r, w1)
           | Inr resBytes \<Rightarrow>
               (case respBytesToJsonRPCResponse (e_lib E) resBytes of
                  None \<Rightarrow> (None, r, w1)
                | Some res \<Rightarrow>
                    (case unmarshal_string (res_Result res) of
                       None \<Rightarrow> (None, writeRpcError ''internal server error'' JsonRpcInternalError r, w1)
                     | Some userNonceStr \<Rightarrow>
                         (let minNonce = nonce_of_hex E userNonceStr;
                              redisMaxNonce =
                                fst (GetSenderMaxNonce (e_redis E) (w_redis w1) (r_txFrom r))
                          in (Some (minNonce, Max minNonce redisMaxNonce), r, w1))))))"

section \<open>Sending to the relay\<close>

definition BlobTxType :: nat where "BlobTxType = 3"

text \<open>Was the transaction sent before, and is it still to be held back?\<close>

definition stage_resend :: "'r Env \<Rightarrow> string \<Rightarrow> 'r rw \<Rightarrow> 'r rw flow" where
  "stage_resend E txHash s =
     (case s of (r, w) \<Rightarrow>
        (case blockResendingTxToRelay E txHash w of
           (True, w1) \<Rightarrow>
             Return (writeRpcResult (JStr txHash) (upd_entry (\<lambda>e. e\<lparr>IsBlocked := True\<rparr>) r), w1)
         | (False, w1) \<Rightarrow> Continue (r, w1)))"

definition stage_mark_sent :: "'r Env \<Rightarrow> string \<Rightarrow> 'r rw \<Rightarrow> 'r rw flow" where
  "stage_mark_sent E txHash s =
     (case s of (r, w) \<Rightarrow>
        Continue (upd_entry (\<lambda>e. e\<lparr>WasSentToRelay := True\<rparr>) r,
          snd (redis_count (\<lambda>s. SetTxSentToRelay (e_redis E) (w_now w) s txHash) w)))"

definition stage_nonce :: "'r Env \<Rightarrow> eth_tx \<Rightarrow> 'r rw \<Rightarrow> 'r rw flow" where
  "stage_nonce E t s =
     (case s of (r, w) \<Rightarrow>
        (case GetAddressNonceRange E r w of
           (None, r1, w1) \<Rightarrow> Continue (r1, w1)
         | (Some (minNonce, maxNonce), r1, w1) \<Rightarrow>
             if eth_Nonce t < minNonce \<or> eth_Nonce t > maxNonce + 1
             then Return (writeRpcError ''invalid nonce'' JsonRpcInternalError r1, w1)
             else Continue (r1, w1)))"

definition stage_go_max_nonce :: "eth_tx \<Rightarrow> 'r rw \<Rightarrow> 'r rw flow" where
  "stage_go_max_nonce t s =
     (case s of (r, w) \<Rightarrow>
        Continue (r, start_go (GoSetSenderMaxNonce (r_txFrom r) (eth_Nonce t)
                                 (blockRange (r_urlParams r))) w))"

definition large_tx_refused :: "lib \<Rightarrow> eth_tx \<Rightarrow> bool" where
  "large_tx_refused L t \<longleftrightarrow>
     eth_Type t \<noteq> BlobTxType \<and> eth_Size t > 131072 \<and>
     (case eth_To t of
        None \<Rightarrow> True
      | Some to \<Rightarrow> ToLower (geth_Hex L to) \<notin> set allowedLargeTxTargets)"

definition stage_size :: "'r Env \<Rightarrow> eth_tx \<Rightarrow> 'r rw \<Rightarrow> 'r rw flow" where
  "stage_size E t s =
     (case s of (r, w) \<Rightarrow>
        if large_tx_refused (e_lib E) t
        then Return (writeRpcError ''invalid target for large tx'' JsonRpcInternalError r, w)
        else Continue (r, w))"

definition stage_remember :: "'r Env \<Rightarrow> eth_tx \<Rightarrow> string \<Rightarrow> 'r rw \<Rightarrow> 'r rw flow" where
  "stage_remember E t txHash s =
     (case s of (r, w) \<Rightarrow>
        Continue (r, snd (redis_count
          (\<lambda>s. SetTxHashForSenderAndNonce (e_redis E) s (r_txFrom r) (eth_Nonce t) txHash) w)))"

definition stage_debug :: "'r Env \<Rightarrow> string \<Rightarrow> 'r rw \<Rightarrow> 'r rw flow" where
  "stage_debug E txHash s =
     (case s of (r, w) \<Rightarrow>
        if DebugDontSendTx E then Return (writeRpcResult (JStr txHash) r, w) else Continue (r, w))"

text \<open>
  \<open>sendPrivateTxArgs.Preferences\<close> points to \<open>r.urlParams.pref\<close>, so the assignments through either
  of them are made to the request.
\<close>

definition stage_refund :: "'r Env \<Rightarrow> eth_tx \<Rightarrow> 'r rw \<Rightarrow> 'r rw flow" where
  "stage_refund E t s =
     (case s of (r, w) \<Rightarrow>
        let L = e_lib E; p = r_urlParams r; refund = Refund (Validity (pref p));
            p1 = (if length refund > 0
                  then set_refund (replaceZeroRefund refund (geth_HexToAddress L (r_txFrom r))) p
                  else p);
            r1 = r\<lparr>r_urlParams := p1\<rparr>
        in if fast p1 \<and> length (Refund (Validity (pref p1))) = 0
           then (case GetSenderAddressFromTx L t of
                   Inl err \<Rightarrow> Return (writeRpcError err JsonRpcInternalError r1, w)
                 | Inr addr \<Rightarrow>
                     Continue (r1\<lparr>r_urlParams :=
                       set_refund [\<lparr>refund_Address = addr, refund_Percent = 50\<rparr>] p1\<rparr>, w))
           else Continue (r1, w))"

definition stage_timeout :: "'r rw \<Rightarrow> 'r rw flow" where
  "stage_timeout s =
     (case s of (r, w) \<Rightarrow>
        let p = r_urlParams r in
        Continue (if auctionTimeout p \<noteq> 0
                  then r\<lparr>r_urlParams := set_privacy (\<lambda>v. v\<lparr>AuctionTimeout := auctionTimeout p\<rparr>) p\<rparr>
                  else r, w))"

text \<open>The last stage settles the highest block number, calls the relay and answers.\<close>

definition relay_headers :: "RpcRequest \<Rightarrow> (string \<times> string) list" where
  "relay_headers r =
     (if originId (r_urlParams r) \<noteq> '''' then [(''X-Flashbots-Origin'', originId (r_urlParams r))]
      else [])"

definition call_relay :: "'r Env \<Rightarrow> string \<Rightarrow> u64 \<Rightarrow> 'r rw \<Rightarrow> 'r rw flow" where
  "call_relay E txHash maxBlockNumber s =
     (case s of (r, w) \<Rightarrow>
        let args = \<lparr>priv_Tx = r_rawTxHex r, priv_Preferences = pref (r_urlParams r),
                    priv_MaxBlockNumber = maxBlockNumber\<rparr>;
            q = RelaySendPrivateTx args (relay_headers r);
            w1 = make_call E (CallRelay (r_relayUrl r) (r_relaySigningKey r) q) w
        in case e_Relay E (w_calls w) (r_relayUrl r) (r_relaySigningKey r) q of
             Some (RelayErrorResponse _) \<Rightarrow>
               Return (writeRpcError ''internal error'' JsonRpcInternalError r,
                 inc IncRelayClientErr w1)
           | Some (RelayOther _) \<Rightarrow>
               Return (writeRpcError ''internal error'' JsonRpcInternalError r,
                 inc IncRelayServerErr w1)
           | None \<Rightarrow> Return (writeRpcResult (JStr txHash) r, w1))"

definition stage_send :: "'r Env \<Rightarrow> string \<Rightarrow> 'r rw \<Rightarrow> 'r rw flow" where
  "stage_send E txHash s =
     (case s of (r, w) \<Rightarrow>
        if r_maxBlockNumberOverride r > 0
        then call_relay E txHash (r_maxBlockNumberOverride r) (r, w)
        else if blockRange (r_urlParams r) > 0 then
          (let w1 = make_call E (CallBlockNumber (r_defaultEthClient r)) w in
           case e_BlockNumber E (w_calls w) (r_defaultEthClient r) of
             Inl err \<Rightarrow> Return (writeRpcError err JsonRpcInternalError r, w1)
           | Inr bn \<Rightarrow>
               call_relay E txHash (bn + 1 + of_int (blockRange (r_urlParams r))) (r, w1))
        else call_relay E txHash 0 (r, w))"

definition relay_stages :: "'r Env \<Rightarrow> eth_tx \<Rightarrow> string \<Rightarrow> ('r rw \<Rightarrow> 'r rw flow) list" where
  "relay_stages E t txHash =
     [stage_resend E txHash, stage_mark_sent E txHash, stage_nonce E t, stage_go_max_nonce t,
      stage_size E t, stage_remember E t txHash, stage_debug E txHash, stage_refund E t,
      stage_timeout, stage_send E txHash]"

definition sendTxToRelay :: "'r Env \<Rightarrow> eth_tx \<Rightarrow> 'r rw \<Rightarrow> 'r rw" where
  "sendTxToRelay E t s =
     final (foldl and_then (Continue s) (relay_stages E t (ToLower (eth_HashHex t))))"

section \<open>Cancelling\<close>

text \<open>
  The result is whether the request was answered. A nil \<open>ErrRelayErrorResponse\<close> text apart, the
  branches are those of the source.
\<close>

definition cancel_lookup ::
    "'r Env \<Rightarrow> eth_tx \<Rightarrow> 'r rw \<Rightarrow> (bool \<times> 'r rw) + string" where
  "cancel_lookup E t s =
     (case s of (r, w) \<Rightarrow>
        let R = e_redis E; cancelTxHash = ToLower (eth_HashHex t);
            failed = Inl (True, writeRpcError ''internal server error'' JsonRpcInternalError r,
                       inc IncRedisErr w)
        in case GetTxHashForSenderAndNonce R (w_redis w) (ToLower (r_txFrom r)) (eth_Nonce t) of
             (_, _, Some err) \<Rightarrow> failed
           | (initialTxHash, txHashFound, None) \<Rightarrow>
               if \<not> txHashFound then Inl (False, s)
               else (case GetTxSentToRelay R (w_redis w) initialTxHash of
                       (_, _, Some err) \<Rightarrow> failed
                     | (_, txWasSentToRelay, None) \<Rightarrow>
                         if \<not> txWasSentToRelay then Inl (False, s)
                         else (case GetTxSentToRelay R (w_redis w) cancelTxHash of
                                 (_, _, Some err) \<Rightarrow> failed
                               | (_, cancelTxAlreadySentToRelay, None) \<Rightarrow>
                                   if cancelTxAlreadySentToRelay
                                   then Inl (True, writeRpcResult (JStr cancelTxHash) r, w)
                                   else Inr initialTxHash)))"

definition cancel_mempool :: "'r Env \<Rightarrow> eth_tx \<Rightarrow> 'r rw \<Rightarrow> 'r rw flow" where
  "cancel_mempool E t s =
     (case s of (r, w) \<Rightarrow>
        let v = Privacy (pref (r_urlParams r)) in
        if \<not> UseMempool v then Continue s
        else
          let (dialled, w1) =
                (if MempoolRPC v \<noteq> ''''
                 then (e_Dial E (w_calls w) (MempoolRPC v), make_call E (CallDial (MempoolRPC v)) w)
                 else (None, w));
              ethCl = (if MempoolRPC v \<noteq> '''' then MempoolRPC v else r_defaultEthClient r)
          in case dialled of
               Some _ \<Rightarrow> Return (writeRpcError ''invalid mempool rpc'' JsonRpcInvalidParams r, w1)
             | None \<Rightarrow>
                 (let w2 = make_call E (CallSendTx ethCl t) w1 in
                  case e_SendTx E (w_calls w1) ethCl t of
                    Some _ \<Rightarrow>
                      Return (writeRpcError ''proxying cancellation to mempool failed''
                                JsonRpcInternalError r, inc IncEthNodeClusterErr w2)
                  | None \<Rightarrow> Continue (r, w2)))"

definition cancel_relay :: "'r Env \<Rightarrow> string \<Rightarrow> string \<Rightarrow> 'r rw \<Rightarrow> 'r rw flow" where
  "cancel_relay E initialTxHash cancelTxHash s =
     (case s of (r, w) \<Rightarrow>
        let q = RelayCancelPrivateTx initialTxHash;
            w1 = make_call E (CallRelay (r_relayUrl r) (r_relaySigningKey r) q) w
        in case e_Relay E (w_calls w) (r_relayUrl r) (r_relaySigningKey r) q of
             Some (RelayErrorResponse m) \<Rightarrow>
               Return (writeRpcError m JsonRpcInternalError r, inc IncRelayClientErr w1)
           | Some (RelayOther _) \<Rightarrow>
               Return (writeRpcError ''internal server error'' JsonRpcInternalError r,
                 inc IncRelayServerErr w1)
           | None \<Rightarrow> Return (writeRpcResult (JStr cancelTxHash) r, w1))"

definition handleCancelTx :: "'r Env \<Rightarrow> eth_tx \<Rightarrow> 'r rw \<Rightarrow> bool \<times> 'r rw" where
  "handleCancelTx E t s =
     (case cancel_lookup E t s of
        Inl res \<Rightarrow> res
      | Inr initialTxHash \<Rightarrow>
          (let cancelTxHash = ToLower (eth_HashHex t); (r, w) = s;
               w1 = snd (redis_count (\<lambda>s. SetTxSentToRelay (e_redis E) (w_now w) s cancelTxHash) w)
           in if DebugDontSendTx E then (True, writeRpcResult (JStr initialTxHash) r, w1)
              else (True, final (and_then (cancel_mempool E t (r, w1))
                                   (cancel_relay E initialTxHash cancelTxHash)))))"

section \<open>The whitehat rewrite\<close>

text \<open>
  \<open>reflect.TypeOf(nil).Kind()\<close> panics on a \<open>null\<close> parameter. The map of the parameter is changed
  in place, so the request holds the new address.
\<close>

definition WhitehatBalanceCheckerRewrite :: "RpcRequest \<Rightarrow> RpcRequest go" where
  "WhitehatBalanceCheckerRewrite r =
     (case r_params r of
        [] \<Rightarrow> Ret r
      | JNull # _ \<Rightarrow> Panic ''nil reflect.Type''
      | JObj p # ps \<Rightarrow>
          if obj_get p ''to'' = JStr ''0xb1f8e55c7f64d203c1400b9d8555d050f94adf39''
          then Ret (r\<lparr>r_jsonReq := (r_jsonReq r)\<lparr>req_Params :=
                 Some (JObj (obj_set p ''to'' (JStr ''0x268F7Cd7A396BCE178f0937095772C7fb83a9104''))
                       # ps)\<rparr>\<rparr>)
          else Ret r
      | _ \<Rightarrow> Ret r)"

end
