(* ===== verification/Intercepts.thy ===== *)
theory Intercepts
  imports Request_Processor
begin

text \<open>
  The methods the endpoint answers itself or looks at after the node did
  (\<open>src/server/request_intercepts.go\<close>): the receipt of a private transaction that failed, the nonce
  shown to a wallet that must drop a transaction, the probe contract, and the signed transaction
  count. A type assertion \<open>x.(T)\<close> on a value of another type is a \<open>Panic\<close>.
\<close>

section \<open>Failed private transactions\<close>

definition resetMaxNonce :: "'r Env \<Rightarrow> string \<Rightarrow> string \<Rightarrow> 'r World \<Rightarrow> 'r World" where
  "resetMaxNonce E from txHash w =
     (case GetSenderMaxNonce (e_redis E) (w_redis w) from of
        (_, _, Some err) \<Rightarrow> inc IncRedisErr w
      | (maxNonce, found, None) \<Rightarrow>
          if \<not> found then w
          else if maxNonce = fst (GetNonceOfTxHash (e_redis E) (w_redis w) txHash)
          then snd (redis_count (\<lambda>s. DelSenderMaxNonce (e_redis E) s from) w)
          else w)"

definition ensureAccountFixIsInPlace :: "'r Env \<Rightarrow> string \<Rightarrow> 'r World \<Rightarrow> 'r World" where
  "ensureAccountFixIsInPlace E txHashLower w =
     (case GetSenderOfTxHash (e_redis E) (w_redis w) txHashLower of
        (_, _, Some err) \<Rightarrow> inc IncRedisErr w
      | (txFromLower, txFromFound, None) \<Rightarrow>
          if \<not> txFromFound then w
          else (case GetNonceFixForAccount (e_redis E) (w_redis w) txFromLower of
                  (_, _, Some err) \<Rightarrow> inc IncRedisErr w
                | (_, nonceFixAlreadyExists, None) \<Rightarrow>
                    if nonceFixAlreadyExists then w
                    else (case redis_count (\<lambda>s. SetNonceFixForAccount (e_redis E) s txFromLower 0) w of
                            (Some err, w1) \<Rightarrow> w1
                          | (None, w1) \<Rightarrow> resetMaxNonce E txFromLower txHashLower w1)))"

text \<open>The result is always \<open>false\<close>: the node's answer stands.\<close>

definition check_post_getTransactionReceipt ::
    "'r Env \<Rightarrow> JsonRpcResponse option \<Rightarrow> RpcRequest \<Rightarrow> 'r World \<Rightarrow> bool go \<times> 'r World" where
  "check_post_getTransactionReceipt E jsonResp r w =
     (case jsonResp of
        None \<Rightarrow> (Ret False, w)
      | Some resp \<Rightarrow>
          if res_Result resp \<noteq> Some JNull then (Ret False, w)
          else (case r_params r of
                  [] \<Rightarrow> (Ret False, w)
                | JStr h # _ \<Rightarrow>
                    (let txHashLower = ToLower h in
                     case GetTxStatus E txHashLower w of
                       (Inl err, w1) \<Rightarrow> (Ret False, inc IncStatusEndpointErr w1)
                     | (Inr api, w1) \<Rightarrow>
                         if api_Status api = TxStatusFailed \<or>
                            DebugDontSendTx E \<and> api_Status api = TxStatusUnknown
                         then (Ret False, ensureAccountFixIsInPlace E txHashLower w1)
                         else (Ret False, w1))
                | _ \<Rightarrow> (Panic ''interface conversion: Params[0] is not string'', w)))"

section \<open>The wrong nonce for MetaMask\<close>

definition wrongNonce :: u64 where "wrongNonce = 1000000001"

definition intercept_mm_eth_getTransactionCount ::
    "'r Env \<Rightarrow> RpcRequest \<Rightarrow> 'r World \<Rightarrow> bool go \<times> RpcRequest \<times> 'r World" where
  "intercept_mm_eth_getTransactionCount E r w =
     (case r_params r of
        [] \<Rightarrow> (Ret False, r, w)
      | JStr a # _ \<Rightarrow>
          (let addr = ToLower a in
           case GetNonceFixForAccount (e_redis E) (w_redis w) addr of
             (_, _, Some err) \<Rightarrow> (Ret False, r, inc IncRedisErr w)
           | (numTimesSent0, nonceFixInPlace, None) \<Rightarrow>
               if \<not> nonceFixInPlace then (Ret False, r, w)
               else let numTimesSent = numTimesSent0 + 1 in
                 if numTimesSent > 4 then (Ret False, r, w)
                 else (case redis_count (\<lambda>s. SetNonceFixForAccount (e_redis E) s addr numTimesSent) w of
                         (Some err, w1) \<Rightarrow> (Ret False, r, w1)
                       | (None, w1) \<Rightarrow>
                           (Ret True, writeRpcResult (JStr (Sprintf_0x wrongNonce)) r,
                            inc IncMetamaskInterceptorWrongNonce w1)))
      | _ \<Rightarrow> (Panic ''interface conversion: Params[0] is not string'', r, w))"

section \<open>The probe contract\<close>

definition intercept_eth_call_to_FlashRPC_Contract :: "RpcRequest \<Rightarrow> bool go \<times> RpcRequest" where
  "intercept_eth_call_to_FlashRPC_Contract r =
     (case r_params r of
        [] \<Rightarrow> (Ret False, r)
      | JObj ethCallReq # _ \<Rightarrow>
          (case obj_get ethCallReq ''to'' of
             JNull \<Rightarrow> (Ret False, r)
           | JStr to \<Rightarrow>
               if ToLower to \<noteq> ''0xf1a54b0759b58661cea17cff19dd37940a9b5f1a'' then (Ret False, r)
               else (Ret True, writeRpcResult
                 (JStr ''0x0000000000000000000000000000000000000000000000000000000000000001'') r)
           | _ \<Rightarrow> (Panic ''interface conversion: to is not string'', r))
      | _ \<Rightarrow> (Panic ''interface conversion: Params[0] is not map'', r))"

section \<open>The signed transaction count\<close>

text \<open>The address asked for, when the request qualifies: signed, pending, and the signer's own.\<close>

definition signed_count_address :: "RpcRequest \<Rightarrow> string option" where
  "signed_count_address r =
     (if r_flashbotsSigningAddress r = '''' then None
      else case r_params r of
             [JStr a, JStr blockSpecifier] \<Rightarrow>
               if blockSpecifier \<noteq> ''pending'' then None
               else if ToLower a \<noteq> ToLower (r_flashbotsSigningAddress r) then None
               else Some (ToLower a)
           | _ \<Rightarrow> None)"

text \<open>What is answered once the node answered: the cached nonce plus one or the node's count.\<close>

definition answer_signed_count ::
    "'r Env \<Rightarrow> string \<Rightarrow> u64 \<Rightarrow> u64 \<Rightarrow> RpcRequest \<Rightarrow> 'r World \<Rightarrow> RpcRequest \<times> 'r World" where
  "answer_signed_count E addr cachedNonce backendTxCount r w =
     (let txCount = cachedNonce + 1;
          w1 = (if txCount > backendTxCount + 1 then inc IncUniswapInterceptorNonceDiffTooHigh w else w);
          (txCount', w2) =
            (if backendTxCount > txCount
             then (backendTxCount, snd (redis_count (\<lambda>s. DelSenderMaxNonce (e_redis E) s addr) w1))
             else (txCount, w1))
      in (writeRpcResult (JStr (Sprintf_0x txCount')) r, w2))"

definition intercept_signed_eth_getTransactionCount ::
    "'r Env \<Rightarrow> RpcRequest \<Rightarrow> 'r World \<Rightarrow> bool \<times> RpcRequest \<times> 'r World" where
  "intercept_signed_eth_getTransactionCount E r w =
     (case signed_count_address r of
        None \<Rightarrow> (False, r, w)
      | Some addr \<Rightarrow>
          (case GetSenderMaxNonce (e_redis E) (w_redis w) addr of
             (_, _, Some err) \<Rightarrow> (False, r, inc IncRedisErr w)
           | (cachedNonce, found, None) \<Rightarrow>
               if \<not> found then (False, r, w)
               else (case proxyRequestRead E r w of
                       (False, r1, w1) \<Rightarrow>
                         (True, writeRpcError ''internal server error'' JsonRpcInternalError r1, w1)
                     | (True, r1, w1) \<Rightarrow>
                         (case Option.bind (r_jsonRes r1) res_Result of
                            None \<Rightarrow> (True, answer_signed_count E addr cachedNonce 0 r1 w1)
                          | Some v \<Rightarrow>
                              (case hexutil_Uint64_UnmarshalJSON (e_lib E) v of
                                 Inl err \<Rightarrow>
                                   (True, writeRpcError ''internal server error''
                                      JsonRpcInternalError r1, w1)
                               | Inr backendCount \<Rightarrow>
                                   (True, answer_signed_count E addr cachedNonce backendCount r1 w1))))))"

end
