(* ===== verification/Send_Raw_Tx.thy ===== *)
theory Send_Raw_Tx
  imports Request_Processor
begin

text \<open>
  The methods that submit a transaction: \<open>eth_sendRawTransaction\<close>
  (\<open>src/server/request_sendrawtx.go\<close>) and \<open>eth_sendPrivateTransaction\<close>
  (\<open>src/server/request_sendprivatetx.go\<close>), from the sanity checks of the parameters to the
  decision between a whitehat bundle, a cancellation and the relay.
\<close>

definition scMethodBytes :: nat where "scMethodBytes = 4"

text \<open>The part of the handler that comes after the transaction was read and its sender found.\<close>

definition record_tx :: "lib \<Rightarrow> eth_tx \<Rightarrow> RpcRequest \<Rightarrow> RpcRequest" where
  "record_tx L t r = upd_entry (\<lambda>e.
     let e1 = e\<lparr>TxFrom := r_txFrom r, TxTo := AddressPtrToStr L (eth_To t),
                TxNonce := sint (eth_Nonce t)\<rparr>;
         e2 = (if length (eth_Data t) > 0 then e1\<lparr>TxData := hexutil_Encode L (eth_Data t)\<rparr> else e1)
     in if length (eth_Data t) \<ge> scMethodBytes
        then e2\<lparr>TxSmartContractMethod := hexutil_Encode L (take scMethodBytes (eth_Data t))\<rparr>
        else e2) r"

definition stage_high_nonce :: "eth_tx \<Rightarrow> 'r rw \<Rightarrow> 'r rw flow" where
  "stage_high_nonce t s =
     (case s of (r, w) \<Rightarrow>
        if eth_Nonce t \<ge> 1000000000
        then Return (writeRpcError ''tx rejected - nonce too high'' JsonRpcInvalidRequest r, w)
        else Continue s)"

definition stage_blocked :: "'r Env \<Rightarrow> eth_tx \<Rightarrow> 'r rw \<Rightarrow> 'r rw flow" where
  "stage_blocked E t s =
     (case s of (r, w) \<Rightarrow>
        (case GetBlockedTxHash (e_redis E) (w_redis w) (ToLower (eth_HashHex t)) of
           (retVal, isBlocked, _) \<Rightarrow>
             if isBlocked then Return (writeRpcError retVal JsonRpcInternalError r, w)
             else Continue s))"

definition stage_remember_sender :: "'r Env \<Rightarrow> eth_tx \<Rightarrow> 'r rw \<Rightarrow> 'r rw flow" where
  "stage_remember_sender E t s =
     (case s of (r, w) \<Rightarrow>
        Continue (r, snd (redis_count (\<lambda>s. SetSenderAndNonceOfTxHash (e_redis E) s
          (ToLower (eth_HashHex t)) (ToLower (r_txFrom r)) (eth_Nonce t)) w)))"

definition ofac_hit :: "'r Env \<Rightarrow> eth_tx \<Rightarrow> string \<Rightarrow> bool" where
  "ofac_hit E t from \<longleftrightarrow>
     isOnOFACList E from \<or> isOnOFACList E (AddressPtrToStr (e_lib E) (eth_To t))"

definition stage_ofac :: "'r Env \<Rightarrow> eth_tx \<Rightarrow> 'r rw \<Rightarrow> 'r rw flow" where
  "stage_ofac E t s =
     (case s of (r, w) \<Rightarrow>
        let hit = ofac_hit E t (r_txFrom r); r1 = upd_entry (\<lambda>e. e\<lparr>IsOnOafcList := hit\<rparr>) r
        in if hit
           then Return (writeRpcError ''blocked tx due to ofac sanctioned address''
                          JsonRpcInvalidRequest r1, w)
           else Continue (upd_entry (\<lambda>e. e\<lparr>NeedsFrontRunningProtection := True\<rparr>) r1, w))"

definition stage_whitehat :: "'r Env \<Rightarrow> eth_tx \<Rightarrow> 'r rw \<Rightarrow> 'r rw flow" where
  "stage_whitehat E t s =
     (case s of (r, w) \<Rightarrow>
        if \<not> r_isWhitehatBundleCollection r then Continue s
        else (case redis_count (\<lambda>s. AddTxToWhitehatBundle (e_redis E) s (r_whitehatBundleId r)
                                 (r_rawTxHex r)) w of
                (Some err, w1) \<Rightarrow>
                  Return (writeRpcError ''[WhitehatBundleCollection] AddTxToWhitehatBundle failed:''
                            JsonRpcInternalError r, w1)
              | (None, w1) \<Rightarrow> Return (writeRpcResult (JStr (eth_HashHex t)) r, w1)))"

definition is_cancel :: "lib \<Rightarrow> eth_tx \<Rightarrow> string \<Rightarrow> bool" where
  "is_cancel L t from \<longleftrightarrow>
     (case eth_To t of
        None \<Rightarrow> False
      | Some to \<Rightarrow> length (eth_Data t) \<le> 2 \<and> ToLower from = ToLower (geth_Hex L to))"

definition stage_cancel :: "'r Env \<Rightarrow> eth_tx \<Rightarrow> 'r rw \<Rightarrow> 'r rw flow" where
  "stage_cancel E t s =
     (case s of (r, w) \<Rightarrow>
        if \<not> is_cancel (e_lib E) t (r_txFrom r) then Continue s
        else (case handleCancelTx E t (upd_entry (\<lambda>e. e\<lparr>IsCancelTx := True\<rparr>) r, w) of
                (True, s1) \<Rightarrow> Return s1
              | (False, (r1, w1)) \<Rightarrow>
                  Return (sendTxToRelay E t (upd_entry (\<lambda>e. e\<lparr>IsCancelTx := False\<rparr>) r1, w1))))"

definition stage_relay :: "'r Env \<Rightarrow> eth_tx \<Rightarrow> 'r rw \<Rightarrow> 'r rw flow" where
  "stage_relay E t s =
     (case s of (r, w) \<Rightarrow>
        if eth_GasTipCap t = 0
        then Return (writeRpcError ''transaction underpriced: gas tip cap 0, minimum needed 1''
                       JsonRpcInvalidRequest r, w)
        else Return (sendTxToRelay E t s))"

definition submit_stages :: "'r Env \<Rightarrow> eth_tx \<Rightarrow> ('r rw \<Rightarrow> 'r rw flow) list" where
  "submit_stages E t =
     [stage_high_nonce t, stage_blocked E t, stage_remember_sender E t, stage_ofac E t,
      stage_whitehat E t, stage_cancel E t, stage_relay E t]"

definition submit_tx :: "'r Env \<Rightarrow> eth_tx \<Rightarrow> 'r rw \<Rightarrow> 'r rw" where
  "submit_tx E t s = final (foldl and_then (Continue s) (submit_stages E t))"

text \<open>
  A \<open>null\<close> parameter writes an error and goes on to the type assertion, which panics, as does
  any parameter that is not a string.
\<close>

definition handle_sendRawTransaction :: "'r Env \<Rightarrow> 'r rw \<Rightarrow> unit go \<times> 'r rw" where
  "handle_sendRawTransaction E s =
     (let (r, w0) = s; w = inc IncPrivateTx w0; L = e_lib E in
      case r_params r of
        [] \<Rightarrow>
          (Ret (), writeRpcError ''empty params for eth_sendRawTransaction'' JsonRpcInvalidParams r, w)
      | JNull # _ \<Rightarrow>
          (Panic ''interface conversion: interface is nil, not string'',
           writeRpcError ''nil params for eth_sendRawTransaction'' JsonRpcInvalidParams r, w)
      | JStr raw # _ \<Rightarrow>
          (let r1 = r\<lparr>r_rawTxHex := raw\<rparr> in
           if length raw < 2
           then (Ret (), writeRpcError ''invalid raw transaction param (wrong length)''
                           JsonRpcInvalidParams r1, w)
           else
             let r2 = upd_entry (\<lambda>e. e\<lparr>TxRaw := raw\<rparr>) r1 in
             case GetTx L raw of
               Inl _ \<Rightarrow>
                 (Ret (), writeRpcError (''reading transaction object failed - rawTx: '' @ raw)
                            JsonRpcInvalidRequest (r2\<lparr>r_tx := None\<rparr>), w)
             | Inr t \<Rightarrow>
                 (let r3 = upd_entry (\<lambda>e. e\<lparr>entry_TxHash := eth_HashHex t\<rparr>) (r2\<lparr>r_tx := Some t\<rparr>) in
                  case GetSenderFromRawTx L t of
                    Inl err \<Rightarrow>
                      (Ret (), writeRpcError (''couldn't get address from rawTx: '' @ err)
                                 JsonRpcInvalidRequest (r3\<lparr>r_txFrom := ''''\<rparr>), w)
                  | Inr from \<Rightarrow>
                      (Ret (), submit_tx E t (record_tx L t (r3\<lparr>r_txFrom := from\<rparr>), w))))
      | _ \<Rightarrow> (Panic ''interface conversion: Params[0] is not string'', r, w))"

text \<open>
  \<open>eth_sendPrivateTransaction\<close>: the second parameter sets the highest block, the third the
  preference \<open>fast\<close>; an error is written and nothing is submitted.
\<close>

definition stage_max_block :: "lib \<Rightarrow> RpcRequest \<Rightarrow> RpcRequest flow" where
  "stage_max_block L r =
     (if length (r_params r) > 1 then
        (case r_params r ! 1 of
           JStr m \<Rightarrow>
             (case hexutil_DecodeUint64 L m of
                Inl _ \<Rightarrow> Return (writeRpcError ''MaxBlockNumber must be a valid hexadecimal string''
                                  JsonRpcParseError r)
              | Inr mx \<Rightarrow> Continue (r\<lparr>r_maxBlockNumberOverride := mx\<rparr>))
         | _ \<Rightarrow> Return (writeRpcError ''MaxBlockNumber must be a string'' JsonRpcParseError r))
      else Continue r)"

definition stage_fast :: "RpcRequest \<Rightarrow> RpcRequest flow" where
  "stage_fast r =
     (if length (r_params r) > 2 then
        (case r_params r ! 2 of
           JObj f \<Rightarrow>
             (case obj_get f ''fast'' of
                JBool b \<Rightarrow>
                  Continue (r\<lparr>r_urlParams := (r_urlParams r)\<lparr>pref :=
                    (pref (r_urlParams r))\<lparr>Fast := b\<rparr>\<rparr>\<rparr>)
              | _ \<Rightarrow> Return (writeRpcError ''Preferences fast must be a boolean'' JsonRpcParseError r))
         | _ \<Rightarrow> Return (writeRpcError ''Preferences must be an object'' JsonRpcParseError r))
      else Continue r)"

definition handle_sendPrivateTransaction :: "'r Env \<Rightarrow> 'r rw \<Rightarrow> unit go \<times> 'r rw" where
  "handle_sendPrivateTransaction E s =
     (case s of (r, w) \<Rightarrow>
        (case and_then (stage_max_block (e_lib E) r) stage_fast of
           Return r1 \<Rightarrow> (Ret (), (r1, w))
         | Continue r1 \<Rightarrow> handle_sendRawTransaction E (r1, w)))"

end
