(* ===== verification/Signature.thy ===== *)
theory Signature
  imports Request_Processor
begin

text \<open>
  The header \<open>X-Flashbots-Signature\<close> (\<open>src/adapters/flashbots/signature.go\<close>) and its check in
  \<open>src/server/request_processor.go\<close>. Hashing and elliptic-curve operations are parameters
  (go-ethereum); the header's form, the recovery id and the comparison of addresses are here.
\<close>

datatype sig_error = ErrNoSignature | ErrInvalidSignature string

text \<open>
  The text of an error: \<open>%w\<close> prints the wrapped error, and a nil one as \<open>%!w(<nil>)\<close>.
\<close>

fun sig_error_text :: "sig_error \<Rightarrow> string" where
  "sig_error_text ErrNoSignature = ''no signature provided''"
| "sig_error_text (ErrInvalidSignature detail) =
     ''invalid signature provided'' @ detail"

definition nil_detail :: string where "nil_detail = '': %!w(<nil>)''"

definition VerifySignature :: "lib \<Rightarrow> string \<Rightarrow> string \<Rightarrow> string \<Rightarrow> sig_error + string" where
  "VerifySignature L body signingAddressStr signatureStr =
     (case hexutil_Decode L signatureStr of
        Inl err \<Rightarrow> Inl (ErrInvalidSignature ('': '' @ err))
      | Inr signature0 \<Rightarrow>
          if length signature0 = 0 then Inl (ErrInvalidSignature nil_detail)
          else
            let signature = (if last signature0 \<ge> 27 then butlast signature0 @ [last signature0 - 27]
                             else signature0);
                hashedBody = crypto_Keccak256Hex L body;
                messageHash = crypto_TextHash L hashedBody
            in case crypto_Ecrecover L messageHash signature of
                 Inl err \<Rightarrow> Inl (ErrInvalidSignature ('': '' @ err))
               | Inr pubkeyBytes \<Rightarrow>
                   (case crypto_UnmarshalPubkeyAddress L pubkeyBytes of
                      Inl err \<Rightarrow> Inl (ErrInvalidSignature ('': '' @ err))
                    | Inr a \<Rightarrow>
                        let signaturePubKeyAddress = geth_Hex L a in
                        if \<not> EqualFold signaturePubKeyAddress signingAddressStr
                        then Inl (ErrInvalidSignature '': signing address mismatch'')
                        else if \<not> crypto_VerifySignature L pubkeyBytes messageHash (butlast signature)
                        then Inl (ErrInvalidSignature nil_detail)
                        else Inr signaturePubKeyAddress))"

definition ParseSignature :: "lib \<Rightarrow> string \<Rightarrow> string \<Rightarrow> sig_error + string" where
  "ParseSignature L header body =
     (if header = '''' then Inl ErrNoSignature
      else case Split header (CHR '':'') of
             [a, b] \<Rightarrow> VerifySignature L body a b
           | _ \<Rightarrow> Inl (ErrInvalidSignature ''''))"

definition CheckFlashbotsSignature ::
    "lib \<Rightarrow> string \<Rightarrow> string \<Rightarrow> RpcRequest \<Rightarrow> sig_error option \<times> RpcRequest" where
  "CheckFlashbotsSignature L signature body r =
     (if signature = '''' then (None, r)
      else case ParseSignature L signature body of
             Inl ErrNoSignature \<Rightarrow> (None, r)
           | Inl err \<Rightarrow> (Some err, r)
           | Inr signingAddress \<Rightarrow> (None, r\<lparr>r_flashbotsSigningAddress := signingAddress\<rparr>))"

end
