(* ===== verification/Process_Request.thy ===== *)
theory Process_Request
  imports Intercepts Send_Raw_Tx Signature
begin

text \<open>
  The dispatch of a request by its method (\<open>ProcessRequest\<close> in
  \<open>src/server/request_processor.go\<close>). The result is the outcome of the call beside the request
  and the world: the response, which may be nil in Go, or a panic.
\<close>

text \<open>
  \<open>logRequest\<close> reads the parameters of an \<open>eth_call\<close>; what it can do to the request is panic.
\<close>

definition logRequest :: "RpcRequest \<Rightarrow> unit go" where
  "logRequest r =
     (if req_Method (r_jsonReq r) = ''eth_call'' \<and> length (r_params r) > 0 then
        (case hd (r_params r) of
           JObj p \<Rightarrow>
             (if (case obj_get p ''to'' of JNull \<Rightarrow> True | JStr _ \<Rightarrow> True | _ \<Rightarrow> False)
              then if (case obj_get p ''data'' of JNull \<Rightarrow> True | JStr _ \<Rightarrow> True | _ \<Rightarrow> False)
                   then Ret ()
                   else Panic ''interface conversion: data is not string''
              else Panic ''interface conversion: to is not string'')
         | _ \<Rightarrow> Panic ''interface conversion: Params[0] is not map'')
      else Ret ())"

type_synonym 'r processed = "JsonRpcResponse option go \<times> 'r rw"

text \<open>\<open>return r.jsonRes\<close>\<close>

definition respond :: "'r rw \<Rightarrow> 'r processed" where
  "respond s = (Ret (r_jsonRes (fst s)), s)"

definition after :: "unit go \<times> 'r rw \<Rightarrow> 'r processed" where
  "after m = (case m of (Panic p, s) \<Rightarrow> (Panic p, s) | (Ret _, s) \<Rightarrow> respond s)"

definition submit_method ::
    "('r rw \<Rightarrow> unit go \<times> 'r rw) \<Rightarrow> 'r rw \<Rightarrow> 'r processed" where
  "submit_method handle s =
     (case s of (r, w) \<Rightarrow>
        (case r_ethSendRawTxEntry r of
           None \<Rightarrow> (Panic ''nil pointer dereference: ethSendRawTxEntry'', s)
         | Some _ \<Rightarrow>
             after (handle (upd_entry (\<lambda>e. e\<lparr>WhiteHatBundleId := r_whitehatBundleId r\<rparr>) r, w))))"

text \<open>The last case of the switch: to the node.\<close>

definition proxy_checked :: "'r Env \<Rightarrow> 'r rw \<Rightarrow> 'r processed" where
  "proxy_checked E s =
     (case s of (r, w) \<Rightarrow>
        (case proxyRequestRead E r w of
           (False, r1, w1) \<Rightarrow>
             respond (writeRpcError ''internal server error'' JsonRpcInternalError r1, w1)
         | (True, r1, w1) \<Rightarrow>
             if req_Method (r_jsonReq r1) = ''eth_getTransactionReceipt'' then
               (case check_post_getTransactionReceipt E (r_jsonRes r1) r1 w1 of
                  (Panic p, w2) \<Rightarrow> (Panic p, r1, w2)
                | (Ret _, w2) \<Rightarrow> respond (r1, w2))
             else respond (r1, w1)))"

definition proxy_default :: "'r Env \<Rightarrow> 'r rw \<Rightarrow> 'r processed" where
  "proxy_default E s =
     (case s of (r, w) \<Rightarrow>
        if r_isWhitehatBundleCollection r \<and> req_Method (r_jsonReq r) = ''eth_call'' then
          (case WhitehatBalanceCheckerRewrite r of
             Panic p \<Rightarrow> (Panic p, s)
           | Ret r1 \<Rightarrow> proxy_checked E (r1, w))
        else proxy_checked E s)"

text \<open>The cases from \<open>net_version\<close> on, reached by every method no earlier case answered.\<close>

definition answer_locally_or_proxy :: "'r Env \<Rightarrow> 'r rw \<Rightarrow> 'r processed" where
  "answer_locally_or_proxy E s =
     (case s of (r, w) \<Rightarrow>
        if req_Method (r_jsonReq r) = ''net_version'' then
          respond (writeRpcResult (case r_chainID r of None \<Rightarrow> JNull | Some j \<Rightarrow> j) r, w)
        else if r_isWhitehatBundleCollection r \<and> req_Method (r_jsonReq r) = ''eth_getBalance'' then
          respond (writeRpcResult (JStr ''0x56bc75e2d63100000'') r, w)
        else proxy_default E s)"

definition client_version :: "'r Env \<Rightarrow> 'r rw \<Rightarrow> 'r processed" where
  "client_version E s =
     (case s of (r, w) \<Rightarrow>
        (case RpcCache_Get (w_now w div time_Second) (w_cache w) ''web3_clientVersion'' of
           (Some res, c) \<Rightarrow> respond (r\<lparr>r_jsonRes := Some res\<rparr>, w\<lparr>w_cache := c\<rparr>)
         | (None, c) \<Rightarrow>
             (case proxyRequestRead E r (w\<lparr>w_cache := c\<rparr>) of
                (False, r1, w1) \<Rightarrow>
                  respond (writeRpcError ''internal server error'' JsonRpcInternalError r1, w1)
              | (True, r1, w1) \<Rightarrow>
                  respond (r1, case r_jsonRes r1 of
                    None \<Rightarrow> w1
                  | Some res \<Rightarrow> w1\<lparr>w_cache := RpcCache_Set (w_now w1 div time_Second) (w_cache w1)
                                     ''web3_clientVersion'' res\<rparr>))))"

definition transaction_count :: "'r Env \<Rightarrow> 'r rw \<Rightarrow> 'r processed" where
  "transaction_count E s =
     (case s of (r, w) \<Rightarrow>
        (case intercept_signed_eth_getTransactionCount E r w of
           (True, r1, w1) \<Rightarrow> respond (r1, w1)
         | (False, r1, w1) \<Rightarrow>
             (case intercept_mm_eth_getTransactionCount E r1 w1 of
                (Panic p, r2, w2) \<Rightarrow> (Panic p, r2, w2)
              | (Ret True, r2, w2) \<Rightarrow> respond (r2, w2)
              | (Ret False, r2, w2) \<Rightarrow> answer_locally_or_proxy E (r2, w2))))"

definition eth_call_method :: "'r Env \<Rightarrow> 'r rw \<Rightarrow> 'r processed" where
  "eth_call_method E s =
     (case s of (r, w) \<Rightarrow>
        (case intercept_eth_call_to_FlashRPC_Contract r of
           (Panic p, r1) \<Rightarrow> (Panic p, r1, w)
         | (Ret True, r1) \<Rightarrow> respond (r1, w)
         | (Ret False, r1) \<Rightarrow> answer_locally_or_proxy E (r1, w)))"

definition dispatch :: "'r Env \<Rightarrow> 'r rw \<Rightarrow> 'r processed" where
  "dispatch E s =
     (let m = req_Method (r_jsonReq (fst s)) in
      if m = ''eth_sendRawTransaction'' then submit_method (handle_sendRawTransaction E) s
      else if m = ''eth_sendPrivateTransaction'' then submit_method (handle_sendPrivateTransaction E) s
      else if m = ''eth_getTransactionCount'' then transaction_count E s
      else if m = ''eth_call'' then eth_call_method E s
      else if m = ''web3_clientVersion'' then client_version E s
      else answer_locally_or_proxy E s)"

definition ProcessRequest :: "'r Env \<Rightarrow> 'r rw \<Rightarrow> 'r processed" where
  "ProcessRequest E s =
     (case logRequest (fst s) of
        Panic p \<Rightarrow> (Panic p, s)
      | Ret _ \<Rightarrow> dispatch E s)"

end
