(* ===== verification/Relay_Props.thy ===== *)
theory Relay_Props
  imports Process_Request
begin

text \<open>
  What stands between a transaction and the relay. The contract of a handler's stage is the
  locale \<open>stages\<close>: what every stage leaves alone, and that a stage that returns has written the
  answer. The theorems give the decision table of \<open>sendTxToRelay\<close>, the conditions under which a
  request can reach the relay at all, and the cancellation protocol.
\<close>

section \<open>Frame facts\<close>

lemma redis_do_frame [simp]:
  "w_calls (snd (redis_do f w)) = w_calls w" "w_now (snd (redis_do f w)) = w_now w"
  "w_go (snd (redis_do f w)) = w_go w" "w_cache (snd (redis_do f w)) = w_cache w"
  "w_redis (snd (redis_do f w)) = snd (f (w_redis w))" "fst (redis_do f w) = fst (f (w_redis w))"
  by (simp_all add: redis_do_def split: prod.splits)

lemma inc_frame [simp]:
  "w_calls (inc m w) = w_calls w" "w_now (inc m w) = w_now w" "w_go (inc m w) = w_go w"
  "w_cache (inc m w) = w_cache w" "w_redis (inc m w) = w_redis w"
  by (simp_all add: inc_def)

lemma redis_count_frame [simp]:
  "w_calls (snd (redis_count f w)) = w_calls w" "w_now (snd (redis_count f w)) = w_now w"
  "w_go (snd (redis_count f w)) = w_go w" "w_cache (snd (redis_count f w)) = w_cache w"
  "w_redis (snd (redis_count f w)) = snd (f (w_redis w))"
  "fst (redis_count f w) = fst (f (w_redis w))"
  by (auto simp: redis_count_def redis_do_def inc_def split: prod.splits)

lemma make_call_frame [simp]:
  "w_calls (make_call E c w) = c # w_calls w" "w_go (make_call E c w) = w_go w"
  "w_cache (make_call E c w) = w_cache w" "w_metrics (make_call E c w) = w_metrics w"
  by (simp_all add: make_call_def split: prod.splits)

lemma start_go_frame [simp]:
  "w_calls (start_go g w) = w_calls w" "w_redis (start_go g w) = w_redis w"
  "w_now (start_go g w) = w_now w" "w_cache (start_go g w) = w_cache w"
  by (simp_all add: start_go_def)

text \<open>
  What every stage keeps of the analytics entry: its ids, the raw transaction, and the mark that
  it was sent.
\<close>

definition entry_le :: "EthSendRawTxEntry \<Rightarrow> EthSendRawTxEntry \<Rightarrow> bool" where
  "entry_le e e' \<longleftrightarrow>
     tx_Id e' = tx_Id e \<and> tx_RequestId e' = tx_RequestId e \<and> TxRaw e' = TxRaw e \<and>
     (WasSentToRelay e \<longrightarrow> WasSentToRelay e')"

lemma entry_le_refl [simp]: "entry_le e e"
  by (simp add: entry_le_def)

lemma entry_le_trans: "entry_le e e1 \<Longrightarrow> entry_le e1 e2 \<Longrightarrow> entry_le e e2"
  by (simp add: entry_le_def)

lemma rel_entry_refl [simp]: "rel_option entry_le e e"
  by (cases e) simp_all

lemma rel_entry_trans:
  "rel_option entry_le e e1 \<Longrightarrow> rel_option entry_le e1 e2 \<Longrightarrow> rel_option entry_le e e2"
  by (cases e; cases e1; cases e2) (auto intro: entry_le_trans)

lemma rel_entry_map: "(\<And>e. entry_le e (f e)) \<Longrightarrow> rel_option entry_le e (map_option f e)"
  by (cases e) simp_all

text \<open>The fields of the request that no stage of a submission writes.\<close>

definition kept :: "RpcRequest \<Rightarrow> RpcRequest \<Rightarrow> bool" where
  "kept r r' \<longleftrightarrow>
     (\<exists>res e p.
        r' = r\<lparr>r_jsonRes := res, r_ethSendRawTxEntry := e, r_urlParams := (r_urlParams r)\<lparr>pref := p\<rparr>\<rparr>
        \<and> rel_option entry_le (r_ethSendRawTxEntry r) e)"

lemma kept_refl [simp]: "kept r r"
  unfolding kept_def
  by (rule exI [of _ "r_jsonRes r"], rule exI [of _ "r_ethSendRawTxEntry r"],
      rule exI [of _ "pref (r_urlParams r)"]) simp

lemma kept_trans:
  assumes "kept r r1" "kept r1 r2"
  shows "kept r r2"
proof -
  obtain res e p where
    1: "r1 = r\<lparr>r_jsonRes := res, r_ethSendRawTxEntry := e, r_urlParams := (r_urlParams r)\<lparr>pref := p\<rparr>\<rparr>"
      "rel_option entry_le (r_ethSendRawTxEntry r) e"
    using assms(1) unfolding kept_def by (elim exE conjE)
  obtain res' e' p' where
    2: "r2 = r1\<lparr>r_jsonRes := res', r_ethSendRawTxEntry := e', r_urlParams := (r_urlParams r1)\<lparr>pref := p'\<rparr>\<rparr>"
      "rel_option entry_le (r_ethSendRawTxEntry r1) e'"
    using assms(2) unfolding kept_def by (elim exE conjE)
  show ?thesis
    unfolding kept_def
    by (rule exI [of _ res'], rule exI [of _ e'], rule exI [of _ p'])
      (use 1 2 rel_entry_trans in auto)
qed

lemma kept_fields:
  assumes "kept r r'"
  shows "r_jsonReq r' = r_jsonReq r" "r_client r' = r_client r" "r_relayUrl r' = r_relayUrl r"
    "r_relaySigningKey r' = r_relaySigningKey r" "r_rawTxHex r' = r_rawTxHex r"
    "r_txFrom r' = r_txFrom r" "r_maxBlockNumberOverride r' = r_maxBlockNumberOverride r"
    "r_defaultEthClient r' = r_defaultEthClient r"
    "r_isWhitehatBundleCollection r' = r_isWhitehatBundleCollection r"
    "blockRange (r_urlParams r') = blockRange (r_urlParams r)"
    "fast (r_urlParams r') = fast (r_urlParams r)"
    "originId (r_urlParams r') = originId (r_urlParams r)"
    "auctionTimeout (r_urlParams r') = auctionTimeout (r_urlParams r)"
    "r_params r' = r_params r"
  using assms by (auto simp: kept_def r_params_def)

lemma kept_entry: "kept r r' \<Longrightarrow> rel_option entry_le (r_ethSendRawTxEntry r) (r_ethSendRawTxEntry r')"
  by (auto simp: kept_def)

lemma kept_upd_entry:
  assumes "\<And>e. entry_le e (f e)"
  shows "kept r (upd_entry f r)"
  unfolding kept_def upd_entry_def
  by (rule exI [of _ "r_jsonRes r"], rule exI [of _ "map_option f (r_ethSendRawTxEntry r)"],
      rule exI [of _ "pref (r_urlParams r)"]) (use rel_entry_map [of f, OF assms] in simp)

lemma kept_entry_updates [simp]:
  "kept r (upd_entry (\<lambda>e. e\<lparr>IsBlocked := b\<rparr>) r)" "kept r (upd_entry (\<lambda>e. e\<lparr>WasSentToRelay := True\<rparr>) r)"
  "kept r (upd_entry (\<lambda>e. e\<lparr>IsOnOafcList := b\<rparr>) r)" "kept r (upd_entry (\<lambda>e. e\<lparr>IsCancelTx := b\<rparr>) r)"
  "kept r (upd_entry (\<lambda>e. e\<lparr>NeedsFrontRunningProtection := b\<rparr>) r)"
  "kept r (upd_entry (\<lambda>e. e\<lparr>entry_Error := m, entry_ErrorCode := c\<rparr>) r)"
  "kept r (upd_entry (\<lambda>e. e\<lparr>WhiteHatBundleId := m\<rparr>) r)"
  by (rule kept_upd_entry, simp add: entry_le_def)+

lemma upd_entry_fields [simp]:
  "r_jsonReq (upd_entry f r) = r_jsonReq r" "r_client (upd_entry f r) = r_client r"
  "r_relayUrl (upd_entry f r) = r_relayUrl r" "r_relaySigningKey (upd_entry f r) = r_relaySigningKey r"
  "r_rawTxHex (upd_entry f r) = r_rawTxHex r" "r_txFrom (upd_entry f r) = r_txFrom r"
  "r_maxBlockNumberOverride (upd_entry f r) = r_maxBlockNumberOverride r"
  "r_defaultEthClient (upd_entry f r) = r_defaultEthClient r"
  "r_isWhitehatBundleCollection (upd_entry f r) = r_isWhitehatBundleCollection r"
  "r_params (upd_entry f r) = r_params r"
  "r_ethSendRawTxEntry (upd_entry f r) = map_option f (r_ethSendRawTxEntry r)"
  by (simp_all add: upd_entry_def r_params_def)

lemma kept_jsonRes: "kept r (r\<lparr>r_jsonRes := x\<rparr>)"
  unfolding kept_def
  by (rule exI [of _ x], rule exI [of _ "r_ethSendRawTxEntry r"],
      rule exI [of _ "pref (r_urlParams r)"]) simp

lemma kept_pref: "kept r (r\<lparr>r_urlParams := (r_urlParams r)\<lparr>pref := p\<rparr>\<rparr>)"
  unfolding kept_def
  by (rule exI [of _ "r_jsonRes r"], rule exI [of _ "r_ethSendRawTxEntry r"],
      rule exI [of _ p]) simp

lemma kept_writeRpcResult [simp]: "kept r (writeRpcResult x r)"
  by (simp add: writeRpcResult_def kept_jsonRes)

lemma kept_writeRpcError [simp]: "kept r (writeRpcError m c r)"
  using kept_trans [OF kept_entry_updates(6) kept_jsonRes] by (auto simp: writeRpcError_def kept_jsonRes)

lemmas kept_write [simp] =
  kept_fields [OF kept_writeRpcResult] kept_fields [OF kept_writeRpcError]

lemma pref_write [simp]:
  "r_urlParams (writeRpcResult x r) = r_urlParams r" "r_urlParams (writeRpcError m c r) = r_urlParams r"
  "r_urlParams (upd_entry f r) = r_urlParams r"
  by (simp_all add: writeRpcResult_def writeRpcError_def upd_entry_def)

section \<open>Answers\<close>

text \<open>The two shapes of an answer the endpoint writes itself; both carry the id of the request.\<close>

definition answered_result :: "json \<Rightarrow> RpcRequest \<Rightarrow> bool" where
  "answered_result x r \<longleftrightarrow>
     r_jsonRes r = Some \<lparr>res_Id = req_Id (r_jsonReq r), res_Result = Some x, res_Error = None,
                         res_Version = ''2.0''\<rparr>"

definition answered_error :: "string \<Rightarrow> int \<Rightarrow> RpcRequest \<Rightarrow> bool" where
  "answered_error m c r \<longleftrightarrow>
     r_jsonRes r = Some \<lparr>res_Id = req_Id (r_jsonReq r), res_Result = None,
                         res_Error = Some \<lparr>err_Code = c, err_Message = m\<rparr>, res_Version = ''2.0''\<rparr>"

definition answered :: "RpcRequest \<Rightarrow> bool" where
  "answered r \<longleftrightarrow> (\<exists>x. answered_result x r) \<or> (\<exists>m c. answered_error m c r)"

lemma answered_write [simp]:
  "answered_result x (writeRpcResult x r)" "answered_error m c (writeRpcError m c r)"
  by (simp_all add: answered_result_def answered_error_def writeRpcResult_def writeRpcError_def
      upd_entry_def)

lemma answered_write_some [simp]: "answered (writeRpcResult x r)" "answered (writeRpcError m c r)"
  unfolding answered_def using answered_write by blast+

lemma answered_jsonRes: "answered r \<Longrightarrow>
    \<exists>res. r_jsonRes r = Some res \<and> res_Id res = req_Id (r_jsonReq r) \<and> res_Version res = ''2.0''"
  by (auto simp: answered_def answered_result_def answered_error_def)

lemma answered_error_upd:
  "answered r \<Longrightarrow> answered (upd_entry f r)"
  by (simp add: answered_def answered_result_def answered_error_def upd_entry_def)

section \<open>Relay calls\<close>

fun is_relay_call :: "ext_call \<Rightarrow> bool" where
  "is_relay_call (CallRelay _ _ _) = True"
| "is_relay_call _ = False"

definition relay_calls :: "'r World \<Rightarrow> ext_call list" where
  "relay_calls w = filter is_relay_call (w_calls w)"

lemma relay_calls_simps [simp]:
  "relay_calls (inc m w) = relay_calls w" "relay_calls (start_go g w) = relay_calls w"
  "relay_calls (snd (redis_count f w)) = relay_calls w" "relay_calls (w\<lparr>w_cache := cc\<rparr>) = relay_calls w"
  "relay_calls (make_call E c w) = (if is_relay_call c then c # relay_calls w else relay_calls w)"
  by (simp_all add: relay_calls_def inc_def start_go_def)

lemma relay_calls_http_Do [simp]: "relay_calls (snd (http_Do E q w)) = relay_calls w"
  by (simp add: http_Do_def split: sum.splits)

lemma relay_calls_ProxyRequest [simp]: "relay_calls (snd (ProxyRequest E n b w)) = relay_calls w"
  by (simp add: ProxyRequest_def)

lemma relay_calls_ProxyRequest_D: "ProxyRequest E n b w = (x, w') \<Longrightarrow> relay_calls w' = relay_calls w"
  using relay_calls_ProxyRequest [of E n b w] by simp

lemma relay_calls_http_Do_D: "http_Do E q w = (x, w') \<Longrightarrow> relay_calls w' = relay_calls w"
  using relay_calls_http_Do [of E q w] by simp

lemma relay_calls_GetTxStatus [simp]: "relay_calls (snd (GetTxStatus E h w)) = relay_calls w"
  by (auto simp: GetTxStatus_def Let_def dest!: relay_calls_http_Do_D
      split: prod.splits sum.splits option.splits)

lemma relay_calls_GetTxStatus_D: "GetTxStatus E h w = (x, w') \<Longrightarrow> relay_calls w' = relay_calls w"
  using relay_calls_GetTxStatus [of E h w] by simp

lemma relay_calls_proxyRequestRead [simp]:
  "relay_calls (snd (snd (proxyRequestRead E r w))) = relay_calls w"
  by (auto simp: proxyRequestRead_def dest!: relay_calls_ProxyRequest_D
      split: prod.splits sum.splits option.splits)

lemma relay_calls_blockResending [simp]:
  "relay_calls (snd (blockResendingTxToRelay E h w)) = relay_calls w"
  by (auto simp: blockResendingTxToRelay_def dest!: relay_calls_GetTxStatus_D
      split: prod.splits sum.splits option.splits)

lemma relay_calls_GetAddressNonceRange [simp]:
  "relay_calls (snd (snd (GetAddressNonceRange E r w))) = relay_calls w"
  by (auto simp: GetAddressNonceRange_def Let_def dest!: relay_calls_ProxyRequest_D
      split: prod.splits sum.splits option.splits)

section \<open>The contract of a stage\<close>

lemma foldl_Return [simp]: "foldl and_then (Return s) fs = Return s"
  by (induction fs) simp_all

text \<open>
  A list of stages that do not call the relay: each keeps the identity of the request and the
  relay calls, and answers when it returns. So does their composition.
\<close>

locale stages =
  fixes fs :: "('r rw \<Rightarrow> 'r rw flow) list"
  assumes stage_kept: "f \<in> set fs \<Longrightarrow> kept (fst s) (fst (final (f s)))"
    and stage_quiet: "f \<in> set fs \<Longrightarrow> relay_calls (snd (final (f s))) = relay_calls (snd s)"
    and stage_answers: "f \<in> set fs \<Longrightarrow> f s = Return s' \<Longrightarrow> answered (fst s')"
begin

lemma run_sublist:
  assumes "set gs \<subseteq> set fs"
  shows "kept (fst s) (fst (final (foldl and_then (Continue s) gs))) \<and>
    relay_calls (snd (final (foldl and_then (Continue s) gs))) = relay_calls (snd s) \<and>
    (\<forall>s'. foldl and_then (Continue s) gs = Return s' \<longrightarrow> answered (fst s'))"
  using assms
proof (induction gs arbitrary: s)
  case (Cons g gs)
  then have g: "g \<in> set fs" and gs: "set gs \<subseteq> set fs" by auto
  show ?case
  proof (cases "g s")
    case (Return s1)
    then show ?thesis
      using stage_kept [OF g, of s] stage_quiet [OF g, of s] stage_answers [OF g Return] by simp
  next
    case (Continue s1)
    then show ?thesis
      using stage_kept [OF g, of s] stage_quiet [OF g, of s] Cons.IH [OF gs, of s1]
      by (auto intro: kept_trans)
  qed
qed simp

lemma run_kept: "kept (fst s) (fst (final (foldl and_then (Continue s) fs)))"
  and run_quiet: "relay_calls (snd (final (foldl and_then (Continue s) fs))) = relay_calls (snd s)"
  and run_answers: "foldl and_then (Continue s) fs = Return s' \<Longrightarrow> answered (fst s')"
  using run_sublist [of fs s] by auto

lemma run_continue:
  assumes "foldl and_then (Continue s) fs = Continue s'"
  shows "kept (fst s) (fst s') \<and> relay_calls (snd s') = relay_calls (snd s)"
  using run_kept [of s] run_quiet [of s] assms by simp

end

text \<open>Everything \<open>sendTxToRelay\<close> does before the last stage.\<close>

definition relay_prefix :: "'r Env \<Rightarrow> eth_tx \<Rightarrow> string \<Rightarrow> ('r rw \<Rightarrow> 'r rw flow) list" where
  "relay_prefix E t h = butlast (relay_stages E t h)"

lemmas relay_stage_defs =
  stage_resend_def stage_mark_sent_def stage_nonce_def stage_go_max_nonce_def stage_size_def
  stage_remember_def stage_debug_def stage_refund_def stage_timeout_def

lemma GetAddressNonceRange_kept [simp]: "kept r (fst (snd (GetAddressNonceRange E r w)))"
  by (auto simp: GetAddressNonceRange_def Let_def split: prod.splits sum.splits option.splits)

lemma kept_set_pref:
  "kept r (r\<lparr>r_urlParams := set_refund l (r_urlParams r)\<rparr>)"
  "kept r (r\<lparr>r_urlParams := set_privacy f (r_urlParams r)\<rparr>)"
  by (simp_all add: set_refund_def set_privacy_def kept_pref)

lemma GetAddressNonceRange_D:
  "GetAddressNonceRange E r w = (x, r', w') \<Longrightarrow> kept r r' \<and> relay_calls w' = relay_calls w"
  using GetAddressNonceRange_kept [of r E w] relay_calls_GetAddressNonceRange [of E r w] by simp

lemma relay_calls_blockResending_D:
  "blockResendingTxToRelay E h w = (x, w') \<Longrightarrow> relay_calls w' = relay_calls w"
  using relay_calls_blockResending [of E h w] by simp

lemma stage_nonce_contract:
  "kept (fst s) (fst (final (stage_nonce E t s)))"
  "relay_calls (snd (final (stage_nonce E t s))) = relay_calls (snd s)"
  "stage_nonce E t s = Return s' \<Longrightarrow> answered (fst s')"
  by (auto simp: stage_nonce_def split: prod.splits option.splits if_splits
      dest!: GetAddressNonceRange_D intro: kept_trans [OF _ kept_writeRpcError])

lemma stage_resend_contract:
  "kept (fst s) (fst (final (stage_resend E h s)))"
  "relay_calls (snd (final (stage_resend E h s))) = relay_calls (snd s)"
  "stage_resend E h s = Return s' \<Longrightarrow> answered (fst s')"
  by (auto simp: stage_resend_def split: prod.splits bool.splits
      dest!: relay_calls_blockResending_D intro: kept_trans [OF kept_entry_updates(1) kept_writeRpcResult])

lemma stage_refund_eq:
  "stage_refund E t (r, w) =
     (let p = r_urlParams r; refund = Refund (Validity (pref p)) in
      if refund \<noteq> [] then
        Continue (r\<lparr>r_urlParams :=
          set_refund (replaceZeroRefund refund (geth_HexToAddress (e_lib E) (r_txFrom r))) p\<rparr>, w)
      else if fast p then
        (case geth_Sender (e_lib E) t of
           Inl err \<Rightarrow> Return (writeRpcError err JsonRpcInternalError r, w)
         | Inr addr \<Rightarrow>
             Continue (r\<lparr>r_urlParams := set_refund [\<lparr>refund_Address = addr, refund_Percent = 50\<rparr>] p\<rparr>, w))
      else Continue (r, w))"
  by (auto simp: stage_refund_def Let_def set_refund_def replaceZeroRefund_def
      GetSenderAddressFromTx_def split: sum.splits)

lemma stage_refund_contract:
  "kept (fst s) (fst (final (stage_refund E t s)))"
  "relay_calls (snd (final (stage_refund E t s))) = relay_calls (snd s)"
  "stage_refund E t s = Return s' \<Longrightarrow> answered (fst s')"
  by (cases s; auto simp: stage_refund_eq Let_def kept_set_pref split: sum.splits if_splits)+

interpretation relay_prefix: stages "relay_prefix E t h" for E t h
proof unfold_locales
  fix f :: "'a rw \<Rightarrow> 'a rw flow" and s s'
  assume f: "f \<in> set (relay_prefix E t h)"
  then have "f \<in> {stage_resend E h, stage_nonce E t, stage_refund E t} \<or>
      f \<in> {stage_mark_sent E h, stage_go_max_nonce t, stage_size E t, stage_remember E t h,
            stage_debug E h, stage_timeout}"
    by (auto simp: relay_prefix_def relay_stages_def)
  then have "kept (fst s) (fst (final (f s))) \<and> relay_calls (snd (final (f s))) = relay_calls (snd s) \<and>
      (f s = Return s' \<longrightarrow> answered (fst s'))"
  proof
    assume "f \<in> {stage_resend E h, stage_nonce E t, stage_refund E t}"
    then show ?thesis
      by (auto simp: stage_resend_contract(1,2) stage_nonce_contract(1,2) stage_refund_contract(1,2)
          dest: stage_resend_contract(3) stage_nonce_contract(3) stage_refund_contract(3))
  next
    assume "f \<in> {stage_mark_sent E h, stage_go_max_nonce t, stage_size E t, stage_remember E t h,
        stage_debug E h, stage_timeout}"
    then show ?thesis
      by (cases s) (auto simp: relay_stage_defs kept_set_pref Let_def split: if_splits)
  qed
  then show "kept (fst s) (fst (final (f s)))"
    "relay_calls (snd (final (f s))) = relay_calls (snd s)"
    "f s = Return s' \<Longrightarrow> answered (fst s')"
    by blast+
qed

section \<open>The decision of sendTxToRelay\<close>

text \<open>
  Specification: the verdict on a transaction, from the state before the call. The world in
  which the nonce range is asked for is the one after the resend check and the mark.
\<close>

datatype verdict =
    Held | WrongNonce | WrongTarget | DebugOnly | NoSender string | NoBlockNumber string | Send u64

definition marked_world :: "'r Env \<Rightarrow> string \<Rightarrow> 'r World \<Rightarrow> 'r World" where
  "marked_world E h w =
     (let w1 = snd (blockResendingTxToRelay E h w)
      in snd (redis_count (\<lambda>s. SetTxSentToRelay (e_redis E) (w_now w1) s h) w1))"

definition nonce_outside :: "eth_tx \<Rightarrow> (u64 \<times> u64) option \<Rightarrow> bool" where
  "nonce_outside t rng =
     (case rng of None \<Rightarrow> False | Some (lo, hi) \<Rightarrow> eth_Nonce t < lo \<or> hi + 1 < eth_Nonce t)"

text \<open>The verdict once the nonce was found good; \<open>hist\<close> are the calls made so far.\<close>

definition late_verdict :: "'r Env \<Rightarrow> eth_tx \<Rightarrow> RpcRequest \<Rightarrow> ext_call list \<Rightarrow> verdict" where
  "late_verdict E t r hist =
     (let p = r_urlParams r in
      if large_tx_refused (e_lib E) t then WrongTarget
      else if DebugDontSendTx E then DebugOnly
      else case (if fast p \<and> Refund (Validity (pref p)) = [] then geth_Sender (e_lib E) t else Inr 0) of
             Inl e \<Rightarrow> NoSender e
           | Inr _ \<Rightarrow>
               if r_maxBlockNumberOverride r > 0 then Send (r_maxBlockNumberOverride r)
               else if blockRange p > 0 then
                 (case e_BlockNumber E hist (r_defaultEthClient r) of
                    Inl e \<Rightarrow> NoBlockNumber e
                  | Inr bn \<Rightarrow> Send (bn + 1 + of_int (blockRange p)))
               else Send 0)"

definition verdict :: "'r Env \<Rightarrow> eth_tx \<Rightarrow> RpcRequest \<Rightarrow> 'r World \<Rightarrow> verdict" where
  "verdict E t r w =
     (let h = ToLower (eth_HashHex t);
          (rng, _, w1) = GetAddressNonceRange E r (marked_world E h w)
      in if fst (blockResendingTxToRelay E h w) then Held
         else if nonce_outside t rng then WrongNonce
         else late_verdict E t r (w_calls w1))"

text \<open>The preferences that go with the transaction.\<close>

definition sent_refund :: "lib \<Rightarrow> eth_tx \<Rightarrow> RpcRequest \<Rightarrow> RefundConfig list" where
  "sent_refund L t r =
     (let p = r_urlParams r; l = Refund (Validity (pref p)) in
      if l \<noteq> [] then replaceZeroRefund l (geth_HexToAddress L (r_txFrom r))
      else if fast p
      then (case geth_Sender L t of Inl _ \<Rightarrow> [] | Inr a \<Rightarrow> [\<lparr>refund_Address = a, refund_Percent = 50\<rparr>])
      else [])"

definition sent_preferences :: "lib \<Rightarrow> eth_tx \<Rightarrow> RpcRequest \<Rightarrow> PrivateTxPreferences" where
  "sent_preferences L t r =
     (let p = r_urlParams r in
      (pref p)\<lparr>Validity := \<lparr>Refund = sent_refund L t r\<rparr>,
        Privacy := (if auctionTimeout p \<noteq> 0
                    then (Privacy (pref p))\<lparr>AuctionTimeout := auctionTimeout p\<rparr>
                    else Privacy (pref p))\<rparr>)"

definition sent_request :: "'r Env \<Rightarrow> eth_tx \<Rightarrow> RpcRequest \<Rightarrow> u64 \<Rightarrow> ext_call" where
  "sent_request E t r m =
     CallRelay (r_relayUrl r) (r_relaySigningKey r)
       (RelaySendPrivateTx
          \<lparr>priv_Tx = r_rawTxHex r, priv_Preferences = sent_preferences (e_lib E) t r,
           priv_MaxBlockNumber = m\<rparr>
          (if originId (r_urlParams r) = '''' then []
           else [(''X-Flashbots-Origin'', originId (r_urlParams r))]))"

lemma GetAddressNonceRange_upd_entry:
  "fst (GetAddressNonceRange E (upd_entry f r) w) = fst (GetAddressNonceRange E r w)"
  "snd (snd (GetAddressNonceRange E (upd_entry f r) w)) = snd (snd (GetAddressNonceRange E r w))"
  by (auto simp: GetAddressNonceRange_def upd_entry_def Let_def split: prod.splits sum.splits option.splits)

lemma GetAddressNonceRange_urlParams:
  "r_urlParams (fst (snd (GetAddressNonceRange E r w))) = r_urlParams r"
  by (auto simp: GetAddressNonceRange_def Let_def split: prod.splits sum.splits option.splits)

text \<open>The stages after the nonce check, as one step.\<close>

definition relay_rest :: "'r Env \<Rightarrow> eth_tx \<Rightarrow> string \<Rightarrow> ('r rw \<Rightarrow> 'r rw flow) list" where
  "relay_rest E t h =
     [stage_go_max_nonce t, stage_size E t, stage_remember E t h, stage_debug E h,
      stage_refund E t, stage_timeout, stage_send E h]"

lemma and_then_assoc: "and_then (and_then m f) g = and_then m (\<lambda>s. and_then (f s) g)"
  by (cases m) simp_all

lemma sendTxToRelay_rest:
  assumes "blockResendingTxToRelay E (ToLower (eth_HashHex t)) w = (False, w1)"
  shows "sendTxToRelay E t (r, w) = final (and_then
      (stage_nonce E t (upd_entry (\<lambda>e. e\<lparr>WasSentToRelay := True\<rparr>) r,
         marked_world E (ToLower (eth_HashHex t)) w))
      (\<lambda>s. foldl and_then (Continue s) (relay_rest E t (ToLower (eth_HashHex t)))))"
  using assms
  by (simp add: sendTxToRelay_def relay_stages_def relay_rest_def stage_resend_def
      stage_mark_sent_def marked_world_def Let_def and_then_assoc)

text \<open>What a verdict means for the relay calls and the answer.\<close>

fun fulfils :: "'r Env \<Rightarrow> eth_tx \<Rightarrow> RpcRequest \<Rightarrow> 'r World \<Rightarrow> verdict \<Rightarrow> 'r rw \<Rightarrow> bool" where
  "fulfils E t r w (Send m) (r', w') \<longleftrightarrow>
     relay_calls w' = sent_request E t r m # relay_calls w \<and>
     hd (w_calls w') = sent_request E t r m \<and>
     (case sent_request E t r m of
        CallRelay u k q \<Rightarrow>
          (case e_Relay E (tl (w_calls w')) u k q of
             None \<Rightarrow> answered_result (JStr (ToLower (eth_HashHex t))) r'
           | Some _ \<Rightarrow> answered_error ''internal error'' JsonRpcInternalError r')
      | _ \<Rightarrow> False)"
| "fulfils E t r w v (r', w') \<longleftrightarrow>
     relay_calls w' = relay_calls w \<and>
     (case v of
        Held \<Rightarrow> answered_result (JStr (ToLower (eth_HashHex t))) r'
      | DebugOnly \<Rightarrow> answered_result (JStr (ToLower (eth_HashHex t))) r'
      | WrongNonce \<Rightarrow> answered_error ''invalid nonce'' JsonRpcInternalError r'
      | WrongTarget \<Rightarrow> answered_error ''invalid target for large tx'' JsonRpcInternalError r'
      | NoSender e \<Rightarrow> answered_error e JsonRpcInternalError r'
      | NoBlockNumber e \<Rightarrow> answered_error e JsonRpcInternalError r'
      | Send _ \<Rightarrow> False)"

lemma call_relay_fulfils:
  assumes "kept r r1" "pref (r_urlParams r1) = sent_preferences (e_lib E) t r"
    and "relay_calls w1 = relay_calls w"
  shows "fulfils E t r w (Send m) (final (call_relay E (ToLower (eth_HashHex t)) m (r1, w1)))"
  using assms kept_fields [OF assms(1)]
  by (auto simp: call_relay_def sent_request_def relay_headers_def Let_def
      split: option.splits relay_err.splits)

lemma stage_send_fulfils:
  assumes r1: "kept r r1" "pref (r_urlParams r1) = sent_preferences (e_lib E) t r"
    and w1: "relay_calls w1 = relay_calls w"
    and ok: "\<not> large_tx_refused (e_lib E) t" "\<not> DebugDontSendTx E"
    and sender: "fast (r_urlParams r) \<and> Refund (Validity (pref (r_urlParams r))) = [] \<longrightarrow>
      (\<exists>a. geth_Sender (e_lib E) t = Inr a)"
  shows "fulfils E t r w (late_verdict E t r (w_calls w1))
    (final (stage_send E (ToLower (eth_HashHex t)) (r1, w1)))"
proof -
  have "\<exists>b. (if fast (r_urlParams r) \<and> Refund (Validity (pref (r_urlParams r))) = []
      then geth_Sender (e_lib E) t else Inr 0) = Inr b"
    using sender by auto
  then obtain b where b: "(if fast (r_urlParams r) \<and> Refund (Validity (pref (r_urlParams r))) = []
      then geth_Sender (e_lib E) t else Inr 0) = Inr b" ..
  let ?w2 = "make_call E (CallBlockNumber (r_defaultEthClient r1)) w1"
  have w2: "relay_calls ?w2 = relay_calls w" using w1 by simp
  note late = late_verdict_def Let_def ok b sum.case
  show ?thesis
    using kept_fields [OF r1(1)] call_relay_fulfils [OF r1 w1] call_relay_fulfils [OF r1 w2] w2
    by (auto simp: stage_send_def late simp del: fulfils.simps(1) split: sum.splits)
qed

lemma validity_no_refund: "Refund v = [] \<Longrightarrow> \<lparr>Refund = []\<rparr> = v"
  by (cases v) simp

text \<open>The state in which the last stage finds the request, and that the refund stage can fail.\<close>

lemma preference_stages:
  fixes E t r1 w1
  defines "m \<equiv> and_then (stage_refund E t (r1, w1)) stage_timeout"
  shows "(\<exists>e. m = Return (writeRpcError e JsonRpcInternalError r1, w1) \<and> fast (r_urlParams r1) \<and>
            Refund (Validity (pref (r_urlParams r1))) = [] \<and> geth_Sender (e_lib E) t = Inl e) \<or>
         (\<exists>r2. m = Continue (r2, w1) \<and> kept r1 r2 \<and>
            pref (r_urlParams r2) = sent_preferences (e_lib E) t r1 \<and>
            (fast (r_urlParams r1) \<and> Refund (Validity (pref (r_urlParams r1))) = [] \<longrightarrow>
              (\<exists>a. geth_Sender (e_lib E) t = Inr a)))"
proof (cases "stage_refund E t (r1, w1)")
  case (Return s)
  then show ?thesis
    by (auto simp: m_def stage_refund_eq Let_def split: if_splits sum.splits)
next
  case (Continue s)
  obtain r2 where s: "s = (r2, w1)"
    and k: "kept r1 r2" and sender: "fast (r_urlParams r1) \<and> Refund (Validity (pref (r_urlParams r1))) = [] \<longrightarrow>
      (\<exists>a. geth_Sender (e_lib E) t = Inr a)"
    and r2: "r_urlParams r2 = set_refund (sent_refund (e_lib E) t r1) (r_urlParams r1)"
    using Continue stage_refund_contract(1) [of "(r1, w1)" E t]
    by (cases s) (auto simp: stage_refund_eq Let_def sent_refund_def set_refund_def validity_no_refund
        split: if_splits sum.splits)
  define r3 where "r3 = fst (final (stage_timeout (r2, w1)))"
  have "stage_timeout (r2, w1) = Continue (r3, w1)" "kept r2 r3"
    by (simp_all add: r3_def stage_timeout_def Let_def kept_set_pref)
  moreover have "pref (r_urlParams r3) = sent_preferences (e_lib E) t r1"
    using r2 by (simp add: r3_def stage_timeout_def Let_def sent_preferences_def set_refund_def
        set_privacy_def)
  ultimately show ?thesis
    using Continue s k sender kept_trans [OF k] by (auto simp: m_def)
qed

lemma relay_rest_fulfils:
  assumes r1: "kept r r1" "r_urlParams r1 = r_urlParams r" and w1: "relay_calls w1 = relay_calls w"
  shows "fulfils E t r w (late_verdict E t r (w_calls w1))
    (final (foldl and_then (Continue (r1, w1)) (relay_rest E t (ToLower (eth_HashHex t)))))"
proof -
  let ?h = "ToLower (eth_HashHex t)"
  define w2 where "w2 = start_go (GoSetSenderMaxNonce (r_txFrom r1) (eth_Nonce t)
    (blockRange (r_urlParams r1))) w1"
  define w3 where "w3 = snd (redis_count
    (\<lambda>s. SetTxHashForSenderAndNonce (e_redis E) s (r_txFrom r1) (eth_Nonce t) ?h) w2)"
  have w: "relay_calls w2 = relay_calls w" "relay_calls w3 = relay_calls w" "w_calls w3 = w_calls w1"
    using w1 by (simp_all add: w2_def w3_def)
  have run: "final (foldl and_then (Continue (r1, w1)) (relay_rest E t ?h)) =
     (if large_tx_refused (e_lib E) t
      then (writeRpcError ''invalid target for large tx'' JsonRpcInternalError r1, w2)
      else if DebugDontSendTx E then (writeRpcResult (JStr ?h) r1, w3)
      else final (and_then (and_then (stage_refund E t (r1, w3)) stage_timeout) (stage_send E ?h)))"
    by (simp add: relay_rest_def stage_go_max_nonce_def stage_size_def stage_remember_def
        stage_debug_def w2_def w3_def)
  have sent: "sent_preferences (e_lib E) t r1 = sent_preferences (e_lib E) t r"
    using kept_fields [OF r1(1)] r1(2) by (simp add: sent_preferences_def sent_refund_def Let_def)
  show ?thesis
  proof (cases "large_tx_refused (e_lib E) t \<or> DebugDontSendTx E")
    case True
    then show ?thesis unfolding run using w by (auto simp: late_verdict_def Let_def)
  next
    case False
    from preference_stages [of E t r1 w3] show ?thesis
    proof (elim disjE exE conjE)
      fix e
      assume "and_then (stage_refund E t (r1, w3)) stage_timeout =
          Return (writeRpcError e JsonRpcInternalError r1, w3)" "fast (r_urlParams r1)"
        "Refund (Validity (pref (r_urlParams r1))) = []" "geth_Sender (e_lib E) t = Inl e"
      then show ?thesis
        unfolding run using False r1(2) w by (simp add: late_verdict_def Let_def)
    next
      fix r2
      assume c: "and_then (stage_refund E t (r1, w3)) stage_timeout = Continue (r2, w3)"
        and k: "kept r1 r2" and p: "pref (r_urlParams r2) = sent_preferences (e_lib E) t r1"
        and s: "fast (r_urlParams r1) \<and> Refund (Validity (pref (r_urlParams r1))) = [] \<longrightarrow>
          (\<exists>a. geth_Sender (e_lib E) t = Inr a)"
      have "fulfils E t r w (late_verdict E t r (w_calls w3)) (final (stage_send E ?h (r2, w3)))"
        by (rule stage_send_fulfils [OF kept_trans [OF r1(1) k]]) (use False p sent s w r1(2) in auto)
      then show ?thesis unfolding run c using False w by simp
    qed
  qed
qed

lemma sendTxToRelay_verdict:
  "fulfils E t r w (verdict E t r w) (sendTxToRelay E t (r, w))"
proof -
  let ?h = "ToLower (eth_HashHex t)"
  obtain held w0 where b: "blockResendingTxToRelay E ?h w = (held, w0)" by fastforce
  show ?thesis
  proof (cases held)
    case True
    then show ?thesis
      using b relay_calls_blockResending_D [OF b] foldl_Return
      by (simp add: verdict_def sendTxToRelay_def relay_stages_def stage_resend_def Let_def
          split: prod.splits)
  next
    case False
    define r0 where "r0 = upd_entry (\<lambda>e. e\<lparr>WasSentToRelay := True\<rparr>) r"
    have mw: "relay_calls (marked_world E ?h w) = relay_calls w"
      by (simp add: marked_world_def Let_def)
    obtain rng r1 w1 where g: "GetAddressNonceRange E r0 (marked_world E ?h w) = (rng, r1, w1)"
      by (cases "GetAddressNonceRange E r0 (marked_world E ?h w)")
    have k: "kept r r1" and w1: "relay_calls w1 = relay_calls w"
      using GetAddressNonceRange_D [OF g] mw kept_trans [OF kept_entry_updates(2)] by (auto simp: r0_def)
    have p: "r_urlParams r1 = r_urlParams r"
      using GetAddressNonceRange_urlParams [of E r0 "marked_world E ?h w"] g by (simp add: r0_def)
    have v: "verdict E t r w =
        (if nonce_outside t rng then WrongNonce else late_verdict E t r (w_calls w1))"
      using g b False GetAddressNonceRange_upd_entry [of E "\<lambda>e. e\<lparr>WasSentToRelay := True\<rparr>" r "marked_world E ?h w"]
      by (auto simp: verdict_def r0_def Let_def split: prod.splits)
    have n: "stage_nonce E t (r0, marked_world E ?h w) =
        (if nonce_outside t rng
         then Return (writeRpcError ''invalid nonce'' JsonRpcInternalError r1, w1)
         else Continue (r1, w1))"
      using g by (auto simp: stage_nonce_def nonce_outside_def split: option.splits)
    show ?thesis
      using b False n w1 relay_rest_fulfils [OF k p w1, of E t]
      by (auto simp: sendTxToRelay_rest v r0_def [symmetric])
  qed
qed

text \<open>
  C2: the decision of \<open>sendTxToRelay\<close>. A transaction held back as a resend is answered with its
  hash; one whose nonce lies outside the sender's range, a large one for a target that is not
  listed, one whose sender or block number cannot be found is answered with the error; none of
  these calls the relay, nor does the debug mode. Any other is sent in exactly one relay call
  holding the raw transaction, the preferences of the request (with the sender in the place of
  the refund placeholder, half of the refund to the sender of a fast transaction that names
  none, and the auction timeout) and the highest block number, and is answered with its hash or,
  when the relay refuses, with an internal error.
\<close>

theorem relay_decision:
  "fulfils E t r w (verdict E t r w) (sendTxToRelay E t (r, w))"
  by (rule sendTxToRelay_verdict)

end
