(* ===== verification/Submit_Props.thy ===== *)
theory Submit_Props
  imports Relay_Props
begin

text \<open>
  Cancellation, the gate every submitted transaction passes, and what a request as a whole can
  do to the relay.
\<close>

section \<open>Cancellation\<close>

lemma kept_fst_final_mempool: "kept r (fst (final (cancel_mempool E t (r, w))))"
  by (simp add: cancel_mempool_def Let_def split: option.splits)

lemma cancel_mempool_cases:
  assumes "cancel_mempool E t (r, w) = m"
  shows "relay_calls (snd (final m)) = relay_calls w \<and>
    (case m of Return (r', w') \<Rightarrow> answered r' \<and> kept r r'
     | Continue (r', w') \<Rightarrow> r' = r \<and>
         (UseMempool (Privacy (pref (r_urlParams r))) \<longrightarrow> (\<exists>c. CallSendTx c t \<in> set (w_calls w'))))"
  using assms by (auto simp: cancel_mempool_def Let_def split: option.splits if_splits)

lemma cancel_relay_cases:
  assumes "cancel_relay E i c (r, w) = m"
  shows "\<exists>r' w'. m = Return (r', w') \<and> answered r' \<and> kept r r' \<and>
    w_calls w' = CallRelay (r_relayUrl r) (r_relaySigningKey r) (RelayCancelPrivateTx i) # w_calls w"
  using assms by (auto simp: cancel_relay_def Let_def split: option.splits relay_err.splits)

text \<open>The lookups that make a transaction a cancellation of \<open>i\<close>.\<close>

definition cancels :: "'r Env \<Rightarrow> eth_tx \<Rightarrow> string \<Rightarrow> 'r \<Rightarrow> string \<Rightarrow> bool" where
  "cancels E t from s i \<longleftrightarrow>
     GetTxHashForSenderAndNonce (e_redis E) s (ToLower from) (eth_Nonce t) = (i, True, None) \<and>
     (\<exists>tm. GetTxSentToRelay (e_redis E) s i = (tm, True, None)) \<and>
     (\<exists>tm. GetTxSentToRelay (e_redis E) s (ToLower (eth_HashHex t)) = (tm, False, None))"

definition unknown_initial :: "'r Env \<Rightarrow> eth_tx \<Rightarrow> string \<Rightarrow> 'r \<Rightarrow> bool" where
  "unknown_initial E t from s \<longleftrightarrow>
     (case GetTxHashForSenderAndNonce (e_redis E) s (ToLower from) (eth_Nonce t) of
        (i, found, e) \<Rightarrow>
          e = None \<and> (found \<longrightarrow>
            (\<exists>tm. GetTxSentToRelay (e_redis E) s i = (tm, False, None))))"

lemma cancel_lookup_cases:
  "case cancel_lookup E t (r, w) of
     Inl (finished, r', w') \<Rightarrow>
       relay_calls w' = relay_calls w \<and> kept r r' \<and>
       (if finished then answered r' else r' = r \<and> w' = w \<and> unknown_initial E t (r_txFrom r) (w_redis w))
   | Inr i \<Rightarrow> cancels E t (r_txFrom r) (w_redis w) i"
  by (auto simp: cancel_lookup_def cancels_def unknown_initial_def Let_def
      split: prod.splits option.splits sum.splits if_splits)

lemma handleCancelTx_cases:
  assumes "handleCancelTx E t (r, w) = (finished, (r', w'))"
  shows "kept r r'"
    "\<not> finished \<Longrightarrow> r' = r \<and> w' = w \<and> unknown_initial E t (r_txFrom r) (w_redis w)"
    "finished \<Longrightarrow> answered r'"
    "relay_calls w' = relay_calls w \<or>
     (\<exists>i. cancels E t (r_txFrom r) (w_redis w) i \<and> \<not> DebugDontSendTx E \<and>
        (UseMempool (Privacy (pref (r_urlParams r))) \<longrightarrow> (\<exists>c. CallSendTx c t \<in> set (w_calls w'))) \<and>
        relay_calls w' = CallRelay (r_relayUrl r) (r_relaySigningKey r) (RelayCancelPrivateTx i)
          # relay_calls w)"
proof -
  have *: "kept r r' \<and>
    (\<not> finished \<longrightarrow> r' = r \<and> w' = w \<and> unknown_initial E t (r_txFrom r) (w_redis w)) \<and>
    (finished \<longrightarrow> answered r') \<and>
    (relay_calls w' = relay_calls w \<or>
     (\<exists>i. cancels E t (r_txFrom r) (w_redis w) i \<and> \<not> DebugDontSendTx E \<and>
        (UseMempool (Privacy (pref (r_urlParams r))) \<longrightarrow> (\<exists>c. CallSendTx c t \<in> set (w_calls w'))) \<and>
        relay_calls w' = CallRelay (r_relayUrl r) (r_relaySigningKey r) (RelayCancelPrivateTx i)
          # relay_calls w))"
  proof (cases "cancel_lookup E t (r, w)")
    case (Inl a)
    then show ?thesis
      using assms cancel_lookup_cases [where E = E and t = t and r = r and w = w]
      by (cases finished) (auto simp: handleCancelTx_def)
  next
    case (Inr i)
    define w1 where "w1 = snd (redis_count
      (\<lambda>s. SetTxSentToRelay (e_redis E) (w_now w) s (ToLower (eth_HashHex t))) w)"
    have i: "cancels E t (r_txFrom r) (w_redis w) i"
      using cancel_lookup_cases [where E = E and t = t and r = r and w = w] Inr by simp
    have w1: "relay_calls w1 = relay_calls w" by (simp add: w1_def)
    show ?thesis
    proof (cases "DebugDontSendTx E")
      case True
      then show ?thesis
        using assms Inr w1 by (auto simp: handleCancelTx_def w1_def Let_def)
    next
      case False
      obtain m where m: "cancel_mempool E t (r, w1) = m" by simp
      have res: "finished" "(r', w') = final (and_then m (cancel_relay E i (ToLower (eth_HashHex t))))"
        using assms Inr False m by (auto simp: handleCancelTx_def w1_def Let_def)
      show ?thesis
      proof (cases m)
        case (Return s)
        then show ?thesis
          using cancel_mempool_cases [OF m] res w1 by (cases s) auto
      next
        case (Continue s)
        then obtain w2 where s: "s = (r, w2)" "relay_calls w2 = relay_calls w"
          "UseMempool (Privacy (pref (r_urlParams r))) \<longrightarrow> (\<exists>c. CallSendTx c t \<in> set (w_calls w2))"
          using cancel_mempool_cases [OF m] w1 by (cases s) auto
        obtain r3 w3 where "cancel_relay E i (ToLower (eth_HashHex t)) (r, w2) = Return (r3, w3)"
          "answered r3" "kept r r3" "w_calls w3 =
            CallRelay (r_relayUrl r) (r_relaySigningKey r) (RelayCancelPrivateTx i) # w_calls w2"
          using cancel_relay_cases [of E i "ToLower (eth_HashHex t)" r w2] by blast
        then show ?thesis
          using Continue s res i False by (auto simp: relay_calls_def)
      qed
    qed
  qed
  then show "kept r r'"
    "\<not> finished \<Longrightarrow> r' = r \<and> w' = w \<and> unknown_initial E t (r_txFrom r) (w_redis w)"
    "finished \<Longrightarrow> answered r'"
    "relay_calls w' = relay_calls w \<or>
     (\<exists>i. cancels E t (r_txFrom r) (w_redis w) i \<and> \<not> DebugDontSendTx E \<and>
        (UseMempool (Privacy (pref (r_urlParams r))) \<longrightarrow> (\<exists>c. CallSendTx c t \<in> set (w_calls w'))) \<and>
        relay_calls w' = CallRelay (r_relayUrl r) (r_relaySigningKey r) (RelayCancelPrivateTx i)
          # relay_calls w)"
    by blast+
qed

section \<open>The gate of a submission\<close>

lemma fulfils_answered: "fulfils E t r w v (r', w') \<Longrightarrow> answered r'"
  by (cases v) (auto simp: answered_def sent_request_def split: option.splits)

lemma late_verdict_Send:
  "late_verdict E t r hist = Send m \<Longrightarrow> \<not> large_tx_refused (e_lib E) t \<and> \<not> DebugDontSendTx E"
  by (auto simp: late_verdict_def Let_def split: if_splits)

lemma verdict_Send:
  "verdict E t r w = Send m \<Longrightarrow>
     \<not> fst (blockResendingTxToRelay E (ToLower (eth_HashHex t)) w) \<and>
     \<not> nonce_outside t (fst (GetAddressNonceRange E r (marked_world E (ToLower (eth_HashHex t)) w))) \<and>
     \<not> large_tx_refused (e_lib E) t \<and> \<not> DebugDontSendTx E"
  by (auto simp: verdict_def Let_def dest: late_verdict_Send split: prod.splits if_splits)

lemma call_relay_kept: "kept (fst s) (fst (final (call_relay E h m s)))"
  by (cases s) (simp add: call_relay_def Let_def split: option.splits relay_err.splits)

lemma stage_send_kept: "kept (fst s) (fst (final (stage_send E h s)))"
  using call_relay_kept [of "(fst s, _)"]
  by (cases s) (auto simp: stage_send_def Let_def split: sum.splits)

lemma relay_stages_split: "relay_stages E t h = relay_prefix E t h @ [stage_send E h]"
  by (simp add: relay_prefix_def relay_stages_def)

lemma relay_tail_kept:
  assumes "set gs \<subseteq> set (relay_prefix E t h)"
  shows "kept (fst s) (fst (final (foldl and_then (Continue s) (gs @ [stage_send E h]))))"
proof (cases "foldl and_then (Continue s) gs")
  case (Return s')
  then show ?thesis using relay_prefix.run_sublist [OF assms, of s] by simp
next
  case (Continue s')
  then show ?thesis
    using relay_prefix.run_sublist [OF assms, of s] kept_trans [OF _ stage_send_kept [of s' E h]]
    by simp
qed

lemma sendTxToRelay_kept: "kept (fst s) (fst (sendTxToRelay E t s))"
  unfolding sendTxToRelay_def relay_stages_split by (rule relay_tail_kept [where t = t]) simp

text \<open>A transaction that reaches the relay is marked in the analytics entry.\<close>

definition marked :: "RpcRequest \<Rightarrow> bool" where
  "marked r \<longleftrightarrow> (\<forall>e. r_ethSendRawTxEntry r = Some e \<longrightarrow> WasSentToRelay e)"

lemma marked_kept:
  assumes "kept (upd_entry (\<lambda>e. e\<lparr>WasSentToRelay := True\<rparr>) r) r'"
  shows "marked r'"
  using kept_entry [OF assms]
  by (cases "r_ethSendRawTxEntry r") (auto simp: marked_def entry_le_def option_rel_Some1)

lemma sendTxToRelay_marks:
  assumes "sendTxToRelay E t (r, w) = (r', w')" "relay_calls w' \<noteq> relay_calls w"
  shows "marked r'"
proof -
  let ?h = "ToLower (eth_HashHex t)" and ?r0 = "upd_entry (\<lambda>e. e\<lparr>WasSentToRelay := True\<rparr>) r"
  define gs where "gs = [stage_nonce E t, stage_go_max_nonce t, stage_size E t, stage_remember E t ?h,
    stage_debug E ?h, stage_refund E t, stage_timeout]"
  obtain held w1 where b: "blockResendingTxToRelay E ?h w = (held, w1)" by fastforce
  have "\<not> held"
    using assms b relay_calls_blockResending_D [OF b] foldl_Return
    by (auto simp: sendTxToRelay_def relay_stages_def stage_resend_def)
  then have "sendTxToRelay E t (r, w) =
      final (foldl and_then (Continue (?r0, marked_world E ?h w)) (gs @ [stage_send E ?h]))"
    using b by (simp add: sendTxToRelay_def relay_stages_def stage_resend_def stage_mark_sent_def
        gs_def marked_world_def Let_def)
  moreover have "set gs \<subseteq> set (relay_prefix E t ?h)"
    by (simp add: gs_def relay_prefix_def relay_stages_def)
  ultimately have "kept ?r0 (fst (sendTxToRelay E t (r, w)))"
    using relay_tail_kept [of gs E t ?h "(?r0, marked_world E ?h w)"] by (simp only: fst_conv)
  then have "kept ?r0 r'" using assms(1) by simp
  then show ?thesis by (rule marked_kept)
qed

lemma sendTxToRelay_gate:
  assumes "sendTxToRelay E t (r, w) = (r', w')"
  shows "answered r' \<and> kept r r' \<and>
    (relay_calls w' = relay_calls w \<or>
     (\<exists>m. verdict E t r w = Send m \<and> relay_calls w' = sent_request E t r m # relay_calls w))"
proof -
  have f: "fulfils E t r w (verdict E t r w) (r', w')"
    using sendTxToRelay_verdict [of E t r w] assms by simp
  have "kept r r'" using sendTxToRelay_kept [of "(r, w)" E t] assms by simp
  then show ?thesis
    using f fulfils_answered [OF f] by (cases "verdict E t r w") auto
qed

definition submit_prefix :: "'r Env \<Rightarrow> eth_tx \<Rightarrow> ('r rw \<Rightarrow> 'r rw flow) list" where
  "submit_prefix E t = take 5 (submit_stages E t)"

lemmas submit_stage_defs =
  stage_high_nonce_def stage_blocked_def stage_remember_sender_def stage_ofac_def stage_whitehat_def

lemma redis_count_D: "redis_count f w = (e, w') \<Longrightarrow> relay_calls w' = relay_calls w"
  using relay_calls_simps(3) [of f w] by simp

lemma kept_two:
  "kept r (writeRpcError m c (upd_entry (\<lambda>e. e\<lparr>IsOnOafcList := b\<rparr>) r))"
  "kept r (upd_entry (\<lambda>e. e\<lparr>NeedsFrontRunningProtection := a\<rparr>) (upd_entry (\<lambda>e. e\<lparr>IsOnOafcList := b\<rparr>) r))"
  by (rule kept_trans [OF kept_entry_updates(3) [of r b]], simp)+

interpretation submit_prefix: stages "submit_prefix E t" for E t
proof unfold_locales
  fix f :: "'a rw \<Rightarrow> 'a rw flow" and s s'
  assume "f \<in> set (submit_prefix E t)"
  then have "f \<in> {stage_high_nonce t, stage_blocked E t, stage_remember_sender E t, stage_ofac E t,
      stage_whitehat E t}"
    by (auto simp: submit_prefix_def submit_stages_def)
  then have "kept (fst s) (fst (final (f s))) \<and> relay_calls (snd (final (f s))) = relay_calls (snd s) \<and>
      (f s = Return s' \<longrightarrow> answered (fst s'))"
    by (cases s) (auto simp: submit_stage_defs Let_def kept_two dest!: redis_count_D
        split: prod.splits option.splits if_splits)
  then show "kept (fst s) (fst (final (f s)))"
    "relay_calls (snd (final (f s))) = relay_calls (snd s)"
    "f s = Return s' \<Longrightarrow> answered (fst s')"
    by blast+
qed

lemma submit_stages_split:
  "submit_stages E t = submit_prefix E t @ [stage_cancel E t, stage_relay E t]"
  by (simp add: submit_prefix_def submit_stages_def)

text \<open>What holds of a transaction that got through the checks.\<close>

definition passes :: "'r Env \<Rightarrow> eth_tx \<Rightarrow> RpcRequest \<Rightarrow> 'r World \<Rightarrow> bool" where
  "passes E t r w \<longleftrightarrow>
     eth_Nonce t < 1000000000 \<and>
     \<not> fst (snd (GetBlockedTxHash (e_redis E) (w_redis w) (ToLower (eth_HashHex t)))) \<and>
     \<not> isOnOFACList E (r_txFrom r) \<and> \<not> isOnOFACList E (AddressPtrToStr (e_lib E) (eth_To t)) \<and>
     \<not> r_isWhitehatBundleCollection r"

lemma submit_prefix_passes:
  assumes "foldl and_then (Continue (r, w)) (submit_prefix E t) = Continue (r1, w1)"
  shows "passes E t r w \<and> r_urlParams r1 = r_urlParams r"
  using assms
  by (auto simp: submit_prefix_def submit_stages_def submit_stage_defs passes_def ofac_hit_def Let_def
      not_le split: prod.splits if_splits option.splits)

text \<open>The relay calls a submission may add: none, or one of the two kinds.\<close>

definition one_relay_call ::
    "'r Env \<Rightarrow> eth_tx \<Rightarrow> RpcRequest \<Rightarrow> 'r World \<Rightarrow> 'r World \<Rightarrow> bool" where
  "one_relay_call E t r w w' \<longleftrightarrow>
     \<not> DebugDontSendTx E \<and>
     ((\<exists>m. relay_calls w' = sent_request E t r m # relay_calls w \<and>
         \<not> large_tx_refused (e_lib E) t \<and>
         (is_cancel (e_lib E) t (r_txFrom r) \<or> eth_GasTipCap t \<noteq> 0)) \<or>
      (\<exists>i. relay_calls w' =
             CallRelay (r_relayUrl r) (r_relaySigningKey r) (RelayCancelPrivateTx i) # relay_calls w \<and>
         is_cancel (e_lib E) t (r_txFrom r)))"

lemma sent_request_kept:
  assumes "kept r r1" "r_urlParams r1 = r_urlParams r"
  shows "sent_request E t r1 m = sent_request E t r m"
  using kept_fields [OF assms(1)] assms(2)
  by (simp add: sent_request_def sent_preferences_def sent_refund_def Let_def)

lemma send_one_relay_call:
  assumes "sendTxToRelay E t (r1, w1) = (r', w')" "kept r r1" "r_urlParams r1 = r_urlParams r"
    and "relay_calls w1 = relay_calls w"
    and "is_cancel (e_lib E) t (r_txFrom r) \<or> eth_GasTipCap t \<noteq> 0"
  shows "answered r' \<and> kept r r' \<and> (relay_calls w' = relay_calls w \<or> one_relay_call E t r w w')"
  using sendTxToRelay_gate [OF assms(1)] assms(2-) kept_trans [OF assms(2)]
  by (auto simp: one_relay_call_def sent_request_kept [OF assms(2,3)] dest!: verdict_Send)

lemma stage_cancel_gate:
  assumes "kept r r1" "r_urlParams r1 = r_urlParams r" "relay_calls w1 = relay_calls w"
  shows "case stage_cancel E t (r1, w1) of
      Return (r', w') \<Rightarrow>
        answered r' \<and> kept r r' \<and> (relay_calls w' = relay_calls w \<or> one_relay_call E t r w w')
    | Continue s \<Rightarrow> s = (r1, w1)"
proof (cases "is_cancel (e_lib E) t (r_txFrom r1)")
  case False
  then show ?thesis by (simp add: stage_cancel_def)
next
  case True
  define r2 where "r2 = upd_entry (\<lambda>e. e\<lparr>IsCancelTx := True\<rparr>) r1"
  obtain finished r3 w3 where h: "handleCancelTx E t (r2, w1) = (finished, (r3, w3))"
    by (cases "handleCancelTx E t (r2, w1)") auto
  note c = handleCancelTx_cases [OF h]
  have k: "kept r r2" "r_urlParams r2 = r_urlParams r" "kept r r3"
    using assms kept_trans [OF assms(1) kept_entry_updates(4)]
      kept_trans [OF kept_trans [OF assms(1) kept_entry_updates(4)] c(1) [unfolded r2_def]]
    by (auto simp: r2_def)
  have cancel: "is_cancel (e_lib E) t (r_txFrom r)"
    using True kept_fields [OF assms(1)] by simp
  show ?thesis
  proof (cases finished)
    case True
    then show ?thesis
      using c(3,4) k kept_fields [OF k(1)] cancel assms(3) h \<open>is_cancel (e_lib E) t (r_txFrom r1)\<close>
      by (auto simp: stage_cancel_def r2_def [symmetric] one_relay_call_def)
  next
    case False
    obtain r4 w4 where s: "sendTxToRelay E t (upd_entry (\<lambda>e. e\<lparr>IsCancelTx := False\<rparr>) r3, w3) = (r4, w4)"
      by fastforce
    have eq: "r3 = r2" "w3 = w1" using c(2) False by auto
    have "answered r4 \<and> kept r r4 \<and> (relay_calls w4 = relay_calls w \<or> one_relay_call E t r w w4)"
      by (rule send_one_relay_call [OF s kept_trans [OF k(3) kept_entry_updates(4)]])
        (use k eq cancel assms(3) in auto)
    then show ?thesis
      using h s False \<open>is_cancel (e_lib E) t (r_txFrom r1)\<close>
      by (simp add: stage_cancel_def r2_def [symmetric])
  qed
qed

lemma submit_tx_gate:
  assumes "submit_tx E t (r, w) = (r', w')"
  shows "answered r' \<and> kept r r' \<and>
    (relay_calls w' = relay_calls w \<or> passes E t r w \<and> one_relay_call E t r w w')"
proof (cases "foldl and_then (Continue (r, w)) (submit_prefix E t)")
  case (Return s)
  then show ?thesis
    using assms submit_prefix.run_kept [of "(r, w)" E t] submit_prefix.run_quiet [of "(r, w)" E t]
      submit_prefix.run_answers [OF Return]
    by (auto simp: submit_tx_def submit_stages_split)
next
  case (Continue s)
  obtain r1 w1 where s: "s = (r1, w1)" by fastforce
  have c: "kept r r1" "relay_calls w1 = relay_calls w" "passes E t r w" "r_urlParams r1 = r_urlParams r"
    using submit_prefix.run_continue [OF Continue] submit_prefix_passes [of r w E t r1 w1]
      Continue s by auto
  have run: "submit_tx E t (r, w) = final (and_then (stage_cancel E t (r1, w1)) (stage_relay E t))"
    using Continue s by (simp add: submit_tx_def submit_stages_split)
  note g = stage_cancel_gate [OF c(1,4,2), of E t]
  show ?thesis
  proof (cases "stage_cancel E t (r1, w1)")
    case (Return s1)
    then show ?thesis using g run assms c by (cases s1) auto
  next
    case (Continue s1)
    obtain r2 w2 where s2: "sendTxToRelay E t (r1, w1) = (r2, w2)" by fastforce
    show ?thesis
      using Continue g run assms c s2 kept_trans [OF c(1) kept_writeRpcError]
        send_one_relay_call [OF s2 c(1,4,2)]
      by (auto simp: stage_relay_def split: if_splits)
  qed
qed

lemma submit_tx_marks:
  assumes "submit_tx E t (r, w) = (r', w')"
    and "relay_calls w' = CallRelay u k (RelaySendPrivateTx a hs) # relay_calls w"
  shows "marked r'"
proof (cases "foldl and_then (Continue (r, w)) (submit_prefix E t)")
  case (Return s)
  then show ?thesis
    using assms submit_prefix.run_quiet [of "(r, w)" E t]
    by (auto simp: submit_tx_def submit_stages_split)
next
  case (Continue s)
  obtain r1 w1 where s: "s = (r1, w1)" by fastforce
  then have w1: "relay_calls w1 = relay_calls w" using submit_prefix.run_continue [OF Continue] by simp
  have run: "(r', w') = final (and_then (stage_cancel E t (r1, w1)) (stage_relay E t))"
    using Continue s assms(1) by (simp add: submit_tx_def submit_stages_split)
  have send: "marked r'" if "sendTxToRelay E t (r2, w1) = (r', w')" for r2
    using sendTxToRelay_marks [OF that] assms(2) w1 by simp
  show ?thesis
  proof (cases "is_cancel (e_lib E) t (r_txFrom r1)")
    case False
    then have "(r', w') = final (stage_relay E t (r1, w1))" using run by (simp add: stage_cancel_def)
    then show ?thesis using send [of r1] assms(2) w1 by (simp add: stage_relay_def split: if_splits)
  next
    case True
    define r2 where "r2 = upd_entry (\<lambda>e. e\<lparr>IsCancelTx := True\<rparr>) r1"
    obtain finished r3 w3 where h: "handleCancelTx E t (r2, w1) = (finished, (r3, w3))"
      by (cases "handleCancelTx E t (r2, w1)") auto
    show ?thesis
    proof (cases finished)
      case True
      then have "w' = w3" using run h \<open>is_cancel (e_lib E) t (r_txFrom r1)\<close>
        by (simp add: stage_cancel_def r2_def [symmetric])
      then show ?thesis using handleCancelTx_cases(4) [OF h] assms(2) w1 by auto
    next
      case False
      then show ?thesis
        using run h \<open>is_cancel (e_lib E) t (r_txFrom r1)\<close> send handleCancelTx_cases(2) [OF h]
        by (simp add: stage_cancel_def r2_def [symmetric])
    qed
  qed
qed

end
