(* ===== verification/Example_Env.thy ===== *)
theory Example_Env
  imports Process_Request Redis_Contract
begin

text \<open>
  A concrete surrounding in which the program can be evaluated: an in-memory Redis, a node that
  answers every question with the count 5, a status API that knows no transaction, a relay that
  accepts everything, and a library that knows one raw transaction, \<open>0x01\<close>, of account \<open>0x1\<close>.
\<close>

definition ex_tx :: eth_tx where
  "ex_tx = \<lparr>eth_HashHex = ''0xAB'', eth_To = Some 2, eth_Nonce = 5, eth_Data = [], eth_Type = 2,
     eth_Size = 100, eth_GasTipCap = 1\<rparr>"

text \<open>A transaction of the account to itself with the same nonce.\<close>

definition ex_cancel_tx :: eth_tx where
  "ex_cancel_tx = ex_tx\<lparr>eth_HashHex := ''0xCD'', eth_To := Some 1\<rparr>"

definition ex_json :: "(string \<times> json) list" where
  "ex_json =
     [(''count'', JObj [(''id'', JNum ''1''), (''jsonrpc'', JStr ''2.0''), (''result'', JStr ''0x5'')]),
      (''status'', JObj [(''status'', JStr TxStatusUnknown)]),
      (''pending'', JObj [(''status'', JStr TxStatusPending)]),
      (''failed'', JObj [(''status'', JStr TxStatusFailed)]),
      (''null'', JObj [(''id'', JNum ''1''), (''jsonrpc'', JStr ''2.0''), (''result'', JNull)])]"

definition ex_lib :: lib where
  "ex_lib = \<lparr>
     json_Encode = (\<lambda>_. ''request''),
     json_Decode = map_of ex_json,
     url_Parse = (\<lambda>s. Inr \<lparr>url_Scheme = ''https'', url_Path = ''/'', url_RawQuery = '''', url_Rest = s\<rparr>),
     url_String = url_Rest,
     geth_UnmarshalBinary =
       (\<lambda>bs. if bs = [1] then Some ex_tx else if bs = [2] then Some ex_cancel_tx else None),
     geth_Sender = (\<lambda>_. Inr 1),
     geth_Hex = (\<lambda>a. if a = 1 then ''0x1'' else ''0x2''),
     geth_HexToAddress = (\<lambda>s. if s = ''0x1'' then 1 else 2),
     geth_IsHexAddress = (\<lambda>s. s = ''0x1'' \<or> s = ''0x2''),
     hexutil_Encode = (\<lambda>_. ''0x''),
     hexutil_Decode = (\<lambda>_. Inl ''invalid hex''),
     hexutil_DecodeUint64 = (\<lambda>s. if s = ''0x64'' then Inr 100 else Inl ''invalid hex''),
     hexutil_Uint64_UnmarshalJSON = (\<lambda>j. if j = JStr ''0x5'' then Inr 5 else Inl ''invalid''),
     crypto_Keccak256Hex = (\<lambda>_. ''0x0''),
     crypto_TextHash = (\<lambda>_. []),
     crypto_Ecrecover = (\<lambda>_ _. Inl ''invalid''),
     crypto_UnmarshalPubkeyAddress = (\<lambda>_. Inl ''invalid''),
     crypto_VerifySignature = (\<lambda>_ _ _. False),
     xxhash_Sum64String = (\<lambda>_. 1)\<rparr>"

definition ex_env :: "mem_state Env" where
  "ex_env = \<lparr>
     e_redis = mem_redis,
     e_lib = ex_lib,
     e_Http = (\<lambda>_ q. Inr \<lparr>hr_StatusCode = 200,
        hr_Body = Inr (if hq_Method q = ''GET'' then ''status'' else ''count'')\<rparr>),
     e_Relay = (\<lambda>_ _ _ _. None),
     e_BlockNumber = (\<lambda>_ _. Inr 100),
     e_SendTx = (\<lambda>_ _ _. None),
     e_Dial = (\<lambda>_ _. None),
     e_during = (\<lambda>_ x. x),
     e_bigint_undef = (\<lambda>_. 0),
     DebugDontSendTx = False,
     ofacBlacklist = {},
     ProtectTxApiHost = ''https://protect.flashbots.net''\<rparr>"

text \<open>The same with another answer of the status API.\<close>

definition ex_env_status :: "string \<Rightarrow> string \<Rightarrow> mem_state Env" where
  "ex_env_status api node = ex_env\<lparr>e_Http := (\<lambda>_ q. Inr \<lparr>hr_StatusCode = 200,
     hr_Body = Inr (if hq_Method q = ''GET'' then api else node)\<rparr>)\<rparr>"

definition ex_world :: "mem_state World" where
  "ex_world = \<lparr>w_redis = mem_empty, w_now = 1700000000 * time_Second, w_calls = [], w_metrics = [],
     w_go = [], w_cache = NewRpcCache 300\<rparr>"

definition ex_entry :: EthSendRawTxEntry where
  "ex_entry = \<lparr>tx_Id = ''2'', tx_RequestId = ''1'', tx_InsertedAt = 0, IsOnOafcList = False,
     IsWhiteHatBundleCollection = False, WhiteHatBundleId = '''', IsCancelTx = False,
     NeedsFrontRunningProtection = False, WasSentToRelay = False, WasSentToMempool = False,
     IsBlocked = False, entry_Error = '''', entry_ErrorCode = 0, TxRaw = '''', entry_TxHash = '''',
     TxFrom = '''', TxTo = '''', TxNonce = 0, TxData = '''', TxSmartContractMethod = '''',
     entry_Fast = False\<rparr>"

definition ex_request :: "string \<Rightarrow> json list \<Rightarrow> RpcRequest" where
  "ex_request meth ps =
     NewRpcRequest (NewRPCProxyClient ''http://node'' 10 0) (NewJsonRpcRequest (JNum ''7'') meth ps)
       ''key'' ''https://relay'' '''' '''' False '''' (Some ex_entry) zero_URLParameters
       (Some (JStr ''1'')) ''http://mempool''"

end
