(* ===== verification/Process_Props.thy ===== *)
theory Process_Props
  imports Submit_Props Example_Env
begin

text \<open>
  Properties of a request as a whole, over every method: what can reach the relay, that a request
  is answered, and when a handler panics.
\<close>

section \<open>Methods that leave the relay alone\<close>

lemma relay_calls_proxyRequestRead_D:
  "proxyRequestRead E r w = (b, r', w') \<Longrightarrow> relay_calls w' = relay_calls w"
  using relay_calls_proxyRequestRead [of E r w] by simp

lemma proxyRequestRead_D:
  "proxyRequestRead E r w = (b, r', w') \<Longrightarrow>
     r_jsonReq r' = r_jsonReq r \<and> (if b then \<exists>res. r_jsonRes r' = Some res else r' = r)"
  by (auto simp: proxyRequestRead_def split: prod.splits sum.splits option.splits)

lemma relay_calls_resetMaxNonce [simp]: "relay_calls (resetMaxNonce E f h w) = relay_calls w"
  by (simp add: resetMaxNonce_def split: prod.splits option.splits)

lemma relay_calls_ensureAccountFix [simp]:
  "relay_calls (ensureAccountFixIsInPlace E h w) = relay_calls w"
  by (auto simp: ensureAccountFixIsInPlace_def dest!: redis_count_D split: prod.splits option.splits)

lemma relay_calls_receipt [simp]:
  "relay_calls (snd (check_post_getTransactionReceipt E res r w)) = relay_calls w"
  by (auto simp: check_post_getTransactionReceipt_def Let_def dest!: relay_calls_GetTxStatus_D
      split: prod.splits option.splits sum.splits list.splits json.splits)

lemma relay_calls_receipt_D:
  "check_post_getTransactionReceipt E res r w = (x, w') \<Longrightarrow> relay_calls w' = relay_calls w"
  using relay_calls_receipt [of E res r w] by simp

lemma relay_calls_mm:
  "intercept_mm_eth_getTransactionCount E r w = (x, r', w') \<Longrightarrow> relay_calls w' = relay_calls w"
  by (auto simp: intercept_mm_eth_getTransactionCount_def Let_def dest!: redis_count_D
      split: prod.splits option.splits list.splits json.splits if_splits)

lemma relay_calls_answer_signed [simp]:
  "relay_calls (snd (answer_signed_count E a c b r w)) = relay_calls w"
  by (simp add: answer_signed_count_def Let_def)

lemma relay_calls_signed:
  assumes "intercept_signed_eth_getTransactionCount E r w = (x, r', w')"
  shows "relay_calls w' = relay_calls w"
proof -
  have "relay_calls (snd (snd (intercept_signed_eth_getTransactionCount E r w))) = relay_calls w"
    by (auto simp: intercept_signed_eth_getTransactionCount_def dest!: relay_calls_proxyRequestRead_D
        split: prod.splits option.splits sum.splits bool.splits)
  with assms show ?thesis by simp
qed

lemma relay_calls_proxy_checked: "relay_calls (snd (snd (proxy_checked E s))) = relay_calls (snd s)"
  by (auto simp: proxy_checked_def respond_def dest!: relay_calls_proxyRequestRead_D relay_calls_receipt_D
      split: prod.splits bool.splits go.splits)

lemma relay_calls_local: "relay_calls (snd (snd (answer_locally_or_proxy E s))) = relay_calls (snd s)"
  by (auto simp: answer_locally_or_proxy_def proxy_default_def respond_def relay_calls_proxy_checked
      split: prod.splits go.splits)

lemma relay_calls_other:
  assumes "req_Method (r_jsonReq (fst s)) \<notin> {''eth_sendRawTransaction'', ''eth_sendPrivateTransaction''}"
  shows "relay_calls (snd (snd (ProcessRequest E s))) = relay_calls (snd s)"
proof -
  have "relay_calls (snd (snd (transaction_count E s))) = relay_calls (snd s)"
    by (auto simp: transaction_count_def respond_def relay_calls_local
        dest!: relay_calls_signed relay_calls_mm split: prod.splits bool.splits go.splits)
  moreover have "relay_calls (snd (snd (eth_call_method E s))) = relay_calls (snd s)"
    by (auto simp: eth_call_method_def respond_def relay_calls_local
        split: prod.splits bool.splits go.splits)
  moreover have "relay_calls (snd (snd (client_version E s))) = relay_calls (snd s)"
    by (auto simp: client_version_def respond_def dest!: relay_calls_proxyRequestRead_D
        split: prod.splits bool.splits option.splits)
  moreover have "dispatch E s \<in>
      {transaction_count E s, eth_call_method E s, client_version E s, answer_locally_or_proxy E s}"
    using assms by (simp add: dispatch_def Let_def)
  ultimately have "relay_calls (snd (snd (dispatch E s))) = relay_calls (snd s)"
    using relay_calls_local [of E s] by auto
  then show ?thesis by (simp add: ProcessRequest_def split: go.split)
qed

section \<open>The gate\<close>

text \<open>A submission of \<open>t\<close>, sent by \<open>sndr\<close>, that is allowed to add the relay call \<open>c\<close>.\<close>

definition admissible ::
    "'r Env \<Rightarrow> RpcRequest \<Rightarrow> 'r World \<Rightarrow> string \<Rightarrow> eth_tx \<Rightarrow> string \<Rightarrow> ext_call \<Rightarrow> bool" where
  "admissible E r w raw t sndr c \<longleftrightarrow>
     GetTx (e_lib E) raw = Inr t \<and> GetSenderFromRawTx (e_lib E) t = Inr sndr \<and>
     \<not> DebugDontSendTx E \<and> \<not> r_isWhitehatBundleCollection r \<and> eth_Nonce t < 1000000000 \<and>
     \<not> fst (snd (GetBlockedTxHash (e_redis E) (w_redis w) (ToLower (eth_HashHex t)))) \<and>
     \<not> isOnOFACList E sndr \<and> \<not> isOnOFACList E (AddressPtrToStr (e_lib E) (eth_To t)) \<and>
     (case c of
        CallRelay url key q \<Rightarrow>
          url = r_relayUrl r \<and> key = r_relaySigningKey r \<and>
          (case q of
             RelaySendPrivateTx args _ \<Rightarrow>
               priv_Tx args = raw \<and> \<not> large_tx_refused (e_lib E) t \<and>
               (is_cancel (e_lib E) t sndr \<or> eth_GasTipCap t \<noteq> 0)
           | RelayCancelPrivateTx _ \<Rightarrow> is_cancel (e_lib E) t sndr)
      | _ \<Rightarrow> False)"

lemma handle_sendRawTransaction_gate:
  assumes "handle_sendRawTransaction E (r, w) = (out, (r', w'))"
    and "relay_calls w' \<noteq> relay_calls w"
  shows "\<exists>raw ps t sndr c. r_params r = JStr raw # ps \<and> admissible E r w raw t sndr c \<and>
    relay_calls w' = c # relay_calls w"
proof -
  obtain raw ps t sndr r3 where p: "r_params r = JStr raw # ps" "GetTx (e_lib E) raw = Inr t"
      "GetSenderFromRawTx (e_lib E) t = Inr sndr"
    and r3: "r3 = upd_entry (\<lambda>e. e\<lparr>entry_TxHash := eth_HashHex t\<rparr>)
        ((upd_entry (\<lambda>e. e\<lparr>TxRaw := raw\<rparr>) (r\<lparr>r_rawTxHex := raw\<rparr>))\<lparr>r_tx := Some t\<rparr>)"
    and s: "submit_tx E t (record_tx (e_lib E) t (r3\<lparr>r_txFrom := sndr\<rparr>), inc IncPrivateTx w) = (r', w')"
    using assms
    by (auto simp: handle_sendRawTransaction_def Let_def
        split: list.splits json.splits sum.splits if_splits)
  have "passes E t (record_tx (e_lib E) t (r3\<lparr>r_txFrom := sndr\<rparr>)) (inc IncPrivateTx w) \<and>
      one_relay_call E t (record_tx (e_lib E) t (r3\<lparr>r_txFrom := sndr\<rparr>)) (inc IncPrivateTx w) w'"
    using submit_tx_gate [OF s] assms(2) by simp
  then show ?thesis
    using p by (auto simp: passes_def one_relay_call_def admissible_def record_tx_def r3 upd_entry_def
        sent_request_def)
qed

lemma private_options_kept:
  assumes "and_then (stage_max_block L r) stage_fast = Continue r1"
  shows "r_params r1 = r_params r" "r_relayUrl r1 = r_relayUrl r"
    "r_relaySigningKey r1 = r_relaySigningKey r"
    "r_isWhitehatBundleCollection r1 = r_isWhitehatBundleCollection r"
    "r_jsonReq r1 = r_jsonReq r"
  using assms
  by (auto simp: stage_max_block_def stage_fast_def r_params_def
      split: json.splits sum.splits if_splits)

lemma admissible_cong:
  assumes "r_relayUrl r1 = r_relayUrl r" "r_relaySigningKey r1 = r_relaySigningKey r"
    "r_isWhitehatBundleCollection r1 = r_isWhitehatBundleCollection r"
  shows "admissible E r1 w raw t sndr c = admissible E r w raw t sndr c"
  using assms by (cases c) (simp_all add: admissible_def)

lemma handle_sendPrivateTransaction_gate:
  assumes "handle_sendPrivateTransaction E (r, w) = (out, (r', w'))"
    and "relay_calls w' \<noteq> relay_calls w"
  shows "\<exists>raw ps t sndr c. r_params r = JStr raw # ps \<and> admissible E r w raw t sndr c \<and>
    relay_calls w' = c # relay_calls w"
proof -
  obtain r1 where c: "and_then (stage_max_block (e_lib E) r) stage_fast = Continue r1"
    and h: "handle_sendRawTransaction E (r1, w) = (out, (r', w'))"
    using assms by (auto simp: handle_sendPrivateTransaction_def split: flow.splits)
  show ?thesis
    using handle_sendRawTransaction_gate [OF h assms(2)] private_options_kept [OF c]
    by (simp add: admissible_cong [of r1 r])
qed

lemma snd_after [simp]: "snd (after m) = snd m"
  by (simp add: after_def respond_def split: prod.splits go.splits)

lemma submit_method_world:
  assumes "submit_method handle (r, w) = (out, (r', w'))" "w' \<noteq> w"
  shows "\<exists>out1. handle (upd_entry (\<lambda>e. e\<lparr>WhiteHatBundleId := r_whitehatBundleId r\<rparr>) r, w) =
    (out1, (r', w'))"
proof (cases "r_ethSendRawTxEntry r")
  case (Some e)
  let ?m = "handle (upd_entry (\<lambda>e. e\<lparr>WhiteHatBundleId := r_whitehatBundleId r\<rparr>) r, w)"
  have "snd ?m = (r', w')"
    using assms(1) Some snd_after [of ?m] by (simp add: submit_method_def)
  then show ?thesis by (metis prod.collapse)
qed (use assms in \<open>simp add: submit_method_def\<close>)

lemma ProcessRequest_gate:
  assumes "ProcessRequest E (r, w) = (out, (r', w'))" and "relay_calls w' \<noteq> relay_calls w"
  shows "req_Method (r_jsonReq r) \<in> {''eth_sendRawTransaction'', ''eth_sendPrivateTransaction''} \<and>
    (\<exists>raw ps t sndr c. r_params r = JStr raw # ps \<and> admissible E r w raw t sndr c \<and>
       relay_calls w' = c # relay_calls w)"
proof -
  have m: "req_Method (r_jsonReq r) \<in> {''eth_sendRawTransaction'', ''eth_sendPrivateTransaction''}"
    using relay_calls_other [of "(r, w)" E] assms by auto
  have "w' \<noteq> w" using assms(2) by auto
  let ?r1 = "upd_entry (\<lambda>e. e\<lparr>WhiteHatBundleId := r_whitehatBundleId r\<rparr>) r"
  define h where "h = (if req_Method (r_jsonReq r) = ''eth_sendRawTransaction''
    then handle_sendRawTransaction E else handle_sendPrivateTransaction E)"
  have h: "h = handle_sendRawTransaction E \<or> h = handle_sendPrivateTransaction E"
    by (simp add: h_def)
  have d: "ProcessRequest E (r, w) = submit_method h (r, w)"
    using m by (auto simp: ProcessRequest_def logRequest_def dispatch_def h_def)
  obtain out1 where "h (?r1, w) = (out1, (r', w'))"
    using submit_method_world [of h r w out r' w'] d assms(1) \<open>w' \<noteq> w\<close> by auto
  then have "\<exists>raw ps t sndr c. r_params ?r1 = JStr raw # ps \<and> admissible E ?r1 w raw t sndr c \<and>
      relay_calls w' = c # relay_calls w"
    using handle_sendRawTransaction_gate [of E ?r1 w out1 r' w']
      handle_sendPrivateTransaction_gate [of E ?r1 w out1 r' w'] h assms(2) by (elim disjE) simp_all
  then show ?thesis using m by (simp add: admissible_cong [of ?r1 r])
qed


text \<open>A request that submits the raw transaction \<open>0x01\<close>.\<close>

definition ex_submit :: RpcRequest where
  "ex_submit = ex_request ''eth_sendRawTransaction'' [JStr ''0x01'']"


section \<open>Answers and panics\<close>

text \<open>
  The requests whose parameters have a type the handlers do not expect: an \<open>eth_call\<close> whose first
  parameter is not an object with texts (or nothing) at \<open>to\<close> and \<open>data\<close>, or a first parameter that
  is not a text where an account, a hash or a raw transaction is due.
\<close>

definition text_or_null :: "json \<Rightarrow> bool" where
  "text_or_null j = (case j of JNull \<Rightarrow> True | JStr _ \<Rightarrow> True | _ \<Rightarrow> False)"

definition is_text :: "json \<Rightarrow> bool" where
  "is_text j = (case j of JStr _ \<Rightarrow> True | _ \<Rightarrow> False)"

definition text_methods :: "string list" where
  "text_methods = [''eth_sendRawTransaction'', ''eth_sendPrivateTransaction'',
     ''eth_getTransactionCount'', ''eth_getTransactionReceipt'']"

definition malformed :: "RpcRequest \<Rightarrow> bool" where
  "malformed r \<longleftrightarrow>
     (case r_params r of
        [] \<Rightarrow> False
      | p # _ \<Rightarrow>
          req_Method (r_jsonReq r) = ''eth_call'' \<and>
            \<not> (case p of JObj kvs \<Rightarrow> text_or_null (obj_get kvs ''to'') \<and> text_or_null (obj_get kvs ''data'')
               | _ \<Rightarrow> False) \<or>
          req_Method (r_jsonReq r) \<in> set text_methods \<and> \<not> is_text p)"

lemma logRequest_panics:
  "(\<exists>p. logRequest r = Panic p) \<longleftrightarrow> malformed r \<and> req_Method (r_jsonReq r) = ''eth_call''"
  by (auto simp: logRequest_def malformed_def text_or_null_def text_methods_def
      split: list.splits json.splits)

text \<open>A result that is a response, never nil, or the panic of a malformed request.\<close>

definition answers :: "bool \<Rightarrow> 'r processed \<Rightarrow> bool" where
  "answers bad m = (case fst m of Ret res \<Rightarrow> res \<noteq> None | Panic _ \<Rightarrow> bad)"

lemma answers_respond: "answers bad (respond (r, w)) \<longleftrightarrow> r_jsonRes r \<noteq> None"
  by (simp add: answers_def respond_def)

lemma answered_not_nil [simp]: "answered r \<Longrightarrow> r_jsonRes r \<noteq> None"
  by (auto dest: answered_jsonRes)

lemma jsonRes_write [simp]:
  "r_jsonRes (writeRpcError m c r) \<noteq> None" "r_jsonRes (writeRpcResult x r) \<noteq> None"
  "\<exists>y. r_jsonRes (writeRpcError m c r) = Some y" "\<exists>y. r_jsonRes (writeRpcResult x r) = Some y"
  by (simp_all add: writeRpcError_def writeRpcResult_def)

lemma receipt_panics:
  "check_post_getTransactionReceipt E res r w = (Panic p, w') \<Longrightarrow>
     \<exists>x xs. r_params r = x # xs \<and> \<not> is_text x"
  by (auto simp: check_post_getTransactionReceipt_def Let_def is_text_def
      split: option.splits if_splits list.splits json.splits prod.splits sum.splits)

lemma proxy_checked_answers:
  "answers (req_Method (r_jsonReq (fst s)) = ''eth_getTransactionReceipt'' \<and>
      (\<exists>x xs. r_params (fst s) = x # xs \<and> \<not> is_text x)) (proxy_checked E s)"
proof -
  obtain r w where s: "s = (r, w)" by fastforce
  obtain ok r1 w1 where p: "proxyRequestRead E r w = (ok, r1, w1)"
    by (cases "proxyRequestRead E r w")
  note d = proxyRequestRead_D [OF p]
  obtain out w2 where c: "check_post_getTransactionReceipt E (r_jsonRes r1) r1 w1 = (out, w2)"
    by fastforce
  have ps: "r_params r1 = r_params r" using d by (simp add: r_params_def)
  show ?thesis
  proof (cases ok)
    case False
    then show ?thesis using p s by (simp add: proxy_checked_def answers_respond)
  next
    case True
    then obtain res where "r_jsonRes r1 = Some res" using d by auto
    then show ?thesis
      using True p s c d ps receipt_panics [of E "r_jsonRes r1" r1 w1 _ w2]
      by (cases out) (auto simp: proxy_checked_def answers_def respond_def)
  qed
qed

lemma answers_mono: "answers b m \<Longrightarrow> (b \<Longrightarrow> b') \<Longrightarrow> answers b' m"
  by (auto simp: answers_def split: go.splits)

lemma rewrite_cases:
  "case WhitehatBalanceCheckerRewrite r of
     Ret r1 \<Rightarrow> req_Method (r_jsonReq r1) = req_Method (r_jsonReq r)
   | Panic _ \<Rightarrow> \<exists>ps. r_params r = JNull # ps"
  by (auto simp: WhitehatBalanceCheckerRewrite_def split: list.splits json.splits)

lemma local_answers: "answers (malformed (fst s)) (answer_locally_or_proxy E s)"
proof -
  obtain r w where s: "s = (r, w)" by fastforce
  have checked: "answers (malformed r) (proxy_checked E (r, w))"
    by (rule answers_mono [OF proxy_checked_answers]) (auto simp: malformed_def text_methods_def)
  have "answers (malformed r) (proxy_default E (r, w))"
  proof (cases "r_isWhitehatBundleCollection r \<and> req_Method (r_jsonReq r) = ''eth_call''")
    case True
    show ?thesis
    proof (cases "WhitehatBalanceCheckerRewrite r")
      case (Ret r1)
      then have "req_Method (r_jsonReq r1) = ''eth_call''" using True rewrite_cases [of r] by simp
      then have "answers False (proxy_checked E (r1, w))"
        by (intro answers_mono [OF proxy_checked_answers]) auto
      then show ?thesis
        using True Ret answers_mono by (fastforce simp: proxy_default_def)
    next
      case (Panic p)
      then show ?thesis
        using True rewrite_cases [of r] by (auto simp: proxy_default_def answers_def malformed_def)
    qed
  next
    case False
    then show ?thesis using checked by (auto simp: proxy_default_def)
  qed
  then show ?thesis
    using s by (simp add: answer_locally_or_proxy_def answers_respond)
qed

lemma signed_cases:
  assumes "intercept_signed_eth_getTransactionCount E r w = (b, r1, w1)"
  shows "if b then r_jsonRes r1 \<noteq> None else r1 = r"
proof -
  have "case intercept_signed_eth_getTransactionCount E r w of
      (b, r1, w1) \<Rightarrow> if b then r_jsonRes r1 \<noteq> None else r1 = r"
    by (auto simp: intercept_signed_eth_getTransactionCount_def answer_signed_count_def Let_def
        split: option.split prod.split sum.split bool.split)
  then show ?thesis using assms by simp
qed

lemma mm_cases:
  assumes "intercept_mm_eth_getTransactionCount E r w = (out, r1, w1)"
  shows "case out of
      Ret b \<Rightarrow> if b then r_jsonRes r1 \<noteq> None else r1 = r
    | Panic _ \<Rightarrow> \<exists>x xs. r_params r = x # xs \<and> \<not> is_text x"
  using assms
  by (auto simp: intercept_mm_eth_getTransactionCount_def Let_def is_text_def
      split: list.splits json.splits option.splits prod.splits if_splits)

lemma transaction_count_answers:
  assumes "req_Method (r_jsonReq r) = ''eth_getTransactionCount''"
  shows "answers (malformed r) (transaction_count E (r, w))"
proof -
  obtain b r1 w1 where i: "intercept_signed_eth_getTransactionCount E r w = (b, r1, w1)"
    by (cases "intercept_signed_eth_getTransactionCount E r w")
  show ?thesis
  proof (cases b)
    case True
    then show ?thesis
      using i signed_cases [OF i] by (simp add: transaction_count_def answers_respond)
  next
    case False
    then have r1: "r1 = r" using signed_cases [OF i] by simp
    obtain out r2 w2 where m: "intercept_mm_eth_getTransactionCount E r w1 = (out, r2, w2)"
      by (cases "intercept_mm_eth_getTransactionCount E r w1")
    show ?thesis
    proof (cases out)
      case (Panic p)
      then show ?thesis
        using i m False r1 mm_cases [OF m] assms
        by (auto simp: transaction_count_def answers_def malformed_def text_methods_def)
    next
      case (Ret c)
      then show ?thesis
        using i m False r1 mm_cases [OF m] local_answers [of "(r, w2)" E]
        by (cases c) (simp_all add: transaction_count_def answers_respond)
    qed
  qed
qed

lemma eth_call_answers:
  assumes "req_Method (r_jsonReq r) = ''eth_call''"
  shows "answers (malformed r) (eth_call_method E (r, w))"
proof -
  obtain out r1 where i: "intercept_eth_call_to_FlashRPC_Contract r = (out, r1)" by fastforce
  have "case out of Ret b \<Rightarrow> if b then r_jsonRes r1 \<noteq> None else r1 = r | Panic _ \<Rightarrow> malformed r"
    using i assms
    by (auto simp: intercept_eth_call_to_FlashRPC_Contract_def malformed_def text_or_null_def
        split: list.splits json.splits if_splits)
  then show ?thesis
  proof (cases out)
    case (Ret b)
    with \<open>case out of Ret b \<Rightarrow> if b then r_jsonRes r1 \<noteq> None else r1 = r | Panic _ \<Rightarrow> malformed r\<close>
    show ?thesis
      using i local_answers [of "(r, w)" E]
      by (cases b) (simp_all add: eth_call_method_def answers_respond)
  qed (use i in \<open>simp add: eth_call_method_def answers_def\<close>)
qed

lemma client_version_answers: "answers False (client_version E (r, w))"
proof -
  obtain v c where g: "RpcCache_Get (w_now w div time_Second) (w_cache w) ''web3_clientVersion'' = (v, c)"
    by fastforce
  obtain ok r1 w1 where p: "proxyRequestRead E r (w\<lparr>w_cache := c\<rparr>) = (ok, r1, w1)"
    by (cases "proxyRequestRead E r (w\<lparr>w_cache := c\<rparr>)")
  show ?thesis
    using g p proxyRequestRead_D [OF p]
    by (cases v; cases ok) (auto simp: client_version_def answers_respond)
qed

definition submit_methods :: "string list" where
  "submit_methods = [''eth_sendRawTransaction'', ''eth_sendPrivateTransaction'']"

lemma handle_raw_answers:
  assumes "handle_sendRawTransaction E (r, w) = (out, (r', w'))"
  shows "case out of Ret _ \<Rightarrow> r_jsonRes r' \<noteq> None
    | Panic _ \<Rightarrow> \<exists>x xs. r_params r = x # xs \<and> \<not> is_text x"
  using assms submit_tx_gate
  by (auto simp: handle_sendRawTransaction_def Let_def is_text_def
      split: list.splits json.splits sum.splits if_splits dest!: submit_tx_gate)

lemma handle_private_answers:
  assumes "handle_sendPrivateTransaction E (r, w) = (out, (r', w'))"
  shows "case out of Ret _ \<Rightarrow> r_jsonRes r' \<noteq> None
    | Panic _ \<Rightarrow> \<exists>x xs. r_params r = x # xs \<and> \<not> is_text x"
proof (cases "and_then (stage_max_block (e_lib E) r) stage_fast")
  case (Return r1)
  then have "r_jsonRes r1 \<noteq> None"
    by (cases "stage_max_block (e_lib E) r")
      (auto simp: stage_max_block_def stage_fast_def split: if_splits json.splits sum.splits)
  with Return assms show ?thesis by (auto simp: handle_sendPrivateTransaction_def)
next
  case (Continue r1)
  then show ?thesis
    using assms handle_raw_answers [of E r1 w out r' w'] private_options_kept(1) [OF Continue]
    by (simp add: handle_sendPrivateTransaction_def split: go.splits)
qed

lemma submit_answers:
  assumes "req_Method (r_jsonReq r) \<in> set submit_methods"
    and h: "\<And>r1 out r' w'. h (r1, w) = (out, (r', w')) \<Longrightarrow>
      case out of Ret _ \<Rightarrow> r_jsonRes r' \<noteq> None
      | Panic _ \<Rightarrow> \<exists>x xs. r_params r1 = x # xs \<and> \<not> is_text x"
  shows "answers (malformed r \<or> r_ethSendRawTxEntry r = None) (submit_method h (r, w))"
proof (cases "r_ethSendRawTxEntry r")
  case None
  then show ?thesis by (simp add: submit_method_def answers_def)
next
  case (Some e)
  let ?r1 = "upd_entry (\<lambda>e. e\<lparr>WhiteHatBundleId := r_whitehatBundleId r\<rparr>) r"
  obtain out r' w' where o: "h (?r1, w) = (out, (r', w'))" by (cases "h (?r1, w)") auto
  have "case out of Ret _ \<Rightarrow> r_jsonRes r' \<noteq> None
      | Panic _ \<Rightarrow> \<exists>x xs. r_params r = x # xs \<and> \<not> is_text x"
    using h [OF o] by (simp split: go.splits)
  then show ?thesis
    using assms(1) o Some
    by (cases out) (auto simp: submit_method_def after_def answers_def respond_def malformed_def
        text_methods_def submit_methods_def)
qed

lemma dispatch_answers:
  "answers (malformed r \<or> req_Method (r_jsonReq r) \<in> set submit_methods \<and> r_ethSendRawTxEntry r = None)
     (dispatch E (r, w))"
proof -
  consider (raw) "req_Method (r_jsonReq r) = ''eth_sendRawTransaction''"
    | (priv) "req_Method (r_jsonReq r) = ''eth_sendPrivateTransaction''"
    | (count) "req_Method (r_jsonReq r) = ''eth_getTransactionCount''"
    | (call) "req_Method (r_jsonReq r) = ''eth_call''"
    | (other) "req_Method (r_jsonReq r) \<notin> {''eth_sendRawTransaction'',
        ''eth_sendPrivateTransaction'', ''eth_getTransactionCount'', ''eth_call''}"
    by auto
  then show ?thesis
  proof cases
    case raw
    have "answers (malformed r \<or> r_ethSendRawTxEntry r = None)
        (submit_method (handle_sendRawTransaction E) (r, w))"
      by (rule submit_answers [OF _ handle_raw_answers]) (simp_all add: raw submit_methods_def)
    with raw show ?thesis by (simp add: dispatch_def submit_methods_def)
  next
    case priv
    have "answers (malformed r \<or> r_ethSendRawTxEntry r = None)
        (submit_method (handle_sendPrivateTransaction E) (r, w))"
      by (rule submit_answers [OF _ handle_private_answers]) (simp_all add: priv submit_methods_def)
    with priv show ?thesis by (simp add: dispatch_def submit_methods_def)
  next
    case count
    then show ?thesis
      using answers_mono [OF transaction_count_answers [OF count, of E w]] by (simp add: dispatch_def)
  next
    case call
    then show ?thesis
      using answers_mono [OF eth_call_answers [OF call, of E w]] by (simp add: dispatch_def)
  next
    case other
    then have "dispatch E (r, w) \<in> {client_version E (r, w), answer_locally_or_proxy E (r, w)}"
      by (simp add: dispatch_def Let_def)
    then show ?thesis
      using answers_mono [OF client_version_answers [of E r w]]
        answers_mono [OF local_answers [of "(r, w)" E]] by auto
  qed
qed

lemma ProcessRequest_answers:
  "answers (malformed r \<or> req_Method (r_jsonReq r) \<in> set submit_methods \<and> r_ethSendRawTxEntry r = None)
     (ProcessRequest E (r, w))"
proof (cases "logRequest r")
  case (Panic p)
  then show ?thesis using logRequest_panics [of r] by (simp add: ProcessRequest_def answers_def)
next
  case (Ret u)
  then show ?thesis using dispatch_answers [of r E w] by (simp add: ProcessRequest_def)
qed

text \<open>
  C4: every request is answered. \<open>ProcessRequest\<close> returns a response, never nil, whatever the
  node, the relay, the status API and Redis do and however their answers look; it panics only on
  a malformed request, or when a submitting request was given no analytics entry.
\<close>

theorem process_answers:
  "case fst (ProcessRequest E (r, w)) of
     Ret res \<Rightarrow> \<exists>x. res = Some x
   | Panic _ \<Rightarrow>
       malformed r \<or> req_Method (r_jsonReq r) \<in> set submit_methods \<and> r_ethSendRawTxEntry r = None"
  using ProcessRequest_answers [of r E w] by (simp add: answers_def split: go.splits)

lemma mm_panics:
  assumes "r_params r = x # xs" "\<not> is_text x"
  shows "\<exists>p. fst (intercept_mm_eth_getTransactionCount E r w) = Panic p"
  using assms by (cases x) (auto simp: intercept_mm_eth_getTransactionCount_def is_text_def)

lemma signed_not_text:
  assumes "r_params r = x # xs" "\<not> is_text x"
  shows "intercept_signed_eth_getTransactionCount E r w = (False, r, w)"
proof -
  have "signed_count_address r = None"
    using assms by (cases x) (auto simp: signed_count_address_def is_text_def split: list.splits)
  then show ?thesis by (simp add: intercept_signed_eth_getTransactionCount_def)
qed

lemma raw_panics:
  assumes "r_params r = x # xs" "\<not> is_text x"
  shows "\<exists>p. fst (handle_sendRawTransaction E (r, w)) = Panic p"
  using assms by (cases x) (auto simp: handle_sendRawTransaction_def is_text_def)



end
