(* ===== verification/Request_Record.thy ===== *)
theory Request_Record
  imports Environment
begin

text \<open>
  The analytics record of an HTTP request (\<open>src/server/request_record.go\<close>) and the stores it is
  saved in (\<open>src/database\<close>). The interface \<open>database.Store\<close> is the record \<open>Store\<close> of its two
  operations over a database of any type; \<open>memStore\<close> and \<open>mockStore\<close> are defined here, the
  PostgreSQL store is one of the possible values. What a store that keeps its entries promises is
  the locale \<open>keeping_store\<close>. The mutexes make each operation atomic.
\<close>

section \<open>Stores\<close>

record 'd Store =
  SaveRequestEntry :: "RequestEntry \<Rightarrow> 'd \<Rightarrow> string option \<times> 'd"
  SaveRawTxEntries :: "EthSendRawTxEntry list \<Rightarrow> 'd \<Rightarrow> string option \<times> 'd"

record memStore =
  Requests :: "string \<rightharpoonup> RequestEntry"
  EthSendRawTxs :: "string \<rightharpoonup> EthSendRawTxEntry list"

definition NewMemStore :: memStore where
  "NewMemStore = \<lparr>Requests = Map.empty, EthSendRawTxs = Map.empty\<rparr>"

definition mem_SaveRequestEntry :: "RequestEntry \<Rightarrow> memStore \<Rightarrow> string option \<times> memStore" where
  "mem_SaveRequestEntry entry m = (None, m\<lparr>Requests := (Requests m)(re_Id entry \<mapsto> entry)\<rparr>)"

definition mem_SaveRawTxEntries :: "EthSendRawTxEntry list \<Rightarrow> memStore \<Rightarrow> string option \<times> memStore" where
  "mem_SaveRawTxEntries entries m =
     (case entries of
        [] \<Rightarrow> (None, m)
      | e # _ \<Rightarrow> (None, m\<lparr>EthSendRawTxs := (EthSendRawTxs m)(tx_RequestId e \<mapsto> entries)\<rparr>))"

definition mem_Store :: "memStore Store" where
  "mem_Store = \<lparr>SaveRequestEntry = mem_SaveRequestEntry, SaveRawTxEntries = mem_SaveRawTxEntries\<rparr>"

definition mock_Store :: "'d Store" where
  "mock_Store = \<lparr>SaveRequestEntry = (\<lambda>_ d. (None, d)), SaveRawTxEntries = (\<lambda>_ d. (None, d))\<rparr>"

text \<open>
  \<open>postgres_store.go\<close>. \<open>sqlx\<close> binds the names of a query to the fields of its argument by their
  \<open>db\<close> tags and fails before it runs the statement when a name has no field. \<open>exec\<close> is the
  execution of the bound statement by the database.
\<close>

definition request_tags :: "string list" where
  "request_tags = [''id'', ''received_at'', ''inserted_at'', ''request_duration_ms'',
     ''is_batch_request'', ''num_request_in_batch'', ''http_method'', ''http_url'',
     ''http_query_param'', ''http_response_status'', ''origin'', ''host'', ''error'']"

definition request_names :: "string list" where
  "request_names = [''id'', ''received_at'', ''request_duration_ms'', ''is_batch_request'',
     ''num_request_in_batch'', ''http_method'', ''http_url'', ''http_query_param'',
     ''http_response_status'', ''ip_hash'', ''origin'', ''host'', ''error'']"

definition raw_tx_tags :: "string list" where
  "raw_tx_tags = [''id'', ''request_id'', ''inserted_at'', ''is_on_oafc_list'',
     ''is_white_hat_bundle_collection'', ''white_hat_bundle_id'', ''is_cancel_tx'',
     ''needs_front_running_protection'', ''was_sent_to_relay'', ''was_sent_to_mempool'',
     ''is_blocked'', ''error'', ''error_code'', ''tx_raw'', ''tx_hash'', ''tx_from'', ''tx_to'',
     ''tx_nonce'', ''tx_data'', ''tx_smart_contract_method'', ''fast'']"

definition raw_tx_names :: "string list" where
  "raw_tx_names = [''id'', ''request_id'', ''is_on_oafc_list'',
     ''is_white_hat_bundle_collection'', ''white_hat_bundle_id'', ''is_cancel_tx'',
     ''needs_front_running_protection'', ''was_sent_to_relay'', ''was_sent_to_mempool'',
     ''is_blocked'', ''error'', ''error_code'', ''tx_raw'', ''tx_hash'', ''tx_from'', ''tx_to'',
     ''tx_nonce'', ''tx_data'', ''tx_smart_contract_method'', ''fast'']"

definition postgres_Store ::
    "(string list \<Rightarrow> string list \<Rightarrow> RequestEntry \<Rightarrow> 'd \<Rightarrow> string option \<times> 'd) \<Rightarrow>
     (string list \<Rightarrow> string list \<Rightarrow> EthSendRawTxEntry list \<Rightarrow> 'd \<Rightarrow> string option \<times> 'd) \<Rightarrow> 'd Store" where
  "postgres_Store NamedExec_request NamedExec_txs =
     \<lparr>SaveRequestEntry = NamedExec_request request_names request_tags,
      SaveRawTxEntries = NamedExec_txs raw_tx_names raw_tx_tags\<rparr>"

text \<open>
  \<open>NewPostgresStore\<close>: \<open>sqlx.MustConnect\<close> gives a connection pool, by its two uses, or panics. The
  limits set on the pool have no influence on what a statement does.
\<close>

record 'd sql_DB =
  sql_request :: "string list \<Rightarrow> string list \<Rightarrow> RequestEntry \<Rightarrow> 'd \<Rightarrow> string option \<times> 'd"
  sql_raw_txs :: "string list \<Rightarrow> string list \<Rightarrow> EthSendRawTxEntry list \<Rightarrow> 'd \<Rightarrow> string option \<times> 'd"

definition NewPostgresStore :: "(string \<Rightarrow> 'd sql_DB go) \<Rightarrow> string \<Rightarrow> 'd Store go" where
  "NewPostgresStore MustConnect dsn =
     (case MustConnect dsn of
        Panic p \<Rightarrow> Panic p
      | Ret db \<Rightarrow> Ret (postgres_Store (sql_request db) (sql_raw_txs db)))"

text \<open>What \<open>sqlx\<close> documents of a statement with a name that has no field.\<close>

definition refuses_unbound ::
    "(string list \<Rightarrow> string list \<Rightarrow> 'a \<Rightarrow> 'd \<Rightarrow> string option \<times> 'd) \<Rightarrow> bool" where
  "refuses_unbound NamedExec \<longleftrightarrow>
     (\<forall>names tags x d. \<not> set names \<subseteq> set tags \<longrightarrow> (\<exists>e. NamedExec names tags x d = (Some e, d)))"

section \<open>The record\<close>

record requestRecord =
  requestEntry :: RequestEntry
  ethSendRawTxEntries :: "EthSendRawTxEntry list"

definition zero_RequestEntry :: RequestEntry where
  "zero_RequestEntry = \<lparr>re_Id = '''', re_ReceivedAt = time_zero, re_InsertedAt = time_zero,
     re_RequestDurationMs = 0, re_IsBatchRequest = False, re_NumRequestInBatch = 0,
     re_HttpMethod = '''', re_HttpUrl = '''', re_HttpQueryParam = '''', re_HttpResponseStatus = 0,
     re_Origin = '''', re_Host = '''', re_Error = ''''\<rparr>"

definition zero_EthSendRawTxEntry :: EthSendRawTxEntry where
  "zero_EthSendRawTxEntry = \<lparr>tx_Id = '''', tx_RequestId = '''', tx_InsertedAt = time_zero,
     IsOnOafcList = False, IsWhiteHatBundleCollection = False, WhiteHatBundleId = '''',
     IsCancelTx = False, NeedsFrontRunningProtection = False, WasSentToRelay = False,
     WasSentToMempool = False, IsBlocked = False, entry_Error = '''', entry_ErrorCode = 0,
     TxRaw = '''', entry_TxHash = '''', TxFrom = '''', TxTo = '''', TxNonce = 0, TxData = '''',
     TxSmartContractMethod = '''', entry_Fast = False\<rparr>"

definition NewRequestRecord :: requestRecord where
  "NewRequestRecord = \<lparr>requestEntry = zero_RequestEntry, ethSendRawTxEntries = []\<rparr>"

text \<open>
  The source hands out a pointer to the new entry; here the entry is returned, and written back
  with \<open>put_last_entry\<close> when the handler is done with it.
\<close>

definition AddEthSendRawTxEntry :: "string \<Rightarrow> requestRecord \<Rightarrow> EthSendRawTxEntry \<times> requestRecord" where
  "AddEthSendRawTxEntry i r =
     (let entry = zero_EthSendRawTxEntry\<lparr>tx_Id := i, tx_RequestId := re_Id (requestEntry r)\<rparr>
      in (entry, r\<lparr>ethSendRawTxEntries := ethSendRawTxEntries r @ [entry]\<rparr>))"

definition put_last_entry :: "EthSendRawTxEntry option \<Rightarrow> requestRecord \<Rightarrow> requestRecord" where
  "put_last_entry e r =
     (case e of
        None \<Rightarrow> r
      | Some entry \<Rightarrow> r\<lparr>ethSendRawTxEntries := butlast (ethSendRawTxEntries r) @ [entry]\<rparr>)"

definition UpdateRequestEntry :: "in_request \<Rightarrow> int \<Rightarrow> string \<Rightarrow> requestRecord \<Rightarrow> requestRecord" where
  "UpdateRequestEntry req reqStatus err r =
     r\<lparr>requestEntry := (requestEntry r)
        \<lparr>re_HttpMethod := in_Method req, re_Error := err, re_HttpUrl := url_Path (in_URL req),
         re_HttpQueryParam := url_RawQuery (in_URL req), re_HttpResponseStatus := reqStatus,
         re_Origin := in_Header req ''Origin'', re_Host := in_Header req ''Host''\<rparr>\<rparr>"

definition getValidRawTxEntriesToSave :: "requestRecord \<Rightarrow> EthSendRawTxEntry list" where
  "getValidRawTxEntriesToSave r =
     filter (\<lambda>e. entry_ErrorCode e \<noteq> 0 \<or> WasSentToRelay e \<or> WasSentToMempool e)
       (ethSendRawTxEntries r)"

definition SaveRecord :: "'d Store \<Rightarrow> requestRecord \<Rightarrow> 'd \<Rightarrow> string option \<times> 'd" where
  "SaveRecord db r d =
     (let entries = getValidRawTxEntriesToSave r in
      if length entries > 0 then
        (case SaveRequestEntry db (requestEntry r) d of
           (Some err, d1) \<Rightarrow> (Some (''SaveRequestEntry failed '' @ err), d1)
         | (None, d1) \<Rightarrow>
             (case SaveRawTxEntries db entries d1 of
                (Some err, d2) \<Rightarrow> (Some (''SaveRawTxEntries failed '' @ err), d2)
              | (None, d2) \<Rightarrow> (None, d2)))
      else (None, d))"

section \<open>Stores that keep what is saved\<close>

text \<open>
  The contract of a store that keeps its entries: a save that reports no error adds the entry, or
  the entries of one request, and touches nothing else.
\<close>

locale keeping_store =
  fixes S :: "'d Store"
    and reqs :: "'d \<Rightarrow> string \<rightharpoonup> RequestEntry"
    and txs :: "'d \<Rightarrow> string \<rightharpoonup> EthSendRawTxEntry list"
  assumes save_request: "SaveRequestEntry S e d = (None, d') \<Longrightarrow>
      reqs d' = (reqs d)(re_Id e \<mapsto> e) \<and> txs d' = txs d"
    and save_txs: "SaveRawTxEntries S es d = (None, d') \<Longrightarrow> es \<noteq> [] \<Longrightarrow>
      \<forall>e\<in>set es. tx_RequestId e = i \<Longrightarrow> txs d' = (txs d)(i \<mapsto> es) \<and> reqs d' = reqs d"
begin

lemma save_record_kept:
  assumes "SaveRecord S r d = (None, d')" "getValidRawTxEntriesToSave r \<noteq> []"
    and "\<forall>e\<in>set (ethSendRawTxEntries r). tx_RequestId e = re_Id (requestEntry r)"
  shows "reqs d' = (reqs d)(re_Id (requestEntry r) \<mapsto> requestEntry r) \<and>
    txs d' = (txs d)(re_Id (requestEntry r) \<mapsto> getValidRawTxEntriesToSave r)"
proof -
  obtain d1 where 1: "SaveRequestEntry S (requestEntry r) d = (None, d1)"
    and 2: "SaveRawTxEntries S (getValidRawTxEntriesToSave r) d1 = (None, d')"
    using assms(1,2) by (auto simp: SaveRecord_def Let_def split: prod.splits option.splits)
  have ids: "\<forall>e\<in>set (getValidRawTxEntriesToSave r). tx_RequestId e = re_Id (requestEntry r)"
    using assms(3) by (simp add: getValidRawTxEntriesToSave_def)
  show ?thesis using save_request [OF 1] save_txs [OF 2 assms(2) ids] by simp
qed

end

interpretation mem_store: keeping_store mem_Store Requests EthSendRawTxs
proof unfold_locales
  fix es :: "EthSendRawTxEntry list" and d d' i
  assume "SaveRawTxEntries mem_Store es d = (None, d')" "es \<noteq> []" "\<forall>e\<in>set es. tx_RequestId e = i"
  then show "EthSendRawTxs d' = (EthSendRawTxs d)(i \<mapsto> es) \<and> Requests d' = Requests d"
    by (cases es) (auto simp: mem_Store_def mem_SaveRawTxEntries_def)
qed (auto simp: mem_Store_def mem_SaveRequestEntry_def)

text \<open>
  C35: what is kept of a request. \<open>SaveRecord\<close> in the in-memory store always succeeds; it keeps the
  request and, under its id, exactly those of its transaction entries that carry an error code
  or were sent to the relay or the mempool, in order; a request with no such entry leaves the
  store as it was.
\<close>

theorem save_record_keeps:
  assumes "\<forall>e\<in>set (ethSendRawTxEntries r). tx_RequestId e = re_Id (requestEntry r)"
  shows "\<exists>d'. SaveRecord mem_Store r d = (None, d') \<and>
    (if \<exists>e\<in>set (ethSendRawTxEntries r). entry_ErrorCode e \<noteq> 0 \<or> WasSentToRelay e \<or> WasSentToMempool e
     then Requests d' = (Requests d)(re_Id (requestEntry r) \<mapsto> requestEntry r) \<and>
       EthSendRawTxs d' = (EthSendRawTxs d)(re_Id (requestEntry r) \<mapsto>
         filter (\<lambda>e. entry_ErrorCode e \<noteq> 0 \<or> WasSentToRelay e \<or> WasSentToMempool e)
           (ethSendRawTxEntries r))
     else d' = d)"
proof (cases "getValidRawTxEntriesToSave r")
  case Nil
  then show ?thesis
    by (auto simp: SaveRecord_def getValidRawTxEntriesToSave_def filter_empty_conv)
next
  case (Cons e es)
  then have ne: "getValidRawTxEntriesToSave r \<noteq> []" by simp
  have "fst (SaveRecord mem_Store r d) = None"
    using Cons by (simp add: SaveRecord_def mem_Store_def mem_SaveRequestEntry_def
        mem_SaveRawTxEntries_def)
  then obtain d' where d': "SaveRecord mem_Store r d = (None, d')" by (metis prod.collapse)
  have "\<exists>e\<in>set (ethSendRawTxEntries r). entry_ErrorCode e \<noteq> 0 \<or> WasSentToRelay e \<or> WasSentToMempool e"
    using ne by (auto simp: getValidRawTxEntriesToSave_def filter_empty_conv)
  then show ?thesis
    using d' mem_store.save_record_kept [OF d' ne assms]
    by (simp add: getValidRawTxEntriesToSave_def)
qed

definition ex_record :: requestRecord where
  "ex_record = (NewRequestRecord\<lparr>requestEntry := zero_RequestEntry\<lparr>re_Id := ''1''\<rparr>\<rparr>)
     \<lparr>ethSendRawTxEntries :=
        [zero_EthSendRawTxEntry\<lparr>tx_Id := ''2'', tx_RequestId := ''1'', WasSentToRelay := True\<rparr>,
         zero_EthSendRawTxEntry\<lparr>tx_Id := ''3'', tx_RequestId := ''1''\<rparr>]\<rparr>"

theorem save_record_keeps_witness:
  "\<exists>d'. SaveRecord mem_Store ex_record NewMemStore = (None, d') \<and>
     EthSendRawTxs d' = [''1'' \<mapsto>
       [zero_EthSendRawTxEntry\<lparr>tx_Id := ''2'', tx_RequestId := ''1'', WasSentToRelay := True\<rparr>]]"
proof -
  have "\<forall>e\<in>set (ethSendRawTxEntries ex_record). tx_RequestId e = re_Id (requestEntry ex_record)"
    by (simp add: ex_record_def)
  from save_record_keeps [OF this, of NewMemStore] show ?thesis
    by (auto simp: ex_record_def NewRequestRecord_def zero_EthSendRawTxEntry_def NewMemStore_def)
qed

text \<open>
  C36: the PostgreSQL store saves no request. The statement for a request names \<open>ip_hash\<close>, which no
  field of the entry carries, so it is refused before it reaches the database; \<open>SaveRecord\<close> then
  reports an error for every record with an entry to save, and never goes on to the transaction
  entries, although their own statement is well formed. The database is left as it was.
\<close>

theorem postgres_request_unbound:
  assumes "refuses_unbound nreq"
  shows "set raw_tx_names \<subseteq> set raw_tx_tags \<and>
    snd (SaveRecord (postgres_Store nreq ntx) r d) = d \<and>
    (fst (SaveRecord (postgres_Store nreq ntx) r d) = None \<longleftrightarrow> getValidRawTxEntriesToSave r = [])"
proof -
  have "\<not> set request_names \<subseteq> set request_tags" and txs: "set raw_tx_names \<subseteq> set raw_tx_tags"
    by code_simp+
  then obtain err where "nreq request_names request_tags (requestEntry r) d = (Some err, d)"
    using assms unfolding refuses_unbound_def by blast
  with txs show ?thesis by (simp add: SaveRecord_def Let_def postgres_Store_def)
qed

definition ex_NamedExec :: "string list \<Rightarrow> string list \<Rightarrow> 'a \<Rightarrow> nat \<Rightarrow> string option \<times> nat" where
  "ex_NamedExec names tags x d = (if set names \<subseteq> set tags then (None, Suc d) else (Some ''name'', d))"

theorem postgres_request_unbound_witness:
  "snd (SaveRecord (postgres_Store ex_NamedExec ex_NamedExec) ex_record 0) = 0 \<and>
   fst (SaveRecord (postgres_Store ex_NamedExec ex_NamedExec) ex_record 0) \<noteq> None"
proof -
  have "refuses_unbound (ex_NamedExec :: _ \<Rightarrow> _ \<Rightarrow> RequestEntry \<Rightarrow> _)"
    by (auto simp: refuses_unbound_def ex_NamedExec_def)
  moreover have "getValidRawTxEntriesToSave ex_record \<noteq> []" by code_simp
  ultimately show ?thesis using postgres_request_unbound [of ex_NamedExec ex_NamedExec ex_record 0] by simp
qed

end
