(* ===== verification/Url_Props.thy ===== *)
theory Url_Props
  imports Url_Params
begin

text \<open>
  Correctness of the URL parameters: what holds of every parameter set that is accepted, and
  when the outcome does not depend on the order in which Go visits the query map.
\<close>

section \<open>Running the stages\<close>

text \<open>A stage keeps an assertion when every parameter set it accepts satisfies it afterwards.\<close>

definition keeps :: "(URLParameters \<Rightarrow> bool) \<Rightarrow> stage \<Rightarrow> bool" where
  "keeps J st \<longleftrightarrow> (\<forall>p p'. J p \<longrightarrow> st p = Inr p' \<longrightarrow> J p')"

definition establishes :: "(URLParameters \<Rightarrow> bool) \<Rightarrow> stage \<Rightarrow> bool" where
  "establishes J st \<longleftrightarrow> (\<forall>p p'. st p = Inr p' \<longrightarrow> J p')"

lemma then_stage_simps [simp]: "then_stage (Inl e) f = Inl e" "then_stage (Inr p) f = f p"
  by (simp_all add: then_stage_def)

lemma then_stage_Inl [simp]: "foldl then_stage (Inl e) sts = Inl e"
  by (induction sts) simp_all

lemma foldl_keeps:
  assumes "foldl then_stage (Inr p) sts = Inr p'" "J p" "list_all (keeps J) sts"
  shows "J p'"
  using assms
proof (induction sts arbitrary: p)
  case Nil
  then show ?case by simp
next
  case (Cons st sts)
  then obtain p1 where p1: "st p = Inr p1"
    by (cases "st p") auto
  with Cons.prems have "J p1" by (auto simp: keeps_def)
  with Cons p1 show ?case by auto
qed

lemma foldl_establishes:
  assumes "foldl then_stage (Inr p) (sts @ st # sts') = Inr p'"
    and "establishes J st" "list_all (keeps J) sts'"
  shows "J p'"
proof -
  obtain p1 where p1: "foldl then_stage (Inr p) sts = Inr p1"
    using assms(1) by (cases "foldl then_stage (Inr p) sts") auto
  with assms(1) obtain p2 where p2: "st p1 = Inr p2"
    by (cases "st p1") auto
  with assms(2) have "J p2" by (auto simp: establishes_def)
  moreover have "foldl then_stage (Inr p2) sts' = Inr p'"
    using assms(1) p1 p2 by simp
  ultimately show ?thesis using foldl_keeps assms(3) by blast
qed

lemmas stage_defs =
  extract_hint_def extract_originId_def extract_builders_def extract_refund_def extract_flags_def
  extract_mempoolRPC_def extract_blockRange_def extract_auctionTimeout_def extract_allowTEE_def

section \<open>Assertions on accepted parameters\<close>

definition hints_ok :: "url_values \<Rightarrow> URLParameters \<Rightarrow> bool" where
  "hints_ok q p \<longleftrightarrow>
     (case map_of q ''hint'' of
        None \<Rightarrow> Hints (Privacy (pref p)) = DefaultAuctionHint
      | Some hs \<Rightarrow> hs \<noteq> [] \<and> Hints (Privacy (pref p)) = hs \<and> set hs \<subseteq> set allowedHints)"

definition builders_ok :: "string list \<Rightarrow> url_values \<Rightarrow> URLParameters \<Rightarrow> bool" where
  "builders_ok bs q p \<longleftrightarrow>
     (fast p \<longrightarrow> Fast (pref p) \<and> Builders (Privacy (pref p)) = bs)"

definition refunds_ok :: "RefundConfig list \<Rightarrow> bool" where
  "refunds_ok rs \<longleftrightarrow> list_all (\<lambda>r. 0 < refund_Percent r \<and> refund_Percent r < 100) rs
     \<and> total_refund rs \<le> 100"

definition ranges_ok :: "URLParameters \<Rightarrow> bool" where
  "ranges_ok p \<longleftrightarrow> refunds_ok (Refund (Validity (pref p))) \<and>
     0 \<le> blockRange p \<and> blockRange p < 2 ^ 63 \<and> unat (auctionTimeout p) < 2 ^ 63"

lemma parse_refund_bounds:
  "parse_refund L s = Inr r \<Longrightarrow> 0 < refund_Percent r \<and> refund_Percent r < 100"
  by (auto simp: parse_refund_def Let_def split: list.splits sum.splits if_splits)

lemma parse_refunds_bounds:
  "parse_refunds L ss = Inr rs \<Longrightarrow>
     list_all (\<lambda>r. 0 < refund_Percent r \<and> refund_Percent r < 100) rs"
  by (induction ss arbitrary: rs) (auto split: sum.splits dest: parse_refund_bounds)

lemma unat_of_int_timeout:
  assumes "0 \<le> i" "int64_range i"
  shows "unat (of_int i :: u64) < 2 ^ 63"
proof -
  have "unat (of_int i :: u64) = nat (take_bit 64 i)"
    by (simp add: unsigned_of_int)
  also have "take_bit 64 i = i"
    using assms by (intro take_bit_int_eq_self) (auto simp: int64_range_def)
  finally show ?thesis
    using assms by (auto simp: int64_range_def nat_less_iff)
qed

lemma Atoi_timeout:
  "Atoi s = Inr i \<Longrightarrow> \<not> i < 0 \<Longrightarrow> unat (of_int i :: u64) < 9223372036854775808"
  using unat_of_int_timeout [of i] Atoi_range by force

lemma keeps_ranges:
  "list_all (keeps ranges_ok)
     [extract_hint q, extract_originId q, extract_builders bs q, extract_refund L q,
      extract_flags q, extract_mempoolRPC L q, extract_blockRange q, extract_auctionTimeout q,
      extract_allowTEE q]"
  by (auto simp: keeps_def ranges_ok_def refunds_ok_def stage_defs set_pref_defs Let_def int64_range_def
      split: option.splits list.splits sum.splits if_splits
      dest: parse_refunds_bounds Atoi_range Atoi_timeout)

lemma keeps_hints:
  "list_all (keeps (hints_ok q))
     [extract_originId q, extract_builders bs q, extract_refund L q, extract_flags q,
      extract_mempoolRPC L q, extract_blockRange q, extract_auctionTimeout q, extract_allowTEE q]"
  by (auto simp: keeps_def hints_ok_def stage_defs set_pref_defs Let_def
      split: option.splits list.splits sum.splits if_splits)

lemma keeps_builders:
  "list_all (keeps (builders_ok bs q))
     [extract_refund L q, extract_flags q, extract_mempoolRPC L q, extract_blockRange q,
      extract_auctionTimeout q, extract_allowTEE q]"
  by (auto simp: keeps_def builders_ok_def stage_defs set_pref_defs Let_def
      split: option.splits list.splits sum.splits if_splits)

lemma keeps_fast:
  "list_all (keeps (\<lambda>p. fast p = f \<and> rawNormalizedQueryParams p = q0))
     [extract_hint q, extract_originId q, extract_builders bs q, extract_refund L q,
      extract_flags q, extract_mempoolRPC L q, extract_blockRange q, extract_auctionTimeout q,
      extract_allowTEE q]"
  by (auto simp: keeps_def stage_defs set_pref_defs Let_def
      split: option.splits list.splits sum.splits if_splits)

lemma establishes_hints: "establishes (hints_ok q) (extract_hint q)"
  by (auto simp: establishes_def hints_ok_def extract_hint_def set_pref_defs
      split: option.splits if_splits)

lemma establishes_builders: "establishes (builders_ok bs q) (extract_builders bs q)"
  by (auto simp: establishes_def builders_ok_def extract_builders_def set_pref_defs Let_def
      split: option.splits list.splits if_splits)

lemma refunds_ok_Nil [simp]: "refunds_ok []"
  by (simp add: refunds_ok_def total_refund_def)

lemma initial_ranges: "ranges_ok (initial_params q u)"
  by (simp add: ranges_ok_def initial_params_def set_pref_defs zero_URLParameters_def
      zero_PrivateTxPreferences_def)

lemma initial_fast:
  "fast (initial_params q u) = HasPrefix (url_Path u) ''/fast''"
  "rawNormalizedQueryParams (initial_params q u) = q"
  by (simp_all add: initial_params_def set_pref_defs zero_URLParameters_def)

section \<open>Accepted parameters are well formed\<close>

lemma extract_ranges:
  assumes "ExtractParametersFromUrl L iter reqUrl allBuilders = Inr p"
  shows "ranges_ok p"
proof -
  define q where "q = normalizeQueryParams iter reqUrl"
  have "foldl then_stage (Inr (initial_params q reqUrl)) [extract_hint q, extract_originId q,
      extract_builders allBuilders q, extract_refund L q, extract_flags q, extract_mempoolRPC L q,
      extract_blockRange q, extract_auctionTimeout q, extract_allowTEE q] = Inr p"
    using assms by (simp add: ExtractParametersFromUrl_def url_stages_def q_def Let_def)
  then show ?thesis using initial_ranges keeps_ranges by (rule foldl_keeps)
qed

text \<open>
  C25: whatever \<open>ExtractParametersFromUrl\<close> accepts is well formed. Every refund is 1 to 99
  percent and all together at most 100; the block range and the auction timeout fit an \<open>int64\<close>
  and are not negative; the hints are the given ones, all allowed, or the default; the fast
  mode is set exactly under the path \<open>/fast\<close>, and then all builders are addressed whatever the
  query says; the query is kept in normalised form.
\<close>

theorem url_parameters_wellformed:
  assumes "ExtractParametersFromUrl L iter reqUrl allBuilders = Inr p"
  shows "ranges_ok p \<and> hints_ok (normalizeQueryParams iter reqUrl) p \<and>
    fast p = HasPrefix (url_Path reqUrl) ''/fast'' \<and>
    (fast p \<longrightarrow> Fast (pref p) \<and> Builders (Privacy (pref p)) = allBuilders) \<and>
    rawNormalizedQueryParams p = normalizeQueryParams iter reqUrl"
proof -
  define q where "q = normalizeQueryParams iter reqUrl"
  let ?run = "\<lambda>sts. foldl then_stage (Inr (initial_params q reqUrl)) sts = Inr p"
  have run: "?run [extract_hint q, extract_originId q, extract_builders allBuilders q,
      extract_refund L q, extract_flags q, extract_mempoolRPC L q, extract_blockRange q,
      extract_auctionTimeout q, extract_allowTEE q]"
    using assms by (simp add: ExtractParametersFromUrl_def url_stages_def q_def Let_def)
  have "ranges_ok p" by (rule extract_ranges [OF assms])
  moreover have "hints_ok q p"
    using foldl_establishes [of _ "[]" "extract_hint q", OF _ establishes_hints keeps_hints] run
    by simp
  moreover have "builders_ok allBuilders q p"
    using foldl_establishes [of _ "[extract_hint q, extract_originId q]",
        OF _ establishes_builders keeps_builders] run
    by simp
  moreover have "fast p = HasPrefix (url_Path reqUrl) ''/fast'' \<and> rawNormalizedQueryParams p = q"
    using foldl_keeps [OF run _ keeps_fast] initial_fast by blast
  ultimately show ?thesis by (simp add: builders_ok_def q_def)
qed

definition sample_url :: goURL where
  "sample_url = \<lparr>url_Scheme = '''', url_Path = ''/fast'',
     url_RawQuery = ''hint=hash&Hint=logs&refund=origin:30&blockRange=25'', url_Rest = ''''\<rparr>"

lemma sample_path: "url_Path sample_url = ''/fast''"
  by (simp add: sample_url_def)

lemma sample_query:
  "URL_Query sample_url = [(''hint'', [''hash'']), (''Hint'', [''logs'']),
     (''refund'', [''origin:30'']), (''blockRange'', [''25''])]"
  by (simp add: URL_Query_def sample_url_def query_pair_def add_value_def)

lemma sample_normalized:
  "normalizeQueryParams (\<lambda>xs. xs) sample_url =
     [(''hint'', [''logs'']), (''refund'', [''origin:30'']), (''blockrange'', [''25''])]"
  "normalizeQueryParams rev sample_url =
     [(''blockrange'', [''25'']), (''refund'', [''origin:30'']), (''hint'', [''hash''])]"
  by (simp_all add: normalizeQueryParams_def sample_query ToLower_def)

lemma sample_extract:
  "\<exists>p. ExtractParametersFromUrl L (\<lambda>xs. xs) sample_url bs = Inr p \<and> Hints (Privacy (pref p)) = [''logs'']"
  "\<exists>p. ExtractParametersFromUrl L rev sample_url bs = Inr p \<and> Hints (Privacy (pref p)) = [''hash'']"
proof -
  have "Atoi ''30'' = Inr 30" "Atoi ''25'' = Inr 25"
    by code_simp+
  then show "\<exists>p. ExtractParametersFromUrl L (\<lambda>xs. xs) sample_url bs = Inr p \<and>
      Hints (Privacy (pref p)) = [''logs'']"
    "\<exists>p. ExtractParametersFromUrl L rev sample_url bs = Inr p \<and>
      Hints (Privacy (pref p)) = [''hash'']"
    by (simp_all add: ExtractParametersFromUrl_def url_stages_def sample_normalized stage_defs
        set_pref_defs initial_params_def sample_path HasPrefix_def allowedHints_def Let_def
        parse_refund_def ToLower_def OriginKeyword_def total_refund_def first_value_def
        zero_URLParameters_def zero_PrivateTxPreferences_def)
qed

theorem url_parameters_wellformed_witness:
  "\<forall>L. \<exists>p. ExtractParametersFromUrl L (\<lambda>xs. xs) sample_url [''flashbots''] = Inr p \<and>
     ranges_ok p \<and> fast p \<and> Builders (Privacy (pref p)) = [''flashbots'']"
proof
  fix L
  obtain p where p: "ExtractParametersFromUrl L (\<lambda>xs. xs) sample_url [''flashbots''] = Inr p"
    using sample_extract(1) by blast
  from url_parameters_wellformed [OF this] p
  show "\<exists>p. ExtractParametersFromUrl L (\<lambda>xs. xs) sample_url [''flashbots''] = Inr p \<and>
      ranges_ok p \<and> fast p \<and> Builders (Privacy (pref p)) = [''flashbots'']"
    by (simp add: sample_url_def HasPrefix_def)
qed

section \<open>The order of the query map\<close>

text \<open>Two outcomes that agree up to the order in which the kept query lists its entries.\<close>

definition erase_raw :: "URLParameters \<Rightarrow> URLParameters" where
  "erase_raw p = p\<lparr>rawNormalizedQueryParams := []\<rparr>"

definition same_outcome :: "url_error + URLParameters \<Rightarrow> url_error + URLParameters \<Rightarrow> bool" where
  "same_outcome a b \<longleftrightarrow>
     (case (a, b) of
        (Inl e, Inl e') \<Rightarrow> e = e'
      | (Inr p, Inr p') \<Rightarrow> erase_raw p = erase_raw p' \<and>
          map_of (rawNormalizedQueryParams p) = map_of (rawNormalizedQueryParams p')
      | _ \<Rightarrow> False)"

lemma map_of_update_fold:
  assumes "distinct (map (ToLower \<circ> fst) xs)" "fst ` set m \<inter> (ToLower \<circ> fst) ` set xs = {}"
  shows "map_of (foldl (\<lambda>m (key, vals). AList.update (ToLower key) vals m) m xs) =
    map_of (map (\<lambda>(k, v). (ToLower k, v)) xs) ++ map_of m"
  using assms
proof (induction xs arbitrary: m)
  case Nil
  then show ?case by simp
next
  case (Cons x xs)
  obtain k v where x: "x = (k, v)" by (cases x)
  have notin: "ToLower k \<notin> (ToLower \<circ> fst) ` set xs" "ToLower k \<notin> fst ` set m"
    using Cons.prems x by auto
  have "fst ` set (AList.update (ToLower k) v m) \<inter> (ToLower \<circ> fst) ` set xs = {}"
    using Cons.prems notin by (auto simp: dom_update x)
  then have "map_of (foldl (\<lambda>m (key, vals). AList.update (ToLower key) vals m)
      (AList.update (ToLower k) v m) xs) =
      map_of (map (\<lambda>(k, v). (ToLower k, v)) xs) ++ (map_of m)(ToLower k \<mapsto> v)"
    using Cons.IH Cons.prems by (simp add: update_conv')
  moreover have "map_of (map (\<lambda>(k, v). (ToLower k, v)) xs) (ToLower k) = None"
    using notin by (auto simp: map_of_eq_None_iff image_iff split_beta)
  moreover have "map_of m (ToLower k) = None"
    using notin by (auto simp: map_of_eq_None_iff)
  ultimately show ?case
    by (auto simp: x fun_eq_iff map_add_def split: option.splits)
qed

lemma normalize_order:
  assumes "mset (iter (URL_Query u)) = mset (URL_Query u)"
    and "distinct (map (ToLower \<circ> fst) (URL_Query u))"
  shows "map_of (normalizeQueryParams iter u) = map_of (map (\<lambda>(k, v). (ToLower k, v)) (URL_Query u))"
proof -
  let ?q = "URL_Query u" and ?q' = "iter (URL_Query u)"
  have d: "distinct (map (ToLower \<circ> fst) ?q')"
    using assms mset_eq_imp_distinct_iff [of "map (ToLower \<circ> fst) ?q'" "map (ToLower \<circ> fst) ?q"]
    by simp
  then have "map_of (normalizeQueryParams iter u) = map_of (map (\<lambda>(k, v). (ToLower k, v)) ?q')"
    unfolding normalizeQueryParams_def by (subst map_of_update_fold) simp_all
  also have "\<dots> = map_of (map (\<lambda>(k, v). (ToLower k, v)) ?q)"
    using d assms mset_eq_setD [OF assms(1)]
    by (intro map_of_inject_set [THEN iffD2]) (simp_all add: comp_def split_beta)
  finally show ?thesis .
qed

text \<open>Every stage looks the query up and never at the kept copy.\<close>

lemma url_stages_lookup:
  assumes "map_of q = map_of q'"
  shows "url_stages L bs q = url_stages L bs q'"
proof -
  have "first_value q = first_value q'"
    by (simp add: first_value_def fun_eq_iff assms)
  with assms show ?thesis
    by (simp add: url_stages_def stage_defs fun_eq_iff)
qed

definition keep_raw :: "url_values \<Rightarrow> url_error + URLParameters \<Rightarrow> url_error + URLParameters" where
  "keep_raw r = map_sum (\<lambda>e. e) (\<lambda>p. p\<lparr>rawNormalizedQueryParams := r\<rparr>)"

lemma stage_keep_raw:
  "st \<in> set (url_stages L bs q) \<Longrightarrow> st (p\<lparr>rawNormalizedQueryParams := r\<rparr>) = keep_raw r (st p)"
  by (auto simp: url_stages_def stage_defs set_pref_defs keep_raw_def Let_def
      split: option.splits list.splits sum.splits)

lemma foldl_keep_raw:
  assumes "\<And>st p. st \<in> set sts \<Longrightarrow> st (p\<lparr>rawNormalizedQueryParams := r\<rparr>) = keep_raw r (st p)"
  shows "foldl then_stage (keep_raw r m) sts = keep_raw r (foldl then_stage m sts)"
  using assms
proof (induction sts arbitrary: m)
  case Nil
  then show ?case by simp
next
  case (Cons st sts)
  then have "then_stage (keep_raw r m) st = keep_raw r (then_stage m st)"
    by (cases m) (simp_all add: keep_raw_def)
  with Cons show ?case by simp
qed

lemma initial_params_raw:
  "initial_params q' u = (initial_params q u)\<lparr>rawNormalizedQueryParams := q'\<rparr>"
  by (simp add: initial_params_def)

lemma Extract_lookup:
  assumes "map_of (normalizeQueryParams iter u) = map_of (normalizeQueryParams iter' u)"
  shows "ExtractParametersFromUrl L iter' u bs =
    keep_raw (normalizeQueryParams iter' u) (ExtractParametersFromUrl L iter u bs)"
proof -
  let ?q = "normalizeQueryParams iter u" and ?q' = "normalizeQueryParams iter' u"
  have "ExtractParametersFromUrl L iter' u bs =
      foldl then_stage (keep_raw ?q' (Inr (initial_params ?q u))) (url_stages L bs ?q)"
    using url_stages_lookup [OF assms] initial_params_raw [of ?q' u ?q]
    by (simp add: ExtractParametersFromUrl_def keep_raw_def Let_def)
  then show ?thesis
    using foldl_keep_raw [of "url_stages L bs ?q" ?q'] stage_keep_raw
    by (simp add: ExtractParametersFromUrl_def Let_def)
qed

lemma Extract_raw:
  "ExtractParametersFromUrl L iter u bs = Inr p \<Longrightarrow>
     rawNormalizedQueryParams p = normalizeQueryParams iter u"
  using foldl_keeps [OF _ _ keeps_fast, of "initial_params (normalizeQueryParams iter u) u"]
    initial_fast
  by (fastforce simp: ExtractParametersFromUrl_def url_stages_def Let_def)

lemma Extract_order:
  assumes "mset (iter (URL_Query u)) = mset (URL_Query u)"
    and "mset (iter' (URL_Query u)) = mset (URL_Query u)"
    and "distinct (map (ToLower \<circ> fst) (URL_Query u))"
  shows "same_outcome (ExtractParametersFromUrl L iter u bs) (ExtractParametersFromUrl L iter' u bs)"
proof -
  have eq: "map_of (normalizeQueryParams iter u) = map_of (normalizeQueryParams iter' u)"
    using normalize_order assms by metis
  show ?thesis
    using Extract_lookup [OF eq, of L bs] Extract_raw [of L iter u bs] eq
    by (cases "ExtractParametersFromUrl L iter u bs")
      (auto simp: same_outcome_def keep_raw_def erase_raw_def)
qed

text \<open>
  C26: Go visits the query map in an order of its own, and the outcome does not depend on it as
  long as no two keys of the query differ in letter case only. With such keys it does: of
  \<open>?hint=hash&Hint=logs\<close> either hint may win.
\<close>

theorem query_order:
  "(\<forall>L iter iter' u bs.
      mset (iter (URL_Query u)) = mset (URL_Query u) \<and>
      mset (iter' (URL_Query u)) = mset (URL_Query u) \<and>
      distinct (map (ToLower \<circ> fst) (URL_Query u)) \<longrightarrow>
      same_outcome (ExtractParametersFromUrl L iter u bs) (ExtractParametersFromUrl L iter' u bs))
   \<and> mset (rev (URL_Query sample_url)) = mset (URL_Query sample_url)
   \<and> (\<forall>L bs. \<not> same_outcome (ExtractParametersFromUrl L (\<lambda>xs. xs) sample_url bs)
            (ExtractParametersFromUrl L rev sample_url bs))"
proof (intro conjI allI impI)
  fix L bs
  obtain p p' where "ExtractParametersFromUrl L (\<lambda>xs. xs) sample_url bs = Inr p"
    "Hints (Privacy (pref p)) = [''logs'']"
    "ExtractParametersFromUrl L rev sample_url bs = Inr p'" "Hints (Privacy (pref p')) = [''hash'']"
    using sample_extract by blast
  then show "\<not> same_outcome (ExtractParametersFromUrl L (\<lambda>xs. xs) sample_url bs)
      (ExtractParametersFromUrl L rev sample_url bs)"
    by (auto simp: same_outcome_def erase_raw_def dest: arg_cong [where f = "Hints \<circ> Privacy \<circ> pref"])
qed (auto intro: Extract_order)

theorem query_order_witness:
  "\<forall>L. same_outcome
     (ExtractParametersFromUrl L (\<lambda>xs. xs) \<lparr>url_Scheme = '''', url_Path = '''',
        url_RawQuery = ''hint=hash&blockRange=25'', url_Rest = ''''\<rparr> [])
     (ExtractParametersFromUrl L rev \<lparr>url_Scheme = '''', url_Path = '''',
        url_RawQuery = ''hint=hash&blockRange=25'', url_Rest = ''''\<rparr> [])"
  by (intro allI query_order [THEN conjunct1, rule_format])
    (simp add: URL_Query_def query_pair_def add_value_def ToLower_def)

end
