(* ===== verification/Config_Watcher.thy ===== *)
theory Config_Watcher
  imports Url_Props Environment
begin

text \<open>
  The watch on customers' configurations (\<open>src/server/configuration_watcher.go\<close>): the URLs a
  customer is known to use, presets that replace the parameters of a request, and the test
  whether the parameters of a request are new for the customer.

  A map of the configuration is an association list in the order in which it is ranged over.
  Reading the file and YAML are parameters.
\<close>

record CustomersConfig =
  URLs :: "(string \<times> string list) list"
  Presets :: "(string \<times> string) list"

record ConfigurationWatcher =
  ParsedCustomersConfig :: "(string \<times> URLParameters list) list"
  ParsedPresets :: "(string \<times> URLParameters) list"

definition parseURLToParameters ::
    "lib \<Rightarrow> (url_values \<Rightarrow> url_values) \<Rightarrow> string \<Rightarrow> string + URLParameters" where
  "parseURLToParameters L iter rawURL =
     (case url_Parse L rawURL of
        Inl err \<Rightarrow> Inl (''failed to parse URL: '' @ err)
      | Inr parsedURL \<Rightarrow>
          (case ExtractParametersFromUrl L iter parsedURL [] of
             Inl err \<Rightarrow> Inl (''failed to extract parameters: '' @ url_error_text err)
           | Inr params \<Rightarrow> Inr params))"

fun parse_urls ::
    "lib \<Rightarrow> (url_values \<Rightarrow> url_values) \<Rightarrow> string list \<Rightarrow> string + URLParameters list" where
  "parse_urls L iter [] = Inr []"
| "parse_urls L iter (u # us) =
     (case parseURLToParameters L iter u of
        Inl e \<Rightarrow> Inl e
      | Inr p \<Rightarrow> (case parse_urls L iter us of Inl e \<Rightarrow> Inl e | Inr ps \<Rightarrow> Inr (p # ps)))"

fun parse_customers ::
    "lib \<Rightarrow> (url_values \<Rightarrow> url_values) \<Rightarrow> (string \<times> string list) list \<Rightarrow>
     string + (string \<times> URLParameters list) list" where
  "parse_customers L iter [] = Inr []"
| "parse_customers L iter ((customerID, urls) # cs) =
     (case parse_urls L iter urls of
        Inl e \<Rightarrow> Inl (''invalid URL for customer '' @ customerID @ '': '' @ e)
      | Inr ps \<Rightarrow>
          (case parse_customers L iter cs of
             Inl e \<Rightarrow> Inl e
           | Inr rest \<Rightarrow> Inr ((customerID, ps) # rest)))"

text \<open>A preset that does not parse is logged and left out.\<close>

definition parse_presets ::
    "lib \<Rightarrow> (url_values \<Rightarrow> url_values) \<Rightarrow> (string \<times> string) list \<Rightarrow> (string \<times> URLParameters) list" where
  "parse_presets L iter presets =
     List.map_filter (\<lambda>(originID, presetURL).
       case parseURLToParameters L iter presetURL of
         Inl _ \<Rightarrow> None | Inr params \<Rightarrow> Some (originID, params)) presets"

definition NewConfigurationWatcher ::
    "lib \<Rightarrow> (url_values \<Rightarrow> url_values) \<Rightarrow> CustomersConfig \<Rightarrow> string + ConfigurationWatcher" where
  "NewConfigurationWatcher L iter customersConfig =
     (case parse_customers L iter (URLs customersConfig) of
        Inl e \<Rightarrow> Inl e
      | Inr parsed \<Rightarrow>
          Inr \<lparr>ParsedCustomersConfig = parsed,
               ParsedPresets = parse_presets L iter (Presets customersConfig)\<rparr>)"

definition ReadCustomerConfigFromFile ::
    "lib \<Rightarrow> (url_values \<Rightarrow> url_values) \<Rightarrow> (string \<Rightarrow> string + string) \<Rightarrow>
     (string \<Rightarrow> string + CustomersConfig) \<Rightarrow> string \<Rightarrow> string + ConfigurationWatcher" where
  "ReadCustomerConfigFromFile L iter ReadFile yaml_Unmarshal fileName =
     (if fileName = '''' then Inr \<lparr>ParsedCustomersConfig = [], ParsedPresets = []\<rparr>
      else case ReadFile fileName of
             Inl e \<Rightarrow> Inl e
           | Inr data \<Rightarrow>
               (case yaml_Unmarshal data of
                  Inl e \<Rightarrow> Inl e
                | Inr config \<Rightarrow> NewConfigurationWatcher L iter config))"

text \<open>
  Comparing the values of one key walks the left list by index, after its length was found to be
  that of the right one.
\<close>

definition EquivalentURLParams :: "URLParameters \<Rightarrow> URLParameters \<Rightarrow> bool" where
  "EquivalentURLParams left right =
     (let leftParams = AList.delete ''refund'' (rawNormalizedQueryParams left);
          rightParams = AList.delete ''refund'' (rawNormalizedQueryParams right)
      in if fast left \<noteq> fast right then False
         else if length leftParams \<noteq> length rightParams then False
         else list_all (\<lambda>(k, v).
                let rightV = (case map_of rightParams k of None \<Rightarrow> [] | Some l \<Rightarrow> l)
                in length rightV = length v \<and> list_all (\<lambda>i. v ! i = rightV ! i) [0..<length v])
              leftParams)"

definition IsConfigurationUpdated :: "ConfigurationWatcher \<Rightarrow> string \<Rightarrow> URLParameters \<Rightarrow> bool" where
  "IsConfigurationUpdated watcher customer urlParams =
     (case map_of (ParsedCustomersConfig watcher) customer of
        None \<Rightarrow> False
      | Some allowedUrls \<Rightarrow> \<not> list_ex (\<lambda>au. EquivalentURLParams au urlParams) allowedUrls)"

definition Customers :: "ConfigurationWatcher \<Rightarrow> string list" where
  "Customers watcher = map fst (ParsedCustomersConfig watcher)"

section \<open>Equivalence of parameters\<close>

text \<open>
  Parameters as a URL gives them: every key once, with at least one value.
\<close>

definition proper_params :: "url_values \<Rightarrow> bool" where
  "proper_params q \<longleftrightarrow> distinct (map fst q) \<and> (\<forall>(k, v)\<in>set q. v \<noteq> [])"

lemma nth_all_eq: "length xs = length ys \<Longrightarrow> list_all (\<lambda>i. ys ! i = xs ! i) [0..<length ys] \<longleftrightarrow> xs = ys"
  by (auto simp: list_all_iff intro: nth_equalityI)

lemma values_eq:
  "length xs = length ys \<and> list_all (\<lambda>i. ys ! i = xs ! i) [0..<length ys] \<longleftrightarrow> xs = ys"
  using nth_all_eq by blast

lemma same_length_map_eq:
  assumes "distinct (map fst l)" "distinct (map fst r)" "length l = length r"
    and sub: "\<forall>(k, v)\<in>set l. map_of r k = Some v"
  shows "map_of l = map_of r"
proof -
  have "set l \<subseteq> set r" using sub assms(2) by (auto dest: map_of_SomeD)
  moreover have "card (set l) = card (set r)"
    using assms(1-3) by (simp add: distinct_card distinct_map)
  ultimately have "set l = set r" by (simp add: card_subset_eq)
  then show ?thesis using assms(1,2) by (simp add: map_of_inject_set)
qed

lemma EquivalentURLParams_iff:
  assumes "proper_params (rawNormalizedQueryParams l)" "proper_params (rawNormalizedQueryParams r)"
  shows "EquivalentURLParams l r \<longleftrightarrow>
    fast l = fast r \<and>
    (\<forall>k. k \<noteq> ''refund'' \<longrightarrow>
       map_of (rawNormalizedQueryParams l) k = map_of (rawNormalizedQueryParams r) k)"
proof -
  define lp rp where "lp = AList.delete ''refund'' (rawNormalizedQueryParams l)"
    and "rp = AList.delete ''refund'' (rawNormalizedQueryParams r)"
  have d: "distinct (map fst lp)" "distinct (map fst rp)" and ne: "\<forall>(k, v)\<in>set lp. v \<noteq> []"
    using assms by (auto simp: lp_def rp_def proper_params_def AList.delete_eq distinct_map_filter)
  have maps: "map_of lp = map_of rp \<longleftrightarrow> (\<forall>k. k \<noteq> ''refund'' \<longrightarrow>
      map_of (rawNormalizedQueryParams l) k = map_of (rawNormalizedQueryParams r) k)"
    by (auto simp: lp_def rp_def delete_conv fun_eq_iff)
  have "length lp = length rp \<and> list_all (\<lambda>(k, v).
        let rightV = (case map_of rp k of None \<Rightarrow> [] | Some x \<Rightarrow> x)
        in length rightV = length v \<and> list_all (\<lambda>i. v ! i = rightV ! i) [0..<length v]) lp \<longleftrightarrow>
      map_of lp = map_of rp" (is "?L \<longleftrightarrow> ?R")
  proof
    assume L: ?L
    have "map_of rp k = Some v" if "(k, v) \<in> set lp" for k v
      using L ne that by (cases "map_of rp k") (fastforce simp: list_all_iff [of _ lp] Let_def values_eq)+
    then show ?R using same_length_map_eq [OF d] L by blast
  next
    assume R: ?R
    then have "set lp = set rp" using d by (simp add: map_of_inject_set)
    then have "length lp = length rp" using d by (metis distinct_card distinct_map)
    moreover have "map_of rp k = Some v" if "(k, v) \<in> set lp" for k v
      using that R d(1) by (metis map_of_eq_Some_iff)
    ultimately show ?L by (auto simp: list_all_iff [of _ lp] Let_def values_eq)
  qed
  moreover have "EquivalentURLParams l r \<longleftrightarrow> fast l = fast r \<and> length lp = length rp \<and>
      list_all (\<lambda>(k, v).
        let rightV = (case map_of rp k of None \<Rightarrow> [] | Some x \<Rightarrow> x)
        in length rightV = length v \<and> list_all (\<lambda>i. v ! i = rightV ! i) [0..<length v]) lp"
    by (simp add: EquivalentURLParams_def lp_def rp_def Let_def)
  ultimately show ?thesis unfolding maps [symmetric] by blast
qed

section \<open>Parameters of URLs are proper\<close>

lemma set_update: "set (AList.update k v m) \<subseteq> insert (k, v) (set m)"
  by (induction m) auto

lemma update_proper:
  assumes "proper_params m" "v \<noteq> []"
  shows "proper_params (AList.update k v m)"
proof -
  have "\<forall>(k, v)\<in>insert (k, v) (set m). v \<noteq> []" using assms by (auto simp: proper_params_def)
  then show ?thesis
    using assms set_update [of k v m] by (auto simp: proper_params_def distinct_update)
qed

lemma URL_Query_proper: "proper_params (URL_Query u)"
proof -
  define step where "step = (\<lambda>m p. case query_pair p of None \<Rightarrow> m | Some (k, v) \<Rightarrow> add_value m k v)"
  have one: "proper_params (step m p)" if "proper_params m" for m p
    using that by (auto simp: step_def add_value_def intro: update_proper split: option.split)
  have run: "proper_params (foldl step m ps)" if "proper_params m" for m ps
    using that one by (induction ps arbitrary: m) simp_all
  have "proper_params (foldl step [] (Split (url_RawQuery u) (CHR ''&'')))"
    by (rule run) (simp add: proper_params_def)
  then show ?thesis by (simp only: URL_Query_def step_def)
qed

lemma update_fold_proper:
  assumes "proper_params m" "\<forall>(k, v)\<in>set xs. v \<noteq> []"
  shows "proper_params (foldl (\<lambda>m (key, vals). AList.update (ToLower key) vals m) m xs)"
  using assms
proof (induction xs arbitrary: m)
  case (Cons x xs)
  have "proper_params (AList.update (ToLower (fst x)) (snd x) m)"
    using Cons.prems by (auto intro: update_proper)
  then show ?case using Cons by (auto simp: split_beta)
qed simp

lemma normalize_proper:
  assumes "mset (iter (URL_Query u)) = mset (URL_Query u)"
  shows "proper_params (normalizeQueryParams iter u)"
proof -
  have "set (iter (URL_Query u)) = set (URL_Query u)" using mset_eq_setD [OF assms] .
  then have "\<forall>(k, v)\<in>set (iter (URL_Query u)). v \<noteq> []"
    using URL_Query_proper [of u] by (simp add: proper_params_def)
  then show ?thesis
    unfolding normalizeQueryParams_def by (intro update_fold_proper) (simp_all add: proper_params_def)
qed

section \<open>What is reported\<close>

lemma parse_urls_Inr:
  "parse_urls L iter us = Inr ps \<Longrightarrow>
     list_all2 (\<lambda>u p. parseURLToParameters L iter u = Inr p) us ps"
  by (induction us arbitrary: ps) (auto split: sum.splits)

lemma parse_customers_lookup:
  "parse_customers L iter cs = Inr parsed \<Longrightarrow>
     (case map_of cs c of
        None \<Rightarrow> map_of parsed c = None
      | Some us \<Rightarrow> \<exists>ps. map_of parsed c = Some ps \<and>
          list_all2 (\<lambda>u p. parseURLToParameters L iter u = Inr p) us ps)"
  by (induction cs arbitrary: parsed) (auto simp: parse_urls_Inr split: sum.splits option.splits)

text \<open>The parameters two URLs stand for, refunds aside.\<close>

definition same_config :: "(url_values \<Rightarrow> url_values) \<Rightarrow> goURL \<Rightarrow> goURL \<Rightarrow> bool" where
  "same_config iter u v \<longleftrightarrow>
     HasPrefix (url_Path u) ''/fast'' = HasPrefix (url_Path v) ''/fast'' \<and>
     (\<forall>k. k \<noteq> ''refund'' \<longrightarrow>
        map_of (normalizeQueryParams iter u) k = map_of (normalizeQueryParams iter v) k)"

lemma Extract_fast:
  "ExtractParametersFromUrl L iter u bs = Inr p \<Longrightarrow> fast p = HasPrefix (url_Path u) ''/fast''"
  using foldl_keeps [OF _ _ keeps_fast, of "initial_params (normalizeQueryParams iter u) u"]
    initial_fast
  by (fastforce simp: ExtractParametersFromUrl_def url_stages_def Let_def)

lemma EquivalentURLParams_urls:
  assumes "ExtractParametersFromUrl L iter u bs = Inr p" "ExtractParametersFromUrl L iter v bs' = Inr q"
    and "\<And>m. mset (iter m) = mset m"
  shows "EquivalentURLParams p q \<longleftrightarrow> same_config iter u v"
  using EquivalentURLParams_iff [of p q] Extract_raw [OF assms(1)] Extract_raw [OF assms(2)]
    Extract_fast [OF assms(1)] Extract_fast [OF assms(2)] normalize_proper [of iter u, OF assms(3)]
    normalize_proper [of iter v, OF assms(3)]
  by (simp add: same_config_def)


definition plain_url :: "string \<Rightarrow> goURL" where
  "plain_url q = \<lparr>url_Scheme = '''', url_Path = ''/'', url_RawQuery = q, url_Rest = ''''\<rparr>"

definition with_urls :: "lib \<Rightarrow> lib" where
  "with_urls L = L\<lparr>url_Parse := (\<lambda>s. Inr (plain_url s))\<rparr>"

definition ex_config :: CustomersConfig where
  "ex_config = \<lparr>URLs = [(''acme'', [''hint=hash''])], Presets = []\<rparr>"

lemma plain_normalized:
  "normalizeQueryParams (\<lambda>m. m) (plain_url ''hint=hash'') = [(''hint'', [''hash''])]"
  "normalizeQueryParams (\<lambda>m. m) (plain_url ''hint=logs'') = [(''hint'', [''logs''])]"
  by code_simp+

lemma plain_extract:
  "\<exists>p. ExtractParametersFromUrl L (\<lambda>m. m) (plain_url ''hint=hash'') bs = Inr p"
  "\<exists>p. ExtractParametersFromUrl L (\<lambda>m. m) (plain_url ''hint=logs'') bs = Inr p"
  by (simp_all add: ExtractParametersFromUrl_def url_stages_def plain_normalized stage_defs
      set_pref_defs initial_params_def allowedHints_def Let_def first_value_def)


end
