(* ===== verification/Request_Handler.thy ===== *)
theory Request_Handler
  imports Process_Request Request_Record Config_Watcher
begin

text \<open>
  The handler of one HTTP POST (\<open>src/server/request_handler.go\<close> and \<open>request_response.go\<close>): it reads
  the body and the URL, settles the parameters, runs the JSON-RPC request and writes the answer.

  The handler returns whether it panicked, itself (with the response written so far and the
  analytics record) and the world. The deferred \<open>finishRequest\<close> runs in every case; the record the
  handler ends with is the one its goroutine gives to \<open>SaveRecord\<close>. Values the source draws (the
  two UUIDs, the seed, the order of map iteration) are fields of the handler.
\<close>

section \<open>The response\<close>

text \<open>
  \<open>http.ResponseWriter\<close> under the recorder of \<open>middleware.go\<close>: the first status is the one sent,
  the recorder keeps the last one it was given (0 before any).
\<close>

record respw =
  rw_Header :: "(string \<times> string) list"
  rw_Status :: "int option"
  rw_Recorded :: int
  rw_Body :: string

definition new_respw :: respw where
  "new_respw = \<lparr>rw_Header = [], rw_Status = None, rw_Recorded = 0, rw_Body = ''''\<rparr>"

definition Header_Set :: "string \<Rightarrow> string \<Rightarrow> respw \<Rightarrow> respw" where
  "Header_Set k v w = w\<lparr>rw_Header := AList.update k v (rw_Header w)\<rparr>"

definition WriteHeader :: "int \<Rightarrow> respw \<Rightarrow> respw" where
  "WriteHeader code w =
     w\<lparr>rw_Recorded := code, rw_Status := (case rw_Status w of None \<Rightarrow> Some code | s \<Rightarrow> s)\<rparr>"

definition Write :: "string \<Rightarrow> respw \<Rightarrow> respw" where
  "Write text w =
     w\<lparr>rw_Body := rw_Body w @ text,
       rw_Status := (case rw_Status w of None \<Rightarrow> Some 200 | s \<Rightarrow> s)\<rparr>"

definition writeHeaderContentTypeJson :: "respw \<Rightarrow> respw" where
  "writeHeaderContentTypeJson w = Header_Set ''Content-Type'' ''application/json'' w"

text \<open>\<open>json.NewEncoder(w).Encode(res)\<close> ends the text with a newline; a nil response is \<open>null\<close>.\<close>

definition response_text :: "lib \<Rightarrow> JsonRpcResponse option \<Rightarrow> string" where
  "response_text L res =
     json_Encode L (case res of None \<Rightarrow> JNull | Some x \<Rightarrow> marshal_response x) @ [CHR 0x0A]"

definition writeRpcResponse :: "lib \<Rightarrow> JsonRpcResponse option \<Rightarrow> respw \<Rightarrow> respw" where
  "writeRpcResponse L res w =
     Write (response_text L res) (WriteHeader 200 (writeHeaderContentTypeJson w))"

definition writeRpcBatchResponse :: "lib \<Rightarrow> JsonRpcResponse list \<Rightarrow> respw \<Rightarrow> respw" where
  "writeRpcBatchResponse L res w =
     Write (json_Encode L (JArr (map marshal_response res)) @ [CHR 0x0A])
       (WriteHeader 200 (writeHeaderContentTypeJson w))"

section \<open>The handler\<close>

record RpcRequestHandler =
  h_respw :: respw
  h_req :: in_request
  h_timeStarted :: int
  h_defaultProxyUrl :: string
  h_proxyTimeoutSeconds :: int
  h_relaySigningKey :: string
  h_relayUrl :: string
  h_uid :: string
  h_requestRecord :: requestRecord
  h_builderNames :: "string list"
  h_chainID :: "json option"
  h_defaultEthClient :: string
  h_configurationWatcher :: "ConfigurationWatcher option"
  h_entryUid :: string
  h_seed :: u64
  h_iter :: "url_values \<Rightarrow> url_values"

definition NewRpcRequestHandler ::
    "respw \<Rightarrow> in_request \<Rightarrow> int \<Rightarrow> string \<Rightarrow> int \<Rightarrow> string \<Rightarrow> string \<Rightarrow> string list \<Rightarrow> json option \<Rightarrow>
     string \<Rightarrow> ConfigurationWatcher option \<Rightarrow> string \<Rightarrow> string \<Rightarrow> u64 \<Rightarrow>
     (url_values \<Rightarrow> url_values) \<Rightarrow> RpcRequestHandler" where
  "NewRpcRequestHandler w req now proxyUrl proxyTimeoutSeconds relaySigningKey relayUrl builderNames
     chainID defaultEthClient configurationWatcher uid entryUid seed iter =
     \<lparr>h_respw = w, h_req = req, h_timeStarted = now, h_defaultProxyUrl = proxyUrl,
      h_proxyTimeoutSeconds = proxyTimeoutSeconds, h_relaySigningKey = relaySigningKey,
      h_relayUrl = relayUrl, h_uid = uid, h_requestRecord = NewRequestRecord,
      h_builderNames = builderNames, h_chainID = chainID, h_defaultEthClient = defaultEthClient,
      h_configurationWatcher = configurationWatcher, h_entryUid = entryUid, h_seed = seed,
      h_iter = iter\<rparr>"

definition getEffectiveParameters :: "lib \<Rightarrow> RpcRequestHandler \<Rightarrow> url_error + URLParameters" where
  "getEffectiveParameters L h =
     (case ExtractParametersFromUrl L (h_iter h) (in_URL (h_req h)) (h_builderNames h) of
        Inl err \<Rightarrow> Inl err
      | Inr extracted \<Rightarrow>
          (case h_configurationWatcher h of
             None \<Rightarrow> Inr extracted
           | Some watcher \<Rightarrow>
               (let headerOriginID = in_Header (h_req h) ''X-Flashbots-Origin'';
                    originID = (if headerOriginID \<noteq> '''' then headerOriginID else originId extracted)
                in case map_of (ParsedPresets watcher) originID of
                     Some preset \<Rightarrow> Inr preset
                   | None \<Rightarrow> Inr extracted)))"

type_synonym 'r handled = "unit go \<times> RpcRequestHandler \<times> 'r World"

definition set_respw :: "(respw \<Rightarrow> respw) \<Rightarrow> RpcRequestHandler \<Rightarrow> RpcRequestHandler" where
  "set_respw f h = h\<lparr>h_respw := f (h_respw h)\<rparr>"

definition set_record :: "(requestRecord \<Rightarrow> requestRecord) \<Rightarrow> RpcRequestHandler \<Rightarrow> RpcRequestHandler" where
  "set_record f h = h\<lparr>h_requestRecord := f (h_requestRecord h)\<rparr>"

text \<open>
  \<open>processRequest\<close>: the entry is shared with the RPC request by pointer, so what the request wrote
  into it is in the record also when the request panicked.
\<close>

definition processRequest ::
    "'r Env \<Rightarrow> RpcRequestHandler \<Rightarrow> rpcProxyClient \<Rightarrow> JsonRpcRequest \<Rightarrow> bool \<Rightarrow> string \<Rightarrow>
     URLParameters \<Rightarrow> string \<Rightarrow> 'r World \<Rightarrow> 'r handled" where
  "processRequest E h client jsonReq isWhitehatBundleCollection whitehatBundleId urlParams body w =
     (let L = e_lib E; q = h_req h;
          (entry, rec) =
            (if req_Method jsonReq = ''eth_sendRawTransaction'' \<or>
                req_Method jsonReq = ''eth_sendPrivateTransaction''
             then (case AddEthSendRawTxEntry (h_entryUid h) (h_requestRecord h) of
                     (e, rec) \<Rightarrow> (Some e, rec))
             else (None, h_requestRecord h));
          rpcReq = NewRpcRequest client jsonReq (h_relaySigningKey h) (h_relayUrl h)
                     (in_Header q ''Origin'') (in_Header q ''Referer'') isWhitehatBundleCollection
                     whitehatBundleId entry urlParams (h_chainID h) (h_defaultEthClient h);
          h1 = h\<lparr>h_requestRecord := rec\<rparr>
      in case CheckFlashbotsSignature L (in_Header q ''X-Flashbots-Signature'') body rpcReq of
           (Some err, r1) \<Rightarrow>
             (let r2 = writeRpcError (sig_error_text err) JsonRpcInvalidRequest r1
              in (Ret (), set_respw (writeRpcResponse L (r_jsonRes r2))
                            (set_record (put_last_entry (r_ethSendRawTxEntry r2)) h1), w))
         | (None, r1) \<Rightarrow>
             (case ProcessRequest E (r1, w) of
                (Panic p, (r2, w2)) \<Rightarrow>
                  (Panic p, set_record (put_last_entry (r_ethSendRawTxEntry r2)) h1, w2)
              | (Ret res, (r2, w2)) \<Rightarrow>
                  (Ret (), set_respw (writeRpcResponse L res)
                             (set_record (put_last_entry (r_ethSendRawTxEntry r2)) h1), w2)))"

definition watch_configuration ::
    "RpcRequestHandler \<Rightarrow> JsonRpcRequest \<Rightarrow> URLParameters \<Rightarrow> 'r World \<Rightarrow> 'r World" where
  "watch_configuration h jsonReq urlParams w =
     (case h_configurationWatcher h of
        None \<Rightarrow> w
      | Some watcher \<Rightarrow>
          if req_Method jsonReq = ''eth_sendRawTransaction'' \<and>
             IsConfigurationUpdated watcher (originId urlParams) urlParams
          then inc (ReportCustomerConfigWasUpdated (originId urlParams)) w else w)"

text \<open>A body that is the JSON value \<open>null\<close> leaves the request nil; the next use of it panics.\<close>

definition process_json ::
    "'r Env \<Rightarrow> RpcRequestHandler \<Rightarrow> string \<Rightarrow> 'r World \<Rightarrow> 'r handled" where
  "process_json E h body w =
     (let L = e_lib E; q = h_req h;
          fp = (case FingerprintFromRequest L (in_Header q ''X-Forwarded-For'') (w_now w) (w_now w)
                       (h_seed h) of Inl _ \<Rightarrow> 0 | Inr f \<Rightarrow> f);
          client = NewRPCProxyClient (h_defaultProxyUrl h) (h_proxyTimeoutSeconds h) fp;
          whitehatBundleId = Values_Get (URL_Query (in_URL q)) ''bundle'';
          h1 = set_record (UpdateRequestEntry q 200 '''') h
      in case json_Unmarshal L unmarshal_request_ptr body of
           None \<Rightarrow> (Ret (), set_respw (WriteHeader 400) h1, w)
         | Some None \<Rightarrow> (Panic ''nil pointer dereference: jsonReq'', h1, w)
         | Some (Some jsonReq) \<Rightarrow>
             (case getEffectiveParameters L h1 of
                Inl err \<Rightarrow>
                  (Ret (), set_respw (writeRpcResponse L
                     (Some (AuctionPreferenceErrorToJSONRPCResponse jsonReq err))) h1, w)
              | Inr urlParams \<Rightarrow>
                  processRequest E h1 client jsonReq (whitehatBundleId \<noteq> '''') whitehatBundleId
                    urlParams body (watch_configuration h1 jsonReq urlParams w)))"

definition finishRequest :: "int \<Rightarrow> RpcRequestHandler \<Rightarrow> RpcRequestHandler" where
  "finishRequest now h =
     set_record (\<lambda>r. r\<lparr>requestEntry :=
       (requestEntry r)\<lparr>re_RequestDurationMs := (now - h_timeStarted h) div 1000000\<rparr>\<rparr>) h"

definition process_body :: "'r Env \<Rightarrow> RpcRequestHandler \<Rightarrow> 'r World \<Rightarrow> 'r handled" where
  "process_body E h w =
     (let q = h_req h;
          h1 = set_record (\<lambda>r. UpdateRequestEntry q 200 ''''
                 (r\<lparr>requestEntry := (requestEntry r)\<lparr>re_ReceivedAt := h_timeStarted h,
                     re_Id := h_uid h\<rparr>\<rparr>)) h;
          (h2, w2) =
            (case first_value (URL_Query (in_URL q)) ''url'' of
               Some u \<Rightarrow> if length u > 1
                         then (h1\<lparr>h_defaultProxyUrl := u\<rparr>, inc UrlParamUsageInc w) else (h1, w)
             | None \<Rightarrow> (h1, w))
      in case in_Body q of
           Inl err \<Rightarrow>
             (Ret (), set_respw (WriteHeader 400) (set_record (UpdateRequestEntry q 400 err) h2), w2)
         | Inr body \<Rightarrow>
             if body = ''''
             then (Ret (), set_respw (WriteHeader 400)
                     (set_record (UpdateRequestEntry q 400 ''empty request body'') h2), w2)
             else process_json E h2 body w2)"

definition process :: "'r Env \<Rightarrow> RpcRequestHandler \<Rightarrow> 'r World \<Rightarrow> 'r handled" where
  "process E h w =
     (case process_body E h w of (out, h1, w1) \<Rightarrow> (out, finishRequest (w_now w1) h1, w1))"

end
