(* ===== verification/Handler_Props.thy ===== *)
theory Handler_Props
  imports Process_Props Request_Handler
begin

text \<open>
  Properties of the handler of one HTTP request: the status and body it writes, the analytics
  record it leaves, and what the signature header decides.
\<close>

section \<open>The analytics entry along a request\<close>

text \<open>No method replaces the entry, drops it or gives it other ids.\<close>

definition entry_ids :: "EthSendRawTxEntry \<Rightarrow> EthSendRawTxEntry \<Rightarrow> bool" where
  "entry_ids e e' \<longleftrightarrow> tx_Id e' = tx_Id e \<and> tx_RequestId e' = tx_RequestId e"

definition same_entry :: "RpcRequest \<Rightarrow> RpcRequest \<Rightarrow> bool" where
  "same_entry r r' \<longleftrightarrow> rel_option entry_ids (r_ethSendRawTxEntry r) (r_ethSendRawTxEntry r')"

lemma same_entry_refl [simp]: "same_entry r r"
  by (cases "r_ethSendRawTxEntry r") (simp_all add: same_entry_def entry_ids_def)

lemma same_entry_trans: "same_entry r r1 \<Longrightarrow> same_entry r1 r2 \<Longrightarrow> same_entry r r2"
  by (cases "r_ethSendRawTxEntry r"; cases "r_ethSendRawTxEntry r1"; cases "r_ethSendRawTxEntry r2")
    (auto simp: same_entry_def entry_ids_def)

lemma same_entry_eq: "r_ethSendRawTxEntry r' = r_ethSendRawTxEntry r \<Longrightarrow> same_entry r r'"
  by (cases "r_ethSendRawTxEntry r") (simp_all add: same_entry_def entry_ids_def)

lemma kept_same_entry: "kept r r' \<Longrightarrow> same_entry r r'"
  by (cases "r_ethSendRawTxEntry r"; cases "r_ethSendRawTxEntry r'")
    (auto dest!: kept_entry simp: same_entry_def entry_ids_def entry_le_def)

lemma same_entry_upd: "(\<And>e. entry_ids e (f e)) \<Longrightarrow> same_entry r (upd_entry f r)"
  by (cases "r_ethSendRawTxEntry r") (simp_all add: same_entry_def)

lemma same_entry_write [simp]: "same_entry r (writeRpcError m c r)" "same_entry r (writeRpcResult x r)"
  by (simp_all add: kept_same_entry)

lemma entry_proxyRequestRead:
  "proxyRequestRead E r w = (b, r', w') \<Longrightarrow> same_entry r r'"
  by (auto simp: proxyRequestRead_def intro: same_entry_eq
      split: prod.splits sum.splits option.splits)

lemma entry_signed:
  assumes "intercept_signed_eth_getTransactionCount E r w = (b, r', w')"
  shows "same_entry r r'"
proof -
  have "same_entry r (fst (snd (intercept_signed_eth_getTransactionCount E r w)))"
    by (auto simp: intercept_signed_eth_getTransactionCount_def answer_signed_count_def Let_def
        dest!: entry_proxyRequestRead intro: same_entry_trans
        split: option.splits prod.splits sum.splits bool.splits)
  then show ?thesis using assms by simp
qed

lemma entry_mm:
  "intercept_mm_eth_getTransactionCount E r w = (out, r', w') \<Longrightarrow> same_entry r r'"
  by (auto simp: intercept_mm_eth_getTransactionCount_def Let_def
      split: list.splits json.splits option.splits prod.splits if_splits)

lemma entry_flash_contract:
  "intercept_eth_call_to_FlashRPC_Contract r = (out, r') \<Longrightarrow> same_entry r r'"
  by (auto simp: intercept_eth_call_to_FlashRPC_Contract_def
      split: list.splits json.splits if_splits)

lemma entry_rewrite: "WhitehatBalanceCheckerRewrite r = Ret r' \<Longrightarrow> same_entry r r'"
  by (auto simp: WhitehatBalanceCheckerRewrite_def intro: same_entry_eq
      split: list.splits json.splits if_splits)

lemma entry_proxy_checked: "same_entry (fst s) (fst (snd (proxy_checked E s)))"
  by (auto simp: proxy_checked_def respond_def dest!: entry_proxyRequestRead intro: same_entry_trans
      split: prod.splits bool.splits go.splits)

lemma entry_local: "same_entry (fst s) (fst (snd (answer_locally_or_proxy E s)))"
proof -
  have "same_entry r (fst (snd (proxy_checked E (r1, w))))" if "same_entry r r1" for r r1 w
    using same_entry_trans [OF that] entry_proxy_checked [of "(r1, w)" E] by simp
  then show ?thesis
    by (cases s) (auto simp: answer_locally_or_proxy_def proxy_default_def respond_def
        dest: entry_rewrite split: go.splits)
qed

text \<open>The way through \<open>eth_sendRawTransaction\<close>: an early answer, or a submission of the parameter.\<close>

lemma same_entry_fields:
  "same_entry r (r1\<lparr>r_rawTxHex := x\<rparr>) = same_entry r r1" "same_entry r (r1\<lparr>r_tx := t\<rparr>) = same_entry r r1"
  "same_entry r (r1\<lparr>r_txFrom := x\<rparr>) = same_entry r r1"
  by (simp_all add: same_entry_def)

lemma same_entry_upd_trans:
  "same_entry r r1 \<Longrightarrow> (\<And>e. entry_ids e (f e)) \<Longrightarrow> same_entry r (upd_entry f r1)"
  using same_entry_trans same_entry_upd by blast

lemma same_entry_error_trans: "same_entry r r1 \<Longrightarrow> same_entry r (writeRpcError m c r1)"
  using same_entry_trans same_entry_write(1) by blast

definition submitted ::
    "lib \<Rightarrow> string \<Rightarrow> eth_tx \<Rightarrow> string \<Rightarrow> RpcRequest \<Rightarrow> RpcRequest" where
  "submitted L raw t sndr r =
     record_tx L t ((upd_entry (\<lambda>e. e\<lparr>entry_TxHash := eth_HashHex t\<rparr>)
       ((upd_entry (\<lambda>e. e\<lparr>TxRaw := raw\<rparr>) (r\<lparr>r_rawTxHex := raw\<rparr>))\<lparr>r_tx := Some t\<rparr>))\<lparr>r_txFrom := sndr\<rparr>)"

lemma submitted_entry:
  "same_entry r (submitted L raw t sndr r)" "r_rawTxHex (submitted L raw t sndr r) = raw"
  "r_ethSendRawTxEntry (submitted L raw t sndr r) = Some e \<Longrightarrow> TxRaw e = raw"
  by (auto simp: submitted_def record_tx_def same_entry_fields entry_ids_def Let_def
      intro!: same_entry_upd_trans)

lemma handle_raw_cases:
  assumes "handle_sendRawTransaction E (r, w) = (out, (r', w'))"
  obtains (early) "same_entry r r'" "relay_calls w' = relay_calls w"
  | (submit) raw t sndr where
      "GetTx (e_lib E) raw = Inr t" "GetSenderFromRawTx (e_lib E) t = Inr sndr"
      "submit_tx E t (submitted (e_lib E) raw t sndr r, inc IncPrivateTx w) = (r', w')"
proof -
  have "same_entry r r' \<and> relay_calls w' = relay_calls w \<or>
    (\<exists>raw t sndr. GetTx (e_lib E) raw = Inr t \<and> GetSenderFromRawTx (e_lib E) t = Inr sndr \<and>
       submit_tx E t (submitted (e_lib E) raw t sndr r, inc IncPrivateTx w) = (r', w'))"
    using assms
    by (auto simp: handle_sendRawTransaction_def submitted_def Let_def same_entry_fields entry_ids_def
        intro!: same_entry_error_trans same_entry_upd_trans
        split: list.splits json.splits sum.splits if_splits)
  with early submit show ?thesis by blast
qed

text \<open>The entry of a transaction that was sent: it is marked and holds what was sent.\<close>

definition sent_entry :: "RpcRequest \<Rightarrow> string \<Rightarrow> bool" where
  "sent_entry r raw \<longleftrightarrow> (\<forall>e. r_ethSendRawTxEntry r = Some e \<longrightarrow> WasSentToRelay e \<and> TxRaw e = raw)"

lemma handle_raw_entry:
  assumes "handle_sendRawTransaction E (r, w) = (out, (r', w'))"
  shows "same_entry r r'"
    "relay_calls w' = CallRelay u k (RelaySendPrivateTx a hs) # relay_calls w \<Longrightarrow>
       sent_entry r' (priv_Tx a)"
proof -
  have "same_entry r r' \<and> (relay_calls w' = CallRelay u k (RelaySendPrivateTx a hs) # relay_calls w \<longrightarrow>
       sent_entry r' (priv_Tx a))"
    using assms
  proof (cases rule: handle_raw_cases)
    case early
    then show ?thesis by simp
  next
    case (submit raw t sndr)
    let ?r1 = "submitted (e_lib E) raw t sndr r"
    note g = submit_tx_gate [OF submit(3)]
    have "TxRaw e = raw" if "r_ethSendRawTxEntry r' = Some e" for e
      using kept_entry [of ?r1 r'] g submitted_entry(3) [of "e_lib E" raw t sndr r] that
      by (auto simp: option_rel_Some2 entry_le_def)
    moreover have "priv_Tx a = raw"
      if "relay_calls w' = CallRelay u k (RelaySendPrivateTx a hs) # relay_calls w"
      using g that submitted_entry(2) [of "e_lib E" raw t sndr r]
      by (auto simp: one_relay_call_def sent_request_def)
    ultimately show ?thesis
      using g same_entry_trans [OF submitted_entry(1) kept_same_entry] submit_tx_marks [OF submit(3)]
      by (auto simp: sent_entry_def marked_def)
  qed
  then show "same_entry r r'"
    "relay_calls w' = CallRelay u k (RelaySendPrivateTx a hs) # relay_calls w \<Longrightarrow>
       sent_entry r' (priv_Tx a)"
    by blast+
qed

lemma private_options_entry:
  "same_entry r (final (and_then (stage_max_block L r) stage_fast))"
proof -
  have "same_entry r (final (stage_max_block L r))" "same_entry r1 (final (stage_fast r1))" for r1
    by (auto simp: stage_max_block_def stage_fast_def intro: same_entry_eq
        split: json.splits sum.splits)
  then show ?thesis
    using same_entry_trans by (cases "stage_max_block L r") (force, metis and_then.simps(2) final.simps(2))
qed

lemma handle_private_entry:
  assumes "handle_sendPrivateTransaction E (r, w) = (out, (r', w'))"
  shows "same_entry r r'"
    "relay_calls w' = CallRelay u k (RelaySendPrivateTx a hs) # relay_calls w \<Longrightarrow>
       sent_entry r' (priv_Tx a)"
proof -
  have o: "same_entry r (final (and_then (stage_max_block (e_lib E) r) stage_fast))"
    by (rule private_options_entry)
  show "same_entry r r'"
    using assms o handle_raw_entry(1) same_entry_trans
    by (fastforce simp: handle_sendPrivateTransaction_def split: flow.splits)
  show "sent_entry r' (priv_Tx a)"
    if "relay_calls w' = CallRelay u k (RelaySendPrivateTx a hs) # relay_calls w"
    using assms that handle_raw_entry(2)
    by (fastforce simp: handle_sendPrivateTransaction_def split: flow.splits)
qed

lemma submit_method_entry:
  assumes m: "submit_method handle (r, w) = (out, (r', w'))"
    and h: "\<And>r1 out1. handle (r1, w) = (out1, (r', w')) \<Longrightarrow> same_entry r1 r' \<and>
      (relay_calls w' = CallRelay u k (RelaySendPrivateTx a hs) # relay_calls w \<longrightarrow>
         sent_entry r' (priv_Tx a))"
  shows "same_entry r r' \<and> (relay_calls w' = CallRelay u k (RelaySendPrivateTx a hs) # relay_calls w \<longrightarrow>
    sent_entry r' (priv_Tx a))"
proof (cases "r_ethSendRawTxEntry r")
  case None
  then show ?thesis using m by (simp add: submit_method_def)
next
  case (Some e)
  let ?r1 = "upd_entry (\<lambda>e. e\<lparr>WhiteHatBundleId := r_whitehatBundleId r\<rparr>) r"
  have "snd (handle (?r1, w)) = (r', w')"
    using m Some snd_after [of "handle (?r1, w)"] by (simp add: submit_method_def)
  then obtain out1 where "handle (?r1, w) = (out1, (r', w'))" by (metis prod.collapse)
  then show ?thesis
    using h same_entry_trans [OF same_entry_upd, of "\<lambda>e. e\<lparr>WhiteHatBundleId := r_whitehatBundleId r\<rparr>" r r']
    by (auto simp: entry_ids_def)
qed

lemma entry_other:
  assumes "req_Method (r_jsonReq r) \<notin> {''eth_sendRawTransaction'', ''eth_sendPrivateTransaction''}"
  shows "same_entry r (fst (snd (dispatch E (r, w))))"
proof -
  have l: "same_entry r (fst (snd (answer_locally_or_proxy E (r1, w1))))" if "same_entry r r1" for r1 w1
    using same_entry_trans [OF that] entry_local [of "(r1, w1)" E] by simp
  have "same_entry r (fst (snd (transaction_count E (r, w))))"
    by (auto simp: transaction_count_def respond_def split: prod.splits bool.splits go.splits
        dest!: entry_signed entry_mm intro: l same_entry_trans)
  moreover have "same_entry r (fst (snd (eth_call_method E (r, w))))"
    by (auto simp: eth_call_method_def respond_def split: prod.splits bool.splits go.splits
        dest!: entry_flash_contract intro: l)
  moreover have "same_entry r (fst (snd (client_version E (r, w))))"
    by (auto simp: client_version_def respond_def split: prod.splits bool.splits option.splits
        dest!: entry_proxyRequestRead intro: same_entry_eq same_entry_trans)
  moreover have "dispatch E (r, w) \<in> {transaction_count E (r, w), eth_call_method E (r, w),
      client_version E (r, w), answer_locally_or_proxy E (r, w)}"
    using assms by (simp add: dispatch_def Let_def)
  ultimately show ?thesis using l [of r w] by auto
qed

lemma ProcessRequest_entry:
  assumes "ProcessRequest E (r, w) = (out, (r', w'))"
  shows "same_entry r r'"
    "relay_calls w' = CallRelay u k (RelaySendPrivateTx a hs) # relay_calls w \<Longrightarrow>
       sent_entry r' (priv_Tx a)"
proof -
  consider (panic) p where "logRequest r = Panic p"
    | (raw) "dispatch E (r, w) = (out, (r', w'))" "req_Method (r_jsonReq r) = ''eth_sendRawTransaction''"
    | (priv) "dispatch E (r, w) = (out, (r', w'))"
        "req_Method (r_jsonReq r) = ''eth_sendPrivateTransaction''"
    | (other) "dispatch E (r, w) = (out, (r', w'))"
        "req_Method (r_jsonReq r) \<notin> {''eth_sendRawTransaction'', ''eth_sendPrivateTransaction''}"
    using assms by (cases "logRequest r") (auto simp: ProcessRequest_def)
  then have "same_entry r r' \<and>
    (relay_calls w' = CallRelay u k (RelaySendPrivateTx a hs) # relay_calls w \<longrightarrow>
       sent_entry r' (priv_Tx a))"
  proof cases
    case panic
    then show ?thesis using assms by (auto simp: ProcessRequest_def)
  next
    case raw
    then have "submit_method (handle_sendRawTransaction E) (r, w) = (out, (r', w'))"
      by (simp add: dispatch_def)
    then show ?thesis by (rule submit_method_entry) (blast dest: handle_raw_entry)
  next
    case priv
    then have "submit_method (handle_sendPrivateTransaction E) (r, w) = (out, (r', w'))"
      by (simp add: dispatch_def)
    then show ?thesis by (rule submit_method_entry) (blast dest: handle_private_entry)
  next
    case other
    then show ?thesis
      using entry_other [of r E w] relay_calls_other [of "(r, w)" E] assms by simp
  qed
  then show "same_entry r r'"
    "relay_calls w' = CallRelay u k (RelaySendPrivateTx a hs) # relay_calls w \<Longrightarrow>
       sent_entry r' (priv_Tx a)"
    by blast+
qed

section \<open>The course of a handler\<close>

definition bad_body :: "lib \<Rightarrow> in_request \<Rightarrow> bool" where
  "bad_body L q =
     (case in_Body q of
        Inl _ \<Rightarrow> True
      | Inr body \<Rightarrow> body = '''' \<or> json_Unmarshal L unmarshal_request_ptr body = None)"

text \<open>
  The handler when it comes to the JSON-RPC request: what it has written into its record and its
  proxy URL, and nothing else.
\<close>

definition prepared :: "RpcRequestHandler \<Rightarrow> RpcRequestHandler \<Rightarrow> bool" where
  "prepared h h1 \<longleftrightarrow>
     h_respw h1 = h_respw h \<and> h_req h1 = h_req h \<and> h_entryUid h1 = h_entryUid h \<and> h_uid h1 = h_uid h \<and>
     h_configurationWatcher h1 = h_configurationWatcher h \<and> h_builderNames h1 = h_builderNames h \<and>
     h_iter h1 = h_iter h \<and> h_relaySigningKey h1 = h_relaySigningKey h \<and>
     h_relayUrl h1 = h_relayUrl h \<and> h_chainID h1 = h_chainID h \<and>
     re_Id (requestEntry (h_requestRecord h1)) = h_uid h \<and>
     ethSendRawTxEntries (h_requestRecord h1) = ethSendRawTxEntries (h_requestRecord h)"

lemma prepared_record:
  assumes "prepared h h1"
  shows "prepared h (set_record (UpdateRequestEntry q c e) h1)"
  using assms by (simp add: prepared_def set_record_def UpdateRequestEntry_def)

lemma finishRequest_simps [simp]:
  "h_respw (finishRequest t h) = h_respw h" "h_uid (finishRequest t h) = h_uid h"
  "re_Id (requestEntry (h_requestRecord (finishRequest t h))) = re_Id (requestEntry (h_requestRecord h))"
  "ethSendRawTxEntries (h_requestRecord (finishRequest t h)) = ethSendRawTxEntries (h_requestRecord h)"
  by (simp_all add: finishRequest_def set_record_def)

lemma set_respw_simps [simp]:
  "h_respw (set_respw f h) = f (h_respw h)" "h_requestRecord (set_respw f h) = h_requestRecord h"
  by (simp_all add: set_respw_def)

text \<open>Worlds that differ in counters only.\<close>

definition quiet :: "'r World \<Rightarrow> 'r World \<Rightarrow> bool" where
  "quiet w w' \<longleftrightarrow> w_calls w' = w_calls w \<and> w_redis w' = w_redis w \<and> w_now w' = w_now w \<and>
     w_go w' = w_go w \<and> w_cache w' = w_cache w"

lemma quiet_refl [simp]: "quiet w w" and quiet_inc [simp]: "quiet w (inc m w)"
  by (simp_all add: quiet_def inc_def)

lemma quiet_trans: "quiet w w1 \<Longrightarrow> quiet w1 w2 \<Longrightarrow> quiet w w2"
  by (simp add: quiet_def)

lemma quiet_relay_calls: "quiet w w' \<Longrightarrow> relay_calls w' = relay_calls w"
  by (simp add: quiet_def relay_calls_def)

lemma quiet_watch [simp]: "quiet w (watch_configuration h j p w)"
  by (simp add: watch_configuration_def split: option.split)

lemma effective_prepared: "prepared h h1 \<Longrightarrow> getEffectiveParameters L h1 = getEffectiveParameters L h"
  by (auto simp: prepared_def getEffectiveParameters_def Let_def split: sum.split option.split)

lemma process_json_cases:
  assumes "process_json E h body w = (out, h', w')" "prepared h0 h"
  obtains
    (bad) h1 where "json_Unmarshal (e_lib E) unmarshal_request_ptr body = None" "out = Ret ()" "w' = w"
      "prepared h0 h1" "h' = set_respw (WriteHeader 400) h1"
  | (nil) "json_Unmarshal (e_lib E) unmarshal_request_ptr body = Some None" "\<exists>p. out = Panic p" "w' = w"
      "prepared h0 h'"
  | (refused) j err h1 where "json_Unmarshal (e_lib E) unmarshal_request_ptr body = Some (Some j)"
      "out = Ret ()" "w' = w" "prepared h0 h1" "getEffectiveParameters (e_lib E) h1 = Inl err"
      "h' = set_respw (writeRpcResponse (e_lib E)
         (Some (AuctionPreferenceErrorToJSONRPCResponse j err))) h1"
  | (run) j p client h1 w1 where "json_Unmarshal (e_lib E) unmarshal_request_ptr body = Some (Some j)"
      "prepared h0 h1" "getEffectiveParameters (e_lib E) h1 = Inr p" "quiet w w1"
      "processRequest E h1 client j (Values_Get (URL_Query (in_URL (h_req h1))) ''bundle'' \<noteq> '''')
         (Values_Get (URL_Query (in_URL (h_req h1))) ''bundle'') p body w1 = (out, h', w')"
proof -
  let ?h1 = "set_record (UpdateRequestEntry (h_req h) 200 '''') h"
  have p: "prepared h0 ?h1" by (rule prepared_record [OF assms(2)])
  have req: "h_req ?h1 = h_req h" by (simp add: set_record_def)
  show ?thesis
  proof (cases "json_Unmarshal (e_lib E) unmarshal_request_ptr body")
    case None
    then show ?thesis using assms(1) p bad by (auto simp: process_json_def Let_def)
  next
    case (Some jo)
    then show ?thesis
    proof (cases jo)
      case None
      then show ?thesis using Some assms(1) p nil by (auto simp: process_json_def Let_def)
    next
      fix j assume j: "jo = Some j"
      show ?thesis
      proof (cases "getEffectiveParameters (e_lib E) ?h1")
        case (Inl err)
        then show ?thesis using Some j assms(1) p refused by (auto simp: process_json_def Let_def)
      next
        case (Inr up)
        then show ?thesis
          using Some j assms(1) p req
          by (intro run [of j ?h1 up "watch_configuration ?h1 j up w"]) (simp_all add: process_json_def Let_def)
      qed
    qed
  qed
qed

lemma process_body_cases:
  assumes "process_body E h w = (out, h', w')"
  obtains
    (unread) h1 where "case in_Body (h_req h) of Inl _ \<Rightarrow> True | Inr body \<Rightarrow> body = ''''" "out = Ret ()"
      "quiet w w'" "prepared h h1" "h' = set_respw (WriteHeader 400) h1"
  | (json) body h1 w1 where "in_Body (h_req h) = Inr body" "body \<noteq> ''''" "prepared h h1"
      "quiet w w1" "process_json E h1 body w1 = (out, h', w')"
proof -
  define h1 where "h1 = set_record (\<lambda>r. UpdateRequestEntry (h_req h) 200 ''''
    (r\<lparr>requestEntry := (requestEntry r)\<lparr>re_ReceivedAt := h_timeStarted h, re_Id := h_uid h\<rparr>\<rparr>)) h"
  have "prepared h h1" by (simp add: prepared_def h1_def set_record_def UpdateRequestEntry_def)
  then have p: "prepared h h1" "prepared h (h1\<lparr>h_defaultProxyUrl := u\<rparr>)" for u
    by (simp_all add: prepared_def)
  define hw where "hw = (case first_value (URL_Query (in_URL (h_req h))) ''url'' of
      Some u \<Rightarrow> if length u > 1 then (h1\<lparr>h_defaultProxyUrl := u\<rparr>, inc UrlParamUsageInc w) else (h1, w)
    | None \<Rightarrow> (h1, w))"
  obtain h2 w2 where hw: "hw = (h2, w2)" by fastforce
  have h2: "prepared h h2" "quiet w w2"
    using hw p by (auto simp: hw_def split: option.splits if_splits)
  have run: "process_body E h w =
      (case in_Body (h_req h) of
         Inl err \<Rightarrow>
           (Ret (), set_respw (WriteHeader 400) (set_record (UpdateRequestEntry (h_req h) 400 err) h2), w2)
       | Inr body \<Rightarrow>
           if body = ''''
           then (Ret (), set_respw (WriteHeader 400)
                   (set_record (UpdateRequestEntry (h_req h) 400 ''empty request body'') h2), w2)
           else process_json E h2 body w2)"
    unfolding process_body_def Let_def h1_def [symmetric] hw_def [symmetric] hw by simp
  show ?thesis
    using assms h2 prepared_record [OF h2(1)] unread json [of _ h2 w2]
    by (auto simp: run split: sum.splits if_splits)
qed

text \<open>The two together: a bad body, a nil request, refused parameters, or a request that is run.\<close>

lemma process_cases:
  assumes "process E h w = (out, h', w')"
  obtains
    (bad) h1 where "bad_body (e_lib E) (h_req h)" "out = Ret ()" "quiet w w'"
      "prepared h h1" "h' = finishRequest (w_now w') (set_respw (WriteHeader 400) h1)"
  | (nil) body h1 where "in_Body (h_req h) = Inr body" "body \<noteq> ''''" "\<exists>p. out = Panic p"
      "json_Unmarshal (e_lib E) unmarshal_request_ptr body = Some None"
      "quiet w w'" "prepared h h1" "h' = finishRequest (w_now w') h1"
  | (refused) body j err h1 where "in_Body (h_req h) = Inr body" "body \<noteq> ''''"
      "json_Unmarshal (e_lib E) unmarshal_request_ptr body = Some (Some j)"
      "out = Ret ()" "quiet w w'" "prepared h h1"
      "h' = finishRequest (w_now w') (set_respw (writeRpcResponse (e_lib E)
         (Some (AuctionPreferenceErrorToJSONRPCResponse j err))) h1)"
      "getEffectiveParameters (e_lib E) h1 = Inl err"
  | (run) body j p client h1 w1 h2 where "in_Body (h_req h) = Inr body" "body \<noteq> ''''"
      "json_Unmarshal (e_lib E) unmarshal_request_ptr body = Some (Some j)"
      "prepared h h1" "getEffectiveParameters (e_lib E) h1 = Inr p" "quiet w w1"
      "processRequest E h1 client j (Values_Get (URL_Query (in_URL (h_req h1))) ''bundle'' \<noteq> '''')
         (Values_Get (URL_Query (in_URL (h_req h1))) ''bundle'') p body w1 = (out, h2, w')"
      "h' = finishRequest (w_now w') h2"
proof -
  obtain h0 where b: "process_body E h w = (out, h0, w')" and h': "h' = finishRequest (w_now w') h0"
    using assms by (auto simp: process_def split: prod.splits)
  from b show ?thesis
  proof (cases rule: process_body_cases)
    case (unread h1)
    then show ?thesis using h' bad by (auto simp: bad_body_def split: sum.splits)
  next
    case (json body h1 w1)
    note j = json
    from j(5,3) show ?thesis
    proof (cases rule: process_json_cases)
      case (bad h1)
      then show ?thesis using j h' that(1) [of h1] by (simp add: bad_body_def)
    next
      case nil
      then show ?thesis using j h' that(2) by auto
    next
      case (refused jr err h2)
      then show ?thesis using j h' that(3) by auto
    next
      case (run jr p client h2 w2)
      have "quiet w w2" by (rule quiet_trans [OF j(4) run(4)])
      with run show ?thesis using j(1,2) h' that(4) by blast
    qed
  qed
qed

section \<open>One JSON-RPC request of a handler\<close>

definition given_entry :: "RpcRequestHandler \<Rightarrow> JsonRpcRequest \<Rightarrow> EthSendRawTxEntry option" where
  "given_entry h j =
     (if req_Method j \<in> set submit_methods
      then Some (fst (AddEthSendRawTxEntry (h_entryUid h) (h_requestRecord h))) else None)"

definition given_record :: "RpcRequestHandler \<Rightarrow> JsonRpcRequest \<Rightarrow> requestRecord" where
  "given_record h j =
     (if req_Method j \<in> set submit_methods
      then snd (AddEthSendRawTxEntry (h_entryUid h) (h_requestRecord h)) else h_requestRecord h)"

definition rpc_request ::
    "RpcRequestHandler \<Rightarrow> rpcProxyClient \<Rightarrow> JsonRpcRequest \<Rightarrow> bool \<Rightarrow> string \<Rightarrow> URLParameters \<Rightarrow> RpcRequest" where
  "rpc_request h client j wb i p =
     NewRpcRequest client j (h_relaySigningKey h) (h_relayUrl h) (in_Header (h_req h) ''Origin'')
       (in_Header (h_req h) ''Referer'') wb i (given_entry h j) p (h_chainID h) (h_defaultEthClient h)"

lemma rpc_request_simps [simp]:
  "r_jsonReq (rpc_request h client j wb i p) = j"
  "r_ethSendRawTxEntry (rpc_request h client j wb i p) = given_entry h j"
  "r_urlParams (rpc_request h client j wb i p) = p"
  "r_flashbotsSigningAddress (rpc_request h client j wb i p) = ''''"
  by (simp_all add: rpc_request_def NewRpcRequest_def)

lemma processRequest_eq:
  "processRequest E h client j wb i p body w =
     (let h1 = h\<lparr>h_requestRecord := given_record h j\<rparr> in
      case CheckFlashbotsSignature (e_lib E) (in_Header (h_req h) ''X-Flashbots-Signature'') body
             (rpc_request h client j wb i p) of
        (Some err, r1) \<Rightarrow>
          (let r2 = writeRpcError (sig_error_text err) JsonRpcInvalidRequest r1
           in (Ret (), set_respw (writeRpcResponse (e_lib E) (r_jsonRes r2))
                         (set_record (put_last_entry (r_ethSendRawTxEntry r2)) h1), w))
      | (None, r1) \<Rightarrow>
          (case ProcessRequest E (r1, w) of
             (Panic q, (r2, w2)) \<Rightarrow>
               (Panic q, set_record (put_last_entry (r_ethSendRawTxEntry r2)) h1, w2)
           | (Ret res, (r2, w2)) \<Rightarrow>
               (Ret (), set_respw (writeRpcResponse (e_lib E) res)
                          (set_record (put_last_entry (r_ethSendRawTxEntry r2)) h1), w2)))"
proof (cases "req_Method j = ''eth_sendRawTransaction'' \<or> req_Method j = ''eth_sendPrivateTransaction''")
  case True
  then have "req_Method j \<in> set submit_methods" by (simp add: submit_methods_def)
  with True show ?thesis
    by (simp only: processRequest_def given_entry_def given_record_def rpc_request_def Let_def if_True
        AddEthSendRawTxEntry_def prod.case fst_conv snd_conv)
next
  case False
  then have "req_Method j \<notin> set submit_methods" by (simp add: submit_methods_def)
  with False show ?thesis
    by (simp only: processRequest_def given_entry_def given_record_def rpc_request_def Let_def if_False
        prod.case)
qed

lemma signature_keeps:
  "CheckFlashbotsSignature L sig body r = (err, r1) \<Longrightarrow>
     r_jsonReq r1 = r_jsonReq r \<and> r_ethSendRawTxEntry r1 = r_ethSendRawTxEntry r \<and>
     r_urlParams r1 = r_urlParams r"
  by (auto simp: CheckFlashbotsSignature_def split: if_splits sum.splits sig_error.splits)

lemma processRequest_cases:
  assumes "processRequest E h client j wb i p body w = (out, h', w')"
  obtains r2 res where
    "same_entry (rpc_request h client j wb i p) r2"
    "h_requestRecord h' = put_last_entry (r_ethSendRawTxEntry r2) (given_record h j)"
    "relay_calls w' = CallRelay u k (RelaySendPrivateTx a hs) # relay_calls w \<longrightarrow> sent_entry r2 (priv_Tx a)"
    "relay_calls w' \<noteq> relay_calls w \<longrightarrow> req_Method j \<in> set submit_methods"
    "case out of Ret _ \<Rightarrow> h_respw h' = writeRpcResponse (e_lib E) (Some res) (h_respw h)
       | Panic _ \<Rightarrow> h_respw h' = h_respw h \<and> (\<exists>r. r_jsonReq r = j \<and> malformed r)"
proof -
  let ?r = "rpc_request h client j wb i p"
  obtain err r1 where c: "CheckFlashbotsSignature (e_lib E)
      (in_Header (h_req h) ''X-Flashbots-Signature'') body ?r = (err, r1)" by fastforce
  note k = signature_keeps [OF c]
  show ?thesis
  proof (cases err)
    case (Some e)
    let ?r2 = "writeRpcError (sig_error_text e) JsonRpcInvalidRequest r1"
    have out: "out = Ret ()" "w' = w"
        "h' = set_respw (writeRpcResponse (e_lib E) (r_jsonRes ?r2))
           (set_record (put_last_entry (r_ethSendRawTxEntry ?r2)) (h\<lparr>h_requestRecord := given_record h j\<rparr>))"
      using assms c Some by (simp_all add: processRequest_eq Let_def)
    obtain res where "r_jsonRes ?r2 = Some res" using jsonRes_write(3) by blast
    moreover have "same_entry ?r ?r2"
      using k by (intro same_entry_error_trans same_entry_eq) simp
    ultimately show ?thesis
      using out by (intro that [of ?r2 res]) (auto simp: set_record_def)
  next
    case None
    obtain out0 r2 w2 where p: "ProcessRequest E (r1, w) = (out0, (r2, w2))"
      by (cases "ProcessRequest E (r1, w)") auto
    have ans: "answers (malformed r1) (out0, (r2, w2))"
      using ProcessRequest_answers [of r1 E w] p k by (auto simp: given_entry_def answers_def split: go.splits)
    have e: "same_entry ?r r2"
      using same_entry_trans [OF same_entry_eq ProcessRequest_entry(1) [OF p]] k by simp
    have w': "w' = w2" "h_requestRecord h' = put_last_entry (r_ethSendRawTxEntry r2) (given_record h j)"
      using assms c None p by (auto simp: processRequest_eq Let_def set_record_def split: go.splits)
    have calls: "relay_calls w' \<noteq> relay_calls w \<longrightarrow> req_Method j \<in> set submit_methods"
      using relay_calls_other [of "(r1, w)" E] p k w' by (auto simp: submit_methods_def)
    show ?thesis
    proof (cases out0)
      case (Ret x)
      then obtain res where "x = Some res" using ans by (auto simp: answers_def)
      then show ?thesis
        using assms c None p Ret e w' calls ProcessRequest_entry(2) [OF p] k
        by (intro that [of r2 res]) (auto simp: processRequest_eq Let_def set_record_def)
    next
      case (Panic q)
      then show ?thesis
        using assms c None p e w' calls ProcessRequest_entry(2) [OF p] k ans
        by (intro that [of r2 undefined]) (auto simp: processRequest_eq Let_def set_record_def answers_def)
    qed
  qed
qed

lemma writeRpcResponse_simps [simp]:
  "rw_Status w = None \<Longrightarrow> rw_Status (writeRpcResponse L res w) = Some 200"
  "rw_Body (writeRpcResponse L res w) = rw_Body w @ response_text L res"
  "rw_Recorded (writeRpcResponse L res w) = 200"
  by (simp_all add: writeRpcResponse_def writeHeaderContentTypeJson_def Write_def WriteHeader_def
      Header_Set_def)

lemma WriteHeader_simps [simp]:
  "rw_Status w = None \<Longrightarrow> rw_Status (WriteHeader c w) = Some c"
  "rw_Body (WriteHeader c w) = rw_Body w" "rw_Recorded (WriteHeader c w) = c"
  by (simp_all add: WriteHeader_def)

lemma prepared_simps:
  assumes "prepared h h1"
  shows "h_respw h1 = h_respw h" "h_req h1 = h_req h"
    "re_Id (requestEntry (h_requestRecord h1)) = h_uid h"
    "ethSendRawTxEntries (h_requestRecord h1) = ethSendRawTxEntries (h_requestRecord h)"
    "h_entryUid h1 = h_entryUid h"
  using assms by (simp_all add: prepared_def)

section \<open>Status and body\<close>

text \<open>A request no handler can take up: the JSON value \<open>null\<close>, or malformed parameters.\<close>

definition unanswerable :: "lib \<Rightarrow> in_request \<Rightarrow> bool" where
  "unanswerable L q \<longleftrightarrow>
     (\<exists>body. in_Body q = Inr body \<and>
        (json_Unmarshal L unmarshal_request_ptr body = Some None \<or>
         (\<exists>r. json_Unmarshal L unmarshal_request_ptr body = Some (Some (r_jsonReq r)) \<and> malformed r)))"

text \<open>
  C5: every POST is answered. With a body that cannot be read, is empty or is no JSON-RPC request
  the status is 400 and no body is written; with any other body the status is 200 and the body is
  one JSON-RPC response, never \<open>null\<close>, whatever the node, the relay, the status API and Redis do.
  Only the JSON value \<open>null\<close> and malformed parameters make the handler panic, and then nothing was
  written.
\<close>

theorem post_answered:
  assumes "process E h w = (out, h', w')" and "rw_Status (h_respw h) = None"
  shows "case out of
      Ret _ \<Rightarrow>
        if bad_body (e_lib E) (h_req h)
        then rw_Status (h_respw h') = Some 400 \<and> rw_Body (h_respw h') = rw_Body (h_respw h)
        else rw_Status (h_respw h') = Some 200 \<and>
          (\<exists>res. rw_Body (h_respw h') = rw_Body (h_respw h) @ response_text (e_lib E) (Some res))
    | Panic _ \<Rightarrow> unanswerable (e_lib E) (h_req h) \<and> h_respw h' = h_respw h"
  using assms(1)
proof (cases rule: process_cases)
  case (bad h1)
  then show ?thesis using assms(2) prepared_simps [OF bad(4)] by simp
next
  case (nil body h1)
  then show ?thesis using prepared_simps [OF nil(6)] by (auto simp: unanswerable_def)
next
  case (refused body j err h1)
  then show ?thesis using assms(2) prepared_simps [OF refused(6)] by (auto simp: bad_body_def)
next
  case (run body j p client h1 w1 h2)
  note h1 = prepared_simps [OF run(4)]
  have good: "\<not> bad_body (e_lib E) (h_req h)" using run(1-3) by (simp add: bad_body_def)
  from run(7) obtain r2 res where "case out of
      Ret _ \<Rightarrow> h_respw h2 = writeRpcResponse (e_lib E) (Some res) (h_respw h1)
    | Panic _ \<Rightarrow> h_respw h2 = h_respw h1 \<and> (\<exists>r. r_jsonReq r = j \<and> malformed r)"
    by (rule processRequest_cases)
  then show ?thesis
    using run(1-3,8) h1 good assms(2) by (cases out) (auto simp: unanswerable_def)
qed

section \<open>The record of a request\<close>

lemma put_given:
  assumes "same_entry (rpc_request h client j wb i p) r2" "ethSendRawTxEntries (h_requestRecord h) = []"
  shows "ethSendRawTxEntries (put_last_entry (r_ethSendRawTxEntry r2) (given_record h j)) =
      (case r_ethSendRawTxEntry r2 of None \<Rightarrow> [] | Some e \<Rightarrow> [e])"
    "requestEntry (put_last_entry (r_ethSendRawTxEntry r2) (given_record h j)) =
      requestEntry (h_requestRecord h)"
    "r_ethSendRawTxEntry r2 = Some e \<Longrightarrow>
      tx_Id e = h_entryUid h \<and> tx_RequestId e = re_Id (requestEntry (h_requestRecord h))"
    "r_ethSendRawTxEntry r2 = None \<longleftrightarrow> req_Method j \<notin> set submit_methods"
  using assms
  by (auto simp: same_entry_def given_entry_def given_record_def put_last_entry_def entry_ids_def
      AddEthSendRawTxEntry_def Let_def option_rel_Some1 split: if_splits option.splits)

lemma process_record:
  assumes p: "process E h w = (out, h', w')" and n: "h_requestRecord h = NewRequestRecord"
  shows "re_Id (requestEntry (h_requestRecord h')) = h_uid h"
    "\<forall>e\<in>set (ethSendRawTxEntries (h_requestRecord h')). tx_Id e = h_entryUid h \<and> tx_RequestId e = h_uid h"
    "relay_calls w' = CallRelay u k (RelaySendPrivateTx a hs) # relay_calls w \<Longrightarrow>
       \<exists>e. ethSendRawTxEntries (h_requestRecord h') = [e] \<and> WasSentToRelay e \<and> TxRaw e = priv_Tx a"
proof -
  have none: "ethSendRawTxEntries (h_requestRecord h) = []" by (simp add: n NewRequestRecord_def)
  have "re_Id (requestEntry (h_requestRecord h')) = h_uid h \<and>
    (\<forall>e\<in>set (ethSendRawTxEntries (h_requestRecord h')). tx_Id e = h_entryUid h \<and> tx_RequestId e = h_uid h) \<and>
    (relay_calls w' = CallRelay u k (RelaySendPrivateTx a hs) # relay_calls w \<longrightarrow>
       (\<exists>e. ethSendRawTxEntries (h_requestRecord h') = [e] \<and> WasSentToRelay e \<and> TxRaw e = priv_Tx a))"
    using p
  proof (cases rule: process_cases)
    case (bad h1)
    then show ?thesis using prepared_simps [OF bad(4)] none quiet_relay_calls [OF bad(3)] by simp
  next
    case (nil body h1)
    then show ?thesis using prepared_simps [OF nil(6)] none quiet_relay_calls [OF nil(5)] by simp
  next
    case (refused body j err h1)
    then show ?thesis using prepared_simps [OF refused(6)] none quiet_relay_calls [OF refused(5)] by simp
  next
    case (run body j up client h1 w1 h2)
    note h1 = prepared_simps [OF run(4)]
    have e1: "ethSendRawTxEntries (h_requestRecord h1) = []" using h1(4) none by simp
    from run(7) obtain r2 res where s: "same_entry (rpc_request h1 client j
          (Values_Get (URL_Query (in_URL (h_req h1))) ''bundle'' \<noteq> '''')
          (Values_Get (URL_Query (in_URL (h_req h1))) ''bundle'') up) r2"
      and rec: "h_requestRecord h2 = put_last_entry (r_ethSendRawTxEntry r2) (given_record h1 j)"
      and sent: "relay_calls w' = CallRelay u k (RelaySendPrivateTx a hs) # relay_calls w1 \<longrightarrow>
        sent_entry r2 (priv_Tx a)"
      and sub: "relay_calls w' \<noteq> relay_calls w1 \<longrightarrow> req_Method j \<in> set submit_methods"
      by (rule processRequest_cases)
    note g = put_given [OF s e1]
    show ?thesis
      using run(8) quiet_relay_calls [OF run(6)] rec sent sub g(1,2) g(3) g(4) h1
      by (auto simp: sent_entry_def split: option.splits)
  qed
  then show "re_Id (requestEntry (h_requestRecord h')) = h_uid h"
    "\<forall>e\<in>set (ethSendRawTxEntries (h_requestRecord h')). tx_Id e = h_entryUid h \<and> tx_RequestId e = h_uid h"
    "relay_calls w' = CallRelay u k (RelaySendPrivateTx a hs) # relay_calls w \<Longrightarrow>
       \<exists>e. ethSendRawTxEntries (h_requestRecord h') = [e] \<and> WasSentToRelay e \<and> TxRaw e = priv_Tx a"
    by blast+
qed

text \<open>
  C14: no submission is lost to the analytics. When handling a request sends a transaction to the
  relay, and the record is then saved without an error to a store that keeps what it is given,
  the store holds the request under its id and with it exactly one transaction entry, which names
  the request, is marked as sent and carries the raw transaction that the relay was sent.
\<close>

theorem submission_recorded:
  assumes "process E h w = (out, h', w')" and "h_requestRecord h = NewRequestRecord"
    and "relay_calls w' = CallRelay url key (RelaySendPrivateTx args hdrs) # relay_calls w"
    and "keeping_store S reqs txs" and "SaveRecord S (h_requestRecord h') d = (None, d')"
  shows "\<exists>e. txs d' (h_uid h) = Some [e] \<and>
    reqs d' (h_uid h) = Some (requestEntry (h_requestRecord h')) \<and>
    tx_Id e = h_entryUid h \<and> tx_RequestId e = h_uid h \<and> WasSentToRelay e \<and> TxRaw e = priv_Tx args"
proof -
  note r = process_record [OF assms(1,2)]
  obtain e where e: "ethSendRawTxEntries (h_requestRecord h') = [e]" "WasSentToRelay e" "TxRaw e = priv_Tx args"
    using r(3) [OF assms(3)] by blast
  then have v: "getValidRawTxEntriesToSave (h_requestRecord h') = [e]"
    by (simp add: getValidRawTxEntriesToSave_def)
  show ?thesis
    using keeping_store.save_record_kept [OF assms(4,5)] v e r(1,2) by simp
qed

section \<open>A concrete handler\<close>

definition ex_http_lib :: lib where
  "ex_http_lib = ex_lib\<lparr>json_Decode := map_of (ex_json @
     [(''send'', JObj [(''id'', JNum ''7''), (''method'', JStr ''eth_sendRawTransaction''),
         (''params'', JArr [JStr ''0x01''])]),
      (''nonce'', JObj [(''id'', JNum ''8''), (''method'', JStr ''eth_getTransactionCount''),
         (''params'', JArr [JStr ''0x1'', JStr ''pending''])]),
      (''net'', JObj [(''id'', JNum ''9''), (''method'', JStr ''net_version'')])])\<rparr>"

definition ex_http_env :: "mem_state Env" where
  "ex_http_env = ex_env\<lparr>e_lib := ex_http_lib\<rparr>"

definition ex_post :: "string \<Rightarrow> in_request" where
  "ex_post body = \<lparr>in_Method = ''POST'',
     in_URL = \<lparr>url_Scheme = '''', url_Path = ''/'', url_RawQuery = '''', url_Rest = ''''\<rparr>,
     in_RequestURI = ''/'', in_Header = (\<lambda>_. ''''), in_RemoteAddr = ''192.0.2.1:5000'', in_Body = Inr body\<rparr>"

definition ex_handler :: "string \<Rightarrow> RpcRequestHandler" where
  "ex_handler body =
     NewRpcRequestHandler new_respw (ex_post body) (w_now ex_world) ''http://node'' 10 ''key''
       ''https://relay'' [] (Some (JStr ''1'')) ''http://mempool'' None ''u1'' ''e1'' 1 (\<lambda>q. q)"

theorem post_answered_witness:
  "rw_Status (h_respw (fst (snd (process ex_http_env (ex_handler ''send'') ex_world)))) = Some 200"
proof -
  obtain out h' w' where p: "process ex_http_env (ex_handler ''send'') ex_world = (out, h', w')"
    by (cases "process ex_http_env (ex_handler ''send'') ex_world")
  have "fst (process ex_http_env (ex_handler ''send'') ex_world) = Ret ()"
    "\<not> bad_body (e_lib ex_http_env) (h_req (ex_handler ''send''))"
    "rw_Status (h_respw (ex_handler ''send'')) = None"
    by code_simp+
  then show ?thesis using post_answered [OF p] p by simp
qed

lemma ex_handler_sends:
  "relay_calls (snd (snd (process ex_http_env (ex_handler ''send'') ex_world))) =
     [CallRelay ''https://relay'' ''key'' (RelaySendPrivateTx
        \<lparr>priv_Tx = ''0x01'', priv_Preferences = zero_PrivateTxPreferences\<lparr>Privacy :=
           (Privacy zero_PrivateTxPreferences)\<lparr>Hints := DefaultAuctionHint\<rparr>\<rparr>, priv_MaxBlockNumber = 0\<rparr> [])]"
  by code_simp

theorem submission_recorded_witness:
  "\<exists>e. EthSendRawTxs (snd (SaveRecord mem_Store
     (h_requestRecord (fst (snd (process ex_http_env (ex_handler ''send'') ex_world)))) NewMemStore)) ''u1''
       = Some [e] \<and> WasSentToRelay e \<and> TxRaw e = ''0x01''"
proof -
  obtain out h' w' where p: "process ex_http_env (ex_handler ''send'') ex_world = (out, h', w')"
    by (cases "process ex_http_env (ex_handler ''send'') ex_world")
  have w: "relay_calls ex_world = []" "h_uid (ex_handler ''send'') = ''u1''" by code_simp+
  have n: "h_requestRecord (ex_handler ''send'') = NewRequestRecord"
    by (simp add: ex_handler_def NewRpcRequestHandler_def)
  obtain url key args hdrs where
    "relay_calls w' = CallRelay url key (RelaySendPrivateTx args hdrs) # relay_calls ex_world"
    and a: "priv_Tx args = ''0x01''"
    using ex_handler_sends p w by auto
  moreover obtain d' where d': "SaveRecord mem_Store (h_requestRecord h') NewMemStore = (None, d')"
    by (cases "SaveRecord mem_Store (h_requestRecord h') NewMemStore")
      (simp add: SaveRecord_def mem_Store_def mem_SaveRequestEntry_def mem_SaveRawTxEntries_def Let_def
        split: if_splits list.splits)
  ultimately show ?thesis
    using submission_recorded [OF p n _ mem_store.keeping_store_axioms d'] p w by fastforce
qed

end
