(* ===== verification/Intercept_Props.thy ===== *)
theory Intercept_Props
  imports Process_Props Redis_Props
begin

text \<open>
  Properties of the intercepted methods and of the resend check, over any Redis server that meets
  the contract \<open>redis_service\<close>: no second submission while the first is pending, how often a
  wallet is shown the wrong nonce, what a signed transaction count is, and what a failed private
  transaction leaves behind.
\<close>

section \<open>Resending\<close>

text \<open>
  A transaction is held back exactly if Redis says, without an error, that it was sent, the status API
  answers, and the status is neither failed nor unknown for five minutes or more.
\<close>

lemma block_resending_iff:
  "fst (blockResendingTxToRelay E h w) \<longleftrightarrow>
     (\<exists>t api. GetTxSentToRelay (e_redis E) (w_redis w) h = (t, True, None) \<and>
        fst (GetTxStatus E h w) = Inr api \<and> api_Status api \<noteq> TxStatusFailed \<and>
        \<not> (api_Status api = TxStatusUnknown \<and>
           5 * time_Minute \<le> w_now (snd (GetTxStatus E h w)) - t))"
proof -
  obtain t found err where g: "GetTxSentToRelay (e_redis E) (w_redis w) h = (t, found, err)"
    by (cases "GetTxSentToRelay (e_redis E) (w_redis w) h")
  obtain res w1 where s: "GetTxStatus E h w = (res, w1)" by fastforce
  show ?thesis
    by (cases err; cases found; cases res) (auto simp: blockResendingTxToRelay_def g s)
qed

text \<open>
  C7: no double submission. After a transaction was marked as sent at time \<open>now\<close>, and up to ten
  minutes later, submitting it again while the status API reports it as pending or included
  makes no relay call and is answered with its hash, provided the mark can be read.
\<close>

theorem no_double_submission:
  assumes "redis_service (e_redis E) view elapse"
    and "int64_range (now div time_Second)"
    and "SetTxSentToRelay (e_redis E) now s (ToLower (eth_HashHex t)) = (None, s')"
    and "w_redis w = elapse d s'" "d < 10 * time_Minute"
    and "snd (snd (GetTxSentToRelay (e_redis E) (w_redis w) (ToLower (eth_HashHex t)))) = None"
    and "fst (GetTxStatus E (ToLower (eth_HashHex t)) w) = Inr api"
    and "api_Status api \<in> {TxStatusPending, TxStatusIncluded}"
    and "sendTxToRelay E t (r, w) = (r', w')"
  shows "relay_calls w' = relay_calls w \<and> answered_result (JStr (ToLower (eth_HashHex t))) r'"
proof -
  let ?h = "ToLower (eth_HashHex t)"
  obtain tm found where g: "GetTxSentToRelay (e_redis E) (w_redis w) ?h = (tm, found, None)"
    using assms(6) by (cases "GetTxSentToRelay (e_redis E) (w_redis w) ?h") auto
  then have "found"
    using redis_service.GetTxSentToRelay_after_Set [OF assms(1-3) refl] assms(4,5) by auto
  then have "fst (blockResendingTxToRelay E ?h w)"
    unfolding block_resending_iff using g assms(7,8) by (auto simp: status_defs)
  then have "verdict E t r w = Held" by (simp add: verdict_def Let_def split: prod.splits)
  then show ?thesis using sendTxToRelay_verdict [of E t r w] assms(9) by simp
qed

text \<open>The transaction \<open>0xAB\<close> was marked, and three minutes have passed.\<close>

definition ex_marked :: "mem_state World" where
  "ex_marked = ex_world\<lparr>w_redis := mem_elapse (3 * time_Minute)
     (snd (SetTxSentToRelay mem_redis (1700000000 * time_Second) mem_empty ''0xab''))\<rparr>"

theorem no_double_submission_witness:
  "relay_calls (snd (sendTxToRelay (ex_env_status ''pending'' ''count'') ex_tx (ex_submit, ex_marked))) = [] \<and>
   answered_result (JStr ''0xab'')
     (fst (sendTxToRelay (ex_env_status ''pending'' ''count'') ex_tx (ex_submit, ex_marked)))"
proof -
  let ?E = "ex_env_status ''pending'' ''count''" and ?h = "ToLower (eth_HashHex ex_tx)"
  let ?set = "SetTxSentToRelay (e_redis ?E) (1700000000 * time_Second) mem_empty ?h"
  have R: "e_redis ?E = mem_redis" by (simp add: ex_env_status_def ex_env_def)
  have h: "?h = ''0xab''" by code_simp
  obtain r' w' where s: "sendTxToRelay ?E ex_tx (ex_submit, ex_marked) = (r', w')" by fastforce
  have "fst ?set = None" by code_simp
  then have set: "?set = (None, snd ?set)" by (metis prod.collapse)
  have get: "snd (snd (GetTxSentToRelay (e_redis ?E) (w_redis ex_marked) ?h)) = None" by code_simp
  have api: "fst (GetTxStatus ?E ?h ex_marked) =
      Inr \<lparr>api_Status = TxStatusPending, api_Hash = '''', api_MaxBlockNumber = 0\<rparr>"
    by code_simp
  have "redis_service (e_redis ?E) fst mem_elapse" using R mem.redis_service_axioms by simp
  then have "relay_calls w' = relay_calls ex_marked \<and> answered_result (JStr ?h) r'"
    by (rule no_double_submission [OF _ _ set _ _ get api _ s, where d = "3 * time_Minute"])
      (simp_all add: ex_marked_def R h time_Minute_def time_Second_def int64_range_def)
  moreover have "relay_calls ex_marked = []" by code_simp
  ultimately show ?thesis using s h by simp
qed

section \<open>The signed transaction count\<close>

lemma signed_count_max:
  assumes "signed_count_address r = Some addr"
    and "GetSenderMaxNonce (e_redis E) (w_redis w) addr = (cached, True, None)"
    and "proxyRequestRead E r w = (True, r1, w1)"
    and "r_jsonRes r1 = Some res" "res_Result res = Some v"
    and "hexutil_Uint64_UnmarshalJSON (e_lib E) v = Inr backend"
  shows "\<exists>r' w'. intercept_signed_eth_getTransactionCount E r w = (True, r', w') \<and>
      answered_result (JStr (Sprintf_0x (max (cached + 1) backend))) r' \<and>
      parse_0x (Sprintf_0x (max (cached + 1) backend)) = Inr (max (cached + 1) backend) \<and>
      w_redis w' = (if backend > cached + 1
                    then snd (DelSenderMaxNonce (e_redis E) (w_redis w1) addr) else w_redis w1)"
  using assms
  by (auto simp: intercept_signed_eth_getTransactionCount_def answer_signed_count_def Let_def
      parse_0x_Sprintf_0x max_def not_less)

text \<open>
  C11: the signed count. For a request signed by the account it asks about, with a nonce cached and
  a count from the node, the answer is the greater of the cached nonce plus one and the node's
  count, in the hexadecimal form that reads back as this number; the cached nonce is deleted
  exactly when the node is ahead.
\<close>

theorem signed_count_answer:
  assumes "signed_count_address r = Some addr"
    and "GetSenderMaxNonce (e_redis E) (w_redis w) addr = (cached, True, None)"
    and "proxyRequestRead E r w = (True, r1, w1)"
    and "r_jsonRes r1 = Some res" "res_Result res = Some v"
    and "hexutil_Uint64_UnmarshalJSON (e_lib E) v = Inr backend"
  shows "\<exists>r' w'. intercept_signed_eth_getTransactionCount E r w = (True, r', w') \<and>
      answered_result (JStr (Sprintf_0x (max (cached + 1) backend))) r' \<and>
      parse_0x (Sprintf_0x (max (cached + 1) backend)) = Inr (max (cached + 1) backend) \<and>
      w_redis w' = (if backend > cached + 1
                    then snd (DelSenderMaxNonce (e_redis E) (w_redis w1) addr) else w_redis w1)"
  using assms by (rule signed_count_max)

text \<open>Account \<open>0x1\<close>, with nonce 9 cached, asks for its pending count; the node says 5.\<close>

definition ex_signed :: RpcRequest where
  "ex_signed = (ex_request ''eth_getTransactionCount'' [JStr ''0x1'', JStr ''pending''])
     \<lparr>r_flashbotsSigningAddress := ''0x1''\<rparr>"

definition ex_cached :: "mem_state World" where
  "ex_cached = ex_world\<lparr>w_redis := snd (SetSenderMaxNonce mem_redis mem_empty ''0x1'' 9 0)\<rparr>"

theorem signed_count_answer_witness:
  "fst (intercept_signed_eth_getTransactionCount ex_env ex_signed ex_cached) \<and>
   answered_result (JStr (Sprintf_0x (max (9 + 1) 5)))
     (fst (snd (intercept_signed_eth_getTransactionCount ex_env ex_signed ex_cached)))"
proof -
  let ?p = "proxyRequestRead ex_env ex_signed ex_cached"
  have a: "signed_count_address ex_signed = Some ''0x1''" by code_simp
  have g: "GetSenderMaxNonce (e_redis ex_env) (w_redis ex_cached) ''0x1'' = (9, True, None)"
    by code_simp
  have "fst ?p" by code_simp
  then have p: "?p = (True, fst (snd ?p), snd (snd ?p))" by (metis prod.collapse)
  have res: "r_jsonRes (fst (snd ?p)) = Some \<lparr>res_Id = JNum ''1'', res_Result = Some (JStr ''0x5''),
      res_Error = None, res_Version = ''2.0''\<rparr>"
    by code_simp
  have h: "hexutil_Uint64_UnmarshalJSON (e_lib ex_env) (JStr ''0x5'') = Inr 5" by code_simp
  show ?thesis
    using signed_count_answer [OF a g p res _ h] by auto
qed

section \<open>The wrong nonce\<close>

text \<open>A nonce fix is in place for the account \<open>a\<close>, and was shown \<open>k\<close> times.\<close>

definition fix_count :: "('r \<Rightarrow> redis_db) \<Rightarrow> string \<Rightarrow> 'r \<Rightarrow> u64 \<Rightarrow> bool" where
  "fix_count view a s k \<longleftrightarrow>
     (\<exists>t. view s (RedisKeyNonceFixForAccount a) = Some (RStr (FormatUint k), t))"

text \<open>\<open>n\<close> requests of one wallet in a row; the result counts the intercepted ones.\<close>

fun mm_run :: "'r Env \<Rightarrow> RpcRequest \<Rightarrow> nat \<Rightarrow> 'r World \<Rightarrow> nat \<times> 'r World" where
  "mm_run E r 0 w = (0, w)"
| "mm_run E r (Suc n) w =
     (case intercept_mm_eth_getTransactionCount E r w of
        (out, _, w1) \<Rightarrow>
          (case mm_run E r n w1 of (k, w2) \<Rightarrow> ((if out = Ret True then 1 else 0) + k, w2)))"

context redis_service
begin

lemma fix_key_lower: "RedisKeyNonceFixForAccount (ToLower a) = RedisKeyNonceFixForAccount a"
  by (simp add: RedisKeyNonceFixForAccount_def)

lemma fix_count_read:
  assumes "fix_count view a s k" "GetNonceFixForAccount R s (ToLower a) = (x, found, None)"
  shows "found \<and> x = k"
  using nonce_fix.get_reads [of s "ToLower a"] assms
  by (cases found) (auto simp: reads_def fix_count_def fix_key_lower dest: repr_uint_enc)

lemma fix_count_write:
  assumes "fix_count view a s k" "SetNonceFixForAccount R s (ToLower a) n = (e, s')"
  shows "if e = None then fix_count view a s' n else fix_count view a s' k \<or> fix_count view a s' n"
  using nonce_fix.put_applied [of "ToLower a" n s] assms
  by (cases e) (auto simp: applied_def eff_set_def fix_count_def fix_key_lower)

lemma mm_step:
  assumes R: "e_redis E = R" and p: "r_params r = JStr a # ps"
    and k: "fix_count view a (w_redis w) k" "k \<le> 4"
    and step: "intercept_mm_eth_getTransactionCount E r w = (out, r', w')"
  shows "if out = Ret True then k < 4 \<and> fix_count view a (w_redis w') (k + 1)
    else \<exists>k'. k \<le> k' \<and> k' \<le> 4 \<and> fix_count view a (w_redis w') k'"
proof -
  obtain x found err where g: "GetNonceFixForAccount R (w_redis w) (ToLower a) = (x, found, err)"
    by (cases "GetNonceFixForAccount R (w_redis w) (ToLower a)")
  have unchanged: "\<exists>k'. k \<le> k' \<and> k' \<le> 4 \<and> fix_count view a (w_redis w) k'" using k by blast
  show ?thesis
  proof (cases err)
    case (Some e)
    then show ?thesis
      using step g unchanged by (auto simp: intercept_mm_eth_getTransactionCount_def R p)
  next
    case None
    then have x: "found" "x = k" using fix_count_read [OF k(1)] g by auto
    show ?thesis
    proof (cases "k + 1 > 4")
      case True
      then show ?thesis
        using step g None x unchanged
        by (auto simp: intercept_mm_eth_getTransactionCount_def R p Let_def)
    next
      case False
      have less: "k < 4" "k \<le> k + 1" "k + 1 \<le> 4"
        using False k(2) by (auto simp: not_less word_less_nat_alt word_le_nat_alt unat_word_ariths)
      obtain e s' where s: "SetNonceFixForAccount R (w_redis w) (ToLower a) (k + 1) = (e, s')"
        by fastforce
      note wr = fix_count_write [OF k(1) s]
      show ?thesis
        using step g None x False s wr less unchanged
        by (cases e) (auto simp: intercept_mm_eth_getTransactionCount_def R p Let_def
            redis_count_def redis_do_def)
    qed
  qed
qed

lemma mm_run_bound:
  assumes "e_redis E = R" "r_params r = JStr a # ps" "fix_count view a (w_redis w) k" "k \<le> 4"
  shows "fst (mm_run E r n w) \<le> 4 - unat k"
  using assms(3,4)
proof (induction n arbitrary: w k)
  case (Suc n)
  obtain out r' w' where step: "intercept_mm_eth_getTransactionCount E r w = (out, r', w')"
    by (cases "intercept_mm_eth_getTransactionCount E r w")
  note s = mm_step [OF assms(1,2) Suc.prems step]
  show ?case
  proof (cases "out = Ret True")
    case True
    then have k1: "k < 4" "fix_count view a (w_redis w') (k + 1)" using s by auto
    then have "unat (k + 1) = Suc (unat k)" "k + 1 \<le> 4"
      by (auto simp: word_less_nat_alt word_le_nat_alt unat_word_ariths)
    then show ?thesis
      using Suc.IH [OF k1(2)] True step k1(1)
      by (cases "mm_run E r n w'") (simp add: word_less_nat_alt)
  next
    case False
    then obtain k' where k': "k \<le> k'" "k' \<le> 4" "fix_count view a (w_redis w') k'" using s by auto
    then have "fst (mm_run E r n w') \<le> 4 - unat k" using Suc.IH [OF k'(3,2)]
      by (simp add: word_le_nat_alt)
    then show ?thesis using False step by (simp split: prod.splits)
  qed
qed simp

end

lemma wrongNonce_rejected: "1000000000 \<le> wrongNonce"
  by (simp add: wrongNonce_def)


definition ex_fix :: "mem_state World" where
  "ex_fix = ex_world\<lparr>w_redis := snd (SetNonceFixForAccount mem_redis mem_empty ''0x1'' 0)\<rparr>"

definition ex_count :: RpcRequest where
  "ex_count = ex_request ''eth_getTransactionCount'' [JStr ''0x1'', JStr ''latest'']"


section \<open>Failed private transactions\<close>

context redis_service
begin

lemma ensure_fix:
  assumes R: "e_redis E = R"
    and sender: "GetSenderOfTxHash R (w_redis w) h = (f, True, None)"
    and nofix: "GetNonceFixForAccount R (w_redis w) f = (x, False, None)"
    and set: "SetNonceFixForAccount R (w_redis w) f 0 = (None, s2)"
  shows "ensureAccountFixIsInPlace E h w = resetMaxNonce E f h (w\<lparr>w_redis := s2\<rparr>)"
  using assms by (simp add: ensureAccountFixIsInPlace_def redis_count_def redis_do_def)

lemma other_key_del:
  assumes "DelSenderMaxNonce R s f = (e, s')" "q \<noteq> RedisKeySenderMaxNonce f"
  shows "view s' q = view s q"
  using Del_applied [of "RedisKeySenderMaxNonce f" s] assms
  by (cases e) (auto simp: DelSenderMaxNonce_def applied_def eff_del_def)

lemma fix_key_not_max_key: "RedisKeyNonceFixForAccount f \<noteq> RedisKeySenderMaxNonce g"
  using key_text_eq_iff [of "KNonceFix f" "KMaxNonce g"] by simp

lemma resetMaxNonce_view:
  assumes R: "e_redis E = R" and fixed: "fix_count view f (w_redis w) 0"
  shows "fix_count view f (w_redis (resetMaxNonce E f h w)) 0"
proof -
  obtain e s' where d: "DelSenderMaxNonce R (w_redis w) f = (e, s')" by fastforce
  have "fix_count view f s' 0"
    using fixed other_key_del [OF d fix_key_not_max_key] by (simp add: fix_count_def)
  then show ?thesis
    using fixed d by (auto simp: resetMaxNonce_def R split: prod.splits option.splits)
qed

lemma resetMaxNonce_deletes:
  assumes R: "e_redis E = R"
    and "GetSenderMaxNonce R (w_redis w) f = (n, True, None)"
    and "fst (GetNonceOfTxHash R (w_redis w) h) = n"
    and "fst (DelSenderMaxNonce R (w_redis w) f) = None"
  shows "view (w_redis (resetMaxNonce E f h w)) (RedisKeySenderMaxNonce f) = None"
  using Del_applied [of "RedisKeySenderMaxNonce f" "w_redis w"] assms
  by (auto simp: resetMaxNonce_def DelSenderMaxNonce_def applied_def eff_del_def split: prod.splits)

lemma fix_count_Set:
  "SetNonceFixForAccount R s f n = (None, s') \<Longrightarrow> fix_count view f s' n"
  using nonce_fix.view_put [of s f n s'] by (simp add: fix_count_def)

end

text \<open>
  C23: what a failed private transaction leaves behind. When the node knows no receipt, the
  status API reports the transaction as failed, its sender is known and has no nonce fix yet, and
  Redis does not fail, then the node's answer stands, a nonce fix counted from zero is in place
  for the sender, and if the sender's highest nonce was this transaction's, it is forgotten.
\<close>

theorem failed_receipt_sets_fix:
  assumes "redis_service (e_redis E) view elapse"
    and "res_Result res = Some JNull" and "r_params r = JStr h # ps"
    and "GetTxStatus E (ToLower h) w = (Inr api, w1)" and "api_Status api = TxStatusFailed"
    and "GetSenderOfTxHash (e_redis E) (w_redis w1) (ToLower h) = (f, True, None)"
    and "GetNonceFixForAccount (e_redis E) (w_redis w1) f = (x, False, None)"
    and "SetNonceFixForAccount (e_redis E) (w_redis w1) f 0 = (None, s2)"
  shows "\<exists>w'. check_post_getTransactionReceipt E (Some res) r w = (Ret False, w') \<and>
    fix_count view f (w_redis w') 0 \<and>
    (GetSenderMaxNonce (e_redis E) s2 f = (n, True, None) \<and>
     fst (GetNonceOfTxHash (e_redis E) s2 (ToLower h)) = n \<and>
     fst (DelSenderMaxNonce (e_redis E) s2 f) = None \<longrightarrow>
       view (w_redis w') (RedisKeySenderMaxNonce f) = None)"
proof -
  note rs = assms(1)
  let ?w2 = "w1\<lparr>w_redis := s2\<rparr>" and ?w' = "resetMaxNonce E f (ToLower h) (w1\<lparr>w_redis := s2\<rparr>)"
  have e: "ensureAccountFixIsInPlace E (ToLower h) w1 = ?w'"
    by (rule redis_service.ensure_fix [OF rs refl assms(6-8)])
  have "check_post_getTransactionReceipt E (Some res) r w = (Ret False, ?w')"
    using assms(2-5) e by (simp add: check_post_getTransactionReceipt_def)
  moreover have "fix_count view f (w_redis ?w') 0"
    using redis_service.resetMaxNonce_view [OF rs refl, of f ?w2]
      redis_service.fix_count_Set [OF rs assms(8)] by simp
  moreover have "GetSenderMaxNonce (e_redis E) s2 f = (n, True, None) \<and>
      fst (GetNonceOfTxHash (e_redis E) s2 (ToLower h)) = n \<and>
      fst (DelSenderMaxNonce (e_redis E) s2 f) = None \<longrightarrow>
        view (w_redis ?w') (RedisKeySenderMaxNonce f) = None"
    using redis_service.resetMaxNonce_deletes [OF rs refl, of ?w2 f n "ToLower h"] by simp
  ultimately show ?thesis by blast
qed

text \<open>
  A lookup of the transaction's nonce that fails reads as 0, and does match a highest nonce of 0.
\<close>

lemma reset_zero_nonce:
  assumes "GetSenderMaxNonce (e_redis E) (w_redis w) f = (0, True, None)"
    and "GetNonceOfTxHash (e_redis E) (w_redis w) h = (0, found, Some err)"
  shows "w_redis (resetMaxNonce E f h w) = snd (DelSenderMaxNonce (e_redis E) (w_redis w) f)"
  using assms by (simp add: resetMaxNonce_def)

definition ex_failed :: "mem_state World" where
  "ex_failed = ex_world\<lparr>w_redis :=
     snd (SetSenderMaxNonce mem_redis
       (snd (SetSenderAndNonceOfTxHash mem_redis mem_empty ''0xab'' ''0x1'' 5)) ''0x1'' 5 0)\<rparr>"

definition ex_receipt :: RpcRequest where
  "ex_receipt = ex_request ''eth_getTransactionReceipt'' [JStr ''0xAB'']"

theorem failed_receipt_sets_fix_witness:
  "\<exists>w'. check_post_getTransactionReceipt (ex_env_status ''failed'' ''null'')
       (Some (zero_JsonRpcResponse\<lparr>res_Result := Some JNull\<rparr>)) ex_receipt ex_failed = (Ret False, w') \<and>
     fix_count fst ''0x1'' (w_redis w') 0 \<and> fst (w_redis w') (RedisKeySenderMaxNonce ''0x1'') = None"
proof -
  let ?E = "ex_env_status ''failed'' ''null''"
  let ?w1 = "snd (GetTxStatus ?E (ToLower ''0xAB'') ex_failed)"
  let ?set = "SetNonceFixForAccount (e_redis ?E) (w_redis ?w1) ''0x1'' 0"
  have R: "e_redis ?E = mem_redis" by (simp add: ex_env_status_def ex_env_def)
  have rs: "redis_service (e_redis ?E) fst mem_elapse" using R mem.redis_service_axioms by simp
  have ps: "r_params ex_receipt = JStr ''0xAB'' # []" by code_simp
  have "fst (GetTxStatus ?E (ToLower ''0xAB'') ex_failed) =
      Inr \<lparr>api_Status = TxStatusFailed, api_Hash = '''', api_MaxBlockNumber = 0\<rparr>"
    by code_simp
  then have st: "GetTxStatus ?E (ToLower ''0xAB'') ex_failed =
      (Inr \<lparr>api_Status = TxStatusFailed, api_Hash = '''', api_MaxBlockNumber = 0\<rparr>, ?w1)"
    by (metis prod.collapse)
  have sd: "GetSenderOfTxHash (e_redis ?E) (w_redis ?w1) (ToLower ''0xAB'') = (''0x1'', True, None)"
    by code_simp
  have nf: "GetNonceFixForAccount (e_redis ?E) (w_redis ?w1) ''0x1'' = (0, False, None)" by code_simp
  have "fst ?set = None" by code_simp
  then have set: "?set = (None, snd ?set)" by (metis prod.collapse)
  have mx: "GetSenderMaxNonce (e_redis ?E) (snd ?set) ''0x1'' = (5, True, None) \<and>
      fst (GetNonceOfTxHash (e_redis ?E) (snd ?set) (ToLower ''0xAB'')) = 5 \<and>
      fst (DelSenderMaxNonce (e_redis ?E) (snd ?set) ''0x1'') = None"
    by code_simp
  show ?thesis
    using failed_receipt_sets_fix [OF rs _ ps st _ sd nf set,
        of "zero_JsonRpcResponse\<lparr>res_Result := Some JNull\<rparr>" 5] mx by auto
qed

section \<open>Cancelling\<close>


text \<open>Account \<open>0x1\<close> submits \<open>0xAB\<close> and then the cancelling \<open>0xCD\<close>.\<close>

definition ex_sent_world :: "mem_state World" where
  "ex_sent_world = (snd (snd (ProcessRequest ex_env (ex_submit, ex_world))))\<lparr>w_calls := []\<rparr>"

definition ex_cancel_request :: RpcRequest where
  "ex_cancel_request = (ex_request ''eth_sendRawTransaction'' [JStr ''0x02''])\<lparr>r_txFrom := ''0x1''\<rparr>"


end
