(* ===== verification/Signature_Props.thy ===== *)
theory Signature_Props
  imports Handler_Props Intercept_Props
begin

text \<open>
  What the header \<open>X-Flashbots-Signature\<close> decides: who may ask for the nonce of transactions that
  are still private, and what happens to a request with a bad signature.
\<close>

text \<open>
  Specification: the header is \<open>address:signature\<close>, and the signature of the text hash of the
  body's hash recovers to a public key that verifies it and whose address is the one named.
\<close>

definition plain_recovery_id :: "byte list \<Rightarrow> byte list" where
  "plain_recovery_id s = (if last s \<ge> 27 then butlast s @ [last s - 27] else s)"

definition signed_by :: "lib \<Rightarrow> string \<Rightarrow> string \<Rightarrow> address \<Rightarrow> bool" where
  "signed_by L body header x \<longleftrightarrow>
     (\<exists>a s sb pk. Split header (CHR '':'') = [a, s] \<and> hexutil_Decode L s = Inr sb \<and> sb \<noteq> [] \<and>
        crypto_Ecrecover L (crypto_TextHash L (crypto_Keccak256Hex L body)) (plain_recovery_id sb) = Inr pk \<and>
        crypto_UnmarshalPubkeyAddress L pk = Inr x \<and> ToLower (geth_Hex L x) = ToLower a \<and>
        crypto_VerifySignature L pk (crypto_TextHash L (crypto_Keccak256Hex L body))
          (butlast (plain_recovery_id sb)))"

lemma VerifySignature_iff:
  "VerifySignature L body a s = Inr v \<longleftrightarrow>
     (\<exists>sb pk x. hexutil_Decode L s = Inr sb \<and> sb \<noteq> [] \<and>
        crypto_Ecrecover L (crypto_TextHash L (crypto_Keccak256Hex L body)) (plain_recovery_id sb) = Inr pk \<and>
        crypto_UnmarshalPubkeyAddress L pk = Inr x \<and> ToLower (geth_Hex L x) = ToLower a \<and>
        crypto_VerifySignature L pk (crypto_TextHash L (crypto_Keccak256Hex L body))
          (butlast (plain_recovery_id sb)) \<and> v = geth_Hex L x)"
  by (auto simp: VerifySignature_def plain_recovery_id_def EqualFold_def Let_def
      split: sum.splits if_splits)

lemma ParseSignature_iff:
  assumes "header \<noteq> ''''"
  shows "ParseSignature L header body = Inr v \<longleftrightarrow> (\<exists>x. signed_by L body header x \<and> v = geth_Hex L x)"
  using assms
  by (cases "Split header (CHR '':'')" rule: remdups_adj.cases)
    (auto simp: ParseSignature_def signed_by_def VerifySignature_iff split: list.splits)

lemma ParseSignature_given: "header \<noteq> '''' \<Longrightarrow> ParseSignature L header body \<noteq> Inl ErrNoSignature"
  by (auto simp: ParseSignature_def VerifySignature_def Let_def split: list.splits sum.splits if_splits)

lemma signature_checked:
  assumes "header \<noteq> ''''"
  shows "(\<exists>x. signed_by L body header x \<and> CheckFlashbotsSignature L header body r =
            (None, r\<lparr>r_flashbotsSigningAddress := geth_Hex L x\<rparr>)) \<or>
         (\<nexists>x. signed_by L body header x) \<and>
            (\<exists>d. CheckFlashbotsSignature L header body r = (Some (ErrInvalidSignature d), r))"
proof (cases "ParseSignature L header body")
  case (Inl e)
  then have "e \<noteq> ErrNoSignature" using ParseSignature_given [OF assms] by auto
  moreover have "\<not> signed_by L body header x" for x
  proof
    assume "signed_by L body header x"
    then have "ParseSignature L header body = Inr (geth_Hex L x)"
      using ParseSignature_iff [OF assms, of L body "geth_Hex L x"] by blast
    with Inl show False by simp
  qed
  moreover obtain d where "e = ErrInvalidSignature d" using calculation(1) by (cases e) simp_all
  then have "CheckFlashbotsSignature L header body r = (Some (ErrInvalidSignature d), r)"
    using Inl assms by (simp add: CheckFlashbotsSignature_def)
  ultimately show ?thesis by blast
next
  case (Inr v)
  then obtain x where "signed_by L body header x" "v = geth_Hex L x"
    using ParseSignature_iff [OF assms, of L body v] by blast
  moreover have "CheckFlashbotsSignature L header body r = (None, r\<lparr>r_flashbotsSigningAddress := v\<rparr>)"
    using Inr assms by (simp add: CheckFlashbotsSignature_def)
  ultimately show ?thesis by blast
qed

section \<open>Pending nonces\<close>

text \<open>
  C12: pending nonces are private. A transaction count is answered with the help of the nonce kept
  for an account only if the request asks for the pending count of that account and the body of
  the request is signed by it. Without a signature the nonce kept is not even read.
\<close>

theorem pending_nonce_private:
  assumes "CheckFlashbotsSignature (e_lib E) header body r = (None, r1)"
    and "r_flashbotsSigningAddress r = ''''"
    and "intercept_signed_eth_getTransactionCount E r1 w \<noteq> (False, r1, w)"
  shows "\<exists>x a. signed_by (e_lib E) body header x \<and> r_params r = [JStr a, JStr ''pending''] \<and>
    ToLower a = ToLower (geth_Hex (e_lib E) x)"
proof -
  obtain addr where addr: "signed_count_address r1 = Some addr"
    using assms(3) by (auto simp: intercept_signed_eth_getTransactionCount_def split: option.splits)
  then have s1: "r_flashbotsSigningAddress r1 \<noteq> ''''"
    by (auto simp: signed_count_address_def)
  have "header \<noteq> ''''"
    using assms(1,2) s1 by (auto simp: CheckFlashbotsSignature_def)
  then obtain x where x: "signed_by (e_lib E) body header x"
      "r1 = r\<lparr>r_flashbotsSigningAddress := geth_Hex (e_lib E) x\<rparr>"
    using signature_checked [of header "e_lib E" body r] assms(1) by auto
  have ps: "r_params r1 = r_params r" using x(2) by (simp add: r_params_def)
  obtain a where "r_params r1 = [JStr a, JStr ''pending'']" "ToLower a = ToLower (geth_Hex (e_lib E) x)"
    using addr x(2) by (auto simp: signed_count_address_def split: if_splits list.splits json.splits)
  with ps x(1) show ?thesis by metis
qed

text \<open>A library in which every signature is one of account \<open>0x1\<close>.\<close>

definition ex_sig_lib :: lib where
  "ex_sig_lib = ex_http_lib\<lparr>hexutil_Decode := (\<lambda>s. if s = ''0xff'' then Inr [7, 28] else Inl ''invalid hex''),
     crypto_Ecrecover := (\<lambda>_ s. if s = [7, 1] then Inr [4] else Inl ''invalid signature''),
     crypto_UnmarshalPubkeyAddress := (\<lambda>_. Inr 1), crypto_VerifySignature := (\<lambda>_ _ s. s = [7])\<rparr>"

definition ex_sig_env :: "mem_state Env" where
  "ex_sig_env = ex_env\<lparr>e_lib := ex_sig_lib\<rparr>"

definition ex_count_request :: RpcRequest where
  "ex_count_request = ex_request ''eth_getTransactionCount'' [JStr ''0x1'', JStr ''pending'']"

theorem pending_nonce_private_witness:
  "\<exists>x a. signed_by ex_sig_lib ''nonce'' ''0x1:0xff'' x \<and>
     r_params ex_count_request = [JStr a, JStr ''pending''] \<and> ToLower a = ToLower (geth_Hex ex_sig_lib x)"
proof -
  obtain r1 where c: "CheckFlashbotsSignature (e_lib ex_sig_env) ''0x1:0xff'' ''nonce'' ex_count_request
      = (None, r1)"
    and r1: "r1 = ex_count_request\<lparr>r_flashbotsSigningAddress := ''0x1''\<rparr>"
    by (rule that [of "ex_count_request\<lparr>r_flashbotsSigningAddress := ''0x1''\<rparr>"]) code_simp+
  have "fst (intercept_signed_eth_getTransactionCount ex_sig_env
      (ex_count_request\<lparr>r_flashbotsSigningAddress := ''0x1''\<rparr>) ex_cached)"
    by code_simp
  then have "intercept_signed_eth_getTransactionCount ex_sig_env r1 ex_cached \<noteq> (False, r1, ex_cached)"
    using r1 by auto
  moreover have "r_flashbotsSigningAddress ex_count_request = ''''" "e_lib ex_sig_env = ex_sig_lib"
    by (code_simp, simp add: ex_sig_env_def)
  ultimately show ?thesis using pending_nonce_private [OF c] by simp
qed

section \<open>Bad signatures\<close>

text \<open>
  C13: a request whose signature header is not a signature of its body is refused. Whatever it asks
  for, it is answered with a JSON-RPC error of code -32600 and its own id; no call is made to
  anyone, and neither Redis nor the cache is touched.
\<close>

theorem invalid_signature_refused:
  assumes "process E h w = (out, h', w')"
    and "in_Body (h_req h) = Inr body" "body \<noteq> ''''"
    and "json_Unmarshal (e_lib E) unmarshal_request_ptr body = Some (Some j)"
    and "in_Header (h_req h) ''X-Flashbots-Signature'' \<noteq> ''''"
    and "\<nexists>x. signed_by (e_lib E) body (in_Header (h_req h) ''X-Flashbots-Signature'') x"
  shows "out = Ret () \<and> quiet w w' \<and>
    (\<exists>m. h_respw h' = writeRpcResponse (e_lib E)
       (Some \<lparr>res_Id = req_Id j, res_Result = None,
          res_Error = Some \<lparr>err_Code = JsonRpcInvalidRequest, err_Message = m\<rparr>, res_Version = ''2.0''\<rparr>)
       (h_respw h))"
  using assms(1)
proof (cases rule: process_cases)
  case (bad h1)
  then show ?thesis using assms(2-4) by (simp add: bad_body_def)
next
  case (nil body' h1)
  then show ?thesis using assms(2-4) by simp
next
  case (refused body' j' err h1)
  then show ?thesis
    using assms(2-4) prepared_simps [OF refused(6)]
    by (auto simp: AuctionPreferenceErrorToJSONRPCResponse_def)
next
  case (run body' j' p client h1 w1 h2)
  note h1 = prepared_simps [OF run(4)]
  have j: "j' = j" "body' = body" using run(1,3) assms(2,4) by auto
  let ?r = "rpc_request h1 client j (Values_Get (URL_Query (in_URL (h_req h1))) ''bundle'' \<noteq> '''')
      (Values_Get (URL_Query (in_URL (h_req h1))) ''bundle'') p"
  obtain d where "CheckFlashbotsSignature (e_lib E) (in_Header (h_req h1) ''X-Flashbots-Signature'')
      body ?r = (Some (ErrInvalidSignature d), ?r)"
    using signature_checked [of "in_Header (h_req h) ''X-Flashbots-Signature''" "e_lib E" body ?r]
      assms(5,6) h1(2) by auto
  then have "out = Ret ()" "w' = w1" "h_respw h2 = writeRpcResponse (e_lib E) (r_jsonRes
      (writeRpcError (sig_error_text (ErrInvalidSignature d)) JsonRpcInvalidRequest ?r)) (h_respw h1)"
    using run(7) j by (auto simp: processRequest_eq Let_def set_record_def)
  then show ?thesis using run(6,8) h1(1) by (auto simp: writeRpcError_def)
qed

definition ex_sig_post :: "string \<Rightarrow> RpcRequestHandler" where
  "ex_sig_post header = (ex_handler ''send'')\<lparr>h_req := (ex_post ''send'')\<lparr>in_Header :=
     (\<lambda>k. if k = ''X-Flashbots-Signature'' then header else '''')\<rparr>\<rparr>"

theorem invalid_signature_refused_witness:
  "fst (process ex_sig_env (ex_sig_post ''0x2:0xff'') ex_world) = Ret () \<and>
   quiet ex_world (snd (snd (process ex_sig_env (ex_sig_post ''0x2:0xff'') ex_world)))"
proof -
  obtain out h' w' where p: "process ex_sig_env (ex_sig_post ''0x2:0xff'') ex_world = (out, h', w')"
    by (cases "process ex_sig_env (ex_sig_post ''0x2:0xff'') ex_world")
  have b: "in_Body (h_req (ex_sig_post ''0x2:0xff'')) = Inr ''send''"
    by (simp add: ex_sig_post_def ex_post_def)
  obtain j where j: "json_Unmarshal (e_lib ex_sig_env) unmarshal_request_ptr ''send'' = Some (Some j)"
    by (rule that) code_simp
  have hd: "in_Header (h_req (ex_sig_post ''0x2:0xff'')) ''X-Flashbots-Signature'' = ''0x2:0xff''"
    by (simp add: ex_sig_post_def)
  have "ParseSignature (e_lib ex_sig_env) ''0x2:0xff'' ''send'' =
      Inl (ErrInvalidSignature '': signing address mismatch'')"
    by code_simp
  then have n: "\<nexists>x. signed_by (e_lib ex_sig_env) ''send'' ''0x2:0xff'' x"
    using ParseSignature_iff [of "''0x2:0xff''" "e_lib ex_sig_env" "''send''"] by auto
  show ?thesis
    using invalid_signature_refused [OF p b _ j] hd n p by auto
qed

end
