(* ===== verification/Refund_Props.thy ===== *)
theory Refund_Props
  imports Handler_Props Url_Props
begin

text \<open>
  From the URL to the relay: the refunds a transaction is sent with, over the parsing of the URL,
  the presets of the configuration, the request and the submission.
\<close>

section \<open>The parameters a request is run with\<close>

lemma parse_ranges: "parseURLToParameters L iter raw = Inr p \<Longrightarrow> ranges_ok p"
  by (auto simp: parseURLToParameters_def dest: extract_ranges split: sum.splits)

lemma preset_ranges:
  assumes "NewConfigurationWatcher L iter cfg = Inr wt" "map_of (ParsedPresets wt) i = Some p"
  shows "ranges_ok p"
proof -
  have "(i, p) \<in> set (parse_presets L iter (Presets cfg))"
    using assms map_of_SomeD by (fastforce simp: NewConfigurationWatcher_def split: sum.splits)
  then show ?thesis
    by (auto simp: parse_presets_def map_filter_def dest: parse_ranges split: sum.splits)
qed

text \<open>A handler without a configuration, or with one that was read from customer URLs and presets.\<close>

definition configured :: "lib \<Rightarrow> RpcRequestHandler \<Rightarrow> bool" where
  "configured L h \<longleftrightarrow>
     (\<forall>wt. h_configurationWatcher h = Some wt \<longrightarrow> (\<exists>iter cfg. NewConfigurationWatcher L iter cfg = Inr wt))"

lemma effective_ranges:
  assumes "configured L h" "getEffectiveParameters L h = Inr p"
  shows "ranges_ok p"
  using assms preset_ranges extract_ranges
  by (fastforce simp: getEffectiveParameters_def configured_def Let_def split: sum.splits option.splits)

section \<open>The parameters a transaction is sent with\<close>

text \<open>A request that differs in what has no influence on the refunds.\<close>

definition same_refund :: "RpcRequest \<Rightarrow> RpcRequest \<Rightarrow> bool" where
  "same_refund r r' \<longleftrightarrow> Validity (pref (r_urlParams r')) = Validity (pref (r_urlParams r)) \<and>
     fast (r_urlParams r') = fast (r_urlParams r)"

definition sent_with :: "lib \<Rightarrow> RpcRequest \<Rightarrow> SendPrivateTxRequestWithPreferences \<Rightarrow> bool" where
  "sent_with L r args \<longleftrightarrow>
     (\<exists>t r1. same_refund r r1 \<and> GetTx L (priv_Tx args) = Inr t \<and> GetSenderFromRawTx L t = Inr (r_txFrom r1) \<and>
        Refund (Validity (priv_Preferences args)) = sent_refund L t r1)"

lemma sent_with_same: "same_refund r r1 \<Longrightarrow> sent_with L r1 a \<Longrightarrow> sent_with L r a"
  by (auto simp: sent_with_def same_refund_def)

lemma raw_sent_with:
  assumes "handle_sendRawTransaction E (r, w) = (out, (r', w'))"
    and "relay_calls w' = CallRelay u k (RelaySendPrivateTx a hs) # relay_calls w"
  shows "sent_with (e_lib E) r a"
  using assms(1)
proof (cases rule: handle_raw_cases)
  case early
  then show ?thesis using assms(2) by simp
next
  case (submit raw t sndr)
  let ?r1 = "submitted (e_lib E) raw t sndr r"
  have "Refund (Validity (priv_Preferences a)) = sent_refund (e_lib E) t ?r1" "priv_Tx a = raw"
    using submit_tx_gate [OF submit(3)] assms(2) submitted_entry(2) [of "e_lib E" raw t sndr r]
    by (auto simp: one_relay_call_def sent_request_def sent_preferences_def Let_def)
  moreover have "same_refund r ?r1" "r_txFrom ?r1 = sndr"
    by (simp_all add: same_refund_def submitted_def record_tx_def)
  ultimately show ?thesis
    unfolding sent_with_def using submit(1,2) by (intro exI [of _ t] exI [of _ ?r1]) simp
qed

lemma private_sent_with:
  assumes "handle_sendPrivateTransaction E (r, w) = (out, (r', w'))"
    and "relay_calls w' = CallRelay u k (RelaySendPrivateTx a hs) # relay_calls w"
  shows "sent_with (e_lib E) r a"
proof -
  obtain r1 where c: "and_then (stage_max_block (e_lib E) r) stage_fast = Continue r1"
    and h: "handle_sendRawTransaction E (r1, w) = (out, (r', w'))"
    using assms by (auto simp: handle_sendPrivateTransaction_def split: flow.splits)
  have "same_refund r r1"
    using c by (auto simp: stage_max_block_def stage_fast_def same_refund_def
        split: json.splits sum.splits if_splits)
  then show ?thesis using raw_sent_with [OF h assms(2)] by (rule sent_with_same)
qed

lemma ProcessRequest_sent_with:
  assumes "ProcessRequest E (r, w) = (out, (r', w'))"
    and "relay_calls w' = CallRelay u k (RelaySendPrivateTx a hs) # relay_calls w"
  shows "sent_with (e_lib E) r a"
proof -
  let ?r1 = "upd_entry (\<lambda>e. e\<lparr>WhiteHatBundleId := r_whitehatBundleId r\<rparr>) r"
  define h where "h = (if req_Method (r_jsonReq r) = ''eth_sendRawTransaction''
    then handle_sendRawTransaction E else handle_sendPrivateTransaction E)"
  have "req_Method (r_jsonReq r) \<in> {''eth_sendRawTransaction'', ''eth_sendPrivateTransaction''}"
    using relay_calls_other [of "(r, w)" E] assms by auto
  then have d: "ProcessRequest E (r, w) = submit_method h (r, w)"
    by (auto simp: ProcessRequest_def logRequest_def dispatch_def h_def)
  have "w' \<noteq> w" using assms(2) by auto
  then obtain out1 where o: "h (?r1, w) = (out1, (r', w'))"
    using submit_method_world [of h r w out r' w'] d assms(1) by auto
  have "sent_with (e_lib E) ?r1 a"
    using raw_sent_with [of E ?r1 w out1 r' w'] private_sent_with [of E ?r1 w out1 r' w'] o assms(2)
    by (simp add: h_def split: if_splits)
  then show ?thesis by (rule sent_with_same [rotated]) (simp add: same_refund_def)
qed

lemma processRequest_sent_with:
  assumes "processRequest E h client j wb i p body w = (out, h', w')"
    and "relay_calls w' = CallRelay u k (RelaySendPrivateTx a hs) # relay_calls w"
  shows "sent_with (e_lib E) (rpc_request h client j wb i p) a"
proof -
  let ?r = "rpc_request h client j wb i p"
  obtain err r1 where c: "CheckFlashbotsSignature (e_lib E)
      (in_Header (h_req h) ''X-Flashbots-Signature'') body ?r = (err, r1)" by fastforce
  obtain out0 r2 w2 where p: "ProcessRequest E (r1, w) = (out0, (r2, w2))"
    by (cases "ProcessRequest E (r1, w)") auto
  have "err = None" "w' = w2"
    using assms c p by (auto simp: processRequest_eq Let_def split: option.splits go.splits)
  then have "sent_with (e_lib E) r1 a" using ProcessRequest_sent_with [OF p] assms(2) by simp
  then show ?thesis
    using signature_keeps [OF c] by (intro sent_with_same [of ?r r1]) (simp_all add: same_refund_def)
qed

lemma replaceZero_percents: "map refund_Percent (replaceZeroRefund l a) = map refund_Percent l"
  by (induction l) (simp_all add: replaceZeroRefund_def)

lemma refunds_ok_percents:
  "refunds_ok l \<longleftrightarrow> list_all (\<lambda>p. 0 < p \<and> p < 100) (map refund_Percent l) \<and> sum_list (map refund_Percent l) \<le> 100"
  by (auto simp: refunds_ok_def total_refund_def list_all_iff)

lemma refunds_ok_replaceZero: "refunds_ok (replaceZeroRefund l a) \<longleftrightarrow> refunds_ok l"
  by (simp only: refunds_ok_percents replaceZero_percents)

lemma refunds_ok_half: "refunds_ok [\<lparr>refund_Address = a, refund_Percent = 50\<rparr>]"
  by (simp add: refunds_ok_def total_refund_def)

lemma sent_refund_ok:
  assumes "refunds_ok (Refund (Validity (pref (r_urlParams r))))"
  shows "refunds_ok (sent_refund L t r)"
  using assms by (simp add: sent_refund_def refunds_ok_replaceZero refunds_ok_half Let_def split: sum.splits)

lemma replaceZero_zero:
  "rf \<in> set (replaceZeroRefund l a) \<Longrightarrow> refund_Address rf = 0 \<Longrightarrow> a = 0"
  unfolding replaceZeroRefund_def by (induction l) (fastforce split: if_splits)+

lemma sent_refund_zero:
  assumes "rf \<in> set (sent_refund L t r)" "refund_Address rf = 0"
  shows "geth_HexToAddress L (r_txFrom r) = 0 \<or> geth_Sender L t = Inr 0"
proof (cases "Refund (Validity (pref (r_urlParams r))) = []")
  case True
  then show ?thesis
    using assms by (cases "geth_Sender L t"; cases "fast (r_urlParams r)") (simp_all add: sent_refund_def)
next
  case False
  then show ?thesis using assms replaceZero_zero by (auto simp: sent_refund_def)
qed


definition ex_refund_handler :: RpcRequestHandler where
  "ex_refund_handler = (ex_handler ''send'')\<lparr>h_req := (ex_post ''send'')\<lparr>in_URL :=
     \<lparr>url_Scheme = '''', url_Path = ''/'', url_RawQuery = ''refund=origin:30'', url_Rest = ''''\<rparr>\<rparr>\<rparr>"


end
