(* ===== verification/Race_Props.thy ===== *)
theory Race_Props
  imports Intercept_Props
begin

text \<open>
  Submissions that run at the same time. \<open>net/http\<close> handles each request in a goroutine of its own,
  and the requests share Redis and the relay without a lock. Here every stage of \<open>sendTxToRelay\<close> is one
  step, and the steps of any number of submissions interleave; between steps the clock and Redis may
  change in any way, by goroutines, other processes of the service or expiry.
\<close>

section \<open>Submissions as tasks\<close>

text \<open>A request with the stages it has still to go through; none are left when it has returned.\<close>

type_synonym 'r task = "RpcRequest \<times> ('r rw \<Rightarrow> 'r rw flow) list"

definition submission :: "'r Env \<Rightarrow> eth_tx \<Rightarrow> RpcRequest \<Rightarrow> 'r task" where
  "submission E t r = (r, relay_stages E t (ToLower (eth_HashHex t)))"

fun task_step :: "'r task \<Rightarrow> 'r World \<Rightarrow> 'r task \<times> 'r World" where
  "task_step (r, []) w = ((r, []), w)"
| "task_step (r, f # fs) w =
     (case f (r, w) of
        Return (r', w') \<Rightarrow> ((r', []), w')
      | Continue (r', w') \<Rightarrow> ((r', fs), w'))"

inductive interleaved ::
    "'r task list \<Rightarrow> 'r World \<Rightarrow> 'r task list \<Rightarrow> 'r World \<Rightarrow> bool" for ts w where
  at_start: "interleaved ts w ts w"
| step: "interleaved ts w us v \<Longrightarrow> i < length us \<Longrightarrow> task_step (us ! i) v = (u, v') \<Longrightarrow>
    interleaved ts w (us[i := u]) v'"
| others: "interleaved ts w us v \<Longrightarrow> interleaved ts w us (v\<lparr>w_now := n, w_redis := d\<rparr>)"

text \<open>A task that runs alone does what \<open>sendTxToRelay\<close> does.\<close>

fun run_task :: "nat \<Rightarrow> 'r task \<Rightarrow> 'r World \<Rightarrow> 'r task \<times> 'r World" where
  "run_task 0 u w = (u, w)"
| "run_task (Suc n) u w = (case task_step u w of (u', w') \<Rightarrow> run_task n u' w')"

lemma run_task_done: "run_task n (r, []) w = ((r, []), w)"
  by (induction n) simp_all

lemma run_task_stages:
  "run_task (length fs) (r, fs) w =
     (case final (foldl and_then (Continue (r, w)) fs) of (r', w') \<Rightarrow> ((r', []), w'))"
proof (induction fs arbitrary: r w)
  case (Cons f fs)
  then show ?case by (cases "f (r, w)") (auto simp: run_task_done split: prod.splits)
qed simp

lemma run_submission:
  "run_task (length (snd (submission E t r))) (submission E t r) w =
     (case sendTxToRelay E t (r, w) of (r', w') \<Rightarrow> ((r', []), w'))"
  unfolding submission_def snd_conv run_task_stages by (simp add: sendTxToRelay_def)

section \<open>The contract of a task\<close>

text \<open>Where a task of a submission is: it has returned, or the stages before were passed.\<close>

definition progress :: "'r Env \<Rightarrow> eth_tx \<Rightarrow> RpcRequest \<Rightarrow> 'r task \<Rightarrow> bool" where
  "progress E t r u \<longleftrightarrow> kept r (fst u) \<and>
     (snd u = [] \<or> (\<exists>passed. relay_stages E t (ToLower (eth_HashHex t)) = passed @ snd u \<and>
        (\<forall>f\<in>set passed. \<exists>s s'. f s = Continue s')))"

text \<open>A relay call a submission may make.\<close>

definition own_call :: "'r Env \<Rightarrow> eth_tx \<Rightarrow> RpcRequest \<Rightarrow> ext_call \<Rightarrow> bool" where
  "own_call E t r c \<longleftrightarrow> \<not> DebugDontSendTx E \<and> \<not> large_tx_refused (e_lib E) t \<and>
     (\<exists>args. c = CallRelay (r_relayUrl r) (r_relaySigningKey r) (RelaySendPrivateTx args (relay_headers r)) \<and>
        priv_Tx args = r_rawTxHex r)"

lemma submission_progress: "progress E t r (submission E t r)"
  by (simp add: progress_def submission_def)

lemma call_relay_calls:
  "\<exists>s' args. call_relay E h m (r, w) = Return s' \<and>
     relay_calls (snd s') = CallRelay (r_relayUrl r) (r_relaySigningKey r)
       (RelaySendPrivateTx args (relay_headers r)) # relay_calls w \<and> priv_Tx args = r_rawTxHex r"
  by (auto simp: call_relay_def Let_def split: option.splits relay_err.splits)

lemma stage_send_calls:
  "\<exists>s'. stage_send E h (r, w) = Return s' \<and> (relay_calls (snd s') = relay_calls w \<or>
     (\<exists>args. relay_calls (snd s') = CallRelay (r_relayUrl r) (r_relaySigningKey r)
       (RelaySendPrivateTx args (relay_headers r)) # relay_calls w \<and> priv_Tx args = r_rawTxHex r))"
proof -
  let ?w = "make_call E (CallBlockNumber (r_defaultEthClient r)) w"
  have w: "relay_calls ?w = relay_calls w" by simp
  show ?thesis
    using call_relay_calls [of E h _ r w] call_relay_calls [of E h _ r ?w] w
    by (auto simp: stage_send_def Let_def split: sum.splits) metis+
qed

lemma send_only_last:
  assumes "relay_stages E t h = passed @ f # fs"
  shows "(f = stage_send E h \<and> fs = []) \<or> f \<in> set (relay_prefix E t h) \<and> fs \<noteq> []"
proof (cases "fs = []")
  case True
  then show ?thesis using assms by (auto simp: relay_stages_def)
next
  case False
  then have "relay_prefix E t h = passed @ f # butlast fs"
    using assms by (simp add: relay_prefix_def butlast_append)
  with False show ?thesis by simp
qed

lemma stages_passed:
  assumes "relay_stages E t h = passed @ [stage_send E h]" "\<forall>f\<in>set passed. \<exists>s s'. f s = Continue s'"
  shows "\<not> DebugDontSendTx E \<and> \<not> large_tx_refused (e_lib E) t"
proof -
  have "passed = relay_prefix E t h" using assms(1) by (simp add: relay_prefix_def)
  then have "stage_size E t \<in> set passed" "stage_debug E h \<in> set passed"
    by (simp_all add: relay_prefix_def relay_stages_def)
  then show ?thesis
    using assms(2) by (fastforce simp: stage_size_def stage_debug_def split: if_splits)
qed

lemma task_step_contract:
  assumes p: "progress E t r u" and st: "task_step u w = (u', w')"
  shows "progress E t r u' \<and> (relay_calls w' = relay_calls w \<or>
    (\<exists>c. snd u \<noteq> [] \<and> snd u' = [] \<and> own_call E t r c \<and> relay_calls w' = c # relay_calls w))"
proof (cases "snd u")
  case Nil
  then show ?thesis using assms by (cases u) auto
next
  case (Cons f fs)
  obtain r1 where u: "u = (r1, f # fs)" using Cons by (cases u) auto
  let ?h = "ToLower (eth_HashHex t)"
  obtain passed where k: "kept r r1" and ps: "relay_stages E t ?h = passed @ f # fs"
    "\<forall>g\<in>set passed. \<exists>s s'. g s = Continue s'"
    using p u by (auto simp: progress_def)
  from send_only_last [OF ps(1)] show ?thesis
  proof
    assume "f = stage_send E ?h \<and> fs = []"
    then have f: "f = stage_send E ?h" "fs = []" by auto
    obtain s' where s': "stage_send E ?h (r1, w) = Return s'"
      and c: "relay_calls (snd s') = relay_calls w \<or>
        (\<exists>args. relay_calls (snd s') = CallRelay (r_relayUrl r1) (r_relaySigningKey r1)
          (RelaySendPrivateTx args (relay_headers r1)) # relay_calls w \<and> priv_Tx args = r_rawTxHex r1)"
      using stage_send_calls [of E ?h r1 w] by blast
    have st': "u' = (fst s', [])" "w' = snd s'" using st u f s' by (auto split: prod.splits)
    have "kept r (fst s')"
      using kept_trans [OF k] stage_send_kept [of "(r1, w)" E ?h] s' by simp
    moreover have "\<not> DebugDontSendTx E \<and> \<not> large_tx_refused (e_lib E) t"
      using stages_passed [of E t ?h passed] ps f by simp
    ultimately show ?thesis
      using c st' u kept_fields [OF k] by (auto simp: progress_def own_call_def relay_headers_def)
  next
    assume f: "f \<in> set (relay_prefix E t ?h) \<and> fs \<noteq> []"
    have fk: "kept r1 (fst (final (f (r1, w))))" "relay_calls (snd (final (f (r1, w)))) = relay_calls w"
      using relay_prefix.stage_kept [of f E t ?h "(r1, w)"] relay_prefix.stage_quiet [of f E t ?h "(r1, w)"] f
      by simp_all
    have k': "kept r (fst (final (f (r1, w))))" by (rule kept_trans [OF k fk(1)])
    show ?thesis
    proof (cases "f (r1, w)")
      case (Return s')
      then show ?thesis using st u fk k' by (cases s') (auto simp: progress_def)
    next
      case (Continue s')
      then have "u' = (fst s', fs)" "w' = snd s'" using st u by (auto split: prod.splits)
      moreover have "\<exists>ps'. relay_stages E t ?h = ps' @ fs \<and> (\<forall>g\<in>set ps'. \<exists>s s'. g s = Continue s')"
        using ps Continue by (intro exI [of _ "passed @ [f]"]) (auto simp del: split_paired_Ex)
      ultimately show ?thesis using Continue fk k' by (auto simp: progress_def)
    qed
  qed
qed

section \<open>All interleavings\<close>

text \<open>A pool of submissions, and the calls they have made.\<close>

definition made_by :: "'r Env \<Rightarrow> (eth_tx \<times> RpcRequest) list \<Rightarrow> 'r task list \<Rightarrow> nat \<Rightarrow> ext_call \<Rightarrow> bool" where
  "made_by E subs us i c \<longleftrightarrow> i < length subs \<and> snd (us ! i) = [] \<and> own_call E (fst (subs ! i)) (snd (subs ! i)) c"

definition in_progress :: "'r Env \<Rightarrow> (eth_tx \<times> RpcRequest) list \<Rightarrow> 'r task list \<Rightarrow> bool" where
  "in_progress E subs us \<longleftrightarrow> length us = length subs \<and>
     (\<forall>i<length subs. progress E (fst (subs ! i)) (snd (subs ! i)) (us ! i))"

definition calls_made ::
    "'r Env \<Rightarrow> (eth_tx \<times> RpcRequest) list \<Rightarrow> 'r World \<Rightarrow> 'r task list \<Rightarrow> 'r World \<Rightarrow> bool" where
  "calls_made E subs w us v \<longleftrightarrow>
     (\<exists>sent cs. relay_calls v = cs @ relay_calls w \<and> distinct sent \<and> list_all2 (made_by E subs us) sent cs)"

lemma pool_start: "in_progress E subs (map (\<lambda>(t, r). submission E t r) subs)" "calls_made E subs w us w"
proof -
  show "in_progress E subs (map (\<lambda>(t, r). submission E t r) subs)"
    by (auto simp: in_progress_def submission_progress case_prod_beta)
  show "calls_made E subs w us w"
    unfolding calls_made_def by (intro exI [of _ "[]"]) simp
qed

lemma in_progress_step:
  assumes "in_progress E subs us" "i < length us" "task_step (us ! i) v = (u, v')"
  shows "in_progress E subs (us[i := u])"
  unfolding in_progress_def
proof (intro conjI allI impI)
  fix j assume "j < length subs"
  then show "progress E (fst (subs ! j)) (snd (subs ! j)) (us[i := u] ! j)"
    using assms task_step_contract [OF _ assms(3)]
    by (cases "j = i") (simp_all add: in_progress_def)
qed (use assms in \<open>simp add: in_progress_def\<close>)

lemma made_by_step:
  assumes "made_by E subs us j c" "length us = length subs" "task_step (us ! i) v = (u, v')"
  shows "made_by E subs (us[i := u]) j c"
proof -
  have "snd u = []" if "snd (us ! i) = []"
    using assms(3) that by (metis prod.collapse prod.inject task_step.simps(1))
  then show ?thesis using assms(1,2) by (cases "i = j") (auto simp: made_by_def)
qed

lemma calls_made_step:
  assumes p: "in_progress E subs us" and c: "calls_made E subs w us v"
    and i: "i < length us" and st: "task_step (us ! i) v = (u, v')"
  shows "calls_made E subs w (us[i := u]) v'"
proof -
  have len: "length us = length subs" and pi: "progress E (fst (subs ! i)) (snd (subs ! i)) (us ! i)"
    using p i by (auto simp: in_progress_def)
  obtain sent cs where sc: "relay_calls v = cs @ relay_calls w" "distinct sent" "list_all2 (made_by E subs us) sent cs"
    using c by (auto simp: calls_made_def)
  have keep: "list_all2 (made_by E subs (us[i := u])) sent cs"
    using list_all2_mono [OF sc(3)] made_by_step [OF _ len st] by blast
  from task_step_contract [OF pi st] consider "relay_calls v' = relay_calls v"
    | x where "snd (us ! i) \<noteq> []" "snd u = []" "own_call E (fst (subs ! i)) (snd (subs ! i)) x"
        "relay_calls v' = x # relay_calls v"
    by blast
  then show ?thesis
  proof cases
    case 1
    then show ?thesis using sc keep by (auto simp: calls_made_def)
  next
    case (2 x)
    have "i \<notin> set sent"
      using sc(3) 2(1) by (auto simp: list_all2_conv_all_nth in_set_conv_nth made_by_def)
    moreover have "made_by E subs (us[i := u]) i x" using 2(2,3) i len by (simp add: made_by_def)
    ultimately show ?thesis
      unfolding calls_made_def using sc 2(4) keep by (intro exI [of _ "i # sent"] exI [of _ "x # cs"]) simp
  qed
qed

text \<open>
  C8: submissions at the same time. In every interleaving of any number of submissions, with
  anything happening to Redis and the clock in between, the calls made to the relay are calls of
  different submissions that have returned: each submission makes at most one, with its own
  raw transaction, relay, key and origin, and none for a transaction that is too large or in
  debug mode.
\<close>

theorem concurrent_submissions:
  assumes "interleaved (map (\<lambda>(t, r). submission E t r) subs) w us v"
  shows "\<exists>sent cs. relay_calls v = cs @ relay_calls w \<and> distinct sent \<and>
    list_all2 (\<lambda>i c. i < length subs \<and> snd (us ! i) = [] \<and> own_call E (fst (subs ! i)) (snd (subs ! i)) c) sent cs"
proof -
  have "in_progress E subs us \<and> calls_made E subs w us v"
    using assms
  proof (induction rule: interleaved.induct)
    case at_start
    show ?case using pool_start by blast
  next
    case (step us v i u v')
    then show ?case using in_progress_step calls_made_step by blast
  next
    case (others us v n d)
    then show ?case by (simp add: calls_made_def relay_calls_def)
  qed
  then show ?thesis by (simp add: calls_made_def made_by_def [abs_def])
qed

section \<open>Two races\<close>

text \<open>
  The check whether a transaction was sent and the mark that it was are two stages: of two submissions
  of one transaction that both check before one of them marks, both go to the relay.
\<close>

definition ex_twice :: "(eth_tx \<times> RpcRequest) list" where
  "ex_twice = [(ex_tx, ex_submit), (ex_tx, ex_submit)]"

fun run_schedule :: "nat list \<Rightarrow> 'r task list \<Rightarrow> 'r World \<Rightarrow> 'r task list \<times> 'r World" where
  "run_schedule [] us v = (us, v)"
| "run_schedule (i # is) us v =
     (if i < length us then (case task_step (us ! i) v of (u, v') \<Rightarrow> run_schedule is (us[i := u]) v')
      else run_schedule is us v)"

lemma run_schedule_interleaved:
  "interleaved ts w us v \<Longrightarrow> run_schedule is us v = (us', v') \<Longrightarrow> interleaved ts w us' v'"
proof (induction "is" us v rule: run_schedule.induct)
  case (2 i js us v)
  then show ?case by (auto split: if_splits prod.splits intro: interleaved.step)
qed simp

definition ex_schedule :: "nat list" where
  "ex_schedule = 0 # 1 # replicate 9 0 @ replicate 9 1"

definition ex_raced :: "mem_state task list \<times> mem_state World" where
  "ex_raced = run_schedule ex_schedule (map (\<lambda>(t, r). submission ex_env t r) ex_twice) ex_world"

lemma resubmission_race:
  "interleaved (map (\<lambda>(t, r). submission ex_env t r) ex_twice) ex_world (fst ex_raced) (snd ex_raced)"
  "length (relay_calls (snd ex_raced)) = 2"
proof -
  show "interleaved (map (\<lambda>(t, r). submission ex_env t r) ex_twice) ex_world (fst ex_raced) (snd ex_raced)"
    by (rule run_schedule_interleaved [OF interleaved.at_start, of ex_schedule]) (simp add: ex_raced_def)
  show "length (relay_calls (snd ex_raced)) = 2" by code_simp
qed

theorem concurrent_submissions_witness:
  "\<exists>us v sent cs. interleaved (map (\<lambda>(t, r). submission ex_env t r) ex_twice) ex_world us v \<and>
     relay_calls v = cs @ relay_calls ex_world \<and> distinct sent \<and> length sent = 2 \<and>
     list_all2 (\<lambda>i c. i < length ex_twice \<and> snd (us ! i) = [] \<and>
       own_call ex_env (fst (ex_twice ! i)) (snd (ex_twice ! i)) c) sent cs"
proof -
  have w: "relay_calls ex_world = []" by code_simp
  obtain sent cs where s: "relay_calls (snd ex_raced) = cs @ relay_calls ex_world" "distinct sent"
    "list_all2 (\<lambda>i c. i < length ex_twice \<and> snd (fst ex_raced ! i) = [] \<and>
       own_call ex_env (fst (ex_twice ! i)) (snd (ex_twice ! i)) c) sent cs"
    using concurrent_submissions [OF resubmission_race(1)] by blast
  moreover have "length sent = 2"
    using s(1) resubmission_race(2) w list_all2_lengthD [OF s(3)] by simp
  ultimately show ?thesis using resubmission_race(1) by blast
qed

text \<open>
  The same with the highest nonce of a sender: \<open>SetSenderMaxNonce\<close> reads it and then writes. The
  two halves in one go are the operation; apart, a write of the smaller nonce can come last.
\<close>

definition reads_lower :: "'r redis_client \<Rightarrow> 'r \<Rightarrow> string \<Rightarrow> u64 \<Rightarrow> bool" where
  "reads_lower R s txFrom nonce =
     (case GetSenderMaxNonce R s txFrom of
        (_, _, Some _) \<Rightarrow> False
      | (prevMaxNonce, found, None) \<Rightarrow> \<not> (found \<and> prevMaxNonce \<ge> nonce))"

definition writes_nonce :: "'r redis_client \<Rightarrow> 'r \<Rightarrow> string \<Rightarrow> u64 \<Rightarrow> int \<Rightarrow> 'r" where
  "writes_nonce R s txFrom nonce br =
     snd (redis_Set R s (RedisKeySenderMaxNonce txFrom) (ArgUint nonce) (max_nonce_expiry br))"

lemma SetSenderMaxNonce_halves:
  "snd (SetSenderMaxNonce R s f n b) = (if reads_lower R s f n then writes_nonce R s f n b else s)"
  by (auto simp: SetSenderMaxNonce_def reads_lower_def writes_nonce_def split: prod.splits option.splits)

lemma max_nonce_race:
  "reads_lower mem_redis mem_empty ''0x1'' 5 \<and> reads_lower mem_redis mem_empty ''0x1'' 7 \<and>
   fst (GetSenderMaxNonce mem_redis
     (writes_nonce mem_redis (writes_nonce mem_redis mem_empty ''0x1'' 7 0) ''0x1'' 5 0) ''0x1'') = 5"
  by code_simp

end
