(* ===== verification/Http_Std.thy ===== *)
theory Http_Std
  imports Request_Handler
begin

text \<open>
  What \<open>src/server/server.go\<close> uses of Go's standard library beside the response writer of
  \<^theory_text>\<open>Request_Handler\<close>: the routing of \<open>http.ServeMux\<close>, \<open>http.Redirect\<close>, \<open>http.Error\<close> and the JSON form of
  \<open>time.Time\<close>.
\<close>

section \<open>ServeMux\<close>

text \<open>
  Before it looks for a pattern, the mux cleans the path: empty and \<open>.\<close> elements go, and \<open>..\<close>
  takes the element before it away. The path is the text of the request line; a path with percent
  escapes, which the mux compares in another form, is outside of this model.
\<close>

fun clean_elems :: "string list \<Rightarrow> string list \<Rightarrow> string list" where
  "clean_elems acc [] = rev acc"
| "clean_elems acc (e # es) =
     (if e = '''' \<or> e = ''.'' then clean_elems acc es
      else if e = ''..'' then clean_elems (tl acc) es
      else clean_elems (e # acc) es)"

definition path_Clean :: "string \<Rightarrow> string" where
  "path_Clean p =
     (case clean_elems [] (Split p (CHR ''/'')) of
        [] \<Rightarrow> ''/''
      | es \<Rightarrow> concat (map (\<lambda>e. ''/'' @ e) es))"

definition cleanPath :: "string \<Rightarrow> string" where
  "cleanPath p0 =
     (if p0 = '''' then ''/''
      else let p = (if hd p0 \<noteq> CHR ''/'' then ''/'' @ p0 else p0); np = path_Clean p
           in if last p = CHR ''/'' \<and> np \<noteq> ''/'' then np @ ''/'' else np)"

text \<open>
  Where a request goes, given the patterns registered beside \<open>/\<close>: a pattern without a final slash
  matches its path only, \<open>/\<close> matches every path.
\<close>

datatype mux_target = MuxBadRequest | MuxRedirect string | MuxHandler string

definition mux_target :: "string list \<Rightarrow> in_request \<Rightarrow> mux_target" where
  "mux_target patterns q =
     (let p = url_Path (in_URL q);
          path = (if in_Method q = ''CONNECT'' then p else cleanPath p)
      in if in_RequestURI q = ''*'' then MuxBadRequest
         else if path \<noteq> p
         then MuxRedirect (path @ (if url_RawQuery (in_URL q) = '''' then ''''
                                   else ''?'' @ url_RawQuery (in_URL q)))
         else if path \<in> set patterns then MuxHandler path
         else MuxHandler ''/'')"

section \<open>Redirect and Error\<close>

definition status_text :: "int \<Rightarrow> string" where
  "status_text code =
     (if code = 301 then ''Moved Permanently'' else if code = 302 then ''Found'' else '''')"

definition html_escape_char :: "char \<Rightarrow> string" where
  "html_escape_char c =
     (if c = CHR ''&'' then ''&amp;'' else if c = CHR ''<'' then ''&lt;''
      else if c = CHR ''>'' then ''&gt;'' else if c = CHR 0x22 then ''&#34;''
      else if c = CHR 0x27 then ''&#39;'' else [c])"

definition has_header :: "string \<Rightarrow> respw \<Rightarrow> bool" where
  "has_header k w \<longleftrightarrow> map_of (rw_Header w) k \<noteq> None"

text \<open>For an absolute URL or path. A header that is already set is kept, and then no body is written.\<close>

definition http_Redirect :: "string \<Rightarrow> string \<Rightarrow> int \<Rightarrow> respw \<Rightarrow> respw" where
  "http_Redirect meth url code w =
     (let hadCT = has_header ''Content-Type'' w;
          w1 = Header_Set ''Location'' url w;
          w2 = (if \<not> hadCT \<and> (meth = ''GET'' \<or> meth = ''HEAD'')
                then Header_Set ''Content-Type'' ''text/html; charset=utf-8'' w1 else w1);
          w3 = WriteHeader code w2
      in if \<not> hadCT \<and> meth = ''GET''
         then Write (''<a href='' @ [CHR 0x22] @ concat (map html_escape_char url) @ [CHR 0x22]
                @ ''>'' @ status_text code @ ''</a>.'' @ [CHR 0x0A, CHR 0x0A]) w3
         else w3)"

definition http_Error :: "string \<Rightarrow> int \<Rightarrow> respw \<Rightarrow> respw" where
  "http_Error msg code w =
     Write (msg @ [CHR 0x0A])
       (WriteHeader code (Header_Set ''X-Content-Type-Options'' ''nosniff''
         (Header_Set ''Content-Type'' ''text/plain; charset=utf-8'' w)))"

section \<open>time.Time in JSON\<close>

text \<open>
  \<open>time.RFC3339Nano\<close> of an instant (nanoseconds since 1970) in a zone, given by its offset to UTC
  in seconds. The date is the one of the proleptic Gregorian calendar. \<open>MarshalJSON\<close> fails for a
  year that has not four digits and for an offset of a day or more.
\<close>

definition civil_date :: "int \<Rightarrow> int \<times> int \<times> int" where
  "civil_date days =
     (let z = days + 719468; era = z div 146097; doe = z mod 146097;
          yoe = (doe - doe div 1460 + doe div 36524 - doe div 146096) div 365;
          doy = doe - (365 * yoe + yoe div 4 - yoe div 100);
          mp = (5 * doy + 2) div 153;
          d = doy - (153 * mp + 2) div 5 + 1;
          m = (if mp < 10 then mp + 3 else mp - 9)
      in (yoe + era * 400 + (if m \<le> 2 then 1 else 0), m, d))"

definition pad :: "nat \<Rightarrow> int \<Rightarrow> string" where
  "pad n i = (let t = Itoa i in replicate (n - length t) (CHR ''0'') @ t)"

definition fraction_text :: "int \<Rightarrow> string" where
  "fraction_text ns =
     (if ns = 0 then ''''
      else ''.'' @ rev (dropWhile (\<lambda>c. c = CHR ''0'') (rev (pad 9 ns))))"

definition zone_text :: "int \<Rightarrow> string" where
  "zone_text off =
     (if off = 0 then ''Z''
      else let m = \<bar>off\<bar> div 60
           in (if off \<le> - 60 then ''-'' else ''+'') @ pad 2 (m div 60) @ '':'' @ pad 2 (m mod 60))"

definition time_MarshalJSON :: "int \<Rightarrow> int \<Rightarrow> json option" where
  "time_MarshalJSON off t =
     (let s = t div time_Second + off; (y, m, d) = civil_date (s div 86400); r = s mod 86400
      in if y < 0 \<or> y > 9999 \<or> \<bar>off\<bar> \<ge> 86400 then None
         else Some (JStr (pad 4 y @ ''-'' @ pad 2 m @ ''-'' @ pad 2 d @ ''T''
                @ pad 2 (r div 3600) @ '':'' @ pad 2 (r div 60 mod 60) @ '':'' @ pad 2 (r mod 60)
                @ fraction_text (t mod time_Second) @ zone_text off)))"

end
