(* ===== verification/Server.thy ===== *)
theory Server
  imports Http_Std
begin

text \<open>
  The server (\<open>src/server/server.go\<close>, \<open>configuration.go\<close> and \<open>middleware.go\<close>): its construction,
  the handlers of the main HTTP server and of the drain server, the counting of statuses, and the
  starting and stopping of the two servers.

  The cache \<open>s.rpcCache\<close> and the global \<open>RState\<close> are in the world and the environment of the
  handlers. The database is a \<open>Store\<close>; a POST request ends with a goroutine that saves the record
  of the request to it, so a handler returns the record to be saved, if any.
\<close>

section \<open>Configuration and server\<close>

record 'd Configuration =
  cfg_DB :: "'d Store"
  cfg_DrainAddress :: string
  cfg_DrainSeconds :: int
  cfg_ListenAddress :: string
  cfg_ProxyTimeoutSeconds :: int
  cfg_ProxyUrl :: string
  cfg_RedisUrl :: string
  cfg_RelaySigningKey :: string
  cfg_RelayUrl :: string
  cfg_Version :: string
  cfg_BuilderInfoSource :: string
  cfg_FetchInfoInterval :: int
  cfg_TTLCacheSeconds :: int
  cfg_DefaultMempoolRPC :: string
  cfg_ConfigurationWatcher :: "ConfigurationWatcher option"

record http_Server =
  hs_Addr :: string
  hs_WriteTimeout :: int
  hs_ReadTimeout :: int

record 'd RpcEndPointServer =
  s_server :: "http_Server option"
  s_drain :: "http_Server option"
  s_drainAddress :: string
  s_drainSeconds :: int
  s_db :: "'d Store"
  s_isHealthy :: bool
  s_listenAddress :: string
  s_proxyTimeoutSeconds :: int
  s_proxyUrl :: string
  s_relaySigningKey :: string
  s_relayUrl :: string
  s_startTime :: int
  s_version :: string
  s_builderNameProvider :: BuilderInfoService
  s_chainID :: "json option"
  s_defaultEthClient :: string
  s_configurationWatcher :: "ConfigurationWatcher option"

section \<open>Construction\<close>

text \<open>
  \<open>fetchNetworkIDBytes\<close> asks the node for its network, with a client that carries no fingerprint.
  Reading the answer as JSON has no error text in the model.
\<close>

datatype net_error = NetProxy string | NetRead string | NetParse

definition fetchNetworkIDBytes ::
    "'r Env \<Rightarrow> 'd Configuration \<Rightarrow> 'r World \<Rightarrow> (net_error + json option) \<times> 'r World" where
  "fetchNetworkIDBytes E cfg w =
     (let cl = NewRPCProxyClient (cfg_ProxyUrl cfg) (cfg_ProxyTimeoutSeconds cfg) 0;
          req = NewJsonRpcRequest (JNum ''1'') ''net_version'' []
      in case ProxyRequest E cl (json_Encode (e_lib E) (marshal_request req)) w of
           (Inl err, w1) \<Rightarrow> (Inl (NetProxy err), w1)
         | (Inr httpRes, w1) \<Rightarrow>
             (case hr_Body httpRes of
                Inl err \<Rightarrow> (Inl (NetRead err), w1)
              | Inr resBytes \<Rightarrow>
                  (case respBytesToJsonRPCResponse (e_lib E) resBytes of
                     None \<Rightarrow> (Inl NetParse, w1)
                   | Some res \<Rightarrow> (Inr (res_Result res), w1))))"

text \<open>
  The first fetch of the builder list, a GET through the fetcher of \<open>webfile\<close>. The goroutine of
  the service starts with \<open>time.NewTicker\<close>, which panics on an interval that is not positive; the
  interval is an \<open>int64\<close> product.
\<close>

definition fetch_builders ::
    "'r Env \<Rightarrow> string \<Rightarrow> 'r World \<Rightarrow> (string + string) \<times> 'r World" where
  "fetch_builders E url w =
     (case http_Do E \<lparr>hq_Method = ''GET'', hq_URL = url, hq_Header = [], hq_Body = ''''\<rparr> w of
        (Inl err, w1) \<Rightarrow> (Fetch (Inl err), w1)
      | (Inr resp, w1) \<Rightarrow> (Fetch (Inr (hr_StatusCode resp, hr_Body resp)), w1))"

definition fetch_interval :: "'d Configuration \<Rightarrow> int" where
  "fetch_interval cfg = sint ((of_int time_Second :: u64) * of_int (cfg_FetchInfoInterval cfg))"

definition sync_start :: "int \<Rightarrow> unit go" where
  "sync_start interval =
     (if interval \<le> 0 then Panic ''non-positive interval for NewTicker'' else Ret ())"

datatype init_error =
    InitMiniredis string | InitRedis string | InitBuilderInfo string | InitNetwork net_error
  | InitDial string

text \<open>
  \<open>miniredis\<close> is what \<open>miniredis.Run\<close> gives, an error or an address; \<open>connect\<close> is the client for
  an address. The environment returned has this client as \<open>RState\<close>, the world the new cache.
\<close>

definition NewRpcEndPointServer ::
    "string + string \<Rightarrow> (string \<Rightarrow> 'r redis_client) \<Rightarrow> 'r Env \<Rightarrow> 'd Configuration \<Rightarrow> 'r World \<Rightarrow>
     (init_error + 'd RpcEndPointServer \<times> 'r Env) \<times> 'r World" where
  "NewRpcEndPointServer miniredis connect E0 cfg w =
     (case (if cfg_RedisUrl cfg = ''dev'' then miniredis else Inr (cfg_RedisUrl cfg)) of
        Inl err \<Rightarrow> (Inl (InitMiniredis err), w)
      | Inr redisUrl \<Rightarrow>
          (let E = E0\<lparr>e_redis := connect redisUrl\<rparr> in
           case NewRedisState (e_redis E) (w_redis w) of
             Some err \<Rightarrow> (Inl (InitRedis err), w)
           | None \<Rightarrow>
               (let (fetched, w1) =
                      (if cfg_BuilderInfoSource cfg \<noteq> ''''
                       then (case fetch_builders E (cfg_BuilderInfoSource cfg) w of
                               (f, w1) \<Rightarrow> (Some f, w1))
                       else (None, w))
                in case StartBuilderInfoService (e_lib E) fetched of
                     Inl err \<Rightarrow> (Inl (InitBuilderInfo err), w1)
                   | Inr bis \<Rightarrow>
                       (case fetchNetworkIDBytes E cfg w1 of
                          (Inl err, w2) \<Rightarrow> (Inl (InitNetwork err), w2)
                        | (Inr bts, w2) \<Rightarrow>
                            (let w3 = make_call E (CallDial (cfg_DefaultMempoolRPC cfg))
                                        (w2\<lparr>w_cache := NewRpcCache (cfg_TTLCacheSeconds cfg)\<rparr>)
                             in case e_Dial E (w_calls w2) (cfg_DefaultMempoolRPC cfg) of
                                  Some err \<Rightarrow> (Inl (InitDial err), w3)
                                | None \<Rightarrow>
                                    (Inr (\<lparr>s_server = None, s_drain = None,
                                       s_drainAddress = cfg_DrainAddress cfg,
                                       s_drainSeconds = cfg_DrainSeconds cfg, s_db = cfg_DB cfg,
                                       s_isHealthy = True, s_listenAddress = cfg_ListenAddress cfg,
                                       s_proxyTimeoutSeconds = cfg_ProxyTimeoutSeconds cfg,
                                       s_proxyUrl = cfg_ProxyUrl cfg,
                                       s_relaySigningKey = cfg_RelaySigningKey cfg,
                                       s_relayUrl = cfg_RelayUrl cfg, s_startTime = w_now w3,
                                       s_version = cfg_Version cfg, s_builderNameProvider = bis,
                                       s_chainID = bts,
                                       s_defaultEthClient = cfg_DefaultMempoolRPC cfg,
                                       s_configurationWatcher = cfg_ConfigurationWatcher cfg\<rparr>,
                                     E), w3))))))"

section \<open>The handlers of the main server\<close>

text \<open>What a handler leaves: its outcome, the response, the record to be saved and the world.\<close>

type_synonym 'r served = "unit go \<times> respw \<times> requestRecord option \<times> 'r World"

definition setCorsHeaders :: "respw \<Rightarrow> respw" where
  "setCorsHeaders w =
     Header_Set ''Access-Control-Allow-Headers'' ''Accept,Content-Type''
       (Header_Set ''Access-Control-Allow-Origin'' ''*'' w)"

definition docs_fast :: string where
  "docs_fast = ''https://docs.flashbots.net/flashbots-protect/quick-start#faster-transactions''"

definition docs_quick :: string where
  "docs_quick = ''https://docs.flashbots.net/flashbots-protect/rpc/quick-start/''"

text \<open>What the process draws for a request: two UUIDs, the seed, the order of a map iteration.\<close>

record draws =
  d_uid :: string
  d_entryUid :: string
  d_seed :: u64
  d_iter :: "url_values \<Rightarrow> url_values"

definition HandleHttpRequest ::
    "'r Env \<Rightarrow> draws \<Rightarrow> 'd RpcEndPointServer \<Rightarrow> in_request \<Rightarrow> respw \<Rightarrow> 'r World \<Rightarrow> 'r served" where
  "HandleHttpRequest E D s q rw0 w =
     (let rw = setCorsHeaders rw0 in
      if in_Method q = ''GET'' then
        (Ret (), http_Redirect (in_Method q)
                   (if Trim (url_Path (in_URL q)) {CHR ''/''} = ''fast'' then docs_fast else docs_quick)
                   302 rw, None, w)
      else if in_Method q = ''OPTIONS'' then (Ret (), WriteHeader 200 rw, None, w)
      else
        (case process E
                (NewRpcRequestHandler rw q (w_now w) (s_proxyUrl s) (s_proxyTimeoutSeconds s)
                   (s_relaySigningKey s) (s_relayUrl s) (BuilderNames (s_builderNameProvider s))
                   (s_chainID s) (s_defaultEthClient s) (s_configurationWatcher s) (d_uid D)
                   (d_entryUid D) (d_seed D) (d_iter D)) w of
           (out, h, w1) \<Rightarrow> (out, h_respw h, Some (h_requestRecord h), w1)))"

text \<open>\<open>zone\<close> is the offset to UTC of the local time at an instant.\<close>

definition marshal_health :: "(int \<Rightarrow> int) \<Rightarrow> HealthResponse \<Rightarrow> json option" where
  "marshal_health zone res =
     (case (time_MarshalJSON (zone (health_Now res)) (health_Now res),
            time_MarshalJSON (zone (health_StartTime res)) (health_StartTime res)) of
        (Some a, Some b) \<Rightarrow>
          Some (JObj [(''time'', a), (''startTime'', b), (''version'', JStr (health_Version res))])
      | _ \<Rightarrow> None)"

definition handleHealthRequest ::
    "lib \<Rightarrow> (int \<Rightarrow> int) \<Rightarrow> 'd RpcEndPointServer \<Rightarrow> int \<Rightarrow> respw \<Rightarrow> respw" where
  "handleHealthRequest L zone s now rw =
     (case marshal_health zone \<lparr>health_Now = now, health_StartTime = s_startTime s,
             health_Version = s_version s\<rparr> of
        None \<Rightarrow> WriteHeader 500 rw
      | Some j \<Rightarrow>
          Write (json_Encode L j)
            (WriteHeader (if s_isHealthy s then 200 else 500)
              (Header_Set ''Content-Type'' ''application/json'' rw)))"

definition marshal_bundle :: "BundleResponse \<Rightarrow> json" where
  "marshal_bundle b =
     JObj [(''bundleId'', JStr (bundle_Id b)), (''rawTxs'', JArr (map JStr (bundle_RawTxs b)))]"

definition HandleBundleRequest :: "'r Env \<Rightarrow> in_request \<Rightarrow> respw \<Rightarrow> 'r World \<Rightarrow> respw \<times> 'r World" where
  "HandleBundleRequest E q rw0 w =
     (let rw = setCorsHeaders rw0; bundleId = Values_Get (URL_Query (in_URL q)) ''id'' in
      if bundleId = '''' then (http_Error ''no bundle id'' 400 rw, w)
      else if in_Method q = ''GET'' then
        (case GetWhitehatBundleTx (e_redis E) (w_redis w) bundleId of
           Inl _ \<Rightarrow> (WriteHeader 500 rw, w)
         | Inr txs \<Rightarrow>
             (Write (json_Encode (e_lib E)
                  (marshal_bundle \<lparr>bundle_Id = bundleId, bundle_RawTxs = txs\<rparr>))
                (WriteHeader 200 (Header_Set ''Content-Type'' ''application/json'' rw)), w))
      else if in_Method q = ''DELETE'' then
        (WriteHeader 200 rw, snd (redis_do (\<lambda>s. DelWhitehatBundleTx (e_redis E) s bundleId) w))
      else (WriteHeader 405 rw, w))"

text \<open>The mux of \<open>startMainServer\<close> under the middleware, which sees no status after a panic.\<close>

definition main_mux ::
    "'r Env \<Rightarrow> (int \<Rightarrow> int) \<Rightarrow> draws \<Rightarrow> 'd RpcEndPointServer \<Rightarrow> in_request \<Rightarrow> respw \<Rightarrow> 'r World \<Rightarrow>
     'r served" where
  "main_mux E zone D s q rw w =
     (case mux_target [''/health'', ''/bundle''] q of
        MuxBadRequest \<Rightarrow> (Ret (), WriteHeader 400 rw, None, w)
      | MuxRedirect url \<Rightarrow> (Ret (), http_Redirect (in_Method q) url 301 rw, None, w)
      | MuxHandler pattern \<Rightarrow>
          if pattern = ''/health''
          then (Ret (), handleHealthRequest (e_lib E) zone s (w_now w) rw, None, w)
          else if pattern = ''/bundle''
          then (case HandleBundleRequest E q rw w of (rw1, w1) \<Rightarrow> (Ret (), rw1, None, w1))
          else HandleHttpRequest E D s q rw w)"

definition count_status :: "int \<Rightarrow> 'r World \<Rightarrow> 'r World" where
  "count_status code w =
     (if code = 200 then inc StatusOKInc w
      else if code = 400 then inc StatusBadRequestInc w
      else if code = 500 then inc StatusInternalServerErrorInc w
      else if code = 404 then inc StatusNotFoundInc w
      else w)"

definition MetricsMiddleware :: "(respw \<Rightarrow> 'r World \<Rightarrow> 'r served) \<Rightarrow> 'r World \<Rightarrow> 'r served" where
  "MetricsMiddleware serve w =
     (case serve new_respw w of
        (Panic p, rw, rec, w1) \<Rightarrow> (Panic p, rw, rec, w1)
      | (Ret _, rw, rec, w1) \<Rightarrow> (Ret (), rw, rec, count_status (rw_Recorded rw) w1))"

definition main_serve ::
    "'r Env \<Rightarrow> (int \<Rightarrow> int) \<Rightarrow> draws \<Rightarrow> 'd RpcEndPointServer \<Rightarrow> in_request \<Rightarrow> 'r World \<Rightarrow> 'r served" where
  "main_serve E zone D s q w = MetricsMiddleware (main_mux E zone D s q) w"

section \<open>Draining, starting and stopping\<close>

text \<open>
  \<open>handleDrain\<close> changes the flag under the lock and then sleeps, holding no lock. The result is the
  length of the sleep, if any, an \<open>int64\<close> product.
\<close>

definition handleDrain :: "'d RpcEndPointServer \<Rightarrow> int option \<times> 'd RpcEndPointServer" where
  "handleDrain s =
     (if \<not> s_isHealthy s then (None, s)
      else (Some (sint ((of_int (s_drainSeconds s) :: u64) * of_int time_Second)),
            s\<lparr>s_isHealthy := False\<rparr>))"

definition startMainServer :: "'d RpcEndPointServer \<Rightarrow> 'd RpcEndPointServer go" where
  "startMainServer s =
     (if s_server s \<noteq> None then Panic ''http server is already running''
      else Ret (s\<lparr>s_server := Some \<lparr>hs_Addr = s_listenAddress s, hs_WriteTimeout = 30 * time_Second,
                 hs_ReadTimeout = 30 * time_Second\<rparr>\<rparr>))"

definition startDrainServer :: "'d RpcEndPointServer \<Rightarrow> 'd RpcEndPointServer go" where
  "startDrainServer s =
     (if s_drain s \<noteq> None then Panic ''drain http server is already running''
      else Ret (s\<lparr>s_drain := Some \<lparr>hs_Addr = s_drainAddress s, hs_WriteTimeout = 0,
                 hs_ReadTimeout = 0\<rparr>\<rparr>))"

text \<open>A failing \<open>Shutdown\<close> is logged; the pointer is cleared in any case.\<close>

definition stopMainServer :: "'d RpcEndPointServer \<Rightarrow> 'd RpcEndPointServer" where
  "stopMainServer s = (if s_server s \<noteq> None then s\<lparr>s_server := None\<rparr> else s)"

definition stopDrainServer :: "'d RpcEndPointServer \<Rightarrow> 'd RpcEndPointServer" where
  "stopDrainServer s = (if s_drain s \<noteq> None then s\<lparr>s_drain := None\<rparr> else s)"

text \<open>
  \<open>Start\<close> is a sequence of four calls, the last two after the signal. Requests are handled in
  between by other goroutines.
\<close>

datatype start_point = BeforeMain | BeforeDrain | Waiting | AfterSignal | AfterDrain | Stopped

definition Start ::
    "start_point \<Rightarrow> 'd RpcEndPointServer \<Rightarrow> (start_point \<times> 'd RpcEndPointServer) go" where
  "Start pc s =
     (case pc of
        BeforeMain \<Rightarrow> (case startMainServer s of Panic p \<Rightarrow> Panic p | Ret s1 \<Rightarrow> Ret (BeforeDrain, s1))
      | BeforeDrain \<Rightarrow> (case startDrainServer s of Panic p \<Rightarrow> Panic p | Ret s1 \<Rightarrow> Ret (Waiting, s1))
      | Waiting \<Rightarrow> Ret (AfterSignal, s)
      | AfterSignal \<Rightarrow> Ret (AfterDrain, stopDrainServer s)
      | AfterDrain \<Rightarrow> Ret (Stopped, stopMainServer s)
      | Stopped \<Rightarrow> Ret (Stopped, s))"

section \<open>The server of the counters\<close>

text \<open>
  \<open>DefaultServer\<close> of \<open>src/metrics/metrics.go\<close>. \<open>WritePrometheus\<close> is a parameter: the text for the counters and
  what the process knows of itself. A path that is not registered is not found.
\<close>

definition DefaultServer :: "('r World \<Rightarrow> string) \<Rightarrow> in_request \<Rightarrow> 'r World \<Rightarrow> respw" where
  "DefaultServer WritePrometheus q w =
     (case mux_target [''/metrics''] q of
        MuxBadRequest \<Rightarrow> WriteHeader 400 new_respw
      | MuxRedirect url \<Rightarrow> http_Redirect (in_Method q) url 301 new_respw
      | MuxHandler pattern \<Rightarrow>
          if pattern = ''/metrics'' then Write (WritePrometheus w) new_respw
          else http_Error ''404 page not found'' 404 new_respw)"

end
