(* ===== verification/Frames.thy ===== *)
theory Frames
  imports Handler_Props Server
begin

text \<open>
  Facts about the world that a request keeps. A predicate on the world that survives the steps a
  request is made of (calls to other parties, counters, goroutines, the cache, the writes to Redis)
  survives the whole request, and one that survives the call to the relay as well, or whose
  preservation by \<open>sendTxToRelay\<close> is known, survives a whole exchange. Each layer is a locale:
  the steps, the requests, the exchanges with the server.
\<close>

section \<open>The steps of a request\<close>

text \<open>The writes to Redis a request makes; \<open>now\<close> is the clock.\<close>

inductive_set request_writes :: "'r redis_client \<Rightarrow> int \<Rightarrow> ('r \<Rightarrow> string option \<times> 'r) set"
  for R now where
  sent: "(\<lambda>s. SetTxSentToRelay R now s h) \<in> request_writes R now"
| tx_hash: "(\<lambda>s. SetTxHashForSenderAndNonce R s a n h) \<in> request_writes R now"
| nonce_fix: "(\<lambda>s. SetNonceFixForAccount R s a n) \<in> request_writes R now"
| sender: "(\<lambda>s. SetSenderAndNonceOfTxHash R s h a n) \<in> request_writes R now"
| max_nonce: "(\<lambda>s. DelSenderMaxNonce R s a) \<in> request_writes R now"
| bundle_add_tx: "(\<lambda>s. AddTxToWhitehatBundle R s b x) \<in> request_writes R now"
| bundle_del: "(\<lambda>s. DelWhitehatBundleTx R s b) \<in> request_writes R now"

text \<open>A call that submits a transaction to the relay.\<close>

fun is_submission :: "ext_call \<Rightarrow> bool" where
  "is_submission (CallRelay u k (RelaySendPrivateTx args hdrs)) = True"
| "is_submission _ = False"

definition status_metrics :: "metric set" where
  "status_metrics = {StatusOKInc, StatusBadRequestInc, StatusNotFoundInc, StatusInternalServerErrorInc}"

locale steps_keep =
  fixes E :: "'r Env" and P :: "'r World \<Rightarrow> bool"
  assumes call: "P w \<Longrightarrow> \<not> is_submission c \<Longrightarrow> P (make_call E c w)"
    and count: "P w \<Longrightarrow> m \<notin> status_metrics \<Longrightarrow> P (inc m w)"
    and go: "P w \<Longrightarrow> P (start_go g w)"
    and cache: "P w \<Longrightarrow> P (w\<lparr>w_cache := cc\<rparr>)"
    and store: "P w \<Longrightarrow> f \<in> request_writes (e_redis E) (w_now w) \<Longrightarrow> P (w\<lparr>w_redis := snd (f (w_redis w))\<rparr>)"
begin

lemma inc_simps:
  "P w \<Longrightarrow> P (inc IncRedisErr w)" "P w \<Longrightarrow> P (inc IncPrivateTx w)"
  "P w \<Longrightarrow> P (inc IncRelayServerErr w)" "P w \<Longrightarrow> P (inc IncRelayClientErr w)"
  "P w \<Longrightarrow> P (inc IncEthNodeClusterErr w)" "P w \<Longrightarrow> P (inc IncStatusEndpointErr w)"
  "P w \<Longrightarrow> P (inc IncRPCNodeProxyClientErr w)" "P w \<Longrightarrow> P (inc IncRPCNodeProxyServerErr w)"
  "P w \<Longrightarrow> P (inc IncMetamaskInterceptorWrongNonce w)" "P w \<Longrightarrow> P (inc IncUniswapInterceptorNonceDiffTooHigh w)"
  "P w \<Longrightarrow> P (inc UrlParamUsageInc w)" "P w \<Longrightarrow> P (inc (ReportCustomerConfigWasUpdated x) w)"
  by (rule count; simp add: status_metrics_def)+

lemma calls:
  "P w \<Longrightarrow> P (make_call E (CallHttp q) w)" "P w \<Longrightarrow> P (make_call E (CallBlockNumber u) w)"
  "P w \<Longrightarrow> P (make_call E (CallSendTx u t) w)" "P w \<Longrightarrow> P (make_call E (CallDial u) w)"
  "P w \<Longrightarrow> P (make_call E (CallRelay u k (RelayCancelPrivateTx h)) w)"
  by (rule call; simp)+

lemma redis_count_keeps:
  assumes "P w" "f \<in> request_writes (e_redis E) (w_now w)"
  shows "P (snd (redis_count f w))"
  using store [OF assms] by (auto simp: redis_count_def redis_do_def split: prod.splits intro: inc_simps)

lemmas writes = redis_count_keeps [OF _ request_writes.intros(1)] redis_count_keeps [OF _ request_writes.intros(2)]
  redis_count_keeps [OF _ request_writes.intros(3)] redis_count_keeps [OF _ request_writes.intros(4)]
  redis_count_keeps [OF _ request_writes.intros(5)] redis_count_keeps [OF _ request_writes.intros(6)]

lemma count_D: "redis_count f w = (e, w') \<Longrightarrow> f \<in> request_writes (e_redis E) (w_now w) \<Longrightarrow> P w \<Longrightarrow> P w'"
  using redis_count_keeps [of w f] by simp

lemmas writes_D = count_D [OF _ request_writes.intros(3)] count_D [OF _ request_writes.intros(6)]

lemmas basic = inc_simps calls go cache writes

lemma http_D: "http_Do E q w = (x, w') \<Longrightarrow> P w \<Longrightarrow> P w'"
  by (auto simp: http_Do_def intro: basic split: sum.splits)

lemma proxy_D: "ProxyRequest E n b w = (x, w') \<Longrightarrow> P w \<Longrightarrow> P w'"
  unfolding ProxyRequest_def by (rule http_D)

lemma status_D: "GetTxStatus E h w = (x, w') \<Longrightarrow> P w \<Longrightarrow> P w'"
  by (auto simp: GetTxStatus_def Let_def intro: http_D split: prod.splits sum.splits option.splits)

lemma read_D: "proxyRequestRead E r w = (b, r', w') \<Longrightarrow> P w \<Longrightarrow> P w'"
  by (auto simp: proxyRequestRead_def intro: proxy_D basic split: prod.splits sum.splits option.splits)

lemma resend_D: "blockResendingTxToRelay E h w = (b, w') \<Longrightarrow> P w \<Longrightarrow> P w'"
  by (auto simp: blockResendingTxToRelay_def intro: status_D basic
      split: prod.splits sum.splits option.splits if_splits)

lemma nonce_range_D: "GetAddressNonceRange E r w = (x, r', w') \<Longrightarrow> P w \<Longrightarrow> P w'"
  by (auto simp: GetAddressNonceRange_def Let_def intro: proxy_D
      split: prod.splits sum.splits option.splits if_splits)

lemma reset_nonce: "P w \<Longrightarrow> P (resetMaxNonce E f h w)"
  by (auto simp: resetMaxNonce_def intro: basic split: prod.splits option.splits)

lemma account_fix: "P w \<Longrightarrow> P (ensureAccountFixIsInPlace E h w)"
  by (auto simp: ensureAccountFixIsInPlace_def intro: basic reset_nonce writes_D
      split: prod.splits option.splits)

lemma receipt_D: "check_post_getTransactionReceipt E res r w = (x, w') \<Longrightarrow> P w \<Longrightarrow> P w'"
  by (auto simp: check_post_getTransactionReceipt_def Let_def intro: status_D basic account_fix
      split: prod.splits option.splits sum.splits list.splits json.splits if_splits)

lemma mm_D: "intercept_mm_eth_getTransactionCount E r w = (x, r', w') \<Longrightarrow> P w \<Longrightarrow> P w'"
  by (auto simp: intercept_mm_eth_getTransactionCount_def Let_def intro: basic writes_D
      split: prod.splits option.splits list.splits json.splits if_splits)

lemma answer_signed_D: "answer_signed_count E a c b r w = (r', w') \<Longrightarrow> P w \<Longrightarrow> P w'"
  by (auto simp: answer_signed_count_def Let_def intro: basic split: if_splits)

lemma signed_D: "intercept_signed_eth_getTransactionCount E r w = (x, r', w') \<Longrightarrow> P w \<Longrightarrow> P w'"
  by (auto simp: intercept_signed_eth_getTransactionCount_def intro: basic read_D answer_signed_D
      split: prod.splits option.splits sum.splits bool.splits if_splits)

lemma checked: "P (snd s) \<Longrightarrow> P (snd (snd (proxy_checked E s)))"
  by (auto simp: proxy_checked_def respond_def dest!: read_D receipt_D
      split: prod.splits bool.splits go.splits)

lemma locally: "P (snd s) \<Longrightarrow> P (snd (snd (answer_locally_or_proxy E s)))"
  using checked by (auto simp: answer_locally_or_proxy_def proxy_default_def respond_def
      split: prod.splits go.splits)

lemma tx_count: "P (snd s) \<Longrightarrow> P (snd (snd (transaction_count E s)))"
  by (auto simp: transaction_count_def respond_def intro: locally dest!: signed_D mm_D
      split: prod.splits bool.splits go.splits)

lemma eth_call: "P (snd s) \<Longrightarrow> P (snd (snd (eth_call_method E s)))"
  by (auto simp: eth_call_method_def respond_def intro: locally split: prod.splits bool.splits go.splits)

lemma version: "P (snd s) \<Longrightarrow> P (snd (snd (client_version E s)))"
  by (auto simp: client_version_def respond_def intro: basic dest!: read_D
      split: prod.splits bool.splits option.splits)

text \<open>The stages of a submission, up to the call to the relay.\<close>

lemma run_stages:
  assumes "\<And>f s. f \<in> set fs \<Longrightarrow> P (snd s) \<Longrightarrow> P (snd (final (f s)))" "P (snd (final m))"
  shows "P (snd (final (foldl and_then m fs)))"
  using assms
proof (induction fs arbitrary: m)
  case (Cons f fs)
  show ?case
  proof (cases m)
    case (Continue x)
    then have "P (snd (final (f x)))" using Cons.prems by simp
    then have "P (snd (final (foldl and_then (f x) fs)))" using Cons.IH Cons.prems(1) by auto
    then show ?thesis using Continue by simp
  qed (use Cons in auto)
qed simp

lemma relay_stage:
  assumes "f \<in> set (relay_prefix E t h)" "P (snd s)"
  shows "P (snd (final (f s)))"
  using assms
  by (auto simp: relay_prefix_def relay_stages_def relay_stage_defs stage_refund_eq Let_def
      intro!: basic dest!: resend_D nonce_range_D
      split: prod.splits sum.splits option.splits bool.splits if_splits)

text \<open>
  The last stage calls the relay or not. After the call another predicate may hold; one that
  survives the call survives \<open>sendTxToRelay\<close>.
\<close>

lemma send_stage_switch:
  assumes "P w"
    and sent: "\<And>v args hdrs. P v \<Longrightarrow> priv_Tx args = r_rawTxHex r \<Longrightarrow>
      Q (make_call E (CallRelay (r_relayUrl r) (r_relaySigningKey r) (RelaySendPrivateTx args hdrs)) v)"
    and counted: "\<And>v m. Q v \<Longrightarrow> m \<notin> status_metrics \<Longrightarrow> Q (inc m v)"
  shows "P (snd (final (stage_send E h (r, w)))) \<or> Q (snd (final (stage_send E h (r, w))))"
proof -
  have c: "Q (snd (final (call_relay E h n (r, v))))" if "P v" for n v
    using sent [OF that] counted
    by (auto simp: call_relay_def Let_def status_metrics_def split: option.splits relay_err.splits)
  have "P (make_call E (CallBlockNumber (r_defaultEthClient r)) w)" using assms(1) by (rule calls(2))
  then show ?thesis using assms(1) c by (simp add: stage_send_def Let_def split: sum.splits)
qed

lemma send_stage_keeps:
  assumes "P w" "\<And>v args hdrs. P v \<Longrightarrow> priv_Tx args = r_rawTxHex r \<Longrightarrow>
    P (make_call E (CallRelay (r_relayUrl r) (r_relaySigningKey r) (RelaySendPrivateTx args hdrs)) v)"
  shows "P (snd (final (stage_send E h (r, w))))"
  using send_stage_switch [OF assms(1), of r P h] assms(2) count by blast

lemma relay_tail_keeps:
  assumes "set gs \<subseteq> set (relay_prefix E t h)" "P w"
  obtains (returned) s where "foldl and_then (Continue (r, w)) gs = Return s" "P (snd s)" "kept r (fst s)"
  | (passed) s where "foldl and_then (Continue (r, w)) gs = Continue s" "P (snd s)" "kept r (fst s)"
proof -
  have k: "kept r (fst (final (foldl and_then (Continue (r, w)) gs)))"
    using relay_prefix.run_sublist [OF assms(1), of "(r, w)"] by simp
  have p: "P (snd (final (foldl and_then (Continue (r, w)) gs)))"
    using assms relay_stage by (intro run_stages) auto
  show thesis
    using k p that by (cases "foldl and_then (Continue (r, w)) gs") auto
qed

lemma to_relay_keeps:
  assumes "P w" "\<And>v args hdrs. P v \<Longrightarrow> priv_Tx args = r_rawTxHex r \<Longrightarrow>
    P (make_call E (CallRelay (r_relayUrl r) (r_relaySigningKey r) (RelaySendPrivateTx args hdrs)) v)"
  shows "P (snd (sendTxToRelay E t (r, w)))"
proof -
  let ?h = "ToLower (eth_HashHex t)"
  from subset_refl assms(1) show ?thesis
  proof (cases rule: relay_tail_keeps [of "relay_prefix E t ?h" t ?h w r])
    case (returned s)
    then show ?thesis by (simp add: sendTxToRelay_def relay_stages_split)
  next
    case (passed s)
    note k = kept_fields [OF passed(3)]
    have "P (snd (final (stage_send E ?h (fst s, snd s))))"
      using passed(2) assms(2) by (intro send_stage_keeps) (simp_all add: k)
    then show ?thesis using passed(1) by (simp add: sendTxToRelay_def relay_stages_split)
  qed
qed

text \<open>Cancellation.\<close>

lemma lookup: "cancel_lookup E t s = Inl (b, s') \<Longrightarrow> P (snd s) \<Longrightarrow> P (snd s')"
  by (auto simp: cancel_lookup_def Let_def intro: basic split: prod.splits option.splits if_splits)

lemma mempool: "P (snd s) \<Longrightarrow> P (snd (final (cancel_mempool E t s)))"
  by (auto simp: cancel_mempool_def Let_def intro!: basic split: prod.splits option.splits)

lemma cancel_call: "P (snd s) \<Longrightarrow> P (snd (final (cancel_relay E h c s)))"
  by (auto simp: cancel_relay_def Let_def intro!: basic split: prod.splits option.splits relay_err.splits)

lemma cancel:
  assumes "P (snd s)"
  shows "P (snd (snd (handleCancelTx E t s)))"
proof (cases "cancel_lookup E t s")
  case (Inl x)
  then show ?thesis using lookup [of t s] assms by (cases x) (simp add: handleCancelTx_def)
next
  case (Inr h)
  obtain r w where s: "s = (r, w)" by (cases s)
  let ?w = "snd (redis_count (\<lambda>d. SetTxSentToRelay (e_redis E) (w_now w) d (ToLower (eth_HashHex t))) w)"
  have "P ?w" using assms s by (auto intro: basic)
  moreover from this have "P (snd (final (foldl and_then (cancel_mempool E t (r, ?w))
      [cancel_relay E h (ToLower (eth_HashHex t))])))"
    by (intro run_stages) (auto intro!: cancel_call mempool)
  ultimately show ?thesis using Inr s by (simp add: handleCancelTx_def Let_def)
qed

lemma submit_prefix_stage:
  assumes "f \<in> set (submit_prefix E t)" "P (snd s)"
  shows "P (snd (final (f s)))"
  using assms
  by (auto simp: submit_prefix_def submit_stages_def submit_stage_defs Let_def
      intro!: basic dest!: writes_D
      split: prod.splits option.splits sum.splits bool.splits if_splits)

lemma watch: "P w \<Longrightarrow> P (watch_configuration h j p w)"
  by (auto simp: watch_configuration_def intro: basic split: option.splits)

end

lemma steps_keep_disj:
  "steps_keep E P \<Longrightarrow> steps_keep E Q \<Longrightarrow> steps_keep E (\<lambda>w. P w \<or> Q w)"
  by (simp add: steps_keep_def)

section \<open>Requests\<close>

text \<open>
  The request that submits a transaction holds its raw form and its sender, and the nonce was checked.
\<close>

locale requests_keep = steps_keep +
  assumes to_relay: "P w \<Longrightarrow> GetTx (e_lib E) (r_rawTxHex r) = Inr t \<Longrightarrow>
    GetSenderFromRawTx (e_lib E) t = Inr (r_txFrom r) \<Longrightarrow> eth_Nonce t < 1000000000 \<Longrightarrow>
    P (snd (sendTxToRelay E t (r, w)))"
begin

lemma submit_last:
  assumes "P w" "GetTx (e_lib E) (r_rawTxHex r) = Inr t" "GetSenderFromRawTx (e_lib E) t = Inr (r_txFrom r)"
    "eth_Nonce t < 1000000000" "f \<in> {stage_cancel E t, stage_relay E t}"
  shows "P (snd (final (f (r, w))))"
proof -
  have "P (snd (final (stage_relay E t (r, w))))" using assms to_relay by (simp add: stage_relay_def)
  moreover have "P (snd (final (stage_cancel E t (r, w))))"
  proof -
    let ?r = "upd_entry (\<lambda>e. e\<lparr>IsCancelTx := True\<rparr>) r"
    obtain b r1 w1 where c: "handleCancelTx E t (?r, w) = (b, (r1, w1))"
      by (cases "handleCancelTx E t (?r, w)") auto
    have "P w1" using cancel [of "(?r, w)" t] assms(1) c by simp
    moreover have "r_rawTxHex r1 = r_rawTxHex r" "r_txFrom r1 = r_txFrom r"
      using kept_fields(5,6) [OF handleCancelTx_cases(1) [OF c]] by simp_all
    ultimately show ?thesis
      using c assms to_relay by (auto simp: stage_cancel_def split: bool.splits)
  qed
  ultimately show ?thesis using assms(5) by auto
qed

lemma submit:
  assumes "P w" "GetTx (e_lib E) (r_rawTxHex r) = Inr t" "GetSenderFromRawTx (e_lib E) t = Inr (r_txFrom r)"
  shows "P (snd (submit_tx E t (r, w)))"
proof -
  let ?m = "foldl and_then (Continue (r, w)) (submit_prefix E t)"
  have p: "P (snd (final ?m))" using assms(1) submit_prefix_stage by (intro run_stages) auto
  have k: "kept r (fst (final ?m))" using submit_prefix.run_kept [of "(r, w)" E t] by simp
  show ?thesis
  proof (cases ?m)
    case (Return s)
    then show ?thesis using p by (simp add: submit_tx_def submit_stages_split)
  next
    case (Continue s)
    obtain r1 w1 where s: "s = (r1, w1)" by (cases s)
    have g: "P w1" "GetTx (e_lib E) (r_rawTxHex r1) = Inr t" "GetSenderFromRawTx (e_lib E) t = Inr (r_txFrom r1)"
      using p k assms(2,3) Continue s kept_fields(5,6) [of r r1] by simp_all
    have n: "eth_Nonce t < 1000000000"
      using submit_prefix_passes [of r w E t r1 w1] Continue s by (simp add: passes_def)
    have c: "stage_cancel E t (r1, w1) \<in> {Continue (r1, w1)} \<union> range Return"
      by (auto simp: stage_cancel_def split: prod.splits bool.splits)
    have "P (snd (final (and_then (stage_cancel E t (r1, w1)) (stage_relay E t))))"
      using c submit_last [OF g n, of "stage_cancel E t"] submit_last [OF g n, of "stage_relay E t"] by auto
    then show ?thesis using Continue s by (simp add: submit_tx_def submit_stages_split)
  qed
qed

lemma raw: "P (snd s) \<Longrightarrow> P (snd (snd (handle_sendRawTransaction E s)))"
  by (auto simp: handle_sendRawTransaction_def Let_def record_tx_def intro!: submit inc_simps
      split: prod.splits list.splits json.splits sum.splits)

lemma private_tx: "P (snd s) \<Longrightarrow> P (snd (snd (handle_sendPrivateTransaction E s)))"
  by (auto simp: handle_sendPrivateTransaction_def intro!: raw split: prod.splits flow.splits)

lemma submitting:
  assumes "\<And>s. P (snd s) \<Longrightarrow> P (snd (snd (h s)))" "P (snd s)"
  shows "P (snd (snd (submit_method h s)))"
proof (cases s)
  case (Pair r w)
  then show ?thesis
    using assms(1) [of "(upd_entry (\<lambda>e. e\<lparr>WhiteHatBundleId := r_whitehatBundleId r\<rparr>) r, w)"] assms(2)
    by (auto simp: submit_method_def after_def respond_def split: prod.splits option.splits go.splits)
qed

lemma request: "P (snd s) \<Longrightarrow> P (snd (snd (ProcessRequest E s)))"
proof -
  assume "P (snd s)"
  then have "P (snd (snd (dispatch E s)))"
    by (auto simp: dispatch_def Let_def intro!: submitting raw private_tx tx_count eth_call version locally)
  with \<open>P (snd s)\<close> show ?thesis by (simp add: ProcessRequest_def split: go.split)
qed

lemma one_request: "P w \<Longrightarrow> P (snd (snd (processRequest E h client j wb i p body w)))"
  using request [of "(_, w)"]
  by (auto simp: processRequest_eq Let_def split: prod.splits option.splits go.splits) (metis snd_conv)+

lemma json_body: "P w \<Longrightarrow> P (snd (snd (process_json E h body w)))"
  by (auto simp: process_json_def Let_def intro!: one_request watch split: option.splits sum.splits)

lemma handler: "P w \<Longrightarrow> P (snd (snd (process E h w)))"
proof -
  assume "P w"
  then have "P (snd (snd (process_body E h w)))"
    by (auto simp: process_body_def Let_def intro!: json_body inc_simps split: prod.splits option.splits sum.splits if_splits)
  then show ?thesis by (auto simp: process_def split: prod.splits)
qed

end

section \<open>Exchanges\<close>

text \<open>With the counters of the middleware, and the bundles.\<close>

locale exchanges_keep = requests_keep +
  assumes any_count: "P w \<Longrightarrow> P (inc m w)"
begin

lemma bundle_exchange: "P w \<Longrightarrow> P (snd (HandleBundleRequest E q rw w))"
  using store [OF _ request_writes.bundle_del, of w]
  by (simp add: HandleBundleRequest_def Let_def redis_do_def case_prod_beta split: sum.splits)

lemma mux: "P w \<Longrightarrow> P (snd (snd (snd (main_mux E zone D s q rw w))))"
  using handler [of w] bundle_exchange [of w q rw]
  by (auto simp: main_mux_def HandleHttpRequest_def Let_def split: mux_target.splits prod.splits)
    (metis snd_conv)+

lemma served_exchange:
  assumes "main_serve E zone D s q w = (out, rw, rec, w')" "P w"
  shows "P w'"
  using mux [OF assms(2), of zone D s q new_respw] assms(1) any_count
  by (auto simp: main_serve_def MetricsMiddleware_def count_status_def split: prod.splits go.splits if_splits)

end

end
