(* ===== verification/Counter_Props.thy ===== *)
theory Counter_Props
  imports Frames
begin

text \<open>
  The status counters over one exchange with the main server. The handling of a request leaves
  them alone, whatever other counters it increments; the middleware increments at most one.
\<close>

section \<open>Views of the world a request does not change\<close>

text \<open>
  A view that does not see the calls, the goroutines, Redis, the cache, the clock and the counters
  other than those of a status stays the same over every request.
\<close>

locale blind =
  fixes view :: "'r World \<Rightarrow> 'v"
  assumes call: "view (make_call E c w) = view w"
    and count: "m \<notin> status_metrics \<Longrightarrow> view (inc m w) = view w"
    and go: "view (start_go g w) = view w"
    and redis: "view (w\<lparr>w_redis := d\<rparr>) = view w"
    and cache: "view (w\<lparr>w_cache := cc\<rparr>) = view w"

sublocale blind \<subseteq> unseen: steps_keep E "\<lambda>w. view w = v" for E v
  by unfold_locales (simp_all add: call count go redis cache)

sublocale blind \<subseteq> unseen: requests_keep E "\<lambda>w. view w = v" for E v
  by unfold_locales (rule unseen.to_relay_keeps, simp_all add: call)

context blind
begin

lemma handler_D: "process E h w = (out, h', w') \<Longrightarrow> view w' = view w"
  using unseen.handler [of w "view w" E h] by simp

end

section \<open>The counters\<close>

definition is_status :: "metric \<Rightarrow> bool" where
  "is_status m \<longleftrightarrow> m \<in> status_metrics"

definition status_counts :: "'r World \<Rightarrow> metric list" where
  "status_counts w = filter is_status (w_metrics w)"

interpretation counters: blind status_counts
  by unfold_locales (auto simp: status_counts_def is_status_def inc_def start_go_def)

lemma status_counts_bundle [simp]: "status_counts (snd (redis_do f w)) = status_counts w"
  by (simp add: status_counts_def redis_do_def split: prod.splits)

section \<open>The response\<close>

text \<open>A response that was not begun, and one that was sent with a status.\<close>

definition fresh :: "respw \<Rightarrow> bool" where
  "fresh rw \<longleftrightarrow> rw_Status rw = None \<and> rw_Recorded rw = 0 \<and> rw_Body rw = ''''"

definition sent_status :: "respw \<Rightarrow> int \<Rightarrow> bool" where
  "sent_status rw code \<longleftrightarrow> rw_Status rw = Some code \<and> rw_Recorded rw = code"

lemma respw_simps [simp]:
  "fresh new_respw" "fresh (Header_Set k v rw) \<longleftrightarrow> fresh rw"
  "fresh rw \<Longrightarrow> sent_status (WriteHeader code rw) code' \<longleftrightarrow> code' = code"
  by (auto simp: fresh_def sent_status_def new_respw_def Header_Set_def WriteHeader_def)

lemma fresh_setCorsHeaders [simp]: "fresh (setCorsHeaders rw) \<longleftrightarrow> fresh rw"
  by (simp add: setCorsHeaders_def)

lemma sent_Write: "sent_status rw code \<Longrightarrow> sent_status (Write text rw) code"
  by (simp add: sent_status_def Write_def)

lemma sent_Redirect: "fresh rw \<Longrightarrow> sent_status (http_Redirect meth url code rw) code"
  by (auto simp: http_Redirect_def Let_def intro!: sent_Write)

lemma sent_Error: "fresh rw \<Longrightarrow> sent_status (http_Error msg code rw) code"
  by (auto simp: http_Error_def intro!: sent_Write)

lemma sent_rpc: "fresh rw \<Longrightarrow> sent_status (writeRpcResponse L res rw) 200"
  by (auto simp: writeRpcResponse_def writeHeaderContentTypeJson_def intro!: sent_Write)

lemma sent_health:
  "fresh rw \<Longrightarrow> \<exists>code\<in>{200, 500}. sent_status (handleHealthRequest L zone s now rw) code"
  by (auto simp: handleHealthRequest_def intro!: sent_Write split: option.splits)

lemma sent_bundle:
  "fresh rw \<Longrightarrow> \<exists>code\<in>{200, 400, 405, 500}. sent_status (fst (HandleBundleRequest E q rw w)) code"
  by (auto simp: HandleBundleRequest_def Let_def intro!: sent_Write sent_Error split: sum.splits)

lemma sent_process:
  assumes "process E h w = (out, h', w')" "fresh (h_respw h)"
  shows "case out of
      Ret _ \<Rightarrow> (\<exists>code\<in>{200, 400}. sent_status (h_respw h') code)
    | Panic _ \<Rightarrow> unanswerable (e_lib E) (h_req h) \<and> h_respw h' = h_respw h"
  using assms(1)
proof (cases rule: process_cases)
  case (bad h1)
  then show ?thesis using assms(2) prepared_simps [OF bad(4)] by simp
next
  case (nil body h1)
  then show ?thesis using prepared_simps [OF nil(6)] by (auto simp: unanswerable_def)
next
  case (refused body j err h1)
  then show ?thesis using assms(2) prepared_simps [OF refused(6)] by (simp add: sent_rpc)
next
  case (run body j p client h1 w1 h2)
  note h1 = prepared_simps [OF run(4)]
  from run(7) obtain r2 res where "case out of
      Ret _ \<Rightarrow> h_respw h2 = writeRpcResponse (e_lib E) (Some res) (h_respw h1)
    | Panic _ \<Rightarrow> h_respw h2 = h_respw h1 \<and> (\<exists>r. r_jsonReq r = j \<and> malformed r)"
    by (rule processRequest_cases)
  then show ?thesis
    using run(1-3,8) h1 assms(2) by (cases out) (auto simp: unanswerable_def sent_rpc)
qed

lemma bundle_counts: "status_counts (snd (HandleBundleRequest E q rw w)) = status_counts w"
  by (auto simp: HandleBundleRequest_def Let_def split: sum.splits)

lemma sent_http:
  assumes "HandleHttpRequest E D s q rw w = (out, rw', rec, w')" "fresh rw"
  shows "status_counts w' = status_counts w \<and>
    (case out of
       Ret _ \<Rightarrow> (\<exists>code\<in>{200, 302, 400}. sent_status rw' code)
     | Panic _ \<Rightarrow> unanswerable (e_lib E) q \<and> rw' = setCorsHeaders rw)"
proof (cases "in_Method q \<in> {''GET'', ''OPTIONS''}")
  case True
  then show ?thesis
    using assms by (auto simp: HandleHttpRequest_def Let_def intro!: sent_Redirect)
next
  case False
  define h where "h = NewRpcRequestHandler (setCorsHeaders rw) q (w_now w) (s_proxyUrl s)
    (s_proxyTimeoutSeconds s) (s_relaySigningKey s) (s_relayUrl s)
    (BuilderNames (s_builderNameProvider s)) (s_chainID s) (s_defaultEthClient s)
    (s_configurationWatcher s) (d_uid D) (d_entryUid D) (d_seed D) (d_iter D)"
  have h: "h_respw h = setCorsHeaders rw" "h_req h = q"
    by (simp_all add: h_def NewRpcRequestHandler_def)
  obtain h' where p: "process E h w = (out, h', w')" "rw' = h_respw h'"
    using assms(1) False by (auto simp: HandleHttpRequest_def Let_def h_def split: prod.splits)
  then show ?thesis
    using sent_process [OF p(1)] counters.handler_D [OF p(1)] h assms(2) by (auto split: go.splits)
qed


section \<open>A concrete server\<close>

definition ex_configuration :: "memStore Configuration" where
  "ex_configuration = \<lparr>cfg_DB = mem_Store, cfg_DrainAddress = ''127.0.0.1:9001'', cfg_DrainSeconds = 60,
     cfg_ListenAddress = ''127.0.0.1:9000'', cfg_ProxyTimeoutSeconds = 10, cfg_ProxyUrl = ''http://node'',
     cfg_RedisUrl = ''dev'', cfg_RelaySigningKey = ''key'', cfg_RelayUrl = ''https://relay'',
     cfg_Version = ''dev'', cfg_BuilderInfoSource = '''', cfg_FetchInfoInterval = 600,
     cfg_TTLCacheSeconds = 300, cfg_DefaultMempoolRPC = ''http://mempool'',
     cfg_ConfigurationWatcher = None\<rparr>"

definition ex_started ::
    "(init_error + memStore RpcEndPointServer \<times> mem_state Env) \<times> mem_state World" where
  "ex_started = NewRpcEndPointServer (Inr ''127.0.0.1:1'') (\<lambda>_. mem_redis) ex_http_env ex_configuration ex_world"

definition ex_server :: "memStore RpcEndPointServer" where
  "ex_server = fst (projr (fst ex_started))"

definition ex_draws :: draws where
  "ex_draws = \<lparr>d_uid = ''u1'', d_entryUid = ''e1'', d_seed = 1, d_iter = (\<lambda>q. q)\<rparr>"


end
