(* ===== verification/Resend_Props.thy ===== *)
theory Resend_Props
  imports Counter_Props
begin

text \<open>
  At most one submission. Over any sequence of exchanges with the server, with the goroutines they
  start and time passing in between, a transaction is submitted to the relay at most once within
  almost five minutes, as long as Redis works and the status API does not report it as failed. The
  invariant is a predicate of the frame locale \<open>exchanges_keep\<close>: the transaction was not submitted
  yet, or it was submitted once and is marked.
\<close>

section \<open>Histories\<close>

text \<open>
  What may happen one after the other: an exchange with the server in one of the states \<open>S\<close> it goes
  through, a goroutine that was started, and time passing on the clock and in Redis.
\<close>

inductive exchanges ::
    "'r Env \<Rightarrow> (int \<Rightarrow> 'r \<Rightarrow> 'r) \<Rightarrow> 'd RpcEndPointServer set \<Rightarrow> 'r World \<Rightarrow> 'r World \<Rightarrow> bool"
  for E elapse S w0 where
  none: "exchanges E elapse S w0 w0"
| exchange: "exchanges E elapse S w0 w \<Longrightarrow> s \<in> S \<Longrightarrow> main_serve E zone D s q w = (out, rw, rec, w') \<Longrightarrow>
    exchanges E elapse S w0 w'"
| goroutine: "exchanges E elapse S w0 w \<Longrightarrow> g \<in> set (w_go w) \<Longrightarrow>
    exchanges E elapse S w0 (w\<lparr>w_redis := run_go (e_redis E) g (w_redis w)\<rparr>)"
| wait: "exchanges E elapse S w0 w \<Longrightarrow> 0 \<le> d \<Longrightarrow>
    exchanges E elapse S w0 (w\<lparr>w_now := w_now w + d, w_redis := elapse d (w_redis w)\<rparr>)"

text \<open>The submissions of the transaction with hash \<open>h\<close> so far.\<close>

fun submits :: "lib \<Rightarrow> string \<Rightarrow> ext_call \<Rightarrow> bool" where
  "submits L h (CallRelay u k (RelaySendPrivateTx args hdrs)) =
     (case GetTx L (priv_Tx args) of Inl _ \<Rightarrow> False | Inr t \<Rightarrow> ToLower (eth_HashHex t) = h)"
| "submits L h _ = False"

definition submissions_of :: "lib \<Rightarrow> string \<Rightarrow> 'r World \<Rightarrow> ext_call list" where
  "submissions_of L h w = filter (submits L h) (w_calls w)"

lemma submits_submission: "submits L h c \<Longrightarrow> is_submission c"
  by (cases "(L, h, c)" rule: submits.cases) auto

lemma submissions_simps [simp]:
  "submissions_of L h (inc m w) = submissions_of L h w"
  "submissions_of L h (start_go g w) = submissions_of L h w"
  "submissions_of L h (w\<lparr>w_cache := cc\<rparr>) = submissions_of L h w"
  "submissions_of L h (w\<lparr>w_redis := d\<rparr>) = submissions_of L h w"
  "submissions_of L h (w\<lparr>w_now := n\<rparr>) = submissions_of L h w"
  "submissions_of L h (make_call E c w) = (if submits L h c then c # submissions_of L h w else submissions_of L h w)"
  by (simp_all add: submissions_of_def)

section \<open>The other parties\<close>

text \<open>
  While a call is under way time passes, and the mark of the transaction ages and stays as it is while
  it has time to live. The status API answers and does not report the transaction as failed.
\<close>

definition mark_ages :: "('r \<Rightarrow> redis_db) \<Rightarrow> string \<Rightarrow> int \<Rightarrow> 'r \<Rightarrow> 'r \<Rightarrow> bool" where
  "mark_ages view h d s s' \<longleftrightarrow>
     (\<forall>x l. view s (RedisKeyTxSentToRelay h) = Some (x, Some l) \<and> d < l \<longrightarrow>
        view s' (RedisKeyTxSentToRelay h) = Some (x, Some (l - d)))"

definition undisturbed :: "'r Env \<Rightarrow> ('r \<Rightarrow> redis_db) \<Rightarrow> ('r \<Rightarrow> bool) \<Rightarrow> string \<Rightarrow> bool" where
  "undisturbed E view up h \<longleftrightarrow>
     (\<forall>cs now s now' s'. e_during E cs (now, s) = (now', s') \<longrightarrow>
        now \<le> now' \<and> (up s \<longrightarrow> up s') \<and> mark_ages view h (now' - now) s s')"

definition never_failed :: "'r Env \<Rightarrow> string \<Rightarrow> bool" where
  "never_failed E h \<longleftrightarrow> (\<forall>w. \<exists>api. fst (GetTxStatus E h w) = Inr api \<and> api_Status api \<noteq> TxStatusFailed)"

section \<open>The invariant\<close>

text \<open>
  The mark is a time not before the start (in whole seconds), and lives until the end of the
  window of 299 seconds.
\<close>

definition window :: int where
  "window = 299 * time_Second"

definition remembered :: "('r \<Rightarrow> redis_db) \<Rightarrow> string \<Rightarrow> int \<Rightarrow> 'r World \<Rightarrow> bool" where
  "remembered view h t0 w \<longleftrightarrow>
     (\<exists>i l. view (w_redis w) (RedisKeyTxSentToRelay h) = Some (RStr (Itoa i), Some l) \<and> int64_range i \<and>
        t0 - time_Second < i * time_Second \<and> t0 + window \<le> w_now w + l)"

definition tracked ::
    "lib \<Rightarrow> ('r \<Rightarrow> redis_db) \<Rightarrow> ('r \<Rightarrow> bool) \<Rightarrow> string \<Rightarrow> int \<Rightarrow> bool \<Rightarrow> nat \<Rightarrow> 'r World \<Rightarrow> bool" where
  "tracked L view up h t0 b n w \<longleftrightarrow>
     t0 + window \<le> w_now w \<or>
     t0 \<le> w_now w \<and> up (w_redis w) \<and> length (submissions_of L h w) = n \<and> (b \<longrightarrow> remembered view h t0 w)"

definition at_most_once ::
    "lib \<Rightarrow> ('r \<Rightarrow> redis_db) \<Rightarrow> ('r \<Rightarrow> bool) \<Rightarrow> string \<Rightarrow> int \<Rightarrow> nat \<Rightarrow> 'r World \<Rightarrow> bool" where
  "at_most_once L view up h t0 n w \<longleftrightarrow>
     tracked L view up h t0 False n w \<or> tracked L view up h t0 True (Suc n) w"

lemma sent_key_other:
  "RedisKeyTxSentToRelay h \<noteq> RedisKeyTxHashForSenderAndNonce a n"
  "RedisKeyTxSentToRelay h \<noteq> RedisKeyNonceFixForAccount a"
  "RedisKeyTxSentToRelay h \<noteq> RedisKeySenderOfTxHash h'"
  "RedisKeyTxSentToRelay h \<noteq> RedisKeyNonceOfTxHash h'"
  "RedisKeyTxSentToRelay h \<noteq> RedisKeySenderMaxNonce a"
  "RedisKeyTxSentToRelay h \<noteq> RedisKeyWhitehatBundleTransactions b"
  using key_text_eq_iff [of "KTxSent h" "KTxHash a n"] key_text_eq_iff [of "KTxSent h" "KNonceFix a"]
    key_text_eq_iff [of "KTxSent h" "KSenderOf h'"] key_text_eq_iff [of "KTxSent h" "KNonceOf h'"]
    key_text_eq_iff [of "KTxSent h" "KMaxNonce a"] key_text_eq_iff [of "KTxSent h" "KBundle b"]
  by simp_all

context redis_working
begin

lemma Set_other: "q \<noteq> k \<Longrightarrow> view (snd (redis_Set R s k a x)) q = view s q"
  by (rule applied_frame [OF Set_applied]) (rule effect_frame(1))

lemma Del_other: "q \<noteq> k \<Longrightarrow> view (snd (redis_Del R s k)) q = view s q"
  by (rule applied_frame [OF Del_applied]) (rule effect_frame(2))

lemma bundle_other:
  assumes "q \<noteq> RedisKeyWhitehatBundleTransactions b"
  shows "view (snd (AddTxToWhitehatBundle R s b x)) q = view s q"
proof -
  let ?k = "RedisKeyWhitehatBundleTransactions b" and ?x = RedisExpiryWhitehatBundleTransactions
  have 1: "view (snd (redis_LPush R s ?k x)) q = view s q" for s
    using assms by (intro applied_frame [OF LPush_applied] effect_frame(3))
  have x: "0 < ?x" "1000000000 dvd ?x" by (simp_all add: expiry_defs)
  have 2: "view (snd (redis_Expire R s ?k ?x)) q = view s q" for s
    by (rule applied_frame [OF Expire_applied], rule effect_frame(4) [OF _ assms x])
  have 3: "view (snd (redis_LTrim R s ?k 0 15)) q = view s q" for s
    by (rule applied_frame [OF LTrim_applied], rule effect_frame(5) [OF _ assms order_refl], assumption, simp)
  show ?thesis
    using 1 [of s] 2 3 by (auto simp: AddTxToWhitehatBundle_def Let_def split: prod.splits option.splits) (metis snd_conv)+
qed

text \<open>What the writes of a request do to the mark of a transaction.\<close>

lemma write_up:
  assumes "f \<in> request_writes R now" "up s"
  shows "up (snd (f s))"
proof -
  have set: "redis_Set R s' k a x = (e, s1) \<Longrightarrow> up s' \<Longrightarrow> up s1" for s' k a x e s1
    using up_after_Set [of s' k a x] by simp
  have push: "redis_LPush R s' k v = (e, s1) \<Longrightarrow> up s' \<Longrightarrow> up s1" for s' k v e s1
    using up_after_LPush [of s' k v] by simp
  have expire: "redis_Expire R s' k x = (e, s1) \<Longrightarrow> up s' \<Longrightarrow> up s1" for s' k x e s1
    using up_after_Expire [of s' k x] by simp
  show ?thesis
    using assms
    by (induction rule: request_writes.induct)
      (auto simp: SetTxSentToRelay_def SetTxHashForSenderAndNonce_def SetNonceFixForAccount_def
        SetSenderAndNonceOfTxHash_def DelSenderMaxNonce_def AddTxToWhitehatBundle_def DelWhitehatBundleTx_def
        Let_def intro!: up_after dest!: set push expire split: prod.splits option.splits)
qed

lemma write_mark:
  assumes "f \<in> request_writes R now"
  shows "view (snd (f s)) (RedisKeyTxSentToRelay h) = view s (RedisKeyTxSentToRelay h) \<or>
    (\<exists>h'. f = (\<lambda>s. SetTxSentToRelay R now s h') \<and> RedisKeyTxSentToRelay h' = RedisKeyTxSentToRelay h)"
  using assms
proof (induction rule: request_writes.induct)
  case (sent h')
  then show ?case using Set_other by (metis SetTxSentToRelay_def)
next
  case (sender h' a n)
  let ?s1 = "redis_Set R s (RedisKeySenderOfTxHash h') (ArgStr (ToLower a)) RedisExpirySenderOfTxHash"
  have "view (snd ?s1) (RedisKeyTxSentToRelay h) = view s (RedisKeyTxSentToRelay h)"
    using Set_other sent_key_other(3) by blast
  then show ?case
    using Set_other [OF sent_key_other(4)]
    by (cases ?s1) (simp add: SetSenderAndNonceOfTxHash_def split: option.splits)
qed (simp_all add: SetTxHashForSenderAndNonce_def SetNonceFixForAccount_def DelSenderMaxNonce_def
      DelWhitehatBundleTx_def Set_other Del_other bundle_other sent_key_other)

text \<open>A mark set in the window is one that is remembered.\<close>

lemma remembered_Set:
  assumes "up s" "RedisKeyTxSentToRelay h' = RedisKeyTxSentToRelay h"
    and "0 \<le> t0" "t0 \<le> now" "now < t0 + window" "t0 < 2 ^ 62" "w_now w = now"
    and "w_redis w = snd (SetTxSentToRelay R now s h')"
  shows "remembered view h t0 w"
proof -
  have "fst (SetTxSentToRelay R now s h') = None" using up_Set [OF assms(1)] by (simp add: SetTxSentToRelay_def)
  then have "view (w_redis w) (RedisKeyTxSentToRelay h) =
      Some (RStr (Itoa (now div time_Second)), Some RedisExpiryTxSentToRelay)"
    using tx_sent.view_put [of now s h' "w_redis w"] assms(2,8) by (simp add: prod_eq_iff)
  moreover have "int64_range (now div time_Second)" "t0 - time_Second < now div time_Second * time_Second"
    "t0 + window \<le> now + RedisExpiryTxSentToRelay"
    using assms(3-6) by (auto simp: int64_range_def expiry_defs window_def)
  ultimately show ?thesis using assms(7) by (auto simp: remembered_def)
qed

text \<open>While time passes a remembered mark stays, until the window is over.\<close>

lemma remembered_elapse:
  assumes "remembered view h t0 w" "w_now w \<le> w_now w'" "w_now w' < t0 + window"
    and "mark_ages view h (w_now w' - w_now w) (w_redis w) (w_redis w')"
  shows "remembered view h t0 w'"
  using assms unfolding remembered_def mark_ages_def by auto

text \<open>A call keeps track; a submission of the transaction is counted.\<close>

lemma tracked_call:
  assumes "undisturbed E view up h" "tracked L view up h t0 b n w"
  shows "tracked L view up h t0 b (if submits L h c then Suc n else n) (make_call E c w)"
proof (cases "t0 + window \<le> w_now (make_call E c w)")
  case False
  obtain now' s' where d: "e_during E (c # w_calls w) (w_now w, w_redis w) = (now', s')" by fastforce
  have w': "w_now (make_call E c w) = now'" "w_redis (make_call E c w) = s'"
    using d by (simp_all add: make_call_def)
  have u: "w_now w \<le> now'" "up (w_redis w) \<Longrightarrow> up s'"
      "mark_ages view h (now' - w_now w) (w_redis w) s'"
    using assms(1) d by (auto simp: undisturbed_def)
  have "remembered view h t0 (make_call E c w)" if "remembered view h t0 w"
    using that u False w' by (intro remembered_elapse [OF that]) simp_all
  then show ?thesis using assms(2) False u w' by (auto simp: tracked_def)
qed (simp add: tracked_def)

lemma tracked_store:
  assumes "tracked L view up h t0 b n w" "f \<in> request_writes R (w_now w)" "0 \<le> t0" "t0 < 2 ^ 62"
  shows "tracked L view up h t0 b n (w\<lparr>w_redis := snd (f (w_redis w))\<rparr>)"
proof (cases "t0 + window \<le> w_now w")
  case False
  then have t: "t0 \<le> w_now w" "up (w_redis w)" "length (submissions_of L h w) = n" "b \<longrightarrow> remembered view h t0 w"
    using assms(1) by (auto simp: tracked_def)
  let ?w = "w\<lparr>w_redis := snd (f (w_redis w))\<rparr>"
  have "remembered view h t0 ?w" if "remembered view h t0 w"
    using write_mark [OF assms(2), of "w_redis w" h]
  proof
    assume "view (snd (f (w_redis w))) (RedisKeyTxSentToRelay h) = view (w_redis w) (RedisKeyTxSentToRelay h)"
    then show ?thesis using that by (simp add: remembered_def)
  next
    assume "\<exists>h'. f = (\<lambda>s. SetTxSentToRelay R (w_now w) s h') \<and> RedisKeyTxSentToRelay h' = RedisKeyTxSentToRelay h"
    then obtain h' where "f = (\<lambda>s. SetTxSentToRelay R (w_now w) s h')" "RedisKeyTxSentToRelay h' = RedisKeyTxSentToRelay h"
      by blast
    then show ?thesis using t False assms(3,4) by (intro remembered_Set [of "w_redis w" h' h t0 "w_now w"]) simp_all
  qed
  then show ?thesis using t write_up [OF assms(2) t(2)] by (simp add: tracked_def)
qed (simp add: tracked_def)

lemma tracked_steps:
  assumes "e_redis E = R" "undisturbed E view up h" "0 \<le> t0" "t0 < 2 ^ 62"
  shows "steps_keep E (tracked L view up h t0 b n)"
proof
  fix w c
  assume "tracked L view up h t0 b n w" "\<not> is_submission c"
  then show "tracked L view up h t0 b n (make_call E c w)"
    using tracked_call [OF assms(2), of L t0 b n w c] submits_submission [of L h c] by (auto split: if_splits)
next
  fix w f
  assume "tracked L view up h t0 b n w" "f \<in> request_writes (e_redis E) (w_now w)"
  then show "tracked L view up h t0 b n (w\<lparr>w_redis := snd (f (w_redis w))\<rparr>)"
    using tracked_store assms by simp
qed (simp_all add: tracked_def remembered_def)

text \<open>The clock does not go back.\<close>

lemma late_call: "undisturbed E view up h \<Longrightarrow> t \<le> w_now w \<Longrightarrow> t \<le> w_now (make_call E c w)"
  by (force simp: undisturbed_def make_call_def split: prod.splits)

lemma late_steps: "undisturbed E view up h \<Longrightarrow> steps_keep E (\<lambda>w. t \<le> w_now w)"
  by unfold_locales (simp_all add: late_call)

lemma late_rest:
  assumes "undisturbed E view up h" "t0 \<le> w_now (snd (final m))" "set fs \<subseteq> set (relay_stages E t h')"
  shows "t0 \<le> w_now (snd (final (foldl and_then m fs)))"
proof (rule steps_keep.run_stages [OF late_steps [OF assms(1)]])
  fix f :: "'r rw \<Rightarrow> 'r rw flow" and s :: "'r rw"
  assume "f \<in> set fs" "t0 \<le> w_now (snd s)"
  then have "f \<in> set (relay_prefix E t h') \<or> f = stage_send E h'"
    using assms(3) by (auto simp: relay_stages_split)
  then show "t0 \<le> w_now (snd (final (f s)))"
    using steps_keep.relay_stage [OF late_steps [OF assms(1)], of f t h' t0 s]
      steps_keep.send_stage_keeps [OF late_steps [OF assms(1)], of t0 "snd s" "fst s" h']
      \<open>t0 \<le> w_now (snd s)\<close> late_call [OF assms(1)] by auto
qed (rule assms(2))

text \<open>Another transaction is of no account.\<close>

lemma tracked_other:
  assumes "e_redis E = R" "undisturbed E view up h" "0 \<le> t0" "t0 < 2 ^ 62"
    and "tracked (e_lib E) view up h t0 b n w" "GetTx (e_lib E) (r_rawTxHex r) = Inr t" "ToLower (eth_HashHex t) \<noteq> h"
  shows "tracked (e_lib E) view up h t0 b n (snd (sendTxToRelay E t (r, w)))"
proof (rule steps_keep.to_relay_keeps [OF tracked_steps [OF assms(1-4)] assms(5)])
  fix v :: "'r World" and args :: SendPrivateTxRequestWithPreferences and hdrs
  assume "tracked (e_lib E) view up h t0 b n v" "priv_Tx args = r_rawTxHex r"
  then show "tracked (e_lib E) view up h t0 b n (make_call E (CallRelay (r_relayUrl r) (r_relaySigningKey r)
      (RelaySendPrivateTx args hdrs)) v)"
    using tracked_call [OF assms(2), of "e_lib E" t0 b n v "CallRelay (r_relayUrl r) (r_relaySigningKey r)
      (RelaySendPrivateTx args hdrs)"] assms(6,7) by simp
qed

text \<open>A remembered transaction is held back, unless the window is over when the status is known.\<close>

lemma remembered_held:
  assumes "e_redis E = R" "undisturbed E view up h" "0 \<le> t0" "t0 < 2 ^ 62" "never_failed E h"
    and "tracked L view up h t0 True n w" "blockResendingTxToRelay E h w = (False, w1)"
  shows "t0 + window \<le> w_now w1"
proof (rule ccontr)
  assume late: "\<not> t0 + window \<le> w_now w1"
  have m: "w_now w \<le> w_now w1" using steps_keep.resend_D [OF late_steps [OF assms(2)] assms(7)] by blast
  then have "up (w_redis w)" "remembered view h t0 w" using assms(6) late by (auto simp: tracked_def)
  then obtain i l where i: "int64_range i" "t0 - time_Second < i * time_Second"
    and g: "redis_Get R (w_redis w) (RedisKeyTxSentToRelay h) = Inr (Itoa i)"
    by (auto simp: remembered_def dest: Get_live)
  obtain api w2 where s: "GetTxStatus E h w = (Inr api, w2)" "api_Status api \<noteq> TxStatusFailed"
    using assms(5) by (metis never_failed_def prod.collapse)
  have "w2 = w1 \<and> (api_Status api = TxStatusUnknown \<longrightarrow> 5 * time_Minute \<le> w_now w1 - i * time_Second) \<and>
      api_Status api = TxStatusUnknown"
    using assms(1,7) g s i by (auto simp: blockResendingTxToRelay_def GetTxSentToRelay_def Atoi_Itoa split: if_splits)
  then show False using i(2) late by (simp add: window_def expiry_defs)
qed

lemma tracked_same:
  assumes "e_redis E = R" "undisturbed E view up h" "0 \<le> t0" "t0 < 2 ^ 62" "never_failed E h"
    and "at_most_once (e_lib E) view up h t0 n w" "GetTx (e_lib E) (r_rawTxHex r) = Inr t" "ToLower (eth_HashHex t) = h"
  shows "at_most_once (e_lib E) view up h t0 n (snd (sendTxToRelay E t (r, w)))"
proof -
  let ?L = "e_lib E" and ?T = "\<lambda>b k. tracked (e_lib E) view up h t0 b k"
  define gs where "gs = [stage_nonce E t, stage_go_max_nonce t, stage_size E t, stage_remember E t h,
    stage_debug E h, stage_refund E t, stage_timeout]"
  define w2 where "w2 w1 = snd (redis_count (\<lambda>s. SetTxSentToRelay (e_redis E) (w_now w1) s h) w1)" for w1
  define r' where "r' = upd_entry (\<lambda>e. e\<lparr>WasSentToRelay := True\<rparr>) r"
  have gs: "set gs \<subseteq> set (relay_prefix E t h)" by (simp add: gs_def relay_prefix_def relay_stages_def)
  have run: "sendTxToRelay E t (r, w) = final (foldl and_then (stage_resend E h (r, w))
      (stage_mark_sent E h # gs @ [stage_send E h]))"
    by (simp add: sendTxToRelay_def relay_stages_def gs_def assms(8))
  obtain held w1 where b: "blockResendingTxToRelay E h w = (held, w1)" by fastforce
  note keep = steps_keep.resend_D [OF tracked_steps [OF assms(1-4)] b]
  show ?thesis
  proof (cases "held \<or> t0 + window \<le> w_now w1")
    case True
    then show ?thesis
    proof
      assume held
      then show ?thesis using run b keep assms(6) foldl_Return
        by (auto simp: at_most_once_def stage_resend_def)
    next
      assume "t0 + window \<le> w_now w1"
      then have "t0 + window \<le> w_now (snd (final (stage_resend E h (r, w))))"
        using b by (simp add: stage_resend_def split: bool.splits)
      then have "t0 + window \<le> w_now (snd (sendTxToRelay E t (r, w)))"
        unfolding run by (rule late_rest [OF assms(2)])
          (auto simp: gs_def relay_stages_def)
      then show ?thesis by (simp add: at_most_once_def tracked_def)
    qed
  next
    case False
    then have "\<not> ?T True (Suc n) w" using remembered_held [OF assms(1-5), of ?L "Suc n" w w1] b by auto
    then have t1: "?T False n w1" using keep assms(6) by (auto simp: at_most_once_def)
    have "up (w_redis (w2 w1))"
      using t1 False assms(1) write_up [OF request_writes.sent, of "w_redis w1"] by (simp add: tracked_def w2_def)
    moreover have "remembered view h t0 (w2 w1)"
      using t1 False assms(1,3,4) by (intro remembered_Set [of "w_redis w1" h h t0 "w_now w1"])
        (simp_all add: tracked_def w2_def)
    ultimately have t2: "?T True n (w2 w1)"
      using t1 False by (simp add: tracked_def w2_def submissions_of_def)
    have run': "sendTxToRelay E t (r, w) = final (and_then (foldl and_then (Continue (r', w2 w1)) gs) (stage_send E h))"
      using run b False by (simp add: r'_def stage_resend_def stage_mark_sent_def w2_def)
    have "?T True n (snd (sendTxToRelay E t (r, w))) \<or> ?T True (Suc n) (snd (sendTxToRelay E t (r, w)))"
      using gs t2
    proof (cases rule: steps_keep.relay_tail_keeps [OF tracked_steps [OF assms(1-4)],
        where r = r', consumes 2, case_names returned passed])
      case (returned s)
      then show ?thesis using run' by simp
    next
      case (passed s)
      have raw: "r_rawTxHex (fst s) = r_rawTxHex r" using kept_fields(5) [OF passed(3)] by (simp add: r'_def)
      have "?T True (Suc n) (make_call E (CallRelay u k (RelaySendPrivateTx args hdrs)) v)"
        if "?T True n v" "priv_Tx args = r_rawTxHex (fst s)" for v args hdrs u k
        using tracked_call [OF assms(2) that(1), of "CallRelay u k (RelaySendPrivateTx args hdrs)"] that(2) raw assms(7,8)
        by simp
      moreover have "?T True (Suc n) (inc m v)" if "?T True (Suc n) v" for m v
        using that by (simp add: tracked_def remembered_def)
      ultimately show ?thesis
        using steps_keep.send_stage_switch [OF tracked_steps [OF assms(1-4)] passed(2), of "fst s" "?T True (Suc n)" h]
          run' passed(1) by simp
    qed
    then show ?thesis by (auto simp: at_most_once_def tracked_def)
  qed
qed

lemma once_exchanges:
  assumes "e_redis E = R" "undisturbed E view up h" "0 \<le> t0" "t0 < 2 ^ 62" "never_failed E h"
  shows "exchanges_keep E (at_most_once (e_lib E) view up h t0 n)"
proof (intro exchanges_keep.intro requests_keep.intro requests_keep_axioms.intro exchanges_keep_axioms.intro)
  show "steps_keep E (at_most_once (e_lib E) view up h t0 n)"
    unfolding at_most_once_def [abs_def] by (intro steps_keep_disj tracked_steps [OF assms(1-4)])
next
  fix w and r :: RpcRequest and t
  assume "at_most_once (e_lib E) view up h t0 n w" "GetTx (e_lib E) (r_rawTxHex r) = Inr t"
    "GetSenderFromRawTx (e_lib E) t = Inr (r_txFrom r)" "eth_Nonce t < 1000000000"
  then show "at_most_once (e_lib E) view up h t0 n (snd (sendTxToRelay E t (r, w)))"
    using tracked_same [OF assms] tracked_other [OF assms(1-4)]
    by (cases "ToLower (eth_HashHex t) = h") (auto simp: at_most_once_def)
qed (simp add: at_most_once_def tracked_def remembered_def)

text \<open>Between exchanges.\<close>

lemma tracked_goroutine:
  assumes "tracked L view up h t0 b n w"
  shows "tracked L view up h t0 b n (w\<lparr>w_redis := run_go R g (w_redis w)\<rparr>)"
proof -
  obtain a k br where g: "g = GoSetSenderMaxNonce a k br" by (cases g)
  let ?s = "run_go R g (w_redis w)"
  have "?s = w_redis w \<or> ?s = snd (redis_Set R (w_redis w) (RedisKeySenderMaxNonce a) (ArgUint k) (max_nonce_expiry br))"
    by (auto simp: g run_go_def SetSenderMaxNonce_def split: prod.splits option.splits)
  then have "view ?s (RedisKeyTxSentToRelay h) = view (w_redis w) (RedisKeyTxSentToRelay h)"
    "up (w_redis w) \<Longrightarrow> up ?s"
    using Set_other [OF sent_key_other(5)] up_after_Set by auto
  then show ?thesis using assms by (auto simp: tracked_def remembered_def)
qed

lemma tracked_wait:
  assumes "tracked L view up h t0 b n w" "0 \<le> d"
  shows "tracked L view up h t0 b n (w\<lparr>w_now := w_now w + d, w_redis := elapse d (w_redis w)\<rparr>)"
proof (cases "t0 + window \<le> w_now w + d")
  case False
  let ?w = "w\<lparr>w_now := w_now w + d, w_redis := elapse d (w_redis w)\<rparr>"
  have "remembered view h t0 ?w" if "remembered view h t0 w"
    using that assms(2) False by (intro remembered_elapse [OF that]) (simp_all add: mark_ages_def view_elapse db_elapse_def)
  then show ?thesis using assms False up_elapse by (auto simp: tracked_def)
qed (simp add: tracked_def)

lemma once_history:
  assumes "e_redis E = R" "undisturbed E view up h" "0 \<le> t0" "t0 < 2 ^ 62" "never_failed E h"
    and "exchanges E elapse S w0 w" "at_most_once (e_lib E) view up h t0 n w0"
  shows "at_most_once (e_lib E) view up h t0 n w"
  using assms(6)
proof (induction rule: exchanges.induct)
  case (exchange w s zone D q out rw rec w')
  then show ?case using exchanges_keep.served_exchange [OF once_exchanges [OF assms(1-5)]] by blast
next
  case (goroutine w g)
  then show ?case using tracked_goroutine assms(1) by (auto simp: at_most_once_def)
next
  case (wait w d)
  then show ?case using tracked_wait by (auto simp: at_most_once_def)
qed (rule assms(7))

end

text \<open>
  C3: a transaction is submitted at most once. Take any history of exchanges with the server that
  lasts less than 299 seconds, with any requests, with the goroutines they start and time passing in
  between. As long as Redis works, nobody else writes the mark of the transaction while a call is under way,
  and the status API answers and does not report the transaction as failed, the history holds
  at most one call that submits the transaction to the relay, however often it is requested, and
  whatever else is.
\<close>

theorem submitted_at_most_once:
  assumes "redis_working (e_redis E) view elapse up" and "undisturbed E view up h" and "never_failed E h"
    and "0 \<le> w_now w0" "w_now w0 < 2 ^ 62" and "up (w_redis w0)"
    and "exchanges E elapse S w0 w" and "w_now w < w_now w0 + 299 * time_Second"
  shows "length (submissions_of (e_lib E) h w) \<le> Suc (length (submissions_of (e_lib E) h w0))"
proof -
  have "at_most_once (e_lib E) view up h (w_now w0) (length (submissions_of (e_lib E) h w0)) w0"
    using assms(6) by (simp add: at_most_once_def tracked_def)
  from redis_working.once_history [OF assms(1) refl assms(2,4,5,3,7) this] assms(8) show ?thesis
    by (auto simp: at_most_once_def tracked_def window_def)
qed

text \<open>The same transaction is posted twice, with three minutes in between.\<close>

definition ex_exchange :: "mem_state World \<Rightarrow> mem_state World" where
  "ex_exchange w = snd (snd (snd (main_serve ex_http_env (\<lambda>_. 0) ex_draws ex_server (ex_post ''send'') w)))"

definition ex_wait :: "mem_state World \<Rightarrow> mem_state World" where
  "ex_wait w = w\<lparr>w_now := w_now w + 3 * time_Minute, w_redis := mem_elapse (3 * time_Minute) (w_redis w)\<rparr>"

lemma ex_exchange_step:
  "exchanges ex_http_env mem_elapse {ex_server} w0 w \<Longrightarrow> exchanges ex_http_env mem_elapse {ex_server} w0 (ex_exchange w)"
  unfolding ex_exchange_def
  by (rule exchanges.exchange [where s = ex_server]) (auto simp: prod_eq_iff)

lemma ex_wait_step:
  "exchanges ex_http_env mem_elapse {ex_server} w0 w \<Longrightarrow> exchanges ex_http_env mem_elapse {ex_server} w0 (ex_wait w)"
  unfolding ex_wait_def by (rule exchanges.wait) (simp_all add: expiry_defs)

lemma ex_calls_instant: "w_now (make_call ex_http_env c w) = w_now w"
  by (simp add: make_call_def ex_http_env_def ex_env_def)

lemma ex_clock: "steps_keep ex_http_env (\<lambda>w. w_now w = n)"
  by unfold_locales (simp_all add: ex_calls_instant)

lemma ex_exchange_now: "w_now (ex_exchange w) = w_now w"
proof -
  have "exchanges_keep ex_http_env (\<lambda>v. w_now v = w_now w)"
    by (intro exchanges_keep.intro requests_keep.intro requests_keep_axioms.intro exchanges_keep_axioms.intro
        ex_clock steps_keep.to_relay_keeps [OF ex_clock]) (simp_all add: ex_calls_instant)
  note keep = exchanges_keep.served_exchange [OF this]
  obtain out rw rec w' where
      m: "main_serve ex_http_env (\<lambda>_. 0) ex_draws ex_server (ex_post ''send'') w = (out, rw, rec, w')"
    by (cases "main_serve ex_http_env (\<lambda>_. 0) ex_draws ex_server (ex_post ''send'') w")
  from keep [OF m refl] show ?thesis using m by (simp add: ex_exchange_def)
qed

theorem submitted_at_most_once_witness:
  "length (submissions_of (e_lib ex_http_env) ''0xab'' (ex_exchange ex_world)) = 1 \<and>
   length (submissions_of (e_lib ex_http_env) ''0xab'' (ex_exchange (ex_wait (ex_exchange ex_world)))) \<le> 1"
proof -
  let ?w = "ex_exchange (ex_wait (ex_exchange ex_world))"
  have R: "e_redis ex_http_env = mem_redis" by (simp add: ex_http_env_def ex_env_def)
  have s: "submissions_of (e_lib ex_http_env) ''0xab'' ex_world = []" by code_simp
  have now: "w_now ex_world = 1700000000 * time_Second" "snd (w_redis ex_world)"
    by (simp_all add: ex_world_def mem_empty_def)
  have u: "undisturbed ex_http_env fst snd ''0xab''"
    by (auto simp: undisturbed_def ex_http_env_def ex_env_def mark_ages_def)
  have f: "never_failed ex_http_env ''0xab''"
  proof -
    have "fst (GetTxStatus ex_http_env ''0xab'' w) = fst (GetTxStatus ex_http_env ''0xab'' ex_world)" for w
      by (simp add: GetTxStatus_def http_Do_def ex_http_env_def ex_env_def Let_def split: sum.splits option.splits)
    moreover have "case fst (GetTxStatus ex_http_env ''0xab'' ex_world) of
        Inl _ \<Rightarrow> False | Inr api \<Rightarrow> api_Status api \<noteq> TxStatusFailed" by code_simp
    ultimately show ?thesis by (auto simp: never_failed_def split: sum.splits)
  qed
  have h: "exchanges ex_http_env mem_elapse {ex_server} ex_world ?w"
    by (intro ex_exchange_step ex_wait_step exchanges.none)
  have "length (submissions_of (e_lib ex_http_env) ''0xab'' ?w) \<le>
      Suc (length (submissions_of (e_lib ex_http_env) ''0xab'' ex_world))"
    by (rule submitted_at_most_once [OF _ u f _ _ now(2) h])
      (simp_all add: R mem.redis_working_axioms now ex_exchange_now ex_wait_def expiry_defs)
  moreover have "length (submissions_of (e_lib ex_http_env) ''0xab'' (ex_exchange ex_world)) = 1" by code_simp
  ultimately show ?thesis using s by simp
qed

end
