(* ===== verification/Nonce_Props.thy ===== *)
theory Nonce_Props
  imports Resend_Props Intercept_Props
begin

text \<open>
  What an account is told about its own transactions. Every submission starts the goroutine that
  keeps the highest nonce of the sender; once it has run, the count that is answered to the signed
  request of the sender is past the transaction, whatever the node says.
\<close>

section \<open>Every submission is noted\<close>

text \<open>For each submission so far its goroutine was started; \<open>X\<close> are goroutines known to be started.\<close>

fun call_noted :: "lib \<Rightarrow> goroutine set \<Rightarrow> ext_call \<Rightarrow> bool" where
  "call_noted L G (CallRelay u k (RelaySendPrivateTx args hdrs)) \<longleftrightarrow>
     (\<forall>t sndr. GetTx L (priv_Tx args) = Inr t \<longrightarrow> GetSenderFromRawTx L t = Inr sndr \<longrightarrow>
        eth_Nonce t < 1000000000 \<and> (\<exists>br. GoSetSenderMaxNonce sndr (eth_Nonce t) br \<in> G))"
| "call_noted L G _ \<longleftrightarrow> True"

definition noted :: "lib \<Rightarrow> goroutine set \<Rightarrow> 'r World \<Rightarrow> bool" where
  "noted L X w \<longleftrightarrow> X \<subseteq> set (w_go w) \<and> (\<forall>c\<in>set (w_calls w). call_noted L (set (w_go w)) c)"

lemma call_noted_other: "\<not> is_submission c \<Longrightarrow> call_noted L G c"
  by (cases c rule: is_submission.cases) simp_all

lemma call_noted_mono: "call_noted L G c \<Longrightarrow> G \<subseteq> H \<Longrightarrow> call_noted L H c"
  by (cases c rule: is_submission.cases) (simp_all, blast)

lemma noted_start_go: "noted L X w \<Longrightarrow> noted L (insert g X) (start_go g w)"
  unfolding noted_def start_go_def using call_noted_mono [of L "set (w_go w)" _ "insert g (set (w_go w))"] by auto

lemma noted_weaken: "noted L X w \<Longrightarrow> Y \<subseteq> X \<Longrightarrow> noted L Y w"
  by (auto simp: noted_def)

lemma noted_steps: "steps_keep (E :: 'r Env) (noted L X)"
proof
  fix w :: "'r World" and c assume "noted L X w" "\<not> is_submission c"
  then show "noted L X (make_call E c w)" by (simp add: noted_def call_noted_other)
next
  fix w :: "'r World" and g assume "noted L X w"
  then show "noted L X (start_go g w)" using noted_weaken [OF noted_start_go] by blast
qed (simp_all add: noted_def inc_def)

lemma noted_send:
  assumes "noted (e_lib E) {GoSetSenderMaxNonce (r_txFrom r) (eth_Nonce t) br} w"
    and "GetTx (e_lib E) (r_rawTxHex r) = Inr t" "GetSenderFromRawTx (e_lib E) t = Inr (r_txFrom r)"
    and "eth_Nonce t < 1000000000"
  shows "noted (e_lib E) {GoSetSenderMaxNonce (r_txFrom r) (eth_Nonce t) br} (snd (final (stage_send E h (r, w))))"
proof (rule steps_keep.send_stage_keeps [OF noted_steps assms(1)])
  fix v :: "'a World" and args :: SendPrivateTxRequestWithPreferences and hdrs
  assume "noted (e_lib E) {GoSetSenderMaxNonce (r_txFrom r) (eth_Nonce t) br} v" "priv_Tx args = r_rawTxHex r"
  then show "noted (e_lib E) {GoSetSenderMaxNonce (r_txFrom r) (eth_Nonce t) br} (make_call E
      (CallRelay (r_relayUrl r) (r_relaySigningKey r) (RelaySendPrivateTx args hdrs)) v)"
    using assms(2-4) by (auto simp: noted_def)
qed

lemma noted_relay:
  assumes "noted (e_lib E) {} w" "GetTx (e_lib E) (r_rawTxHex r) = Inr t"
    "GetSenderFromRawTx (e_lib E) t = Inr (r_txFrom r)" "eth_Nonce t < 1000000000"
  shows "noted (e_lib E) {} (snd (sendTxToRelay E t (r, w)))"
proof -
  let ?h = "ToLower (eth_HashHex t)"
  define fs where "fs = [stage_resend E ?h, stage_mark_sent E ?h, stage_nonce E t]"
  define gs where "gs = [stage_size E t, stage_remember E t ?h, stage_debug E ?h, stage_refund E t, stage_timeout]"
  have sub: "set fs \<subseteq> set (relay_prefix E t ?h)" "set gs \<subseteq> set (relay_prefix E t ?h)"
    by (simp_all add: fs_def gs_def relay_prefix_def relay_stages_def)
  have run: "sendTxToRelay E t (r, w) = final (and_then (foldl and_then
      (and_then (foldl and_then (Continue (r, w)) fs) (stage_go_max_nonce t)) gs) (stage_send E ?h))"
    by (simp add: sendTxToRelay_def relay_stages_def fs_def gs_def)
  from sub(1) assms(1) show ?thesis
  proof (cases rule: steps_keep.relay_tail_keeps [OF noted_steps, where r = r, consumes 2, case_names returned passed])
    case (returned s)
    then show ?thesis using run foldl_Return by simp
  next
    case (passed s)
    obtain r1 w1 where s: "s = (r1, w1)" by (cases s)
    note k = kept_fields [of r r1]
    let ?g = "GoSetSenderMaxNonce (r_txFrom r) (eth_Nonce t) (blockRange (r_urlParams r))"
    have "noted (e_lib E) {?g} (start_go ?g w1)"
      using noted_start_go [OF passed(2), of ?g] s by simp
    with sub(2) show ?thesis
    proof (cases rule: steps_keep.relay_tail_keeps [OF noted_steps, where r = r1, consumes 2, case_names returned passed])
      case returned: (returned s2)
      then show ?thesis using run passed s k noted_weaken [OF returned(2)] by (simp add: stage_go_max_nonce_def)
    next
      case last: (passed s2)
      obtain r2 w2 where s2: "s2 = (r2, w2)" by (cases s2)
      have r2: "kept r r2" using kept_trans passed(3) last(3) s s2 by simp
      have sent: "noted (e_lib E) {?g} (snd (final (stage_send E ?h (r2, w2))))"
        using noted_send [of E r2 t "blockRange (r_urlParams r)" w2 ?h] last(2) s2 assms(2-4) kept_fields [OF r2] by simp
      show ?thesis using run passed s k last(1) s2 noted_weaken [OF sent] by (simp add: stage_go_max_nonce_def)
    qed
  qed
qed

lemma noted_exchanges: "exchanges_keep E (noted (e_lib E) {})"
  by (intro exchanges_keep.intro requests_keep.intro requests_keep_axioms.intro exchanges_keep_axioms.intro
      noted_steps noted_relay) (simp_all add: noted_def inc_def)

lemma noted_history:
  assumes "exchanges E elapse S w0 w" "w_calls w0 = []"
  shows "noted (e_lib E) {} w"
  using assms(1)
proof (induction rule: exchanges.induct)
  case none
  then show ?case using assms(2) by (simp add: noted_def)
next
  case (exchange w s zone D q out rw rec w')
  then show ?case using exchanges_keep.served_exchange [OF noted_exchanges] by blast
qed (simp_all add: noted_def)

section \<open>What the sender is told\<close>

text \<open>The entry of an account can be read and is not at the end of the range.\<close>

definition readable_nonce :: "'r redis_client \<Rightarrow> 'r \<Rightarrow> string \<Rightarrow> bool" where
  "readable_nonce R s a \<longleftrightarrow>
     (case GetSenderMaxNonce R s a of (p, found, e) \<Rightarrow> e = None \<and> (found \<longrightarrow> p < - 1))"

definition ran :: "'r Env \<Rightarrow> goroutine \<Rightarrow> 'r World \<Rightarrow> 'r World" where
  "ran E g w = w\<lparr>w_redis := run_go (e_redis E) g (w_redis w)\<rparr>"

context redis_working
begin

lemma SetSenderMaxNonce_read:
  assumes "up s" "readable_nonce R s a" "n < - 1"
  shows "\<exists>p. GetSenderMaxNonce R (snd (SetSenderMaxNonce R s a n br)) a = (p, True, None) \<and> n \<le> p \<and> p < - 1"
proof -
  obtain p found where g: "GetSenderMaxNonce R s a = (p, found, None)" "found \<longrightarrow> p < - 1"
    using assms(2) by (cases "GetSenderMaxNonce R s a") (auto simp: readable_nonce_def)
  show ?thesis
  proof (cases "found \<and> n \<le> p")
    case True
    then show ?thesis using g by (simp add: SetSenderMaxNonce_def)
  next
    case False
    let ?k = "RedisKeySenderMaxNonce a"
    let ?x = "redis_Set R s ?k (ArgUint n) (max_nonce_expiry br)"
    have x: "?x = (None, snd ?x)" using up_Set [OF assms(1)] by (simp add: prod_eq_iff)
    obtain t where "view (snd ?x) ?k = Some (RStr (FormatUint n), t)"
      using view_Set_ok [OF x] by auto
    then have "redis_Get R (snd ?x) ?k = Inr (FormatUint n)"
      using Get_live up_after_Set [OF assms(1)] by blast
    then have "GetSenderMaxNonce R (snd ?x) a = (n, True, None)"
      by (simp add: GetSenderMaxNonce_def get_uint_cell_def ParseUint_FormatUint)
    moreover have "snd (SetSenderMaxNonce R s a n br) = snd ?x"
      using g False by (auto simp: SetSenderMaxNonce_def split: prod.splits)
    ultimately show ?thesis using assms(3) by simp
  qed
qed

end

text \<open>
  C10: an account is told of its own submissions. In any history since the process started, every
  transaction that was submitted to the relay has started a goroutine; once that one has run against a
  working Redis, a request for the pending count signed by the sender, to which the node answers, is
  answered with a count greater than the nonce of the transaction, whatever count the node has.
\<close>

theorem own_submission_counted:
  assumes "redis_working (e_redis E) view elapse up"
    and "exchanges E elapse S w0 w" "w_calls w0 = []"
    and "CallRelay u k (RelaySendPrivateTx args hdrs) \<in> set (w_calls w)"
    and "GetTx (e_lib E) (priv_Tx args) = Inr t" "GetSenderFromRawTx (e_lib E) t = Inr sndr"
  shows "\<exists>g\<in>set (w_go w). \<forall>v r r1 w1 res x backend.
    up (w_redis v) \<longrightarrow> readable_nonce (e_redis E) (w_redis v) sndr \<longrightarrow>
    signed_count_address r = Some (ToLower sndr) \<longrightarrow> proxyRequestRead E r (ran E g v) = (True, r1, w1) \<longrightarrow>
    r_jsonRes r1 = Some res \<longrightarrow> res_Result res = Some x \<longrightarrow>
    hexutil_Uint64_UnmarshalJSON (e_lib E) x = Inr backend \<longrightarrow>
    (\<exists>r' w' n. intercept_signed_eth_getTransactionCount E r (ran E g v) = (True, r', w') \<and>
       answered_result (JStr (Sprintf_0x n)) r' \<and> eth_Nonce t < n \<and> backend \<le> n)"
proof -
  have "noted (e_lib E) {} w" using assms(2,3) by (rule noted_history)
  then obtain br where n: "eth_Nonce t < 1000000000" and g: "GoSetSenderMaxNonce sndr (eth_Nonce t) br \<in> set (w_go w)"
    using assms(4-6) by (fastforce simp: noted_def)
  have small: "eth_Nonce t < - 1" using n by (rule order.strict_trans) simp
  show ?thesis
  proof (intro bexI [OF _ g] allI impI)
    fix v r r1 w1 res x backend
    let ?v = "ran E (GoSetSenderMaxNonce sndr (eth_Nonce t) br) v"
    assume a: "up (w_redis v)" "readable_nonce (e_redis E) (w_redis v) sndr"
      "signed_count_address r = Some (ToLower sndr)" "proxyRequestRead E r ?v = (True, r1, w1)"
      "r_jsonRes r1 = Some res" "res_Result res = Some x" "hexutil_Uint64_UnmarshalJSON (e_lib E) x = Inr backend"
    obtain p where p: "GetSenderMaxNonce (e_redis E) (w_redis ?v) sndr = (p, True, None)" "eth_Nonce t \<le> p" "p < - 1"
      using redis_working.SetSenderMaxNonce_read [OF assms(1) a(1,2) small, of br] by (auto simp: ran_def run_go_def)
    then have "GetSenderMaxNonce (e_redis E) (w_redis ?v) (ToLower sndr) = (p, True, None)"
      by (simp add: GetSenderMaxNonce_def RedisKeySenderMaxNonce_def)
    from signed_count_max [OF a(3) this a(4-7)] obtain r' w' where
      "intercept_signed_eth_getTransactionCount E r ?v = (True, r', w')"
      "answered_result (JStr (Sprintf_0x (max (p + 1) backend))) r'" by blast
    moreover have "p < p + 1" using p(3) inc_less_eq_triv_imp [of p] by (metis not_less less_irrefl)
    then have "eth_Nonce t < max (p + 1) backend" "backend \<le> max (p + 1) backend"
      using p(2) by (auto simp: max_def)
    ultimately show "\<exists>r' w' n. intercept_signed_eth_getTransactionCount E r ?v = (True, r', w') \<and>
       answered_result (JStr (Sprintf_0x n)) r' \<and> eth_Nonce t < n \<and> backend \<le> n" by blast
  qed
qed

text \<open>The account \<open>0x1\<close> sends a transaction with nonce 5 and asks for its count, which is 5 at the node.\<close>

definition ex_noted :: "mem_state World" where
  "ex_noted = ran ex_http_env (GoSetSenderMaxNonce ''0x1'' 5 0) (ex_exchange ex_world)"

theorem own_submission_counted_witness:
  "\<exists>r' w' n. intercept_signed_eth_getTransactionCount ex_http_env ex_signed ex_noted = (True, r', w') \<and>
     answered_result (JStr (Sprintf_0x n)) r' \<and> 5 < n"
proof -
  let ?p = "proxyRequestRead ex_http_env ex_signed ex_noted"
  have R: "redis_working (e_redis ex_http_env) fst mem_elapse snd"
    by (simp add: ex_http_env_def ex_env_def mem.redis_working_axioms)
  have h: "exchanges ex_http_env mem_elapse {ex_server} ex_world (ex_exchange ex_world)"
    by (intro ex_exchange_step exchanges.none)
  have go: "w_go (ex_exchange ex_world) = [GoSetSenderMaxNonce ''0x1'' 5 0]" by code_simp
  have c: "case hd (w_calls (ex_exchange ex_world)) of
      CallRelay u k (RelaySendPrivateTx args hdrs) \<Rightarrow> priv_Tx args = ''0x01'' | _ \<Rightarrow> False"
    "w_calls (ex_exchange ex_world) \<noteq> []" "w_calls ex_world = []" by code_simp+
  from c(1,2) obtain u k args hdrs where call:
      "CallRelay u k (RelaySendPrivateTx args hdrs) \<in> set (w_calls (ex_exchange ex_world))" "priv_Tx args = ''0x01''"
    by (cases "w_calls (ex_exchange ex_world)") (auto split: ext_call.splits relay_request.splits)
  have t: "GetTx (e_lib ex_http_env) ''0x01'' = Inr ex_tx" "GetSenderFromRawTx (e_lib ex_http_env) ex_tx = Inr ''0x1''"
    by code_simp+
  have v: "snd (w_redis (ex_exchange ex_world))" "readable_nonce (e_redis ex_http_env) (w_redis (ex_exchange ex_world)) ''0x1''"
    "signed_count_address ex_signed = Some (ToLower ''0x1'')" by code_simp+
  have "fst ?p" by code_simp
  then have p: "?p = (True, fst (snd ?p), snd (snd ?p))" by (metis prod.collapse)
  have res: "r_jsonRes (fst (snd ?p)) = Some \<lparr>res_Id = JNum ''1'', res_Result = Some (JStr ''0x5''),
      res_Error = None, res_Version = ''2.0''\<rparr>" by code_simp
  have b: "hexutil_Uint64_UnmarshalJSON (e_lib ex_http_env) (JStr ''0x5'') = Inr 5" by code_simp
  have n: "eth_Nonce ex_tx = 5" by (simp add: ex_tx_def)
  note own = own_submission_counted [OF R h c(3) call(1) t(1) [folded call(2)] t(2),
      simplified go list.set bex_simps simp_thms, rule_format]
  show ?thesis
    using own [OF v p [unfolded ex_noted_def] res [unfolded ex_noted_def] _ b] unfolding ex_noted_def n by auto
qed

end
