(* ===== verification/Server_Props.thy ===== *)
theory Server_Props
  imports Counter_Props Redis_Props
begin

text \<open>
  The server as a whole: its life cycle as a step relation over the calls of \<open>Start\<close> and the
  requests handled meanwhile, what its construction fixes for later requests, and the bundle
  endpoint against the bundles collected.
\<close>

section \<open>Life cycle\<close>

text \<open>
  A history of a server, newest event first. \<open>Start\<close> goes from call to call; a drain request can be
  handled from the time the drain server was started (also after \<open>Shutdown\<close>, which gives up waiting
  for handlers after 30 seconds), a health request from the time the main server was.
\<close>

datatype server_event = Advanced start_point | Drained "int option" | HealthChecked int int

inductive history ::
    "lib \<Rightarrow> (int \<Rightarrow> int) \<Rightarrow> 'd RpcEndPointServer \<Rightarrow> server_event list \<Rightarrow> start_point \<Rightarrow>
     'd RpcEndPointServer \<Rightarrow> bool" for L zone s0 where
  called: "history L zone s0 [] BeforeMain s0"
| advance: "history L zone s0 tr pc s \<Longrightarrow> pc \<noteq> Stopped \<Longrightarrow> Start pc s = Ret (pc', s') \<Longrightarrow>
    history L zone s0 (Advanced pc' # tr) pc' s'"
| drain: "history L zone s0 tr pc s \<Longrightarrow> pc \<notin> {BeforeMain, BeforeDrain} \<Longrightarrow>
    handleDrain s = (sleep, s') \<Longrightarrow> history L zone s0 (Drained sleep # tr) pc s'"
| health: "history L zone s0 tr pc s \<Longrightarrow> pc \<noteq> BeforeMain \<Longrightarrow>
    rw_Status (handleHealthRequest L zone s now new_respw) = Some code \<Longrightarrow>
    history L zone s0 (HealthChecked now code # tr) pc s"

inductive_simps history_Nil: "history L zone s0 [] pc s"
inductive_cases history_Advanced: "history L zone s0 (Advanced pc' # tr) pc s"
inductive_cases history_Drained: "history L zone s0 (Drained sleep # tr) pc s"
inductive_cases history_Health: "history L zone s0 (HealthChecked now code # tr) pc s"

definition undrained :: "server_event list \<Rightarrow> bool" where
  "undrained tr \<longleftrightarrow> list_all (\<lambda>e. case e of Drained _ \<Rightarrow> False | _ \<Rightarrow> True) tr"

lemma undrained_simps [simp]:
  "undrained []" "undrained (Advanced pc # tr) \<longleftrightarrow> undrained tr" "\<not> undrained (Drained d # tr)"
  "undrained (HealthChecked now code # tr) \<longleftrightarrow> undrained tr"
  by (simp_all add: undrained_def)

text \<open>A new server, and what a server is at a point of \<open>Start\<close>.\<close>

definition idle :: "'d RpcEndPointServer \<Rightarrow> bool" where
  "idle s \<longleftrightarrow> s_server s = None \<and> s_drain s = None \<and> s_isHealthy s"

definition state_at ::
    "'d RpcEndPointServer \<Rightarrow> bool \<Rightarrow> start_point \<Rightarrow> 'd RpcEndPointServer \<Rightarrow> bool" where
  "state_at s0 healthy pc s \<longleftrightarrow>
     (s_server s \<noteq> None \<longleftrightarrow> pc \<in> {BeforeDrain, Waiting, AfterSignal, AfterDrain}) \<and>
     (s_drain s \<noteq> None \<longleftrightarrow> pc \<in> {Waiting, AfterSignal}) \<and> (s_isHealthy s \<longleftrightarrow> healthy) \<and>
     s_drainSeconds s = s_drainSeconds s0 \<and> s_startTime s = s_startTime s0 \<and> s_version s = s_version s0"

lemmas life_defs =
  Start_def startMainServer_def startDrainServer_def stopMainServer_def stopDrainServer_def

lemma Start_state:
  assumes "state_at s0 b pc s"
  shows "\<exists>pc' s'. Start pc s = Ret (pc', s') \<and> state_at s0 b pc' s'"
  using assms by (cases pc) (simp_all add: state_at_def life_defs)

lemma handleDrain_state:
  assumes "state_at s0 b pc s" "handleDrain s = (sleep, s')"
  shows "state_at s0 False pc s'"
    and "sleep = (if b then Some (sint ((of_int (s_drainSeconds s0) :: u64) * of_int time_Second)) else None)"
  using assms by (auto simp: state_at_def handleDrain_def split: if_splits)

lemma history_state:
  assumes "history L zone s0 tr pc s" "idle s0"
  shows "state_at s0 (undrained tr) pc s"
  using assms
proof (induction rule: history.induct)
  case called
  then show ?case by (simp add: idle_def state_at_def)
next
  case (advance tr pc s pc' s')
  then show ?case using Start_state [of s0 "undrained tr" pc s] by auto
next
  case (drain tr pc s sleep s')
  then show ?case using handleDrain_state(1) by auto
qed simp

lemma NewRpcEndPointServer_idle:
  "NewRpcEndPointServer mr connect E0 cfg w = (Inr (s, E), w') \<Longrightarrow> idle s"
  by (auto simp: NewRpcEndPointServer_def idle_def Let_def
      split: sum.splits option.splits prod.splits if_splits)

text \<open>
  C16: the life cycle of a server. A server that was constructed never panics on a double start; the
  drain server runs only while the main server does, and after \<open>Start\<close> has returned neither runs.
  The server is healthy exactly as long as no drain request was handled.
\<close>

theorem server_lifecycle:
  assumes "NewRpcEndPointServer mr connect E0 cfg w = (Inr (s0, E), w')"
    and "history L zone s0 tr pc s"
  shows "(\<exists>pc' s'. Start pc s = Ret (pc', s')) \<and> (s_drain s \<noteq> None \<longrightarrow> s_server s \<noteq> None) \<and>
    (pc = Stopped \<longrightarrow> s_server s = None \<and> s_drain s = None) \<and> (s_isHealthy s \<longleftrightarrow> undrained tr)"
proof -
  have st: "state_at s0 (undrained tr) pc s"
    using history_state [OF assms(2)] NewRpcEndPointServer_idle [OF assms(1)] by blast
  with Start_state [OF st] show ?thesis by (auto simp: state_at_def)
qed

lemma health_status:
  "rw_Status (handleHealthRequest L zone s now new_respw) =
     Some (if s_isHealthy s \<and>
         marshal_health zone \<lparr>health_Now = now, health_StartTime = s_startTime s, health_Version = s_version s\<rparr> \<noteq> None
       then 200 else 500)"
  by (auto simp: handleHealthRequest_def Write_def WriteHeader_def Header_Set_def new_respw_def
      split: option.splits)

lemma history_suffix:
  "history L zone s0 (later @ e # earlier) pc s \<Longrightarrow> \<exists>pc' s'. history L zone s0 (e # earlier) pc' s'"
proof (induction later arbitrary: pc s)
  case (Cons a later)
  then show ?case
    by (cases a) (auto elim: history_Advanced history_Drained history_Health)
qed auto

text \<open>
  C15: what the load balancer and the operator observe. A health request is answered with 200 exactly
  if no drain request was handled before it (and the times have a JSON form), with 500 otherwise, so
  a server never becomes healthy again; of the drain requests exactly the first one holds its
  connection, for the configured time.
\<close>

theorem drain_observed:
  assumes "NewRpcEndPointServer mr connect E0 cfg w = (Inr (s0, E), w')"
    and "history L zone s0 (later @ e # earlier) pc s"
  shows "case e of
      HealthChecked now code \<Rightarrow> code = (if undrained earlier \<and> marshal_health zone
          \<lparr>health_Now = now, health_StartTime = s_startTime s0, health_Version = s_version s0\<rparr> \<noteq> None
        then 200 else 500)
    | Drained sleep \<Rightarrow> sleep = (if undrained earlier
        then Some (sint ((of_int (s_drainSeconds s0) :: u64) * of_int time_Second)) else None)
    | Advanced _ \<Rightarrow> True"
proof -
  have i: "idle s0" using assms(1) by (rule NewRpcEndPointServer_idle)
  obtain pc' s' where h: "history L zone s0 (e # earlier) pc' s'"
    using history_suffix [OF assms(2)] by blast
  show ?thesis
  proof (cases e)
    case (Drained sleep)
    with h obtain s1 where "history L zone s0 earlier pc' s1" "handleDrain s1 = (sleep, s')"
      by (auto elim: history_Drained)
    then show ?thesis using handleDrain_state(2) [OF history_state [OF _ i]] Drained by auto
  next
    case (HealthChecked now code)
    with h have "history L zone s0 earlier pc' s'"
      and "rw_Status (handleHealthRequest L zone s' now new_respw) = Some code"
      by (auto elim: history_Health)
    then show ?thesis
      using history_state [OF _ i, of L zone earlier pc' s'] HealthChecked
      by (auto simp: health_status state_at_def)
  qed simp
qed

definition ex_now :: int where "ex_now = 1700000000 * time_Second"

lemma ex_started_server:
  "\<exists>E w'. NewRpcEndPointServer (Inr ''127.0.0.1:1'') (\<lambda>_. mem_redis) ex_http_env ex_configuration ex_world =
     (Inr (ex_server, E), w')"
proof -
  have "\<not> isl (fst ex_started)" by code_simp
  then show ?thesis
    by (cases ex_started; cases "fst ex_started") (auto simp: ex_server_def ex_started_def)
qed

definition ex_waiting :: "memStore RpcEndPointServer" where
  "ex_waiting = ex_server\<lparr>
     s_server := Some \<lparr>hs_Addr = ''127.0.0.1:9000'', hs_WriteTimeout = 30 * time_Second, hs_ReadTimeout = 30 * time_Second\<rparr>,
     s_drain := Some \<lparr>hs_Addr = ''127.0.0.1:9001'', hs_WriteTimeout = 0, hs_ReadTimeout = 0\<rparr>\<rparr>"

lemma ex_history:
  "history ex_http_lib (\<lambda>_. 0) ex_server
     [HealthChecked ex_now 500, Drained (Some (60 * time_Second)), HealthChecked ex_now 200,
      Advanced Waiting, Advanced BeforeDrain] Waiting (ex_waiting\<lparr>s_isHealthy := False\<rparr>)"
proof -
  have f: "s_server ex_server = None" "s_drain ex_server = None" "s_isHealthy ex_server"
    "s_listenAddress ex_server = ''127.0.0.1:9000''" "s_drainAddress ex_server = ''127.0.0.1:9001''"
    "s_drainSeconds ex_server = 60"
    by code_simp+
  have start: "Start BeforeMain ex_server = Ret (BeforeDrain, ex_server\<lparr>s_server := s_server ex_waiting\<rparr>)"
    "Start BeforeDrain (ex_server\<lparr>s_server := s_server ex_waiting\<rparr>) = Ret (Waiting, ex_waiting)"
    using f by (simp_all add: life_defs ex_waiting_def)
  have "sint ((60 :: u64) * of_int time_Second) = 60 * time_Second" by code_simp
  then have drain: "handleDrain ex_waiting = (Some (60 * time_Second), ex_waiting\<lparr>s_isHealthy := False\<rparr>)"
    using f by (simp add: handleDrain_def ex_waiting_def)
  have health: "rw_Status (handleHealthRequest ex_http_lib (\<lambda>_. 0) ex_waiting ex_now new_respw) = Some 200"
    "rw_Status (handleHealthRequest ex_http_lib (\<lambda>_. 0) (ex_waiting\<lparr>s_isHealthy := False\<rparr>) ex_now new_respw) = Some 500"
    by code_simp+
  note h1 = history.advance [OF history.called _ start(1)]
  note h2 = history.advance [OF h1 _ start(2)]
  note h3 = history.health [OF h2 _ health(1)]
  note h4 = history.drain [OF h3 _ drain]
  show ?thesis using history.health [OF h4 _ health(2)] by simp
qed

theorem server_lifecycle_witness:
  "\<exists>tr. history ex_http_lib (\<lambda>_. 0) ex_server tr Waiting (ex_waiting\<lparr>s_isHealthy := False\<rparr>) \<and>
     (\<exists>pc' s'. Start Waiting (ex_waiting\<lparr>s_isHealthy := False\<rparr>) = Ret (pc', s')) \<and> \<not> undrained tr"
proof -
  obtain E w' where "NewRpcEndPointServer (Inr ''127.0.0.1:1'') (\<lambda>_. mem_redis) ex_http_env
      ex_configuration ex_world = (Inr (ex_server, E), w')"
    using ex_started_server by blast
  from server_lifecycle [OF this ex_history] show ?thesis using ex_history by (auto simp: exI)
qed

theorem drain_observed_witness:
  "\<exists>pc s. history ex_http_lib (\<lambda>_. 0) ex_server
     [HealthChecked ex_now 500, Drained (Some (60 * time_Second)), HealthChecked ex_now 200,
      Advanced Waiting, Advanced BeforeDrain] pc s \<and>
     (500 :: int) = (if undrained [Drained (Some (60 * time_Second)), HealthChecked ex_now 200,
      Advanced Waiting, Advanced BeforeDrain] then 200 else 500)"
proof -
  obtain E w' where n: "NewRpcEndPointServer (Inr ''127.0.0.1:1'') (\<lambda>_. mem_redis) ex_http_env
      ex_configuration ex_world = (Inr (ex_server, E), w')"
    using ex_started_server by blast
  have "history ex_http_lib (\<lambda>_. 0) ex_server ([] @ HealthChecked ex_now 500 #
      [Drained (Some (60 * time_Second)), HealthChecked ex_now 200, Advanced Waiting, Advanced BeforeDrain])
      Waiting (ex_waiting\<lparr>s_isHealthy := False\<rparr>)"
    using ex_history by simp
  from drain_observed [OF n this] this show ?thesis by auto
qed

fun run_Start ::
    "nat \<Rightarrow> start_point \<Rightarrow> 'd RpcEndPointServer \<Rightarrow> (start_point \<times> 'd RpcEndPointServer) go" where
  "run_Start 0 pc s = Ret (pc, s)"
| "run_Start (Suc n) pc s = (case Start pc s of Panic p \<Rightarrow> Panic p | Ret (pc', s') \<Rightarrow> run_Start n pc' s')"

fun calls_left :: "start_point \<Rightarrow> nat" where
  "calls_left BeforeMain = 5" | "calls_left BeforeDrain = 4" | "calls_left Waiting = 3"
| "calls_left AfterSignal = 2" | "calls_left AfterDrain = 1" | "calls_left Stopped = 0"

lemma Start_progress: "Start pc s = Ret (pc', s') \<Longrightarrow> pc \<noteq> Stopped \<Longrightarrow> calls_left pc = Suc (calls_left pc')"
  by (cases pc) (auto simp: life_defs split: if_splits)

lemma run_Start_stops:
  assumes "state_at s0 b pc s"
  shows "\<exists>s'. run_Start (calls_left pc) pc s = Ret (Stopped, s') \<and> state_at s0 b Stopped s'"
  using assms
proof (induction "calls_left pc" arbitrary: pc s)
  case 0
  then have "pc = Stopped" by (cases pc) simp_all
  with 0 show ?case by simp
next
  case (Suc n)
  obtain pc' s' where st: "Start pc s = Ret (pc', s')" "state_at s0 b pc' s'"
    using Start_state [OF Suc.prems] by blast
  then have n: "n = calls_left pc'" using Start_progress [OF st(1)] Suc.hyps(2) by (cases "pc = Stopped") auto
  then show ?case using Suc.hyps(1) [OF n st(2)] Suc.hyps(2) st(1) by (metis go.case(1) prod.case run_Start.simps(2))
qed



section \<open>The network id\<close>

lemma fresh_cors: "rw_Status (setCorsHeaders new_respw) = None" "rw_Body (setCorsHeaders new_respw) = ''''"
  by (simp_all add: setCorsHeaders_def Header_Set_def new_respw_def)

lemma NewRpcEndPointServer_chainID:
  assumes "NewRpcEndPointServer mr connect E0 cfg w = (Inr (s, E), w')"
  shows "\<exists>w1 w2. fetchNetworkIDBytes E cfg w1 = (Inr (s_chainID s), w2)"
  using assms by (fastforce simp: NewRpcEndPointServer_def Let_def
      split: sum.splits option.splits prod.splits if_splits)

lemma NewRpcEndPointServer_env:
  "NewRpcEndPointServer mr connect E0 cfg w = (Inr (s, E), w') \<Longrightarrow> \<exists>url. E = E0\<lparr>e_redis := connect url\<rparr>"
  by (auto simp: NewRpcEndPointServer_def Let_def split: sum.splits option.splits prod.splits if_splits)

definition network_response :: "JsonRpcRequest \<Rightarrow> json option \<Rightarrow> JsonRpcResponse" where
  "network_response j net = \<lparr>res_Id = req_Id j,
     res_Result = Some (case net of None \<Rightarrow> JNull | Some v \<Rightarrow> v), res_Error = None, res_Version = ''2.0''\<rparr>"

lemma ProcessRequest_net_version:
  assumes "req_Method (r_jsonReq r) = ''net_version''"
  shows "\<exists>r'. ProcessRequest E (r, w) = (Ret (Some (network_response (r_jsonReq r) (r_chainID r))), (r', w))"
  using assms by (simp add: ProcessRequest_def logRequest_def dispatch_def answer_locally_or_proxy_def
      respond_def writeRpcResult_def network_response_def)

lemma process_net_version:
  assumes "process E h w = (out, h', w')" "in_Body (h_req h) = Inr body" "body \<noteq> ''''"
    and "json_Unmarshal (e_lib E) unmarshal_request_ptr body = Some (Some j)"
    and "req_Method j = ''net_version''" "in_Header (h_req h) ''X-Flashbots-Signature'' = ''''"
    and "getEffectiveParameters (e_lib E) h = Inr p"
  shows "out = Ret () \<and> quiet w w' \<and>
    h_respw h' = writeRpcResponse (e_lib E) (Some (network_response j (h_chainID h))) (h_respw h)"
  using assms(1)
proof (cases rule: process_cases)
  case (run body' j' p' client h1 w1 h2)
  let ?b = "Values_Get (URL_Query (in_URL (h_req h1))) ''bundle''"
  let ?r = "rpc_request h1 client j (?b \<noteq> '''') ?b p'"
  have j: "body' = body" "j' = j" using run(1,3) assms(2,4) by auto
  have h1: "h_req h1 = h_req h" "h_chainID h1 = h_chainID h" "h_respw h1 = h_respw h"
    using run(4) by (simp_all add: prepared_def)
  have r: "r_jsonReq ?r = j" "r_chainID ?r = h_chainID h"
    using h1 by (simp_all add: rpc_request_def NewRpcRequest_def)
  obtain r' where "ProcessRequest E (?r, w1) = (Ret (Some (network_response j (h_chainID h))), (r', w1))"
    using ProcessRequest_net_version [of ?r E w1] r assms(5) by auto
  then show ?thesis
    using run(6-8) j h1 assms(6)
    by (auto simp: processRequest_eq CheckFlashbotsSignature_def Let_def set_record_def)
qed (use assms effective_prepared in \<open>auto simp: bad_body_def\<close>)



section \<open>The bundle endpoint\<close>

definition bundle_id :: "in_request \<Rightarrow> string" where
  "bundle_id q = Values_Get (URL_Query (in_URL q)) ''id''"

text \<open>What a GET answers, when Redis gives the list.\<close>

definition bundle_text :: "lib \<Rightarrow> string \<Rightarrow> string list \<Rightarrow> string" where
  "bundle_text L b txs = json_Encode L (marshal_bundle \<lparr>bundle_Id = b, bundle_RawTxs = txs\<rparr>)"

lemma bundle_get:
  assumes "HandleBundleRequest E q new_respw w = (rw, w')" "in_Method q = ''GET''" "rw_Status rw = Some 200"
  obtains txs where "GetWhitehatBundleTx (e_redis E) (w_redis w) (bundle_id q) = Inr txs"
    "rw_Body rw = bundle_text (e_lib E) (bundle_id q) txs"
proof (cases "GetWhitehatBundleTx (e_redis E) (w_redis w) (bundle_id q)")
  case (Inl e)
  then show ?thesis
    using assms fresh_cors
    by (auto simp: HandleBundleRequest_def Let_def bundle_id_def [symmetric] WriteHeader_def Write_def
        http_Error_def Header_Set_def split: if_splits)
next
  case (Inr txs)
  then show ?thesis
    using assms fresh_cors that
    by (auto simp: HandleBundleRequest_def Let_def bundle_id_def [symmetric] WriteHeader_def Write_def
        http_Error_def Header_Set_def bundle_text_def split: if_splits)
qed

lemma bundle_delete:
  assumes "HandleBundleRequest E q new_respw w = (rw, w')" "in_Method q = ''DELETE''" "bundle_id q \<noteq> ''''"
  shows "rw_Status rw = Some 200" "w_redis w' = snd (DelWhitehatBundleTx (e_redis E) (w_redis w) (bundle_id q))"
  using assms
  by (auto simp: HandleBundleRequest_def Let_def bundle_id_def setCorsHeaders_def
      Header_Set_def new_respw_def WriteHeader_def)

context redis_service
begin

lemma del_bundle_get:
  assumes "DelWhitehatBundleTx R s b = (err, s')" "ToLower b' = ToLower b" "GetWhitehatBundleTx R s' b' = Inr txs"
  shows "txs = [] \<or> (\<exists>e. err = Some e) \<and> (\<exists>t. view s (RedisKeyWhitehatBundleTransactions b) = Some (RList txs, t))"
proof -
  have k: "RedisKeyWhitehatBundleTransactions b' = RedisKeyWhitehatBundleTransactions b"
    using assms(2) by (simp add: RedisKeyWhitehatBundleTransactions_def)
  then show ?thesis
    using Del_applied [of "RedisKeyWhitehatBundleTransactions b" s] assms
      LRange_Inr [of s' "RedisKeyWhitehatBundleTransactions b" txs]
    by (auto simp: DelWhitehatBundleTx_def GetWhitehatBundleTx_def applied_def eff_del_def split: option.splits)
qed

lemma del_bundle_frame:
  assumes "DelWhitehatBundleTx R s b = (err, s')" "ToLower b' \<noteq> ToLower b"
  shows "view s' (RedisKeyWhitehatBundleTransactions b') = view s (RedisKeyWhitehatBundleTransactions b')"
  using Del_applied [of "RedisKeyWhitehatBundleTransactions b" s] assms
  by (auto simp: DelWhitehatBundleTx_def applied_def eff_del_def RedisKeyWhitehatBundleTransactions_def
      split: option.splits)

end

text \<open>
  C21: deleting a bundle. A DELETE is answered with 200. A GET of the bundle that succeeds after it
  shows no transaction, unless Redis reported an error, which the endpoint does not tell anyone: then
  the bundle may be shown as it was. Other bundles are not affected.
\<close>

theorem bundle_deleted:
  assumes R: "redis_service (e_redis E) view elapse"
    and "HandleBundleRequest E d new_respw w = (rw1, w1)" "in_Method d = ''DELETE''" "bundle_id d \<noteq> ''''"
    and "HandleBundleRequest E g new_respw w1 = (rw2, w2)" "in_Method g = ''GET''" "rw_Status rw2 = Some 200"
    and "ToLower (bundle_id g) = ToLower (bundle_id d)"
  shows "rw_Status rw1 = Some 200 \<and>
    (fst (DelWhitehatBundleTx (e_redis E) (w_redis w) (bundle_id d)) = None \<longrightarrow>
       rw_Body rw2 = bundle_text (e_lib E) (bundle_id g) []) \<and>
    (\<forall>b. ToLower b \<noteq> ToLower (bundle_id d) \<longrightarrow>
       view (w_redis w1) (RedisKeyWhitehatBundleTransactions b) =
       view (w_redis w) (RedisKeyWhitehatBundleTransactions b))"
proof -
  obtain err s' where del: "DelWhitehatBundleTx (e_redis E) (w_redis w) (bundle_id d) = (err, s')" by fastforce
  note d = bundle_delete [OF assms(2-4), unfolded del, simplified]
  obtain txs where g: "GetWhitehatBundleTx (e_redis E) s' (bundle_id g) = Inr txs"
    "rw_Body rw2 = bundle_text (e_lib E) (bundle_id g) txs"
    using assms(5-7) d(2) by (auto elim: bundle_get)
  show ?thesis
    using d g(2) del redis_service.del_bundle_get [OF R del assms(8) g(1)]
      redis_service.del_bundle_frame [OF R del] by auto
qed


definition ex_bundle_request :: "string \<Rightarrow> in_request" where
  "ex_bundle_request meth = (ex_post '''')\<lparr>in_Method := meth, in_URL :=
     \<lparr>url_Scheme = '''', url_Path = ''/bundle'', url_RawQuery = ''id=7'', url_Rest = ''''\<rparr>\<rparr>"

definition ex_bundle_world :: "mem_state World" where
  "ex_bundle_world = ex_world\<lparr>w_redis := bundle_example\<rparr>"

theorem bundle_deleted_witness:
  "\<exists>w1 rw2 w2. w1 = snd (HandleBundleRequest ex_env (ex_bundle_request ''DELETE'') new_respw ex_bundle_world) \<and>
     HandleBundleRequest ex_env (ex_bundle_request ''GET'') new_respw w1 = (rw2, w2) \<and>
     rw_Body rw2 = bundle_text ex_lib ''7'' []"
proof -
  let ?d = "HandleBundleRequest ex_env (ex_bundle_request ''DELETE'') new_respw ex_bundle_world"
  let ?g = "HandleBundleRequest ex_env (ex_bundle_request ''GET'') new_respw (snd ?d)"
  obtain rw1 w1 rw2 w2 where d: "?d = (rw1, w1)" and g: "?g = (rw2, w2)" by fastforce
  have i: "bundle_id (ex_bundle_request m) = ''7''" for m by (simp add: bundle_id_def ex_bundle_request_def) code_simp
  have c: "rw_Status (fst ?g) = Some 200"
    "fst (DelWhitehatBundleTx mem_redis (w_redis ex_bundle_world) ''7'') = None" by code_simp+
  have R: "redis_service (e_redis ex_env) fst mem_elapse"
    by (simp add: ex_env_def mem.redis_service_axioms)
  have m: "in_Method (ex_bundle_request x) = x" for x by (simp add: ex_bundle_request_def)
  have "e_redis ex_env = mem_redis" "e_lib ex_env = ex_lib" by (simp_all add: ex_env_def)
  then show ?thesis
    using bundle_deleted [OF R d, of "ex_bundle_request ''GET''" rw2 w2] c d g m i by auto
qed


end
