(* ===== verification/Flag_Std.thy ===== *)
theory Flag_Std
  imports Strconv "HOL-Library.AList"
begin

text \<open>
  What \<open>src/cmd/server/main.go\<close> uses of the packages \<open>flag\<close> and \<open>strconv\<close>: a set of flags with
  boolean, integer and string values, and \<open>flag.Parse\<close> over the arguments of the command line.
\<close>

section \<open>Integers in any base\<close>

text \<open>
  \<open>strconv.ParseInt(s, 0, 64)\<close>: a prefix gives the base, and an underscore may stand between
  digits and after the prefix. Which error a text has is of no interest to the caller.
\<close>

definition base_prefix :: "string \<Rightarrow> nat \<times> string" where
  "base_prefix s =
     (if length s \<ge> 3 \<and> hd s = CHR ''0'' \<and> to_lower_char (s ! 1) = CHR ''b'' then (2, drop 2 s)
      else if length s \<ge> 3 \<and> hd s = CHR ''0'' \<and> to_lower_char (s ! 1) = CHR ''o'' then (8, drop 2 s)
      else if length s \<ge> 3 \<and> hd s = CHR ''0'' \<and> to_lower_char (s ! 1) = CHR ''x'' then (16, drop 2 s)
      else if hd s = CHR ''0'' then (8, tl s)
      else (10, s))"

text \<open>The check of the underscores; \<open>digit\<close> is whether the character before is a digit.\<close>

fun underscores_separate :: "bool \<Rightarrow> string \<Rightarrow> bool" where
  "underscores_separate digit [] = True"
| "underscores_separate digit (c # s) =
     (if c = CHR ''_'' then digit \<and> s \<noteq> [] \<and> hd s \<noteq> CHR ''_'' \<and> underscores_separate False s
      else underscores_separate True s)"

definition underscoreOK :: "string \<Rightarrow> bool" where
  "underscoreOK s =
     (if length s \<ge> 2 \<and> hd s = CHR ''0'' \<and> to_lower_char (s ! 1) \<in> {CHR ''b'', CHR ''o'', CHR ''x''}
      then underscores_separate True (drop 2 s)
      else underscores_separate False s)"

definition ParseInt0 :: "string \<Rightarrow> int option" where
  "ParseInt0 s =
     (let neg = (s \<noteq> [] \<and> hd s = CHR ''-'');
          t = (if s \<noteq> [] \<and> (hd s = CHR ''-'' \<or> hd s = CHR ''+'') then tl s else s)
      in if t = [] then None
         else let (base, digits) = base_prefix t
              in case scan_uint base (2 ^ 64) 0 (filter (\<lambda>c. c \<noteq> CHR ''_'') digits) of
                   Inl _ \<Rightarrow> None
                 | Inr n \<Rightarrow>
                     if CHR ''_'' \<in> set digits \<and> \<not> underscoreOK t then None
                     else if \<not> neg \<and> n \<ge> 2 ^ 63 \<or> neg \<and> n > 2 ^ 63 then None
                     else Some (if neg then - int n else int n))"

section \<open>Flags\<close>

datatype flag_value = FlagBool bool | FlagInt int | FlagString string

type_synonym flag_set = "(string \<times> flag_value) list"

text \<open>\<open>Value.Set\<close>, which keeps the type of the flag.\<close>

fun flag_Set :: "flag_value \<Rightarrow> string \<Rightarrow> flag_value option" where
  "flag_Set (FlagBool _) s = map_option FlagBool (ParseBool s)"
| "flag_Set (FlagInt _) s = map_option FlagInt (ParseInt0 s)"
| "flag_Set (FlagString _) s = Some (FlagString s)"

fun is_bool_flag :: "flag_value \<Rightarrow> bool" where
  "is_bool_flag (FlagBool _) = True"
| "is_bool_flag _ = False"

text \<open>The name and the value of \<open>name=value\<close>; an equals sign at the start was refused before.\<close>

definition split_flag :: "string \<Rightarrow> string \<times> string option" where
  "split_flag s =
     (let name = takeWhile (\<lambda>c. c \<noteq> CHR ''='') s
      in (name, if name = s then None else Some (drop (length name + 1) s)))"

text \<open>
  The parsing goes on until an argument that is no flag, or \<open>--\<close>. The command line is parsed with
  \<open>ExitOnError\<close>: a request for help exits with 0, an error with 2.
\<close>

datatype flag_outcome = Parsed flag_set | FlagExit int

datatype flag_step = FlagDone | FlagFail int | FlagSeen flag_set "string list"

definition set_flag :: "flag_set \<Rightarrow> string \<Rightarrow> flag_value \<Rightarrow> string \<Rightarrow> string list \<Rightarrow> flag_step" where
  "set_flag fs name old val rest =
     (case flag_Set old val of
        None \<Rightarrow> FlagFail 2
      | Some new \<Rightarrow> FlagSeen (AList.update name new fs) rest)"

definition flag_text :: "string \<Rightarrow> string" where
  "flag_text s = (if s ! 1 = CHR ''-'' then drop 2 s else drop 1 s)"

definition parseOne :: "flag_set \<Rightarrow> string \<Rightarrow> string list \<Rightarrow> flag_step" where
  "parseOne fs s args =
     (if length s < 2 \<or> hd s \<noteq> CHR ''-'' then FlagDone
      else if s = ''--'' then FlagDone
      else
        let text = flag_text s in
        if text = [] \<or> hd text = CHR ''-'' \<or> hd text = CHR ''='' then FlagFail 2
        else
          let (name, val) = split_flag text in
          case map_of fs name of
            None \<Rightarrow> FlagFail (if name = ''help'' \<or> name = ''h'' then 0 else 2)
          | Some old \<Rightarrow>
              (case val of
                 Some v \<Rightarrow> set_flag fs name old v args
               | None \<Rightarrow>
                   if is_bool_flag old then set_flag fs name old ''true'' args
                   else (case args of [] \<Rightarrow> FlagFail 2 | v # rest \<Rightarrow> set_flag fs name old v rest)))"

lemma set_flag_Seen:
  "set_flag fs name old v rest = FlagSeen fs' args' \<longleftrightarrow>
     (\<exists>new. flag_Set old v = Some new \<and> fs' = AList.update name new fs \<and> args' = rest)"
  by (auto simp: set_flag_def split: option.splits)

definition flag_name :: "string \<Rightarrow> string" where
  "flag_name s = fst (split_flag (flag_text s))"

lemma parseOne_Seen:
  assumes "parseOne fs s args = FlagSeen fs' args'"
  obtains old v new where "map_of fs (flag_name s) = Some old" "flag_Set old v = Some new"
    "fs' = AList.update (flag_name s) new fs" "length args' \<le> length args" "set args' \<subseteq> set args"
proof -
  obtain val where n: "split_flag (flag_text s) = (flag_name s, val)"
    by (cases "split_flag (flag_text s)") (simp add: flag_name_def)
  have "(case map_of fs (flag_name s) of
      None \<Rightarrow> FlagFail (if flag_name s = ''help'' \<or> flag_name s = ''h'' then 0 else 2)
    | Some old \<Rightarrow> (case val of
         Some v \<Rightarrow> set_flag fs (flag_name s) old v args
       | None \<Rightarrow>
           if is_bool_flag old then set_flag fs (flag_name s) old ''true'' args
           else (case args of [] \<Rightarrow> FlagFail 2 | v # rest \<Rightarrow> set_flag fs (flag_name s) old v rest))) =
      FlagSeen fs' args'"
    using assms unfolding parseOne_def Let_def n prod.case
    by (metis flag_step.distinct(3) flag_step.distinct(5))
  then show ?thesis
    by (cases "map_of fs (flag_name s)"; cases val; cases args)
      (auto simp: set_flag_Seen intro: that split: if_splits)
qed

function flag_Parse :: "flag_set \<Rightarrow> string list \<Rightarrow> flag_outcome" where
  "flag_Parse fs [] = Parsed fs"
| "flag_Parse fs (s # args) =
     (case parseOne fs s args of
        FlagDone \<Rightarrow> Parsed fs
      | FlagFail code \<Rightarrow> FlagExit code
      | FlagSeen fs' args' \<Rightarrow> flag_Parse fs' args')"
  by pat_completeness auto
termination
  by (relation "measure (\<lambda>(_, args). length args)") (auto elim: parseOne_Seen)

definition flag_bool :: "flag_set \<Rightarrow> string \<Rightarrow> bool" where
  "flag_bool fs name = (case map_of fs name of Some (FlagBool b) \<Rightarrow> b | _ \<Rightarrow> False)"

definition flag_int :: "flag_set \<Rightarrow> string \<Rightarrow> int" where
  "flag_int fs name = (case map_of fs name of Some (FlagInt i) \<Rightarrow> i | _ \<Rightarrow> 0)"

definition flag_string :: "flag_set \<Rightarrow> string \<Rightarrow> string" where
  "flag_string fs name = (case map_of fs name of Some (FlagString s) \<Rightarrow> s | _ \<Rightarrow> '''')"

section \<open>Flags keep their types\<close>

fun same_kind :: "flag_value \<Rightarrow> flag_value \<Rightarrow> bool" where
  "same_kind (FlagBool _) (FlagBool _) = True"
| "same_kind (FlagInt _) (FlagInt i) = int64_range i"
| "same_kind (FlagString _) (FlagString _) = True"
| "same_kind _ _ = False"

lemma ParseInt0_range: "ParseInt0 s = Some i \<Longrightarrow> int64_range i"
  by (auto simp: ParseInt0_def int64_range_def Let_def split: prod.splits sum.splits if_splits)

lemma flag_Set_kind: "flag_Set old s = Some new \<Longrightarrow> same_kind old new"
  by (cases old) (auto dest: ParseInt0_range)

lemma same_kind_trans: "same_kind a b \<Longrightarrow> same_kind b c \<Longrightarrow> same_kind a c"
  by (cases a; cases b; cases c) simp_all

definition kinds_kept :: "flag_set \<Rightarrow> flag_set \<Rightarrow> bool" where
  "kinds_kept fs fs' \<longleftrightarrow> (\<forall>n v. map_of fs n = Some v \<longrightarrow>
     (\<exists>v'. map_of fs' n = Some v' \<and> (v' = v \<or> same_kind v v')))"

lemma kinds_kept_refl [simp]: "kinds_kept fs fs"
  by (simp add: kinds_kept_def)

lemma kinds_kept_step:
  assumes "map_of fs n = Some old" "same_kind old new" "kinds_kept (AList.update n new fs) fs'"
  shows "kinds_kept fs fs'"
  unfolding kinds_kept_def
proof (intro allI impI)
  fix m v assume v: "map_of fs m = Some v"
  show "\<exists>v'. map_of fs' m = Some v' \<and> (v' = v \<or> same_kind v v')"
  proof (cases "m = n")
    case True
    then have "map_of (AList.update n new fs) m = Some new" by (simp add: update_conv')
    then show ?thesis using assms v True same_kind_trans by (fastforce simp: kinds_kept_def)
  next
    case False
    then have "map_of (AList.update n new fs) m = Some v" using v by (simp add: update_conv')
    then show ?thesis using assms(3) by (auto simp: kinds_kept_def)
  qed
qed

lemma flag_Parse_kinds: "flag_Parse fs args = Parsed fs' \<Longrightarrow> kinds_kept fs fs'"
proof (induction fs args rule: flag_Parse.induct)
  case (2 fs s args)
  then show ?case
    by (auto elim!: parseOne_Seen split: flag_step.splits intro: kinds_kept_step dest: flag_Set_kind)
qed simp

end
