(* ===== verification/Command.thy ===== *)
theory Command
  imports Flag_Std Server
begin

text \<open>
  The command (\<open>src/cmd/server/main.go\<close>): the defaults from the process environment, the flags, and
  \<open>main\<close> up to the start of the server. \<open>logger.Crit\<close> of go-ethereum logs and exits with status 1.
\<close>

section \<open>Defaults and flags\<close>

text \<open>The process environment; \<open>os.Getenv\<close> does not tell an empty variable from one that is not set.\<close>

type_synonym process_env = "string \<Rightarrow> string option"

definition os_Getenv :: "process_env \<Rightarrow> string \<Rightarrow> string" where
  "os_Getenv env key = (case env key of None \<Rightarrow> '''' | Some v \<Rightarrow> v)"

definition getEnvAsStrOrDefault :: "process_env \<Rightarrow> string \<Rightarrow> string \<Rightarrow> string" where
  "getEnvAsStrOrDefault env key defaultValue =
     (let ret = os_Getenv env key in if ret = '''' then defaultValue else ret)"

definition getEnvAsIntOrDefault :: "process_env \<Rightarrow> string \<Rightarrow> int \<Rightarrow> int" where
  "getEnvAsIntOrDefault env name defaultValue =
     (case env name of
        None \<Rightarrow> defaultValue
      | Some valueStr \<Rightarrow> (case Atoi valueStr of Inl _ \<Rightarrow> defaultValue | Inr i \<Rightarrow> i))"

definition cli_flags :: "process_env \<Rightarrow> flag_set" where
  "cli_flags env =
     [(''version'', FlagBool False),
      (''listen'', FlagString (getEnvAsStrOrDefault env ''LISTEN_ADDR'' ''127.0.0.1:9000'')),
      (''drain'', FlagString (getEnvAsStrOrDefault env ''DRAIN_ADDR'' ''127.0.0.1:9001'')),
      (''drainSeconds'', FlagInt (getEnvAsIntOrDefault env ''DRAIN_SECONDS'' 60)),
      (''fetchIntervalSeconds'', FlagInt (getEnvAsIntOrDefault env ''FETCH_INFO_INTERVAL_SECONDS'' 600)),
      (''ttlCacheSeconds'', FlagInt (getEnvAsIntOrDefault env ''TTL_CACHE_SECONDS'' 300)),
      (''builderInfoSource'', FlagString (getEnvAsStrOrDefault env ''BUILDER_INFO_SOURCE'' '''')),
      (''proxy'', FlagString (getEnvAsStrOrDefault env ''PROXY_URL'' ''http://127.0.0.1:8545'')),
      (''proxyTimeoutSeconds'', FlagInt (getEnvAsIntOrDefault env ''PROXY_TIMEOUT_SECONDS'' 10)),
      (''redis'', FlagString (getEnvAsStrOrDefault env ''REDIS_URL'' ''localhost:6379'')),
      (''relayUrl'', FlagString (getEnvAsStrOrDefault env ''RELAY_URL'' ''https://relay.flashbots.net'')),
      (''signingKey'', FlagString (os_Getenv env ''RELAY_SIGNING_KEY'')),
      (''psql'', FlagString (os_Getenv env ''POSTGRES_DSN'')),
      (''debug'', FlagBool (os_Getenv env ''DEBUG'' = ''1'')),
      (''logJSON'', FlagBool (os_Getenv env ''LOG_JSON'' = ''1'')),
      (''serviceName'', FlagString (os_Getenv env ''SERVICE_NAME''))]"

text \<open>
  The variables of package \<open>server\<close> that are set when the process starts: \<open>DebugDontSendTx\<close> of
  \<open>server.go\<close>, \<open>ProtectTxApiHost\<close> of \<open>request_intercepts.go\<close> and the list of \<open>ofacblacklist.go\<close>, which is
  empty in the repository.
\<close>

definition package_vars :: "process_env \<Rightarrow> 'r Env \<Rightarrow> 'r Env" where
  "package_vars env E =
     E\<lparr>DebugDontSendTx := os_Getenv env ''DEBUG_DONT_SEND_RAWTX'' \<noteq> '''',
       ProtectTxApiHost := GetEnv env ''TX_API_HOST'' ''https://protect.flashbots.net'',
       ofacBlacklist := {}\<rparr>"

section \<open>The logger\<close>

text \<open>
  The logger \<open>main\<close> sets up: the handler of its records, a text form with a level or JSON, and what
  it adds to each of them. What is logged is not modelled, so nothing else depends on it.
\<close>

datatype log_level = LvlInfo | LvlDebug

datatype log_handler = TerminalHandlerWithLevel log_level | JSONHandler

record logger =
  log_Handler :: log_handler
  log_Context :: "(string \<times> string) list"

definition main_logger :: "flag_set \<Rightarrow> logger" where
  "main_logger fs =
     (let logLevel = (if flag_bool fs ''debug'' then LvlDebug else LvlInfo);
          handler = (if flag_bool fs ''logJSON'' then JSONHandler else TerminalHandlerWithLevel logLevel)
      in \<lparr>log_Handler = handler,
          log_Context = (if flag_string fs ''serviceName'' \<noteq> ''''
                         then [(''service'', flag_string fs ''serviceName'')] else [])\<rparr>)"

section \<open>main\<close>

text \<open>
  What \<open>main\<close> meets: the packages of keys, YAML and PostgreSQL, the file system, Redis, and the
  version set by the build. A key is the text its signatures are made with.
\<close>

record 'd host =
  crypto_GenerateKey :: "string + string"
  crypto_HexToECDSA :: "string \<Rightarrow> string + string"
  sqlx_MustConnect :: "string \<Rightarrow> 'd sql_DB go"
  os_ReadFile :: "string \<Rightarrow> string + string"
  yaml_Unmarshal :: "string \<Rightarrow> string + CustomersConfig"
  host_iter :: "url_values \<Rightarrow> url_values"
  miniredis_Run :: "string + string"
  build_version :: string

definition signing_key :: "'d host \<Rightarrow> string \<Rightarrow> string + string" where
  "signing_key H relaySigningKey =
     (let pkHex = Replace1 relaySigningKey ''0x'' '''' in
      if pkHex = ''dev'' then crypto_GenerateKey H else crypto_HexToECDSA H pkHex)"

definition open_store :: "'d host \<Rightarrow> string \<Rightarrow> 'd Store go" where
  "open_store H dsn = (if dsn = '''' then Ret mock_Store else NewPostgresStore (sqlx_MustConnect H) dsn)"

definition InitCustomersConfigMetric :: "string list \<Rightarrow> string list" where
  "InitCustomersConfigMetric customers = map customerConfigKey customers"

definition main_configuration ::
    "'d host \<Rightarrow> process_env \<Rightarrow> flag_set \<Rightarrow> 'd Store \<Rightarrow> string \<Rightarrow> ConfigurationWatcher \<Rightarrow> 'd Configuration" where
  "main_configuration H env fs db key watcher =
     \<lparr>cfg_DB = db, cfg_DrainAddress = flag_string fs ''drain'',
      cfg_DrainSeconds = flag_int fs ''drainSeconds'', cfg_ListenAddress = flag_string fs ''listen'',
      cfg_ProxyTimeoutSeconds = flag_int fs ''proxyTimeoutSeconds'',
      cfg_ProxyUrl = flag_string fs ''proxy'', cfg_RedisUrl = flag_string fs ''redis'',
      cfg_RelaySigningKey = key, cfg_RelayUrl = flag_string fs ''relayUrl'',
      cfg_Version = build_version H, cfg_BuilderInfoSource = flag_string fs ''builderInfoSource'',
      cfg_FetchInfoInterval = flag_int fs ''fetchIntervalSeconds'',
      cfg_TTLCacheSeconds = flag_int fs ''ttlCacheSeconds'',
      cfg_DefaultMempoolRPC = os_Getenv env ''DEFAULT_MEMPOOL_RPC'',
      cfg_ConfigurationWatcher = Some watcher\<rparr>"

text \<open>
  How \<open>main\<close> ends or goes on: it exits with a status, panics, returns after the version was printed,
  or calls \<open>Start\<close> on a server. Beside the server are its environment, the counters that were
  registered for customers, and the address of the metrics server, if it is started.
\<close>

datatype ('d, 'r) main_outcome =
    Exited int
  | MainPanic string
  | VersionPrinted string
  | Started "'d Configuration" "'d RpcEndPointServer" "'r Env" "string list" "string option"

definition main_serving ::
    "(string \<Rightarrow> 'r redis_client) \<Rightarrow> 'r Env \<Rightarrow> 'd host \<Rightarrow> process_env \<Rightarrow> flag_set \<Rightarrow> string \<Rightarrow>
     'r World \<Rightarrow> ('d, 'r) main_outcome \<times> 'r World" where
  "main_serving connect E0 H env fs key w =
     (case open_store H (flag_string fs ''psql'') of
        Panic p \<Rightarrow> (MainPanic p, w)
      | Ret db \<Rightarrow>
          (case ReadCustomerConfigFromFile (e_lib E0) (host_iter H) (os_ReadFile H) (yaml_Unmarshal H)
                  (os_Getenv env ''CUSTOMER_CONFIG'') of
             Inl _ \<Rightarrow> (Exited 1, w)
           | Inr watcher \<Rightarrow>
               (let cfg = main_configuration H env fs db key watcher in
                case NewRpcEndPointServer (miniredis_Run H) connect E0 cfg w of
                  (Inl _, w1) \<Rightarrow> (Exited 1, w1)
                | (Inr (s, E), w1) \<Rightarrow>
                    (Started cfg s E (InitCustomersConfigMetric (Customers watcher))
                       (if os_Getenv env ''METRICS_ADDR'' \<noteq> '''' then Some (os_Getenv env ''METRICS_ADDR'')
                        else None), w1))))"

definition main_run ::
    "(string \<Rightarrow> 'r redis_client) \<Rightarrow> 'r Env \<Rightarrow> 'd host \<Rightarrow> process_env \<Rightarrow> string list \<Rightarrow> 'r World \<Rightarrow>
     ('d, 'r) main_outcome \<times> 'r World" where
  "main_run connect E0 H env args w =
     (case flag_Parse (cli_flags env) args of
        FlagExit code \<Rightarrow> (Exited code, w)
      | Parsed fs \<Rightarrow>
          if flag_bool fs ''version'' then (VersionPrinted (build_version H), w)
          else if flag_string fs ''signingKey'' = '''' then (Exited 1, w)
          else (case signing_key H (flag_string fs ''signingKey'') of
                  Inl _ \<Rightarrow> (Exited 1, w)
                | Inr key \<Rightarrow> main_serving connect (package_vars env E0) H env fs key w))"

end
