(* ===== verification/Command_Props.thy ===== *)
theory Command_Props
  imports Command Example_Env
begin

text \<open>
  The configuration a server is started with, from the process environment and the flags, and the
  conditions for starting one.
\<close>

section \<open>Flags that are not given\<close>

lemma parseOne_names:
  assumes "parseOne fs s args = FlagSeen fs' args'" "flag_name s \<noteq> n"
  shows "map_of fs' n = map_of fs n \<and> set args' \<subseteq> set args"
  using assms(1) by (rule parseOne_Seen) (use assms(2) in \<open>simp add: update_conv'\<close>)

lemma flag_Parse_not_given:
  "flag_Parse fs args = Parsed fs' \<Longrightarrow> \<forall>a\<in>set args. flag_name a \<noteq> n \<Longrightarrow> map_of fs' n = map_of fs n"
proof (induction fs args rule: flag_Parse.induct)
  case (2 fs s args)
  show ?case
  proof (cases "parseOne fs s args")
    case (FlagSeen fs1 args1)
    then show ?thesis using 2 parseOne_names [OF FlagSeen, of n] by auto
  qed (use 2 in auto)
qed simp

section \<open>Settings\<close>

text \<open>A setting: its flag, its field of the configuration, its variable and its default.\<close>

definition string_settings :: "(string \<times> ('d Configuration \<Rightarrow> string) \<times> string \<times> string) list" where
  "string_settings =
     [(''listen'', cfg_ListenAddress, ''LISTEN_ADDR'', ''127.0.0.1:9000''),
      (''drain'', cfg_DrainAddress, ''DRAIN_ADDR'', ''127.0.0.1:9001''),
      (''proxy'', cfg_ProxyUrl, ''PROXY_URL'', ''http://127.0.0.1:8545''),
      (''redis'', cfg_RedisUrl, ''REDIS_URL'', ''localhost:6379''),
      (''relayUrl'', cfg_RelayUrl, ''RELAY_URL'', ''https://relay.flashbots.net''),
      (''builderInfoSource'', cfg_BuilderInfoSource, ''BUILDER_INFO_SOURCE'', '''')]"

definition int_settings :: "(string \<times> ('d Configuration \<Rightarrow> int) \<times> string \<times> int) list" where
  "int_settings =
     [(''drainSeconds'', cfg_DrainSeconds, ''DRAIN_SECONDS'', 60),
      (''proxyTimeoutSeconds'', cfg_ProxyTimeoutSeconds, ''PROXY_TIMEOUT_SECONDS'', 10),
      (''fetchIntervalSeconds'', cfg_FetchInfoInterval, ''FETCH_INFO_INTERVAL_SECONDS'', 600),
      (''ttlCacheSeconds'', cfg_TTLCacheSeconds, ''TTL_CACHE_SECONDS'', 300)]"

lemma main_run_Started:
  assumes "main_run connect E0 H env args w = (Started cfg s E ctrs addr, w')"
  obtains fs key db watcher where "flag_Parse (cli_flags env) args = Parsed fs" "\<not> flag_bool fs ''version''"
    "flag_string fs ''signingKey'' \<noteq> ''''" "signing_key H (flag_string fs ''signingKey'') = Inr key"
    "open_store H (flag_string fs ''psql'') = Ret db"
    "ReadCustomerConfigFromFile (e_lib E0) (host_iter H) (os_ReadFile H) (yaml_Unmarshal H)
       (os_Getenv env ''CUSTOMER_CONFIG'') = Inr watcher"
    "cfg = main_configuration H env fs db key watcher"
    "NewRpcEndPointServer (miniredis_Run H) connect (package_vars env E0) cfg w = (Inr (s, E), w')"
  using assms
  by (auto simp: main_run_def main_serving_def package_vars_def Let_def
      split: flag_outcome.splits if_splits sum.splits go.splits prod.splits)

lemma flag_int_range:
  assumes "flag_Parse (cli_flags env) args = Parsed fs" "map_of (cli_flags env) n = Some (FlagInt d)" "int64_range d"
  shows "int64_range (flag_int fs n)"
proof -
  obtain v where v: "map_of fs n = Some v" "v = FlagInt d \<or> same_kind (FlagInt d) v"
    using flag_Parse_kinds [OF assms(1)] assms(2) unfolding kinds_kept_def by blast
  then show ?thesis using assms(3) by (cases v) (auto simp: flag_int_def)
qed

lemma env_int_range: "int64_range d \<Longrightarrow> int64_range (getEnvAsIntOrDefault env n d)"
  by (auto simp: getEnvAsIntOrDefault_def dest: Atoi_range split: option.splits sum.splits)

text \<open>
  C37: the settings of a server. A setting whose flag is not among the arguments is the value of its
  environment variable; an empty text, or for a number a text that is no \<open>int\<close>, counts as no value, and
  then it is the default. Every number, from a flag or not, is in the range of an \<open>int\<close>. The URL for
  mempool transactions has no flag.
\<close>

theorem settings_from_environment:
  assumes "main_run connect E0 H env args w = (Started cfg s E ctrs addr, w')"
  shows "list_all (\<lambda>(name, setting, var, default). list_all (\<lambda>a. flag_name a \<noteq> name) args \<longrightarrow>
      setting cfg = (case env var of None \<Rightarrow> default | Some v \<Rightarrow> if v = '''' then default else v)) string_settings \<and>
    list_all (\<lambda>(name, setting, var, default). int64_range (setting cfg) \<and>
      (list_all (\<lambda>a. flag_name a \<noteq> name) args \<longrightarrow>
       setting cfg = (case env var of None \<Rightarrow> default
         | Some v \<Rightarrow> (case Atoi v of Inl _ \<Rightarrow> default | Inr i \<Rightarrow> i)))) int_settings \<and>
    cfg_DefaultMempoolRPC cfg = (case env ''DEFAULT_MEMPOOL_RPC'' of None \<Rightarrow> '''' | Some v \<Rightarrow> v)"
proof -
  obtain fs key db watcher where fs: "flag_Parse (cli_flags env) args = Parsed fs"
    and cfg: "cfg = main_configuration H env fs db key watcher"
    using assms by (rule main_run_Started)
  have keep: "map_of fs n = map_of (cli_flags env) n" if "list_all (\<lambda>a. flag_name a \<noteq> n) args" for n
    using flag_Parse_not_given [OF fs] that by (simp add: list_all_iff)
  have str: "flag_string fs n = (case env var of None \<Rightarrow> d | Some v \<Rightarrow> if v = '''' then d else v)"
    if "map_of (cli_flags env) n = Some (FlagString (getEnvAsStrOrDefault env var d))"
      "list_all (\<lambda>a. flag_name a \<noteq> n) args" for n var d
    using keep [OF that(2)] that(1)
    by (simp add: flag_string_def getEnvAsStrOrDefault_def os_Getenv_def split: option.splits)
  have int: "int64_range (flag_int fs n) \<and> (list_all (\<lambda>a. flag_name a \<noteq> n) args \<longrightarrow>
      flag_int fs n = (case env var of None \<Rightarrow> d | Some v \<Rightarrow> (case Atoi v of Inl _ \<Rightarrow> d | Inr i \<Rightarrow> i)))"
    if "map_of (cli_flags env) n = Some (FlagInt (getEnvAsIntOrDefault env var d))" "int64_range d" for n var d
    using keep [of n] flag_int_range [OF fs that(1) env_int_range [OF that(2)]] that(1)
    by (auto simp: flag_int_def getEnvAsIntOrDefault_def)
  have tab: "list_all (\<lambda>(n, var, d). map_of (cli_flags env) n = Some (FlagString (getEnvAsStrOrDefault env var d)))
      (map (\<lambda>(n, _, var, d). (n, var, d)) (string_settings :: (string \<times> ('d Configuration \<Rightarrow> string) \<times> string \<times> string) list))"
    "list_all (\<lambda>(n, var, d). map_of (cli_flags env) n = Some (FlagInt (getEnvAsIntOrDefault env var d)) \<and> int64_range d)
      (map (\<lambda>(n, _, var, d). (n, var, d)) (int_settings :: (string \<times> ('d Configuration \<Rightarrow> int) \<times> string \<times> int) list))"
    by (simp_all add: cli_flags_def string_settings_def int_settings_def int64_range_def)
  show ?thesis
    using tab str int cfg
    by (simp add: string_settings_def int_settings_def main_configuration_def os_Getenv_def)
qed

section \<open>Starting\<close>

lemma NewRpcEndPointServer_fields:
  assumes "NewRpcEndPointServer mr connect E0 cfg w = (Inr (s, E), w')"
  shows "s_db s = cfg_DB cfg" "s_relaySigningKey s = cfg_RelaySigningKey cfg" "s_isHealthy s"
    "s_server s = None" "s_drain s = None" "s_configurationWatcher s = cfg_ConfigurationWatcher cfg"
  using assms by (auto simp: NewRpcEndPointServer_def Let_def
      split: sum.splits option.splits prod.splits if_splits)

text \<open>
  C39: when a server is started. \<open>main\<close> gets to the start of a server only with flags that parse and do
  not ask for the version and with a signing key that was given: the word \<open>dev\<close>, with or
  without \<open>0x\<close>, for a new key, or a key the library reads. The server signs with this key, is
  healthy and not running yet; without a PostgreSQL data source it keeps no records.
\<close>

theorem server_started:
  assumes "main_run connect E0 H env args w = (Started cfg s E ctrs addr, w')"
  shows "\<exists>fs pk. flag_Parse (cli_flags env) args = Parsed fs \<and> \<not> flag_bool fs ''version'' \<and>
    flag_string fs ''signingKey'' \<noteq> '''' \<and> pk = Replace1 (flag_string fs ''signingKey'') ''0x'' '''' \<and>
    Inr (s_relaySigningKey s) = (if pk = ''dev'' then crypto_GenerateKey H else crypto_HexToECDSA H pk) \<and>
    s_isHealthy s \<and> s_server s = None \<and> s_drain s = None \<and>
    (flag_string fs ''psql'' = '''' \<longrightarrow> (\<forall>r d. SaveRecord (s_db s) r d = (None, d)))"
proof -
  obtain fs key db watcher where r: "flag_Parse (cli_flags env) args = Parsed fs" "\<not> flag_bool fs ''version''"
    "flag_string fs ''signingKey'' \<noteq> ''''" "signing_key H (flag_string fs ''signingKey'') = Inr key"
    "open_store H (flag_string fs ''psql'') = Ret db" "cfg = main_configuration H env fs db key watcher"
    "NewRpcEndPointServer (miniredis_Run H) connect (package_vars env E0) cfg w = (Inr (s, E), w')"
    using assms by (rule main_run_Started)
  note f = NewRpcEndPointServer_fields [OF r(7)]
  have "s_relaySigningKey s = key" "s_db s = db" using f r(6) by (simp_all add: main_configuration_def)
  moreover have "SaveRecord db rc d = (None, d)" if "flag_string fs ''psql'' = ''''" for rc d
    using r(5) that by (auto simp: open_store_def SaveRecord_def mock_Store_def Let_def split: list.splits)
  ultimately show ?thesis
    using r(1-4) f by (auto simp: signing_key_def Let_def)
qed

section \<open>The interval of the builder list\<close>


section \<open>A concrete start\<close>

definition ex_host :: "unit host" where
  "ex_host = \<lparr>crypto_GenerateKey = Inr ''new key'', crypto_HexToECDSA = (\<lambda>_. Inl ''invalid length''),
     sqlx_MustConnect = Panic, os_ReadFile = Inl, yaml_Unmarshal = Inl, host_iter = (\<lambda>q. q),
     miniredis_Run = Inr ''127.0.0.1:1'', build_version = ''dev''\<rparr>"

definition ex_process_env :: process_env where
  "ex_process_env = [''LISTEN_ADDR'' \<mapsto> ''127.0.0.1:8080'', ''DRAIN_SECONDS'' \<mapsto> ''soon'', ''RELAY_SIGNING_KEY'' \<mapsto> ''dev'']"

definition ex_main :: "(unit, mem_state) main_outcome \<times> mem_state World" where
  "ex_main = main_run (\<lambda>_. mem_redis) ex_env ex_host ex_process_env [''-redis'', ''dev'', ''--fetchIntervalSeconds=0x0''] ex_world"

lemma ex_main_starts:
  obtains cfg s E ctrs addr w' where
    "main_run (\<lambda>_. mem_redis) ex_env ex_host ex_process_env [''-redis'', ''dev'', ''--fetchIntervalSeconds=0x0''] ex_world =
       (Started cfg s E ctrs addr, w')" "cfg_FetchInfoInterval cfg = 0"
proof -
  have c: "case fst ex_main of Started cfg _ _ _ _ \<Rightarrow> cfg_FetchInfoInterval cfg = 0 | _ \<Rightarrow> False" by code_simp
  obtain cfg s E ctrs addr where "fst ex_main = Started cfg s E ctrs addr" "cfg_FetchInfoInterval cfg = 0"
    using c by (cases "fst ex_main") simp_all
  then show ?thesis using that [of cfg s E ctrs addr "snd ex_main"] by (simp add: ex_main_def prod_eq_iff)
qed

theorem settings_from_environment_witness:
  "\<exists>cfg s E ctrs addr w'.
     main_run (\<lambda>_. mem_redis) ex_env ex_host ex_process_env [''-redis'', ''dev'', ''--fetchIntervalSeconds=0x0''] ex_world =
       (Started cfg s E ctrs addr, w') \<and> cfg_ListenAddress cfg = ''127.0.0.1:8080'' \<and> cfg_DrainSeconds cfg = 60"
proof -
  obtain cfg s E ctrs addr w' where m: "main_run (\<lambda>_. mem_redis) ex_env ex_host ex_process_env
      [''-redis'', ''dev'', ''--fetchIntervalSeconds=0x0''] ex_world = (Started cfg s E ctrs addr, w')"
    by (rule ex_main_starts)
  have "flag_name ''-redis'' = ''redis''" "flag_name ''dev'' = ''ev''"
    "flag_name ''--fetchIntervalSeconds=0x0'' = ''fetchIntervalSeconds''" "isl (Atoi ''soon'')"
    by code_simp+
  then show ?thesis
    using settings_from_environment [OF m] m
    by (auto simp: string_settings_def int_settings_def ex_process_env_def isl_def)
qed

theorem server_started_witness:
  "\<exists>cfg s E ctrs addr w'.
     main_run (\<lambda>_. mem_redis) ex_env ex_host ex_process_env [''-redis'', ''dev'', ''--fetchIntervalSeconds=0x0''] ex_world =
       (Started cfg s E ctrs addr, w') \<and> s_isHealthy s \<and> s_server s = None"
proof -
  obtain cfg s E ctrs addr w' where m: "main_run (\<lambda>_. mem_redis) ex_env ex_host ex_process_env
      [''-redis'', ''dev'', ''--fetchIntervalSeconds=0x0''] ex_world = (Started cfg s E ctrs addr, w')"
    by (rule ex_main_starts)
  with server_started [OF m] show ?thesis by blast
qed


end
