(* ===== verification/End_Props.thy ===== *)
theory End_Props
  imports Server_Props Command_Props
begin

text \<open>
  From the command line to the relay: what a server that was started by \<open>main\<close> can send to the relay,
  over the settings, the routing, the handling of one exchange and the submission.
\<close>

section \<open>The relay calls of a handler\<close>

text \<open>At most one call to a relay, with a key, and none in debug mode.\<close>

definition calls_only :: "'r Env \<Rightarrow> string \<Rightarrow> string \<Rightarrow> 'r World \<Rightarrow> 'r World \<Rightarrow> bool" where
  "calls_only E url key w w' \<longleftrightarrow> relay_calls w' = relay_calls w \<or>
     \<not> DebugDontSendTx E \<and> (\<exists>q. relay_calls w' = CallRelay url key q # relay_calls w)"

lemma ProcessRequest_calls:
  assumes "ProcessRequest E (r, w) = (out, (r', w'))"
  shows "calls_only E (r_relayUrl r) (r_relaySigningKey r) w w'"
proof (cases "relay_calls w' = relay_calls w")
  case False
  obtain raw t sndr c where "admissible E r w raw t sndr c" "relay_calls w' = c # relay_calls w"
    using ProcessRequest_gate [OF assms False] by blast
  then show ?thesis by (cases c) (auto simp: calls_only_def admissible_def)
qed (simp add: calls_only_def)

lemma signature_keeps_relay:
  "CheckFlashbotsSignature L sig body r = (err, r1) \<Longrightarrow>
     r_relayUrl r1 = r_relayUrl r \<and> r_relaySigningKey r1 = r_relaySigningKey r"
  by (auto simp: CheckFlashbotsSignature_def split: if_splits sum.splits sig_error.splits)

lemma processRequest_calls:
  assumes "processRequest E h client j wb i p body w = (out, h', w')"
  shows "calls_only E (h_relayUrl h) (h_relaySigningKey h) w w'"
proof -
  let ?r = "rpc_request h client j wb i p"
  have r: "r_relayUrl ?r = h_relayUrl h" "r_relaySigningKey ?r = h_relaySigningKey h"
    by (simp_all add: rpc_request_def NewRpcRequest_def)
  obtain err r1 where c: "CheckFlashbotsSignature (e_lib E)
      (in_Header (h_req h) ''X-Flashbots-Signature'') body ?r = (err, r1)" by fastforce
  obtain out0 r2 w2 where p: "ProcessRequest E (r1, w) = (out0, (r2, w2))"
    by (cases "ProcessRequest E (r1, w)") auto
  have "w' = w \<or> w' = w2"
    using assms c p by (auto simp: processRequest_eq Let_def split: option.splits go.splits)
  then show ?thesis
    using ProcessRequest_calls [OF p] signature_keeps_relay [OF c] r by (auto simp: calls_only_def)
qed

lemma process_calls:
  assumes "process E h w = (out, h', w')"
  shows "calls_only E (h_relayUrl h) (h_relaySigningKey h) w w'"
  using assms
proof (cases rule: process_cases)
  case (run body j p client h1 w1 h2)
  have "h_relayUrl h1 = h_relayUrl h" "h_relaySigningKey h1 = h_relaySigningKey h"
    using run(4) by (simp_all add: prepared_def)
  then show ?thesis
    using processRequest_calls [OF run(7)] quiet_relay_calls [OF run(6)] by (simp add: calls_only_def)
qed (auto simp: calls_only_def dest: quiet_relay_calls)

section \<open>The relay calls of an exchange\<close>

text \<open>A request that is taken for JSON-RPC.\<close>

definition rpc_exchange :: "in_request \<Rightarrow> bool" where
  "rpc_exchange q \<longleftrightarrow> in_Method q \<noteq> ''GET'' \<and> in_Method q \<noteq> ''OPTIONS'' \<and>
     mux_target [''/health'', ''/bundle''] q = MuxHandler ''/''"

lemma HandleHttpRequest_calls:
  assumes "HandleHttpRequest E D s q rw w = (out, rw', rec, w')"
  shows "calls_only E (s_relayUrl s) (s_relaySigningKey s) w w' \<and>
    (relay_calls w' \<noteq> relay_calls w \<longrightarrow> in_Method q \<noteq> ''GET'' \<and> in_Method q \<noteq> ''OPTIONS'')"
  using assms process_calls
  by (fastforce simp: HandleHttpRequest_def calls_only_def NewRpcRequestHandler_def Let_def
      split: if_splits prod.splits)

lemma bundle_relay_calls: "relay_calls (snd (HandleBundleRequest E q rw w)) = relay_calls w"
  by (auto simp: HandleBundleRequest_def Let_def relay_calls_def split: sum.splits)

lemma count_status_relay_calls [simp]: "relay_calls (count_status code w) = relay_calls w"
  by (simp add: count_status_def)

lemma mux_target_pattern: "mux_target ps q = MuxHandler p \<Longrightarrow> p \<in> insert ''/'' (set ps)"
  by (auto simp: mux_target_def Let_def split: if_splits)

lemma main_serve_calls:
  assumes "main_serve E zone D s q w = (out, rw, rec, w')"
  shows "calls_only E (s_relayUrl s) (s_relaySigningKey s) w w' \<and> (relay_calls w' \<noteq> relay_calls w \<longrightarrow> rpc_exchange q)"
proof -
  obtain out1 w1 where m: "main_mux E zone D s q new_respw w = (out1, rw, rec, w1)"
    and c: "relay_calls w' = relay_calls w1"
    using assms by (auto simp: main_serve_def MetricsMiddleware_def split: prod.splits go.splits)
  have "calls_only E (s_relayUrl s) (s_relaySigningKey s) w w1 \<and> (relay_calls w1 \<noteq> relay_calls w \<longrightarrow> rpc_exchange q)"
  proof (cases "mux_target [''/health'', ''/bundle''] q = MuxHandler ''/''")
    case True
    then have "HandleHttpRequest E D s q new_respw w = (out1, rw, rec, w1)"
      using m by (simp add: main_mux_def)
    from HandleHttpRequest_calls [OF this] True show ?thesis by (simp add: rpc_exchange_def)
  next
    case False
    then have "w1 = w \<or> w1 = snd (HandleBundleRequest E q new_respw w)"
      using m mux_target_pattern [of "[''/health'', ''/bundle'']" q]
      by (auto simp: main_mux_def split: mux_target.splits prod.splits if_splits)
    then show ?thesis using bundle_relay_calls [of E q new_respw w] by (auto simp: calls_only_def)
  qed
  then show ?thesis using c by (simp add: calls_only_def)
qed

section \<open>From main\<close>

lemma NewRpcEndPointServer_relay:
  assumes "NewRpcEndPointServer mr connect E0 cfg w = (Inr (s, E), w')"
  shows "s_relayUrl s = cfg_RelayUrl cfg \<and> DebugDontSendTx E = DebugDontSendTx E0"
  using assms by (auto simp: NewRpcEndPointServer_def Let_def
      split: sum.splits option.splits prod.splits if_splits)

text \<open>
  C38: what a started server sends to the relay. An exchange with a server that \<open>main\<close> has started
  makes at most one call to the relay: to the configured URL, signed with the key the signing
  key of the flags or the environment gave. It makes none unless it is a request other than GET and
  OPTIONS that is routed to JSON-RPC, and none at all when the process was started with
  \<open>DEBUG_DONT_SEND_RAWTX\<close> set to anything.
\<close>

theorem relay_from_main:
  assumes "main_run connect E0 H env args w0 = (Started cfg s E ctrs addr, w1)"
    and "main_serve E zone D s q w = (out, rw, rec, w')" and "relay_calls w' \<noteq> relay_calls w"
  shows "env ''DEBUG_DONT_SEND_RAWTX'' \<in> {None, Some ''''} \<and> rpc_exchange q \<and>
    (\<exists>fs key call. flag_Parse (cli_flags env) args = Parsed fs \<and>
       signing_key H (flag_string fs ''signingKey'') = Inr key \<and>
       relay_calls w' = CallRelay (cfg_RelayUrl cfg) key call # relay_calls w)"
proof -
  obtain fs key db watcher where r: "flag_Parse (cli_flags env) args = Parsed fs"
    "signing_key H (flag_string fs ''signingKey'') = Inr key" "cfg = main_configuration H env fs db key watcher"
    "NewRpcEndPointServer (miniredis_Run H) connect (package_vars env E0) cfg w0 = (Inr (s, E), w1)"
    using assms(1) by (rule main_run_Started)
  have "s_relaySigningKey s = key"
    using NewRpcEndPointServer_fields(2) [OF r(4)] r(3) by (simp add: main_configuration_def)
  moreover note NewRpcEndPointServer_relay [OF r(4)]
  moreover have "DebugDontSendTx (package_vars env E0) \<longleftrightarrow> env ''DEBUG_DONT_SEND_RAWTX'' \<notin> {None, Some ''''}"
    by (auto simp: package_vars_def os_Getenv_def split: option.splits)
  ultimately show ?thesis
    using main_serve_calls [OF assms(2)] assms(3) r(1,2) by (auto simp: calls_only_def)
qed

definition ex_run :: "(unit, mem_state) main_outcome \<times> mem_state World" where
  "ex_run = main_run (\<lambda>_. mem_redis) ex_http_env ex_host ex_process_env [''-redis'', ''dev''] ex_world"

theorem relay_from_main_witness:
  "\<exists>cfg s E ctrs addr w1 out rw rec w' call.
     main_run (\<lambda>_. mem_redis) ex_http_env ex_host ex_process_env [''-redis'', ''dev''] ex_world =
       (Started cfg s E ctrs addr, w1) \<and>
     main_serve E (\<lambda>_. 0) ex_draws s (ex_post ''send'') ex_world = (out, rw, rec, w') \<and>
     relay_calls w' = [CallRelay (cfg_RelayUrl cfg) ''new key'' call]"
proof -
  have c: "case fst ex_run of
      Started cfg s E _ _ \<Rightarrow>
        relay_calls (snd (snd (snd (main_serve E (\<lambda>_. 0) ex_draws s (ex_post ''send'') ex_world)))) \<noteq> []
    | _ \<Rightarrow> False"
    by code_simp
  obtain cfg s E ctrs addr where "fst ex_run = Started cfg s E ctrs addr" using c by (cases "fst ex_run") simp_all
  then have m: "main_run (\<lambda>_. mem_redis) ex_http_env ex_host ex_process_env [''-redis'', ''dev''] ex_world =
      (Started cfg s E ctrs addr, snd ex_run)" and f: "fst ex_run = Started cfg s E ctrs addr"
    by (simp_all add: ex_run_def prod_eq_iff)
  let ?x = "main_serve E (\<lambda>_. 0) ex_draws s (ex_post ''send'') ex_world"
  obtain out rw rec w' where x: "?x = (out, rw, rec, w')" by (cases ?x)
  have w: "relay_calls ex_world = []" by code_simp
  then have "relay_calls w' \<noteq> relay_calls ex_world" using c f x by simp
  from relay_from_main [OF m x this] obtain fs key call where
    k: "signing_key ex_host (flag_string fs ''signingKey'') = Inr key"
      "relay_calls w' = [CallRelay (cfg_RelayUrl cfg) key call]"
    using w by auto
  have "key = ''new key''" using k(1) by (auto simp: signing_key_def ex_host_def Let_def split: if_splits)
  with m x k(2) show ?thesis by blast
qed

end
