(* ===== verification/Test_Backend.thy ===== *)
theory Test_Backend
  imports Server
begin

text \<open>
  The backends and the client of the tests (\<open>src/testutils\<close>) and the decoder of transactions
  (\<open>src/cmd/txdecoder/main.go\<close>), and \<open>src/cmd/mockbackend/main.go\<close>. \<open>RpcBackendHandler\<close> stands for both the node and the relay,
  \<open>MockTxApiHandler\<close> for the status API; the lemmas show that the program reads their answers.
\<close>

section \<open>Test transactions\<close>

definition TestTx_BundleFailedTooManyTimes_RawTx :: string where
  "TestTx_BundleFailedTooManyTimes_RawTx =
     ''0x02f9019d011e843b9aca008477359400830247fa94def1c0ded9bec7f1a1670819833240f027b25eff8801'' @
     ''6345785d8a0000b90128d9627aa4000000000000000000000000000000000000000000000000000000000000'' @
     ''0080000000000000000000000000000000000000000000000000016345785d8a000000000000000000000000'' @
     ''000000000000000000000000001394b63b2cbaea253a00000000000000000000000000000000000000000000'' @
     ''0000000000000000000000000000000000000000000000000000000000000000000000000000000000020000'' @
     ''00000000000000000000eeeeeeeeeeeeeeeeeeeeeeeeeeeeeeeeeeeeeeee0000000000000000000000006b17'' @
     ''5474e89094c44da98b954eedeac495271d0f869584cd00000000000000000000000086003b044f70dac0abc8'' @
     ''0ac8957305b6370893ed0000000000000000000000000000000000000000000000d3443651ba615f6cd6c001'' @
     ''a011a9f58ebe30aa679783b31793f897fdb603dd2ea086845723a22dae85ab2864a0090cf1fcce0f6e85da54'' @
     ''f4eccf32a485d71a7d39bc0b43a53a9e64901c656230''"

definition TestTx_BundleFailedTooManyTimes_From :: string where
  "TestTx_BundleFailedTooManyTimes_From =
     ''0xc84edF69E78C0E9dE5ccFE4fB9017F6F7566787f''"

definition TestTx_BundleFailedTooManyTimes_Hash :: string where
  "TestTx_BundleFailedTooManyTimes_Hash =
     ''0xfb34b88cd77215867aa8e8ff0abc7060178b8fed6519a85d0b22853dfd5e9fec''"

definition TestTx_BundleFailedTooManyTimes_Nonce :: string where
  "TestTx_BundleFailedTooManyTimes_Nonce =
     ''0x1e''"

definition TestTx_MM2_Hash :: string where
  "TestTx_MM2_Hash =
     ''0xc543e2ad05cffdee95b984df20edd2e38e124c54461faa1276adc36e826588c9''"

definition TestTx_CancelAtRelay_Cancel_RawTx :: string where
  "TestTx_CancelAtRelay_Cancel_RawTx =
     ''0x02f86d010c851caf4ad000851caf4ad0008302134094c0e1142e97a9679fa0f9c13067af656cc247537380'' @
     ''80c080a04db949f68b275646517c8225f2b783476579bfc58b6e6af9c0ead0b41f3f5fb1a0540bbff6742889'' @
     ''73d5c82c25bc7b8fe42343c4d64d85f79a9e21ab6698738103''"

definition TestTx_CancelAtRelay_Cancel_Hash :: string where
  "TestTx_CancelAtRelay_Cancel_Hash =
     ''0x0a5237dafa5e65d7e5030b08012fd8399206a9130fbc9f2d3d5cf3865fa972ef''"

definition TestTx_CancelAtRelay_Cancel_From :: string where
  "TestTx_CancelAtRelay_Cancel_From =
     ''0xc0E1142E97A9679FA0f9C13067Af656Cc2475373''"

definition TestTx_CancelAtRelay_Cancel_Nonce :: string where
  "TestTx_CancelAtRelay_Cancel_Nonce =
     ''0xc''"

definition TestTx_MM2_RawTx :: string where
  "TestTx_MM2_RawTx =
     ''0xf86980850e5b35485d8252089409f427f1bd2d7537a02812275d03be7747dbd68c859d64bd68008025a0a9'' @
     ''4ba415e4d7c517548551442828aa192f149a8a04554e452084ee0ea55ea013a015966c84d9d38779ce63454a'' @
     ''3f38038b269544d70433bfa7db0f6a37034b8e93''"

definition TestTx_MM2_From :: string where
  "TestTx_MM2_From =
     ''0x7AaBc7915DF92a85E199DbB4B1D21E637e1a90A2''"

definition TestTx_CancelAtRelay_Initial_RawTx :: string where
  "TestTx_CancelAtRelay_Initial_RawTx =
     ''0x02f90197010c851a13b86000851a13b860008302134094def1c0ded9bec7f1a1670819833240f027b25eff'' @
     ''80b90128d9627aa4000000000000000000000000000000000000000000000000000000000000008000000000'' @
     ''00000000000000000000000000000000000000008b6f8cc1baffdb0400000000000000000000000000000000'' @
     ''000000000000000000084b1e89ebc7c500000000000000000000000000000000000000000000000000000000'' @
     ''0000000100000000000000000000000000000000000000000000000000000000000000020000000000000000'' @
     ''000000006b175474e89094c44da98b954eedeac495271d0f000000000000000000000000eeeeeeeeeeeeeeee'' @
     ''eeeeeeeeeeeeeeeeeeeeeeee869584cd00000000000000000000000086003b044f70dac0abc80ac8957305b6'' @
     ''370893ed0000000000000000000000000000000000000000000000c2b17f6d6d619e0daac080a032854f4cd2'' @
     ''ef72624bd4b24ac933677fa82d68915fb40cbc5ded938e55e0d60ba03d668997706bf52d9d6fd06de1e0b3ec'' @
     ''b5de60c78faba54ee6f61c017236b530''"

definition TestTx_Invalid_Nonce_1 :: string where
  "TestTx_Invalid_Nonce_1 =
     ''0xf9016d8226068514c5fa06a88307a12394d9e1ce17f2641f24ae83637ab66a2cca9c378b9f80b9010418cb'' @
     ''afe5000000000000000000000000000000000000000000000131e2aaad46e360000000000000000000000000'' @
     ''00000000000000000000000000004e002aee3c56380000000000000000000000000000000000000000000000'' @
     ''000000000000000000a0000000000000000000000000bfd6fbc015907976a48eb83fd1d972b2bfc4ce460000'' @
     ''0000000000000000000000000000000000000000000000000000621731cf0000000000000000000000000000'' @
     ''00000000000000000000000000000000000200000000000000000000000025f8087ead173b73d6e8b8432998'' @
     ''9a8eea16cf73000000000000000000000000c02aaa39b223fe8d0a0e5c4f27ead9083c756cc225a081ddc6c2'' @
     ''ee6d93d5eba52e12c9b44524c28d6d724efc903110e4cab13ba98d6ba03e7c22541060787da52f36d52b826f'' @
     ''7a53ee892d75a0a626a9f9d51a4b99f2ba''"

definition TestTx_Invalid_Nonce_2 :: string where
  "TestTx_Invalid_Nonce_2 =
     ''0x02f90c530142850826299e00850826299e0083048f6f947f268357a8c2552623316e2562d90e642bb538e5'' @
     ''80b90be4ab834bab0000000000000000000000007f268357a8c2552623316e2562d90e642bb538e500000000'' @
     ''0000000000000000604a35a2a4df447cecbebab73158cd516de7fcbb00000000000000000000000000000000'' @
     ''000000000000000000000000000000000000000000000000000000005b3256965e7c3cf26e11fcaf296dfc88'' @
     ''07c01073000000000000000000000000baf2127b49fc93cbca6269fade0f7f31df4c88a70000000000000000'' @
     ''000000000000000000000000000000000000000000000000000000000000000000000000c02aaa39b223fe8d'' @
     ''0a0e5c4f27ead9083c756cc20000000000000000000000007f268357a8c2552623316e2562d90e642bb538e5'' @
     ''0000000000000000000000001eac87b51afabba0d40e7f207e96f1943d149ed4000000000000000000000000'' @
     ''604a35a2a4df447cecbebab73158cd516de7fcbb000000000000000000000000000000000000000000000000'' @
     ''0000000000000000000000000000000000000000baf2127b49fc93cbca6269fade0f7f31df4c88a700000000'' @
     ''00000000000000000000000000000000000000000000000000000000000000000000000000000000c02aaa39'' @
     ''b223fe8d0a0e5c4f27ead9083c756cc200000000000000000000000000000000000000000000000000000000'' @
     ''0000000000000000000000000000000000000000000000000000000000000000000004e20000000000000000'' @
     ''0000000000000000000000000000000000000000000000000000000000000000000000000000000000000000'' @
     ''00000000000000000000000000000000000000000000000000000000000000000000000009b6e64a8ec60000'' @
     ''0000000000000000000000000000000000000000000000000000000000000000000000000000000000000000'' @
     ''0000000000000000000000000000000062174170000000000000000000000000000000000000000000000000'' @
     ''00000000621b364b8f6ddfb08291623280c02ebc90b83bfc7f15a571590c0b8b339662b5197fbc1700000000'' @
     ''0000000000000000000000000000000000000000000000000000000000000000000000000000000000000000'' @
     ''000000000000000000000000000004e200000000000000000000000000000000000000000000000000000000'' @
     ''0000000000000000000000000000000000000000000000000000000000000000000000000000000000000000'' @
     ''0000000000000000000000000000000009b6e64a8ec600000000000000000000000000000000000000000000'' @
     ''000000000000000000000000000000000000000000000000000000000000000000000000000000006217dc7d'' @
     ''00000000000000000000000000000000000000000000000000000000000000007195b39cdac6182e6bdd3477'' @
     ''1bd43d7d457db6590ae2fd7901b5ff65de26b1d9000000000000000000000000000000000000000000000000'' @
     ''0000000000000001000000000000000000000000000000000000000000000000000000000000000000000000'' @
     ''0000000000000000000000000000000000000000000000000000000000000000000000000000000000000000'' @
     ''0000000000000000000000000000000100000000000000000000000000000000000000000000000000000000'' @
     ''0000000100000000000000000000000000000000000000000000000000000000000000010000000000000000'' @
     ''0000000000000000000000000000000000000000000000000000000000000000000000000000000000000000'' @
     ''00000000000000000000000100000000000000000000000000000000000000000000000000000000000006a0'' @
     ''00000000000000000000000000000000000000000000000000000000000007e0000000000000000000000000'' @
     ''0000000000000000000000000000000000000920000000000000000000000000000000000000000000000000'' @
     ''0000000000000a600000000000000000000000000000000000000000000000000000000000000ba000000000'' @
     ''00000000000000000000000000000000000000000000000000000bc000000000000000000000000000000000'' @
     ''0000000000000000000000000000001c00000000000000000000000000000000000000000000000000000000'' @
     ''0000001c5f0c6b3f7dcc767b2be33609e16c39a739aa1e7be3a33174914f531e510cf8cf0a0268c5192a8a78'' @
     ''808bcee4c73f00f83beebf5cc4713e0d305facc196e227485f0c6b3f7dcc767b2be33609e16c39a739aa1e7b'' @
     ''e3a33174914f531e510cf8cf0a0268c5192a8a78808bcee4c73f00f83beebf5cc4713e0d305facc196e22748'' @
     ''0000000000000000000000000000000000000000000000000000000000000000000000000000000000000000'' @
     ''000000000000000000000000000000000000010496809f900000000000000000000000000000000000000000'' @
     ''000000000000000000000000000000000000000000000000604a35a2a4df447cecbebab73158cd516de7fcbb'' @
     ''000000000000000000000000495f947276749ce646f68ac8c248420045cb7b5eda9c56071673633dd0582b27'' @
     ''41b77b51b92c3fb60000000000003a0000000001000000000000000000000000000000000000000000000000'' @
     ''0000000000000001000000000000000000000000000000000000000000000000000000000000000000000000'' @
     ''000000000000000000000000000000000000000000000000000000e000000000000000000000000000000000'' @
     ''0000000000000000000000000000000000000000000000000000000000000000000000000000000000000000'' @
     ''000000000000000000000000000000000000000000000000000000000000010496809f900000000000000000'' @
     ''000000001eac87b51afabba0d40e7f207e96f1943d149ed40000000000000000000000000000000000000000'' @
     ''000000000000000000000000000000000000000000000000495f947276749ce646f68ac8c248420045cb7b5e'' @
     ''da9c56071673633dd0582b2741b77b51b92c3fb60000000000003a0000000001000000000000000000000000'' @
     ''0000000000000000000000000000000000000001000000000000000000000000000000000000000000000000'' @
     ''000000000000000000000000000000000000000000000000000000000000000000000000000000e000000000'' @
     ''0000000000000000000000000000000000000000000000000000000000000000000000000000000000000000'' @
     ''0000000000000000000000000000000000000000000000000000000000000000000000000000000000000104'' @
     ''00000000ffffffffffffffffffffffffffffffffffffffffffffffffffffffffffffffff0000000000000000'' @
     ''0000000000000000000000000000000000000000000000000000000000000000000000000000000000000000'' @
     ''0000000000000000000000000000000000000000000000000000000000000000000000000000000000000000'' @
     ''0000000000000000000000000000000000000000000000000000000000000000000000000000000000000000'' @
     ''0000000000000000000000000000000000000000000000000000000000000000000000000000000000000000'' @
     ''0000000000000000000000000000000000000000000000000000000000000000000000000000000000000000'' @
     ''0000000000000000000000000000000000000000000000000000000000000000000000000000000000000000'' @
     ''0000000000000000000001040000000000000000000000000000000000000000000000000000000000000000'' @
     ''00000000ffffffffffffffffffffffffffffffffffffffffffffffffffffffffffffffff0000000000000000'' @
     ''0000000000000000000000000000000000000000000000000000000000000000000000000000000000000000'' @
     ''0000000000000000000000000000000000000000000000000000000000000000000000000000000000000000'' @
     ''0000000000000000000000000000000000000000000000000000000000000000000000000000000000000000'' @
     ''0000000000000000000000000000000000000000000000000000000000000000000000000000000000000000'' @
     ''0000000000000000000000000000000000000000000000000000000000000000000000000000000000000000'' @
     ''0000000000000000000000000000000000000000000000000000000000000000000000000000000000000000'' @
     ''000000000000000000000000c001a02ad50113dbf4a09106aa555adf652b9cc0a1eaf0a7cc9dbd242730f768'' @
     ''f4f501a05a9eb25e3b358065d7191b91919d2a5dcdae4c516ba1a6c40247ab802f140fd1''"

section \<open>Node and relay\<close>

text \<open>What the backend keeps for the tests to look at.\<close>

record mock_backend =
  MockBackendLastRawRequest :: "in_request option"
  MockBackendLastJsonRpcRequest :: "JsonRpcRequest option"
  MockBackendLastJsonRpcRequestTimestamp :: int

definition MockRpcBackendReset :: mock_backend where
  "MockRpcBackendReset = \<lparr>MockBackendLastRawRequest = None, MockBackendLastJsonRpcRequest = None,
     MockBackendLastJsonRpcRequestTimestamp = time_zero\<rparr>"

text \<open>
  The answer to a request: an error or a JSON value; an index or an assertion that fails panics. Receipts
  are known for two hashes only: for any other the switch is left and the method counts as unknown.
\<close>

definition first_param :: "JsonRpcRequest \<Rightarrow> (json \<Rightarrow> (string + json) go) \<Rightarrow> (string + json) go" where
  "first_param req f =
     (case req_Params req of
        Some (p # _) \<Rightarrow> f p
      | _ \<Rightarrow> Panic ''index out of range [0] with length 0'')"

definition no_handler :: "JsonRpcRequest \<Rightarrow> (string + json) go" where
  "no_handler req = Ret (Inl (''no RPC method handler implemented for '' @ req_Method req))"

definition mock_answer :: "JsonRpcRequest \<Rightarrow> (string + json) go" where
  "mock_answer req =
     (let m = req_Method req in
      if m = ''eth_getTransactionCount'' then first_param req (\<lambda>p.
        if p = JStr TestTx_BundleFailedTooManyTimes_From
        then Ret (Inr (JStr TestTx_BundleFailedTooManyTimes_Nonce))
        else if p = JStr TestTx_CancelAtRelay_Cancel_From then Ret (Inr (JStr TestTx_CancelAtRelay_Cancel_Nonce))
        else Ret (Inr (JStr ''0x22'')))
      else if m = ''eth_call'' then Ret (Inr (JStr ''0x12345''))
      else if m = ''eth_getTransactionReceipt'' then first_param req (\<lambda>p.
        if p = JStr TestTx_BundleFailedTooManyTimes_Hash \<or> p = JStr TestTx_MM2_Hash then Ret (Inr JNull)
        else no_handler req)
      else if m = ''eth_sendRawTransaction'' then first_param req (\<lambda>p.
        case p of
          JStr txHash \<Rightarrow>
            if txHash = TestTx_CancelAtRelay_Cancel_RawTx then Ret (Inr (JStr TestTx_CancelAtRelay_Cancel_Hash))
            else Ret (Inr (JStr ''tx-hash1''))
        | _ \<Rightarrow> Panic ''interface conversion: Params[0] is not string'')
      else if m = ''net_version'' then Ret (Inr (JStr ''3''))
      else if m = ''null'' then Ret (Inr JNull)
      else if m = ''eth_sendPrivateTransaction'' then first_param req (\<lambda>p.
        case p of
          JObj param \<Rightarrow>
            if obj_get param ''tx'' = JStr TestTx_BundleFailedTooManyTimes_RawTx
            then Ret (Inr (JStr TestTx_BundleFailedTooManyTimes_Hash))
            else Ret (Inr (JStr ''tx-hash2''))
        | _ \<Rightarrow> Panic ''interface conversion: Params[0] is not map'')
      else if m = ''eth_cancelPrivateTransaction'' then first_param req (\<lambda>p.
        case p of
          JObj param \<Rightarrow> Ret (Inr (JBool (obj_get param ''txHash'' = JStr TestTx_CancelAtRelay_Cancel_Hash)))
        | _ \<Rightarrow> Panic ''interface conversion: Params[0] is not map'')
      else no_handler req)"

definition handleRpcRequest :: "JsonRpcRequest option \<Rightarrow> mock_backend \<Rightarrow> (string + json) go \<times> mock_backend" where
  "handleRpcRequest req b =
     ((case req of None \<Rightarrow> Panic ''nil pointer dereference: req'' | Some q \<Rightarrow> mock_answer q),
      b\<lparr>MockBackendLastJsonRpcRequest := req\<rparr>)"

text \<open>
  An error is a response without a version, under the status 200 that \<open>Encode\<close> implies. What
  \<open>json.Unmarshal\<close> says of a text it cannot read is not modelled.
\<close>

definition returnError :: "lib \<Rightarrow> json \<Rightarrow> string \<Rightarrow> respw \<Rightarrow> respw" where
  "returnError L i msg w =
     Write (response_text L (Some \<lparr>res_Id = i, res_Result = None,
        res_Error = Some \<lparr>err_Code = - 32603, err_Message = msg\<rparr>, res_Version = ''''\<rparr>)) w"

definition RpcBackendHandler ::
    "lib \<Rightarrow> int \<Rightarrow> in_request \<Rightarrow> respw \<Rightarrow> mock_backend \<Rightarrow> unit go \<times> respw \<times> mock_backend" where
  "RpcBackendHandler L now req w0 b =
     (let b1 = b\<lparr>MockBackendLastRawRequest := Some req, MockBackendLastJsonRpcRequestTimestamp := now\<rparr>;
          w = Header_Set ''Test'' (in_Header req ''Test'') (Header_Set ''Content-Type'' ''application/json'' w0)
      in case in_Body req of
           Inl err \<Rightarrow> (Ret (), returnError L (JNum ''-1'') (''failed to read request body: '' @ err) w, b1)
         | Inr body \<Rightarrow>
             (case json_Unmarshal L unmarshal_request_ptr body of
                None \<Rightarrow> (Ret (), returnError L (JNum ''-1'') ''failed to parse JSON RPC request: '' w, b1)
              | Some jsonReq \<Rightarrow>
                  (let i = (case jsonReq of None \<Rightarrow> JNull | Some q \<Rightarrow> req_Id q) in
                   case handleRpcRequest jsonReq b1 of
                     (Panic p, b2) \<Rightarrow> (Panic p, w, b2)
                   | (Ret (Inl err), b2) \<Rightarrow> (Ret (), returnError L i err w, b2)
                   | (Ret (Inr rawRes), b2) \<Rightarrow>
                       (Ret (), Write (response_text L (Some (NewJsonRpcResponse i (Some rawRes))))
                          (WriteHeader 200 w), b2))))"

text \<open>The command \<open>mockbackend\<close> serves the backend at every path of one address.\<close>

definition mockbackend_addr :: string where
  "mockbackend_addr = ''localhost:'' @ Itoa 8090"

definition mockbackend_serve ::
    "lib \<Rightarrow> int \<Rightarrow> in_request \<Rightarrow> mock_backend \<Rightarrow> unit go \<times> respw \<times> mock_backend" where
  "mockbackend_serve L now q b =
     (case mux_target [] q of
        MuxBadRequest \<Rightarrow> (Ret (), WriteHeader 400 new_respw, b)
      | MuxRedirect url \<Rightarrow> (Ret (), http_Redirect (in_Method q) url 301 new_respw, b)
      | MuxHandler _ \<Rightarrow> RpcBackendHandler L now q new_respw b)"

section \<open>Status API\<close>

definition marshal_api :: "PrivateTxApiResponse \<Rightarrow> json" where
  "marshal_api a = JObj [(''status'', JStr (api_Status a)), (''hash'', JStr (api_Hash a)),
     (''maxBlockNumber'', JNum (Itoa (api_MaxBlockNumber a)))]"

definition MockTxApiReset :: "string \<rightharpoonup> string" where
  "MockTxApiReset = Map.empty"

definition MockTxApiHandler :: "lib \<Rightarrow> (string \<rightharpoonup> string) \<Rightarrow> in_request \<Rightarrow> respw \<Rightarrow> respw" where
  "MockTxApiHandler L MockTxApiStatusForHash req w =
     (let path = url_Path (in_URL req) in
      if \<not> HasPrefix path ''/tx/'' then WriteHeader 400 w
      else let txHash = drop 4 path;
               status = (case MockTxApiStatusForHash txHash of None \<Rightarrow> TxStatusUnknown | Some s \<Rightarrow> s)
           in Write (json_Encode L (marshal_api
                \<lparr>api_Status = status, api_Hash = '''', api_MaxBlockNumber = 0\<rparr>) @ [CHR 0x0A]) w)"

section \<open>Client\<close>

text \<open>
  \<open>SendRpcAndParseResponseTo\<close>: \<open>http_Post\<close> gives an error or the body, which may fail to be read. What the
  error texts are wrapped with is not modelled.
\<close>

datatype client_error = ClientPost string | ClientRead string | ClientUnmarshal

definition SendRpcAndParseResponseTo ::
    "lib \<Rightarrow> (string \<Rightarrow> string \<Rightarrow> string + (string + string)) \<Rightarrow> string \<Rightarrow> JsonRpcRequest \<Rightarrow>
     client_error + JsonRpcResponse" where
  "SendRpcAndParseResponseTo L http_Post url req =
     (case http_Post url (json_Encode L (marshal_request req)) of
        Inl err \<Rightarrow> Inl (ClientPost err)
      | Inr (Inl err) \<Rightarrow> Inl (ClientRead err)
      | Inr (Inr respData) \<Rightarrow>
          (case json_Unmarshal L unmarshal_relay_error respData of
             Some (c # msg) \<Rightarrow>
               Inr (zero_JsonRpcResponse\<lparr>res_Error := Some \<lparr>err_Code = 0, err_Message = c # msg\<rparr>\<rparr>)
           | _ \<Rightarrow>
               (case json_Unmarshal L unmarshal_response respData of
                  None \<Rightarrow> Inl ClientUnmarshal
                | Some res \<Rightarrow> Inr res)))"

text \<open>
  The batch client: the responses are read one by one, \<open>null\<close> as a nil pointer.
\<close>

definition unmarshal_response_ptr :: "json \<Rightarrow> JsonRpcResponse option option" where
  "unmarshal_response_ptr j = (if j = JNull then Some None else map_option Some (unmarshal_response j))"

definition unmarshal_responses :: "json \<Rightarrow> JsonRpcResponse option list option" where
  "unmarshal_responses j =
     (case j of
        JNull \<Rightarrow> Some []
      | JArr l \<Rightarrow> those (map unmarshal_response_ptr l)
      | _ \<Rightarrow> None)"

definition SendBatchRpcAndParseResponseTo ::
    "lib \<Rightarrow> (string \<Rightarrow> string \<Rightarrow> string + (string + string)) \<Rightarrow> string \<Rightarrow> JsonRpcRequest list \<Rightarrow>
     client_error + JsonRpcResponse option list" where
  "SendBatchRpcAndParseResponseTo L http_Post url req =
     (case http_Post url (json_Encode L (JArr (map marshal_request req))) of
        Inl err \<Rightarrow> Inl (ClientPost err)
      | Inr (Inl err) \<Rightarrow> Inl (ClientRead err)
      | Inr (Inr respData) \<Rightarrow>
          (case json_Unmarshal L unmarshal_responses respData of
             None \<Rightarrow> Inl ClientUnmarshal
           | Some res \<Rightarrow> Inr res))"

text \<open>
  The calls of the tests, at the URL \<open>RpcEndpointUrl\<close> they set. Where \<open>t.Fatal\<close> ends the test the
  error is the outcome.
\<close>

definition SendRpcAndParseResponse ::
    "lib \<Rightarrow> (string \<Rightarrow> string \<Rightarrow> string + (string + string)) \<Rightarrow> string \<Rightarrow> JsonRpcRequest \<Rightarrow>
     client_error + JsonRpcResponse" where
  "SendRpcAndParseResponse L http_Post RpcEndpointUrl req =
     SendRpcAndParseResponseTo L http_Post RpcEndpointUrl req"

definition SendBatchRpcAndParseResponse ::
    "lib \<Rightarrow> (string \<Rightarrow> string \<Rightarrow> string + (string + string)) \<Rightarrow> string \<Rightarrow> JsonRpcRequest list \<Rightarrow>
     client_error + JsonRpcResponse option list" where
  "SendBatchRpcAndParseResponse L http_Post RpcEndpointUrl req =
     SendBatchRpcAndParseResponseTo L http_Post RpcEndpointUrl req"

definition SendRpcWithFastPreferenceAndParseResponse ::
    "lib \<Rightarrow> (string \<Rightarrow> string \<Rightarrow> string + (string + string)) \<Rightarrow> string \<Rightarrow> JsonRpcRequest \<Rightarrow>
     client_error + JsonRpcResponse" where
  "SendRpcWithFastPreferenceAndParseResponse L http_Post RpcEndpointUrl req =
     SendRpcAndParseResponseTo L http_Post (RpcEndpointUrl @ ''/fast/'') req"

definition SendRpcWithAuctionPreferenceAndParseResponse ::
    "lib \<Rightarrow> (string \<Rightarrow> string \<Rightarrow> string + (string + string)) \<Rightarrow> string \<Rightarrow> JsonRpcRequest \<Rightarrow> string \<Rightarrow>
     client_error + JsonRpcResponse" where
  "SendRpcWithAuctionPreferenceAndParseResponse L http_Post RpcEndpointUrl req urlSuffix =
     SendRpcAndParseResponseTo L http_Post (RpcEndpointUrl @ urlSuffix) req"

definition SendRpcAndParseResponseOrFailNow ::
    "lib \<Rightarrow> (string \<Rightarrow> string \<Rightarrow> string + (string + string)) \<Rightarrow> string \<Rightarrow> JsonRpcRequest \<Rightarrow>
     client_error + JsonRpcResponse" where
  "SendRpcAndParseResponseOrFailNow L http_Post RpcEndpointUrl req =
     SendRpcAndParseResponse L http_Post RpcEndpointUrl req"

definition SendRpcAndParseResponseOrFailNowAllowRpcError ::
    "lib \<Rightarrow> (string \<Rightarrow> string \<Rightarrow> string + (string + string)) \<Rightarrow> string \<Rightarrow> JsonRpcRequest \<Rightarrow>
     client_error + JsonRpcResponse" where
  "SendRpcAndParseResponseOrFailNowAllowRpcError L http_Post RpcEndpointUrl req =
     SendRpcAndParseResponse L http_Post RpcEndpointUrl req"

text \<open>A result that is no string, or none at all, is read as the empty string: the error is dropped.\<close>

definition SendRpcAndParseResponseOrFailNowString ::
    "lib \<Rightarrow> (string \<Rightarrow> string \<Rightarrow> string + (string + string)) \<Rightarrow> string \<Rightarrow> JsonRpcRequest \<Rightarrow>
     client_error + string" where
  "SendRpcAndParseResponseOrFailNowString L http_Post RpcEndpointUrl req =
     (case SendRpcAndParseResponseOrFailNow L http_Post RpcEndpointUrl req of
        Inl err \<Rightarrow> Inl err
      | Inr resp \<Rightarrow> Inr (case res_Result resp of Some (JStr s) \<Rightarrow> s | _ \<Rightarrow> ''''))"

section \<open>Decoder of transactions\<close>

text \<open>The lines \<open>txdecoder\<close> prints, or the error it exits with.\<close>

definition txdecoder_main :: "lib \<Rightarrow> string \<Rightarrow> string + string list" where
  "txdecoder_main L rawTx =
     (case GetTx L rawTx of
        Inl err \<Rightarrow> Inl err
      | Inr t \<Rightarrow>
          (case GetSenderFromRawTx L t of
             Inl err \<Rightarrow> Inl err
           | Inr txFrom \<Rightarrow>
               Inr [''rawTx: '' @ rawTx, ''Hash:  '' @ eth_HashHex t, ''From:  '' @ txFrom,
                    ''To:    '' @ (case eth_To t of None \<Rightarrow> ''<nil>'' | Some a \<Rightarrow> geth_Hex L a),
                    ''Nonce: '' @ FormatUint (eth_Nonce t)]))"

section \<open>The program against its test backends\<close>

text \<open>The client of the tests reads an answer the way \<open>util.go\<close> does.\<close>

lemma client_reads_as_server:
  "http_Post url (json_Encode L (marshal_request req)) = Inr (Inr respData) \<Longrightarrow>
     SendRpcAndParseResponseTo L http_Post url req =
       (case respBytesToJsonRPCResponse L respData of None \<Rightarrow> Inl ClientUnmarshal | Some res \<Rightarrow> Inr res)"
  by (auto simp: SendRpcAndParseResponseTo_def respBytesToJsonRPCResponse_def
      split: option.splits list.splits)

text \<open>What \<open>encoding/json\<close> promises: a text that was written is read back, with a newline after it or not.\<close>

definition json_laws :: "lib \<Rightarrow> bool" where
  "json_laws L \<longleftrightarrow> (\<forall>j. json_Decode L (json_Encode L j) = Some j \<and>
     json_Decode L (json_Encode L j @ [CHR 0x0A]) = Some j)"

lemma read_response:
  assumes "json_laws L" "\<forall>e. res_Error r = Some e \<longrightarrow> int64_range (err_Code e)"
  shows "respBytesToJsonRPCResponse L (response_text L (Some r)) = Some r"
proof -
  have "unmarshal_relay_error (marshal_response r) \<in> {None, Some ''''}"
    by (cases "res_Result r"; cases "res_Error r")
      (simp_all add: unmarshal_relay_error_def marshal_response_def unmarshal_struct_def EqualFold_def
        ToLower_def set_string_def marshal_error_def)
  then show ?thesis
    using assms unmarshal_response_marshal [OF assms(2)]
    by (auto simp: respBytesToJsonRPCResponse_def json_Unmarshal_def response_text_def json_laws_def)
qed

text \<open>What the backend answers to a request is what the client of the tests returns for it, under the id asked for.\<close>

definition post_to_backend ::
    "lib \<Rightarrow> int \<Rightarrow> in_request \<Rightarrow> mock_backend \<Rightarrow> string \<Rightarrow> string \<Rightarrow> string + (string + string)" where
  "post_to_backend L now q b url body =
     (case RpcBackendHandler L now (q\<lparr>in_Body := Inr body\<rparr>) new_respw b of
        (Panic p, _) \<Rightarrow> Inl p
      | (Ret _, w, _) \<Rightarrow> Inr (Inr (rw_Body w)))"

lemma backend_answer_read:
  assumes "json_laws L" "mock_answer req = Ret a"
  shows "SendRpcAndParseResponseTo L (post_to_backend L now q b) url req =
    Inr (case a of
        Inl err \<Rightarrow> \<lparr>res_Id = req_Id req, res_Result = None,
          res_Error = Some \<lparr>err_Code = - 32603, err_Message = err\<rparr>, res_Version = ''''\<rparr>
      | Inr v \<Rightarrow> NewJsonRpcResponse (req_Id req) (Some v))"
proof -
  let ?r = "case a of
        Inl err \<Rightarrow> \<lparr>res_Id = req_Id req, res_Result = None,
          res_Error = Some \<lparr>err_Code = - 32603, err_Message = err\<rparr>, res_Version = ''''\<rparr>
      | Inr v \<Rightarrow> NewJsonRpcResponse (req_Id req) (Some v)"
  have "json_Unmarshal L unmarshal_request_ptr (json_Encode L (marshal_request req)) = Some (Some req)"
    using assms(1) by (simp add: json_Unmarshal_def json_laws_def unmarshal_request_marshal)
  then have "post_to_backend L now q b url (json_Encode L (marshal_request req)) =
      Inr (Inr (response_text L (Some ?r)))"
    using assms(2)
    by (cases a) (simp_all add: post_to_backend_def RpcBackendHandler_def handleRpcRequest_def returnError_def
        Write_def WriteHeader_def Header_Set_def new_respw_def Let_def)
  moreover have "respBytesToJsonRPCResponse L (response_text L (Some ?r)) = Some ?r"
    by (rule read_response [OF assms(1)]) (auto simp: int64_range_def NewJsonRpcResponse_def split: sum.splits)
  ultimately show ?thesis by (simp add: client_reads_as_server)
qed

end
