(* ===== verification/Spec2Isabelle.thy ===== *)
theory Spec2Isabelle
  imports Redis_Props Signature_Props Refund_Props Race_Props Nonce_Props End_Props Test_Backend
begin

text \<open>
  \<^bold>\<open>The Flashbots RPC endpoint.\<close> A model of the JSON-RPC server under \<open>src/\<close>, which stands between wallets
  and a node: it sends the transactions it is given to a private relay instead of the public mempool,
  answers some requests itself and passes all others on to the node.

  \<^bold>\<open>The program and its parts.\<close> \<open>cmd/server/main.go\<close> reads the settings and starts the server of
  \<open>server/server.go\<close>. That one serves JSON-RPC, \<open>/health\<close> and \<open>/bundle\<close> behind the counting middleware, and
  draining on a second address. For each POST \<open>server/request_handler.go\<close> reads the body, settles
  the parameters from the URL (\<open>url_params.go\<close>) or a preset (\<open>configuration_watcher.go\<close>), checks the signature
  header (\<open>adapters/flashbots/signature.go\<close>) and runs the request (\<open>request_processor.go\<close> with
  \<open>request_sendrawtx.go\<close>, \<open>request_sendprivatetx.go\<close> and \<open>request_intercepts.go\<close>). What has to be remembered
  between requests is in Redis (\<open>redisstate.go\<close>), in the cache of RPC answers and in the list of builders
  (\<open>application/\<close>). Every request leaves an analytics record (\<open>request_record.go\<close>), saved to a \<open>database.Store\<close>.

  \<^bold>\<open>How it is modelled.\<close>
  \<^item> \<open>Prelude\<close>, \<open>Strconv\<close>, \<open>Http_Std\<close>, \<open>Flag_Std\<close>: what the program uses of Go and its standard library: the
    outcome \<open>go\<close> of a call (it returns or panics), \<open>strings\<close>, \<open>strconv\<close>, the routing of \<open>http.ServeMux\<close>,
    \<open>time.Time\<close> as JSON, \<open>flag.Parse\<close>. \<open>Ext_Lib\<close>: the record \<open>lib\<close> of the library functions that are
    parameters: JSON text, URL parsing, go-ethereum's decoding, addresses and curve, xxhash.
  \<^item> \<open>Redis_State\<close>: keys, expiries and operations of \<open>redisstate.go\<close> over a client (record
    \<open>redis_client\<close>); \<open>Redis_Contract\<close>: what the Redis server promises, as the locale \<open>redis_service\<close>, and while it works, as \<open>redis_working\<close>, and
    what a stored value of one kind promises, as \<open>redis_cell\<close>; all are interpreted, the first two on an in-memory server.
  \<^item> \<open>Rpc_Types\<close>: the messages of \<open>types/types.go\<close> and their JSON form. \<open>Url_Params\<close>, \<open>Config_Watcher\<close>,
    \<open>Fingerprint\<close>, \<open>Application\<close>, \<open>Signature\<close>, \<open>Request_Record\<close>: the files of these names, one
    definition per function; long functions are cut into stages.
  \<^item> \<open>Environment\<close>: the state of the process a request acts on, the record \<open>World\<close> (Redis, clock, calls made,
    counters, goroutines started, cache), and the record \<open>Env\<close> of the parties it talks to: node, relay,
    status API and mempool node are functions of the calls made so far, so that their answers may change.
    With them the HTTP client, the lists and \<open>util.go\<close>.
  \<^item> \<open>Request_Processor\<close>, \<open>Send_Raw_Tx\<close>, \<open>Intercepts\<close>, \<open>Process_Request\<close>: the handling of one JSON-RPC request.
    \<open>RpcRequest\<close> is the struct of the code, passed on and returned changed. A function with early returns is a
    list of stages of type \<open>flow\<close>, run in the order of the code until one returns.
  \<^item> \<open>Request_Handler\<close>: one HTTP exchange, \<open>Server\<close>: the server, its handlers, middleware, construction and
    life cycle, \<open>Command\<close>: \<open>main\<close> with its logger. \<open>Test_Backend\<close>: the backends and the client
    of \<open>testutils\<close>, \<open>cmd/mockbackend\<close> and \<open>cmd/txdecoder\<close>.

  \<^bold>\<open>What is shown.\<close>
  \<^item> Towards the relay (\<open>Relay_Props\<close>, \<open>Submit_Props\<close>, \<open>Process_Props\<close>, \<open>Refund_Props\<close>): \<open>sendTxToRelay\<close> implements a
    decision table; over every method a call to the relay is made at most once, and only for a transaction that
    passed every check; a cancellation names only the transaction it may cancel; the refunds sent are in range.
    The contract of a stage is the locale \<open>stages\<close>. \<open>Race_Props\<close>: submissions that run at the same time, as the
    relation \<open>interleaved\<close> over their stages: each makes at most one call, its own; two races are shown by
    schedules: one transaction is sent twice, and a lower nonce replaces a higher one.
  \<^item> Over many exchanges: \<open>Frames\<close> says what handling a request leaves alone, in the locales \<open>steps_keep\<close> (one step),
    \<open>requests_keep\<close> (one request) and \<open>exchanges_keep\<close> (one exchange with the server): a property of the world that the
    calls, counters and writes of a request keep is kept by all of it. \<open>Resend_Props\<close>: histories of exchanges, goroutines and time
    passing, as the relation \<open>exchanges\<close>; in less than 299 seconds a transaction is submitted at most once. \<open>Nonce_Props\<close>:
    every submission is noted, and then counted in what its sender is told.
  \<^item> Towards the wallet (\<open>Process_Props\<close>, \<open>Intercept_Props\<close>, \<open>Signature_Props\<close>, \<open>Handler_Props\<close>): every request is
    answered, and exactly on malformed parameters a handler panics; the transaction counts answered, the wrong nonce given at
    most four times, what a signature gives access to; status and body of a POST.
  \<^item> What is remembered (\<open>Redis_Contract\<close>, \<open>Redis_Props\<close>, \<open>Application\<close>, \<open>Request_Record\<close>, \<open>Handler_Props\<close>): keys never collide,
    values are read back until they expire, the highest nonce never falls, the cache refines its specification,
    the builder list outlives failing fetches, a submission is in the record that is saved.
  \<^item> Parsing and encoding (\<open>Url_Props\<close>, \<open>Config_Watcher\<close>, \<open>Rpc_Types\<close>, \<open>Fingerprint\<close>): accepted parameters are well formed
    and independent of the order of the query, configurations are compared as meant, messages are read back.
  \<^item> The server (\<open>Counter_Props\<close>, \<open>Server_Props\<close>, \<open>Command_Props\<close>): each exchange is counted once, under the status sent;
    the life cycle as the step relation \<open>history\<close>, with its invariant, what health and drain requests
    observe, and that \<open>Start\<close> returns; settings, starting, and the answers fixed at the start. That a
    request leaves the status counters alone is shown in the locale \<open>blind\<close>, a sublocale of those of \<open>Frames\<close>, for every view of the world that
    sees none of what a request changes. \<open>End_Props\<close>: from \<open>main\<close> to the relay, the URL and the key of the
    settings are those of every call. \<open>Test_Backend\<close>: the client reads what the backend answers.

  \<^bold>\<open>Bounds and fuel.\<close> No definition has fuel: loops are structural recursion, and \<open>flag_Parse\<close> ends because
    each step consumes an argument. Nonces, fingerprints and block numbers are 64 bit words, addresses 160 bit words;
    durations are \<open>int\<close> with the wrap-around of \<open>int64\<close> written out where the code multiplies them.

  \<^bold>\<open>What is not modelled.\<close> Logging, beyond the set-up of the logger. The interleaving of two requests is modelled for
  \<open>sendTxToRelay\<close>, stage by stage; elsewhere a request runs as a whole against a world that other parties change during
  its calls (\<open>e_during\<close>), and the unsynchronized access to the builder list is not visible. Text outside ASCII is not
  case-mapped; a path with percent escapes is outside of the model of the mux. Timeouts are errors of a call. Closing the
  connection to PostgreSQL is I/O only. The types
  \<open>GetBundleStatusByTransactionHashResponse\<close> and \<open>TransactionReceipt\<close> are used by nothing.
\<close>

end
